(* ===== verification/Prelude.thy ===== *)
theory Prelude
  imports Main "HOL-Library.AList" "HOL-Library.Multiset"
begin

text \<open>
  Shared vocabulary of the development.

  \<^item> Results: a Go function returning \<open>(T, error)\<close> is a value of \<open>'e + 'a\<close>, \<open>Inl\<close> the error.
  \<^item> Stateful operations: \<open>'s \<Rightarrow> ('e + 'a) \<times> 's\<close>. The state is returned with the error too, because
    a Go method that fails half way keeps the effects it already had. \<open>bindS m f\<close> is
    \<open>x, err := m(); if err != nil { return err }; f(x)\<close>, \<open>tryS m f\<close> hands the error itself to \<open>f\<close>,
    \<open>forS\<close> is a \<open>for range\<close> loop that stops at the first error.
  \<^item> \<open>preserves I m\<close>: the operation keeps the state invariant \<open>I\<close>, on success and on error.
  \<^item> Tables: a Go \<open>map[string]T\<close> is an association list (its order stands for one iteration order of
    the map), read with \<open>map_of\<close> and written with \<open>AList.update\<close>. \<open>sort_newest\<close> is the
    \<open>sort.Slice\<close> call of every listing.
\<close>

named_theorems preserves_intros \<open>operations and combinators that keep an invariant\<close>
named_theorems clone_simps \<open>clone functions of the memory store\<close>
named_theorems op_simps \<open>unfolding of the stateful combinators\<close>

section \<open>Error results\<close>

definition bindE :: "'e + 'a \<Rightarrow> ('a \<Rightarrow> 'e + 'b) \<Rightarrow> 'e + 'b" where
  "bindE r f = (case r of Inl e \<Rightarrow> Inl e | Inr a \<Rightarrow> f a)"

lemma bindE_simps [simp]:
  "bindE (Inl e) f = Inl e"
  "bindE (Inr a) f = f a"
  by (simp_all add: bindE_def)

lemma bindE_Inr: "bindE r f = Inr b \<longleftrightarrow> (\<exists>a. r = Inr a \<and> f a = Inr b)"
  by (cases r) simp_all

lemma bindE_Inl: "bindE r f = Inl e \<longleftrightarrow> r = Inl e \<or> (\<exists>a. r = Inr a \<and> f a = Inl e)"
  by (cases r) simp_all

text \<open>A guard: \<open>if c { return err }\<close>.\<close>

definition failIf :: "bool \<Rightarrow> 'e \<Rightarrow> 'e + unit" where
  "failIf c e = (if c then Inl e else Inr ())"

lemma failIf_simps [simp]:
  "failIf c e = Inr u \<longleftrightarrow> \<not> c"
  "failIf c e = Inl e' \<longleftrightarrow> c \<and> e' = e"
  "failIf True e = Inl e"
  "failIf False e = Inr ()"
  by (auto simp: failIf_def)

text \<open>A \<open>for range\<close> loop that appends one translated item per element and stops at an error.\<close>

fun mapE :: "('a \<Rightarrow> 'e + 'b) \<Rightarrow> 'a list \<Rightarrow> 'e + 'b list" where
  "mapE f [] = Inr []"
| "mapE f (x # xs) = bindE (f x) (\<lambda>y. bindE (mapE f xs) (\<lambda>ys. Inr (y # ys)))"

lemma mapE_Inr: "mapE f xs = Inr ys \<longleftrightarrow> list_all2 (\<lambda>x y. f x = Inr y) xs ys"
  by (induction xs arbitrary: ys) (auto simp: bindE_Inr list_all2_Cons1)

lemma mapE_length: "mapE f xs = Inr ys \<Longrightarrow> length ys = length xs"
  by (auto simp: mapE_Inr dest: list_all2_lengthD)

lemma mapE_Inl: "mapE f xs = Inl e \<Longrightarrow> \<exists>x \<in> set xs. f x = Inl e"
  by (induction xs) (auto simp: bindE_Inl)

section \<open>Stateful operations\<close>

type_synonym ('s, 'e, 'a) op = "'s \<Rightarrow> ('e + 'a) \<times> 's"

definition retS :: "'a \<Rightarrow> ('s, 'e, 'a) op" where
  "retS a s = (Inr a, s)"

definition errS :: "'e \<Rightarrow> ('s, 'e, 'a) op" where
  "errS e s = (Inl e, s)"

definition bindS :: "('s, 'e, 'a) op \<Rightarrow> ('a \<Rightarrow> ('s, 'e, 'b) op) \<Rightarrow> ('s, 'e, 'b) op" where
  "bindS m f s = (case m s of (r, s') \<Rightarrow> (case r of Inl e \<Rightarrow> (Inl e, s') | Inr a \<Rightarrow> f a s'))"

definition tryS :: "('s, 'e, 'a) op \<Rightarrow> ('e + 'a \<Rightarrow> ('s, 'e, 'b) op) \<Rightarrow> ('s, 'e, 'b) op" where
  "tryS m f s = (case m s of (r, s') \<Rightarrow> f r s')"

text \<open>A call that only reads the state, and a pure state change.\<close>

definition readS :: "('s \<Rightarrow> 'e + 'a) \<Rightarrow> ('s, 'e, 'a) op" where
  "readS f s = (f s, s)"

definition getS :: "('s \<Rightarrow> 'a) \<Rightarrow> ('s, 'e, 'a) op" where
  "getS f s = (Inr (f s), s)"

definition modS :: "('s \<Rightarrow> 's) \<Rightarrow> ('s, 'e, unit) op" where
  "modS f s = (Inr (), f s)"

definition liftE :: "'e + 'a \<Rightarrow> ('s, 'e, 'a) op" where
  "liftE r s = (r, s)"

fun forS :: "'a list \<Rightarrow> ('a \<Rightarrow> ('s, 'e, unit) op) \<Rightarrow> ('s, 'e, unit) op" where
  "forS [] f = retS ()"
| "forS (x # xs) f = bindS (f x) (\<lambda>_. forS xs f)"

lemmas op_defs = retS_def errS_def bindS_def tryS_def readS_def getS_def modS_def liftE_def

lemma op_apply [op_simps]:
  "retS a s = (Inr a, s)"
  "errS e s = (Inl e, s)"
  "readS g s = (g s, s)"
  "getS h s = (Inr (h s), s)"
  "modS k s = (Inr (), k s)"
  "liftE r s = (r, s)"
  by (simp_all add: op_defs)

lemma bindS_apply [op_simps]:
  "m s = (Inl e, s') \<Longrightarrow> bindS m f s = (Inl e, s')"
  "m s = (Inr a, s') \<Longrightarrow> bindS m f s = f a s'"
  by (simp_all add: bindS_def)

lemma bindS_prim [op_simps]:
  "bindS (retS a) f s = f a s"
  "bindS (errS e) f s = (Inl e, s)"
  "bindS (readS g) f s = (case g s of Inl e \<Rightarrow> (Inl e, s) | Inr a \<Rightarrow> f a s)"
  "bindS (getS h) f s = f (h s) s"
  "bindS (modS k) f s = f () (k s)"
  "bindS (liftE r) f s = (case r of Inl e \<Rightarrow> (Inl e, s) | Inr a \<Rightarrow> f a s)"
  by (simp_all add: op_defs)

lemma tryS_apply [op_simps]: "m s = (r, s') \<Longrightarrow> tryS m f s = f r s'"
  by (simp add: tryS_def)

lemma tryS_prim [op_simps]:
  "tryS (retS a) g s = g (Inr a) s"
  "tryS (errS e) g s = g (Inl e) s"
  "tryS (readS h) g s = g (h s) s"
  by (simp_all add: op_defs)

lemma bindS_Inr:
  "bindS m f s = (Inr b, t) \<longleftrightarrow> (\<exists>a s'. m s = (Inr a, s') \<and> f a s' = (Inr b, t))"
  by (auto simp: bindS_def split: prod.splits sum.splits)

lemma bindS_Inl:
  "bindS m f s = (Inl e, t) \<longleftrightarrow>
    m s = (Inl e, t) \<or> (\<exists>a s'. m s = (Inr a, s') \<and> f a s' = (Inl e, t))"
  by (auto simp: bindS_def split: prod.splits sum.splits)

section \<open>Invariants of operations\<close>

definition preserves :: "('s \<Rightarrow> bool) \<Rightarrow> ('s, 'e, 'a) op \<Rightarrow> bool" where
  "preserves I m \<longleftrightarrow> (\<forall>s. I s \<longrightarrow> I (snd (m s)))"

lemma preservesI: "(\<And>s. I s \<Longrightarrow> I (snd (m s))) \<Longrightarrow> preserves I m"
  by (simp add: preserves_def)

lemma preservesD: "preserves I m \<Longrightarrow> I s \<Longrightarrow> I (snd (m s))"
  by (simp add: preserves_def)

lemma preserves_pair: "preserves I m \<Longrightarrow> I s \<Longrightarrow> m s = (r, s') \<Longrightarrow> I s'"
  by (force simp: preserves_def)

lemma preserves_prim [preserves_intros]:
  "preserves I (retS a)"
  "preserves I (errS e)"
  "preserves I (readS g)"
  "preserves I (getS h)"
  "preserves I (liftE r)"
  by (simp_all add: preserves_def op_defs)

lemma preserves_modS: "(\<And>s. I s \<Longrightarrow> I (k s)) \<Longrightarrow> preserves I (modS k)"
  by (simp add: preserves_def op_defs)

lemma preserves_bindS [preserves_intros]:
  "preserves I m \<Longrightarrow> (\<And>a. preserves I (f a)) \<Longrightarrow> preserves I (bindS m f)"
  by (auto simp: preserves_def bindS_def split: prod.splits sum.splits)

lemma preserves_tryS [preserves_intros]:
  "preserves I m \<Longrightarrow> (\<And>r. preserves I (f r)) \<Longrightarrow> preserves I (tryS m f)"
  by (auto simp: preserves_def tryS_def split: prod.splits)

lemma preserves_if [preserves_intros]:
  "preserves I m \<Longrightarrow> preserves I n \<Longrightarrow> preserves I (if c then m else n)"
  by simp

lemma preserves_case_sum [preserves_intros]:
  "(\<And>e. preserves I (f e)) \<Longrightarrow> (\<And>a. preserves I (g a)) \<Longrightarrow>
    preserves I (case r of Inl e \<Rightarrow> f e | Inr a \<Rightarrow> g a)"
  by (cases r) simp_all

lemma preserves_case_option [preserves_intros]:
  "preserves I f \<Longrightarrow> (\<And>a. preserves I (g a)) \<Longrightarrow>
    preserves I (case r of None \<Rightarrow> f | Some a \<Rightarrow> g a)"
  by (cases r) simp_all

lemma preserves_forS [preserves_intros]:
  "(\<And>x. preserves I (f x)) \<Longrightarrow> preserves I (forS xs f)"
  by (induction xs) (auto intro: preserves_intros)

section \<open>Tables and listings\<close>

lemma alist_distinct_update [simp]:
  "distinct (map fst m) \<Longrightarrow> distinct (map fst (AList.update k v m))"
  by (rule distinct_update)

lemma map_of_update [simp]: "map_of (AList.update k v m) = (map_of m)(k \<mapsto> v)"
  by (rule update_conv')

lemma values_set_map_of:
  "distinct (map fst m) \<Longrightarrow> x \<in> set (map snd m) \<longleftrightarrow> (\<exists>k. map_of m k = Some x)"
  by force

lemma update_fresh: "map_of m k = None \<Longrightarrow> AList.update k v m = m @ [(k, v)]"
  by (induction m) (auto split: if_splits)

lemma set_update_cases: "(k, v) \<in> set (AList.update k' v' m) \<Longrightarrow> (k = k' \<and> v = v') \<or> (k, v) \<in> set m"
  by (induction m) (auto split: if_splits)

lemma length_update:
  "length (AList.update k v m) = (if map_of m k = None then Suc (length m) else length m)"
  by (induction m) (auto split: if_splits)

text \<open>
  \<open>sort.Slice(result, func(i, j) bool { return result[i].CreatedAt.After(result[j].CreatedAt) })\<close>:
  newest first. \<open>sort.Slice\<close> is not stable; only the two facts below are used of it.
\<close>

definition sort_newest :: "('a \<Rightarrow> int) \<Rightarrow> 'a list \<Rightarrow> 'a list" where
  "sort_newest created xs = sort_key (\<lambda>x. - created x) xs"

lemma mset_sort_newest [simp]: "mset (sort_newest created xs) = mset xs"
  by (simp add: sort_newest_def)

lemma set_sort_newest [simp]: "set (sort_newest created xs) = set xs"
  by (simp add: sort_newest_def)

lemma length_sort_newest [simp]: "length (sort_newest created xs) = length xs"
  by (simp add: sort_newest_def)

lemma sorted_sort_newest: "sorted_wrt (\<lambda>x y. created x \<ge> created y) (sort_newest created xs)"
proof -
  have "sorted (map (\<lambda>x. - created x) (sort_newest created xs))"
    by (simp add: sort_newest_def)
  then show ?thesis by (simp add: sorted_map)
qed

end
