(* ===== verification/GoStrings.thy ===== *)
theory GoStrings
  imports Prelude "HOL-Library.Sublist"
begin

text \<open>
  What the program uses of Go's \<open>strings\<close>, \<open>strconv\<close> and \<open>encoding/hex\<close> packages. A Go string is a
  sequence of bytes; so is an Isabelle \<open>string\<close> (a \<open>char\<close> is a byte).

  \<open>trim_space\<close> is exact: it strips the UTF-8 encodings of the Unicode white space runes.
  \<open>to_lower\<close> lowers the ASCII letters and the two other code points whose lower case is an ASCII
  letter (U+0130 and U+212A), and leaves every other byte alone. So a \<open>switch\<close> on a lowered string
  with ASCII labels takes the branch Go takes on every input; only a non-ASCII letter that is passed
  through keeps its case here.
\<close>

section \<open>Prefixes and suffixes\<close>

definition has_prefix :: "string \<Rightarrow> string \<Rightarrow> bool" where
  "has_prefix s p = (take (length p) s = p)"

definition has_suffix :: "string \<Rightarrow> string \<Rightarrow> bool" where
  "has_suffix s p = has_prefix (rev s) (rev p)"

definition trim_prefix :: "string \<Rightarrow> string \<Rightarrow> string" where
  "trim_prefix s p = (if has_prefix s p then drop (length p) s else s)"

definition trim_suffix :: "string \<Rightarrow> string \<Rightarrow> string" where
  "trim_suffix s p = (if has_suffix s p then take (length s - length p) s else s)"

lemma has_prefix_iff: "has_prefix s p \<longleftrightarrow> prefix p s"
  by (auto simp: has_prefix_def prefix_def) (metis append_take_drop_id)

lemma has_suffix_iff: "has_suffix s p \<longleftrightarrow> suffix p s"
  by (simp add: has_suffix_def has_prefix_iff suffix_to_prefix)

lemma has_prefix_append [simp]: "has_prefix (p @ s) p"
  by (simp add: has_prefix_def)

lemma has_suffix_append [simp]: "has_suffix (s @ p) p"
  by (simp add: has_suffix_def)

lemma trim_suffix_append [simp]: "trim_suffix (s @ p) p = s"
  by (simp add: trim_suffix_def)

lemma trim_suffix_cat: "has_suffix s p \<Longrightarrow> trim_suffix s p @ p = s"
  by (auto simp: has_suffix_iff suffix_def)

section \<open>Trimming\<close>

text \<open>Strip any of the given non-empty byte sequences from the front, as often as possible.\<close>

function strip :: "string list \<Rightarrow> string \<Rightarrow> string" where
  "strip ts s = (case find (\<lambda>t. t \<noteq> [] \<and> has_prefix s t) ts of
     None \<Rightarrow> s | Some t \<Rightarrow> strip ts (drop (length t) s))"
  by pat_completeness auto
termination
proof (relation "measure (\<lambda>(ts, s). length s)", simp)
  fix ts s t
  assume "find (\<lambda>t. t \<noteq> [] \<and> has_prefix s t) ts = Some t"
  then have "t \<noteq> []" "has_prefix s t" by (auto simp: find_Some_iff)
  then have "0 < length t" "length t \<le> length s"
    by (auto simp: has_prefix_iff prefix_length_le)
  then have "length (drop (length t) s) < length s"
    by (simp del: length_greater_0_conv)
  then show "((ts, drop (length t) s), ts, s) \<in> measure (\<lambda>(ts, s). length s)" by simp
qed

declare strip.simps [simp del]

text \<open>\<open>unicode.IsSpace\<close>: the ASCII spaces, U+0085, U+00A0 and the code points with the White Space property.\<close>

definition space_runes :: "string list" where
  "space_runes =
     [[CHR 0x20], [CHR 0x09], [CHR 0x0A], [CHR 0x0B], [CHR 0x0C], [CHR 0x0D],
      [CHR 0xC2, CHR 0x85], [CHR 0xC2, CHR 0xA0], [CHR 0xE1, CHR 0x9A, CHR 0x80],
      [CHR 0xE2, CHR 0x80, CHR 0x80], [CHR 0xE2, CHR 0x80, CHR 0x81], [CHR 0xE2, CHR 0x80, CHR 0x82],
      [CHR 0xE2, CHR 0x80, CHR 0x83], [CHR 0xE2, CHR 0x80, CHR 0x84], [CHR 0xE2, CHR 0x80, CHR 0x85],
      [CHR 0xE2, CHR 0x80, CHR 0x86], [CHR 0xE2, CHR 0x80, CHR 0x87], [CHR 0xE2, CHR 0x80, CHR 0x88],
      [CHR 0xE2, CHR 0x80, CHR 0x89], [CHR 0xE2, CHR 0x80, CHR 0x8A],
      [CHR 0xE2, CHR 0x80, CHR 0xA8], [CHR 0xE2, CHR 0x80, CHR 0xA9], [CHR 0xE2, CHR 0x80, CHR 0xAF],
      [CHR 0xE2, CHR 0x81, CHR 0x9F], [CHR 0xE3, CHR 0x80, CHR 0x80]]"

definition strip_right :: "string list \<Rightarrow> string \<Rightarrow> string" where
  "strip_right ts s = rev (strip (map rev ts) (rev s))"

definition trim_space :: "string \<Rightarrow> string" where
  "trim_space s = strip_right space_runes (strip space_runes s)"

text \<open>\<open>strings.TrimRight(s, c)\<close> and \<open>strings.Trim(s, c)\<close> for a one byte cut set.\<close>

definition trim_right :: "char \<Rightarrow> string \<Rightarrow> string" where
  "trim_right c s = rev (dropWhile ((=) c) (rev s))"

definition trim :: "char \<Rightarrow> string \<Rightarrow> string" where
  "trim c s = trim_right c (dropWhile ((=) c) s)"

text \<open>\<open>free ts s\<close>: no sequence of \<open>ts\<close> is at the front of \<open>s\<close>.\<close>

definition free :: "string list \<Rightarrow> string \<Rightarrow> bool" where
  "free ts s \<longleftrightarrow> (\<forall>t \<in> set ts. t \<noteq> [] \<longrightarrow> \<not> prefix t s)"

lemma strip_free: "free ts (strip ts s)"
proof (induction ts s rule: strip.induct)
  case (1 ts s)
  show ?case
  proof (cases "find (\<lambda>t. t \<noteq> [] \<and> has_prefix s t) ts")
    case None
    then have "free ts s" by (auto simp: find_None_iff free_def has_prefix_iff)
    with None show ?thesis by (simp add: strip.simps [of ts s])
  next
    case (Some t)
    with 1 show ?thesis by (simp add: strip.simps [of ts s])
  qed
qed

lemma strip_id: "free ts s \<Longrightarrow> strip ts s = s"
proof -
  assume "free ts s"
  then have "find (\<lambda>t. t \<noteq> [] \<and> has_prefix s t) ts = None"
    by (auto simp: find_None_iff free_def has_prefix_iff)
  then show ?thesis by (simp add: strip.simps [of ts s])
qed

lemma strip_suffix: "suffix (strip ts s) s"
proof (induction ts s rule: strip.induct)
  case (1 ts s)
  show ?case
  proof (cases "find (\<lambda>t. t \<noteq> [] \<and> has_prefix s t) ts")
    case None
    then show ?thesis by (simp add: strip.simps [of ts s])
  next
    case (Some t)
    with 1 show ?thesis
      by (simp add: strip.simps [of ts s]) (meson suffix_drop suffix_order.trans)
  qed
qed

lemma strip_right_prefix: "prefix (strip_right ts s) s"
  using strip_suffix [of "map rev ts" "rev s"] by (simp add: strip_right_def suffix_to_prefix)

lemma free_prefix: "free ts s \<Longrightarrow> prefix s' s \<Longrightarrow> free ts s'"
  by (auto simp: free_def dest: prefix_order.trans)

lemma strip_right_id: "free (map rev ts) (rev s) \<Longrightarrow> strip_right ts s = s"
  by (simp add: strip_right_def strip_id)

lemma trim_space_front: "free space_runes (trim_space s)"
  unfolding trim_space_def by (rule free_prefix [OF strip_free strip_right_prefix])

lemma trim_space_back: "free (map rev space_runes) (rev (trim_space s))"
  by (simp add: trim_space_def strip_right_def strip_free)

definition trimmed :: "string \<Rightarrow> bool" where
  "trimmed s \<longleftrightarrow> free space_runes s \<and> free (map rev space_runes) (rev s)"

lemma trimmed_trim_space [simp, intro]: "trimmed (trim_space s)"
  by (simp add: trimmed_def trim_space_front trim_space_back)

lemma trim_space_id: "trimmed s \<Longrightarrow> trim_space s = s"
  by (simp add: trimmed_def trim_space_def strip_id strip_right_id)

lemma trim_space_idem [simp]: "trim_space (trim_space s) = trim_space s"
  by (simp add: trim_space_id)

lemma trim_space_Nil [simp]: "trim_space [] = []"
  by (rule trim_space_id) (auto simp: trimmed_def free_def)

lemma trim_right_last: "trim_right c s \<noteq> [] \<Longrightarrow> last (trim_right c s) \<noteq> c"
  unfolding trim_right_def by (metis hd_dropWhile last_rev rev_is_Nil_conv)

section \<open>Lower case\<close>

definition small_letters :: string where
  "small_letters = ''abcdefghijklmnopqrstuvwxyz''"

definition lower_table :: "(char \<times> char) list" where
  "lower_table = zip ''ABCDEFGHIJKLMNOPQRSTUVWXYZ'' small_letters"

definition lower_char :: "char \<Rightarrow> char" where
  "lower_char c = (case map_of lower_table c of None \<Rightarrow> c | Some l \<Rightarrow> l)"

fun to_lower :: "string \<Rightarrow> string" where
  "to_lower [] = []"
| "to_lower (c # s) =
     (if c = CHR 0xC4 \<and> take 1 s = [CHR 0xB0] then CHR ''i'' # to_lower (drop 1 s)
      else if c = CHR 0xE2 \<and> take 2 s = [CHR 0x84, CHR 0xAA] then CHR ''k'' # to_lower (drop 2 s)
      else lower_char c # to_lower s)"

text \<open>
  Lowering only ever introduces the bytes \<open>a\<close> to \<open>z\<close>, so a byte sequence without these is at the
  front (or at the back) of a lowered string only if it was there before.
\<close>

definition no_letters :: "string \<Rightarrow> bool" where
  "no_letters t \<longleftrightarrow> set t \<inter> set small_letters = {}"

lemma no_letters_Cons [simp]:
  "no_letters (c # t) \<longleftrightarrow> c \<notin> set small_letters \<and> no_letters t"
  by (auto simp: no_letters_def)

lemma no_letters_Nil [simp]: "no_letters []"
  by (simp add: no_letters_def)

lemma small_letters_ik [simp]: "CHR ''i'' \<in> set small_letters" "CHR ''k'' \<in> set small_letters"
  by (simp_all add: small_letters_def)

lemma small_letters_multi [simp]: "CHR 0xC4 \<notin> set small_letters" "CHR 0xE2 \<notin> set small_letters"
  "CHR 0xB0 \<notin> set small_letters" "CHR 0x84 \<notin> set small_letters" "CHR 0xAA \<notin> set small_letters"
  by (simp_all add: small_letters_def)

lemma lower_char_cases: "lower_char c = c \<or> lower_char c \<in> set small_letters"
proof (cases "map_of lower_table c")
  case None
  then show ?thesis by (simp add: lower_char_def)
next
  case (Some l)
  then have "(c, l) \<in> set lower_table" by (rule map_of_SomeD)
  then have "l \<in> set small_letters" unfolding lower_table_def by (rule set_zip_rightD)
  with Some show ?thesis by (simp add: lower_char_def)
qed

lemma prefix_to_lower: "prefix t (to_lower s) \<Longrightarrow> no_letters t \<Longrightarrow> prefix t s"
proof (induction s arbitrary: t rule: to_lower.induct)
  case 1
  then show ?case by simp
next
  case (2 c s)
  show ?case
  proof (cases t)
    case Nil
    then show ?thesis by simp
  next
    case (Cons d t')
    then have d: "d \<notin> set small_letters" and t': "no_letters t'" using "2.prems"(2) by auto
    have plain: "\<not> (c = CHR 0xC4 \<and> take 1 s = [CHR 0xB0])"
      "\<not> (c = CHR 0xE2 \<and> take 2 s = [CHR 0x84, CHR 0xAA])"
      using "2.prems"(1) Cons d by auto
    then have eq: "to_lower (c # s) = lower_char c # to_lower s" by auto
    with "2.prems"(1) Cons have "d = lower_char c" "prefix t' (to_lower s)" by auto
    with d t' plain "2.IH"(3) lower_char_cases [of c] Cons show ?thesis by auto
  qed
qed

lemma no_letters_to_lower: "no_letters (to_lower s) \<Longrightarrow> to_lower s = s"
proof (induction s rule: to_lower.induct)
  case 1
  then show ?case by simp
next
  case (2 c s)
  with lower_char_cases [of c] show ?case by (auto split: if_splits)
qed

lemma suffix_to_lower: "suffix t (to_lower s) \<Longrightarrow> no_letters t \<Longrightarrow> suffix t s"
proof (induction s rule: to_lower.induct)
  case 1
  then show ?case by simp
next
  case (2 c s)
  have dr: "suffix t (drop n s) \<Longrightarrow> suffix t (c # s)" for n
    by (meson suffix_ConsI suffix_drop suffix_order.trans)
  consider (dot) "c = CHR 0xC4 \<and> take 1 s = [CHR 0xB0]"
    | (kelvin) "\<not> (c = CHR 0xC4 \<and> take 1 s = [CHR 0xB0])" "c = CHR 0xE2 \<and> take 2 s = [CHR 0x84, CHR 0xAA]"
    | (plain) "\<not> (c = CHR 0xC4 \<and> take 1 s = [CHR 0xB0])" "\<not> (c = CHR 0xE2 \<and> take 2 s = [CHR 0x84, CHR 0xAA])"
    by blast
  then show ?case
  proof cases
    case dot
    then have "to_lower (c # s) = CHR ''i'' # to_lower (drop 1 s)" by simp
    with "2.prems" have "suffix t (to_lower (drop 1 s))" by (auto simp: suffix_Cons)
    with dot "2.IH"(1) "2.prems"(2) show ?thesis by (intro dr) blast
  next
    case kelvin
    then have "to_lower (c # s) = CHR ''k'' # to_lower (drop 2 s)" by simp
    with "2.prems" have "suffix t (to_lower (drop 2 s))" by (auto simp: suffix_Cons)
    with kelvin "2.IH"(2) "2.prems"(2) show ?thesis by (intro dr) blast
  next
    case plain
    then have eq: "to_lower (c # s) = lower_char c # to_lower s" by auto
    show ?thesis
    proof (cases "t = lower_char c # to_lower s")
      case True
      with "2.prems"(2) lower_char_cases [of c] have "lower_char c = c" "no_letters (to_lower s)"
        by auto
      with True no_letters_to_lower [of s] show ?thesis by simp
    next
      case False
      with "2.prems" eq have "suffix t (to_lower s)" by (simp add: suffix_Cons)
      with plain "2.IH"(3) "2.prems"(2) have "suffix t s" by blast
      then show ?thesis by (rule suffix_ConsI)
    qed
  qed
qed

lemma space_runes_no_letters: "t \<in> set space_runes \<Longrightarrow> no_letters t"
  by (auto simp: space_runes_def small_letters_def)

lemma trimmed_to_lower: "trimmed s \<Longrightarrow> trimmed (to_lower s)"
  unfolding trimmed_def free_def
  by (auto simp: suffix_to_prefix [symmetric]
      dest: prefix_to_lower [OF _ space_runes_no_letters]
            suffix_to_lower [OF _ space_runes_no_letters])

lemma lower_char_idem: "lower_char (lower_char c) = lower_char c"
proof -
  have "\<forall>c \<in> set small_letters. lower_char c = c"
    by (simp add: lower_char_def lower_table_def small_letters_def)
  then show ?thesis using lower_char_cases [of c] by metis
qed

lemma lower_char_multi: "lower_char c = CHR 0xC4 \<Longrightarrow> c = CHR 0xC4" "lower_char c = CHR 0xE2 \<Longrightarrow> c = CHR 0xE2"
  using lower_char_cases [of c] by auto

lemma to_lower_idem: "to_lower (to_lower s) = to_lower s"
proof (induction s rule: to_lower.induct)
  case 1
  then show ?case by simp
next
  case (2 c s)
  have take_prefix: "take (length t) u = t \<longleftrightarrow> prefix t u" for t u :: string
    using has_prefix_iff [of u t] by (simp add: has_prefix_def)
  have low1: "take 1 (to_lower s) = [CHR 0xB0] \<Longrightarrow> take 1 s = [CHR 0xB0]"
    using prefix_to_lower [of "[CHR 0xB0]" s] take_prefix [of "[CHR 0xB0]"] by simp
  have low2: "take 2 (to_lower s) = [CHR 0x84, CHR 0xAA] \<Longrightarrow> take 2 s = [CHR 0x84, CHR 0xAA]"
    using prefix_to_lower [of "[CHR 0x84, CHR 0xAA]" s] take_prefix [of "[CHR 0x84, CHR 0xAA]"]
    by (simp add: numeral_2_eq_2)
  have letters: "lower_char CHR ''i'' = CHR ''i''" "lower_char CHR ''k'' = CHR ''k''"
    by (simp_all add: lower_char_def lower_table_def small_letters_def)
  show ?case
    using 2 low1 low2 lower_char_multi [of c] lower_char_idem [of c] letters by (auto split: if_splits)
qed

text \<open>\<open>norm_label\<close> is the ubiquitous \<open>strings.ToLower(strings.TrimSpace(value))\<close>.\<close>

definition norm_label :: "string \<Rightarrow> string" where
  "norm_label s = to_lower (trim_space s)"

lemma trimmed_norm_label [simp, intro]: "trimmed (norm_label s)"
  by (simp add: norm_label_def trimmed_to_lower)

lemma norm_label_idem [simp]: "norm_label (norm_label s) = norm_label s"
  by (simp add: norm_label_def trim_space_id trimmed_to_lower to_lower_idem)

lemma trim_space_norm_label [simp]: "trim_space (norm_label s) = norm_label s"
  by (simp add: trim_space_id)

text \<open>\<open>strings.ToLower\<close> before \<open>strings.TrimSpace\<close>, as some callers write it.\<close>

definition trim_lower :: "string \<Rightarrow> string" where
  "trim_lower s = trim_space (to_lower s)"

lemma to_lower_append_fixed: "to_lower (x @ y) = x @ y \<Longrightarrow> to_lower x = x \<and> to_lower y = y"
proof (induction x)
  case (Cons c x)
  then have c: "\<not> (c = CHR 0xC4 \<and> take 1 (x @ y) = [CHR 0xB0])"
    "\<not> (c = CHR 0xE2 \<and> take 2 (x @ y) = [CHR 0x84, CHR 0xAA])"
    "lower_char c = c" "to_lower (x @ y) = x @ y"
    by (auto split: if_splits)
  have "take 1 x = [CHR 0xB0] \<Longrightarrow> take 1 (x @ y) = [CHR 0xB0]"
    "take 2 x = [CHR 0x84, CHR 0xAA] \<Longrightarrow> take 2 (x @ y) = [CHR 0x84, CHR 0xAA]"
    by (cases x; cases "tl x"; simp add: numeral_2_eq_2)+
  with c Cons.IH show ?case by auto
qed simp

lemma to_lower_trim_fixed: "to_lower s = s \<Longrightarrow> to_lower (trim_space s) = trim_space s"
proof -
  assume s: "to_lower s = s"
  obtain p where p: "s = p @ strip space_runes s" using strip_suffix [of space_runes s] by (auto elim: suffixE)
  obtain q where q: "strip space_runes s = trim_space s @ q"
    using strip_right_prefix [of space_runes "strip space_runes s"]
    unfolding trim_space_def by (auto elim: prefixE)
  show ?thesis using to_lower_append_fixed s p q by metis
qed

lemma trim_lower_idem [simp]: "trim_lower (trim_lower s) = trim_lower s"
  by (simp add: trim_lower_def to_lower_trim_fixed to_lower_idem)
section \<open>Switches on strings\<close>

text \<open>\<open>switch v { case "a", "b": return x; ...; default: return d }\<close>.\<close>

fun switch :: "string \<Rightarrow> (string list \<times> 'a) list \<Rightarrow> 'a \<Rightarrow> 'a" where
  "switch v [] d = d"
| "switch v ((ks, a) # cs) d = (if v \<in> set ks then a else switch v cs d)"

lemma switch_cases: "(\<forall>d. switch v cs d = d) \<or> (\<exists>c \<in> set cs. \<forall>d. switch v cs d = snd c)"
proof (induction cs)
  case (Cons c cs)
  then show ?case by (cases c) auto
qed simp

lemma switch_in: "switch v cs d = d \<or> (\<exists>c \<in> set cs. switch v cs d = snd c)"
  using switch_cases [of v cs] by blast

text \<open>
  A table of labels that sends each of its results to itself normalises a label once and for all; an
  unknown label is kept.
\<close>

lemma switch_label_idem:
  assumes "\<forall>c \<in> set cs. norm_label (snd c) = snd c \<and> switch (snd c) cs (snd c) = snd c"
  defines "f \<equiv> \<lambda>v. switch (norm_label v) cs (norm_label v)"
  shows "f (f v) = f v"
  using switch_cases [of "norm_label v" cs] assms(1)
  by (auto simp: f_def)

text \<open>Lower-case ASCII labels are their own normal form.\<close>

definition plain_chars :: string where
  "plain_chars = ''abcdefghijklmnopqrstuvwxyz0123456789_-:./{}''"

definition plain :: "string \<Rightarrow> bool" where
  "plain s \<longleftrightarrow> set s \<subseteq> set plain_chars"

lemma plain_lower: "plain s \<Longrightarrow> to_lower s = s"
proof (induction s)
  case (Cons c s)
  have "CHR 0xC4 \<notin> set plain_chars" "CHR 0xE2 \<notin> set plain_chars"
    "\<forall>c \<in> set plain_chars. lower_char c = c" by code_simp+
  with Cons show ?case by (auto simp: plain_def)
qed simp

lemma plain_trimmed: "plain s \<Longrightarrow> trimmed s"
proof -
  assume s: "plain s"
  have runes: "\<forall>t \<in> set space_runes. t \<noteq> [] \<and> hd t \<notin> set plain_chars \<and> last t \<notin> set plain_chars"
    by code_simp
  have "\<not> prefix t s" if t: "t \<in> set space_runes" for t
  proof
    assume "prefix t s"
    then have "hd t \<in> set s" using runes t by (meson hd_in_set set_mono_prefix subsetD)
    with runes t s show False by (auto simp: plain_def)
  qed
  moreover have "\<not> prefix (rev t) (rev s)" if t: "t \<in> set space_runes" for t
  proof
    assume "prefix (rev t) (rev s)"
    then have "last t \<in> set s" using runes t
      by (metis last_in_set set_mono_prefix set_rev subsetD)
    with runes t s show False by (auto simp: plain_def)
  qed
  ultimately show ?thesis by (auto simp: trimmed_def free_def)
qed

lemma plain_trim: "plain s \<Longrightarrow> trim_space s = s"
  by (simp add: plain_trimmed trim_space_id)

lemma plain_label: "plain s \<Longrightarrow> norm_label s = s"
  by (simp add: norm_label_def plain_trim plain_lower)

lemma plain_label_idem:
  assumes "\<forall>c \<in> set cs. plain (snd c) \<and> switch (snd c) cs (snd c) = snd c"
  defines "f \<equiv> \<lambda>v. switch (norm_label v) cs (norm_label v)"
  shows "f (f v) = f v"
  using switch_label_idem [of cs v] assms by (simp add: plain_label)

lemmas label_eval = plain_label plain_trim plain_lower plain_def plain_chars_def

end
