(* ===== verification/GoFloat.thy ===== *)
theory GoFloat
  imports GoStrings Complex_Main "HOL-Library.Log_Nat"
begin

text \<open>
  The numbers of Go the program computes with: \<open>float64\<close> (IEEE 754 binary64) and the conversions
  into it, the wrap-around of 64-bit signed integers, and the decimal text \<open>fmt\<close> prints.

  A finite \<open>float64\<close> is its exact rational value (\<open>Fin\<close>), with the negative zero apart; \<open>round_pos\<close> is
  rounding to nearest, ties to even, with 53 bits of precision, gradual underflow and overflow to an
  infinity.
\<close>

section \<open>64-bit integers\<close>

definition wrap64 :: "int \<Rightarrow> int" where
  "wrap64 n = (n + 2 ^ 63) mod 2 ^ 64 - 2 ^ 63"

definition int64_min :: int where "int64_min = - (2 ^ 63)"
definition int64_max :: int where "int64_max = 2 ^ 63 - 1"

definition in_int64 :: "int \<Rightarrow> bool" where
  "in_int64 n \<longleftrightarrow> int64_min \<le> n \<and> n \<le> int64_max"

lemma wrap64_id: "in_int64 n \<Longrightarrow> wrap64 n = n"
  by (simp add: wrap64_def in_int64_def int64_min_def int64_max_def)

lemma wrap64_in: "in_int64 (wrap64 n)"
proof -
  have "0 \<le> (n + 2 ^ 63) mod 2 ^ 64" "(n + 2 ^ 63) mod 2 ^ 64 < (2 :: int) ^ 64"
    by (rule pos_mod_sign, simp) (rule pos_mod_bound, simp)
  then show ?thesis by (simp add: wrap64_def in_int64_def int64_min_def int64_max_def)
qed

section \<open>float64\<close>

datatype f64 = NaN | PInf | NInf | NegZero | Fin rat

text \<open>Rounding a rational to an integer: to nearest, ties to even.\<close>

definition round_even :: "rat \<Rightarrow> int" where
  "round_even q =
     (let l = \<lfloor>q\<rfloor>; d = q - of_int l in
      if d < 1 / 2 then l else if d > 1 / 2 then l + 1 else if even l then l else l + 1)"

abbreviation pow2 :: "int \<Rightarrow> rat" where
  "pow2 e \<equiv> 2 powi e"

text \<open>
  A binary format: precision, exponent of the last place of the subnormals, exponent bound.
  \<open>ulp_exp\<close> is the exponent of the last place of a positive rational in that format.
\<close>

record fformat =
  fprec :: int
  femin :: int
  femax :: int

definition binary64 :: fformat where
  "binary64 = \<lparr>fprec = 53, femin = - 1074, femax = 1024\<rparr>"

definition binary32 :: fformat where
  "binary32 = \<lparr>fprec = 24, femin = - 149, femax = 128\<rparr>"

definition ulp_exp :: "fformat \<Rightarrow> rat \<Rightarrow> int" where
  "ulp_exp ff q =
     (case quotient_of q of (a, b) \<Rightarrow>
        let e = bitlen a - bitlen b - fprec ff in
        max (femin ff) (if q < pow2 (e + fprec ff) then e else e + 1))"

definition round_pos :: "fformat \<Rightarrow> rat \<Rightarrow> f64" where
  "round_pos ff q =
     (let e = ulp_exp ff q; v = of_int (round_even (q / pow2 e)) * pow2 e in
      if v \<ge> pow2 (femax ff) then PInf else Fin v)"

definition neg64 :: "f64 \<Rightarrow> f64" where
  "neg64 x = (case x of NaN \<Rightarrow> NaN | PInf \<Rightarrow> NInf | NInf \<Rightarrow> PInf | NegZero \<Rightarrow> Fin 0
     | Fin q \<Rightarrow> if q = 0 then NegZero else Fin (- q))"

definition round64 :: "rat \<Rightarrow> f64" where
  "round64 q = (if q = 0 then Fin 0 else if 0 < q then round_pos binary64 q
     else neg64 (round_pos binary64 (- q)))"

definition float64_of_int :: "int \<Rightarrow> f64" where
  "float64_of_int n = round64 (of_int n)"

text \<open>The comparison operators of Go on \<open>float64\<close>: every comparison with a NaN but \<open>!=\<close> is false.\<close>

definition f64_eq :: "f64 \<Rightarrow> f64 \<Rightarrow> bool" where
  "f64_eq x y = (case x of NaN \<Rightarrow> False | PInf \<Rightarrow> y = PInf | NInf \<Rightarrow> y = NInf
     | NegZero \<Rightarrow> y = NegZero \<or> y = Fin 0
     | Fin q \<Rightarrow> (case y of Fin r \<Rightarrow> q = r | NegZero \<Rightarrow> q = 0 | _ \<Rightarrow> False))"

definition f64_lt :: "f64 \<Rightarrow> f64 \<Rightarrow> bool" where
  "f64_lt x y = (case x of
       NaN \<Rightarrow> False
     | PInf \<Rightarrow> False
     | NInf \<Rightarrow> y \<noteq> NaN \<and> y \<noteq> NInf
     | NegZero \<Rightarrow> (case y of PInf \<Rightarrow> True | Fin r \<Rightarrow> 0 < r | _ \<Rightarrow> False)
     | Fin q \<Rightarrow> (case y of PInf \<Rightarrow> True | NegZero \<Rightarrow> q < 0 | Fin r \<Rightarrow> q < r | _ \<Rightarrow> False))"

definition f64_le :: "f64 \<Rightarrow> f64 \<Rightarrow> bool" where
  "f64_le x y = (f64_lt x y \<or> f64_eq x y)"

text \<open>\<open>math.Mod(x, 1) == 0\<close>: NaN for a NaN or an infinity, else the fraction of \<open>x\<close>.\<close>

definition f64_integral :: "f64 \<Rightarrow> bool" where
  "f64_integral x = (case x of NegZero \<Rightarrow> True | Fin q \<Rightarrow> of_int \<lfloor>q\<rfloor> = q | _ \<Rightarrow> False)"

lemma f64_integral_Fin: "f64_integral (Fin q) \<longleftrightarrow> q \<in> \<int>"
  by (simp add: f64_integral_def) (metis Ints_cases Ints_of_int floor_of_int)

lemma f64_eq_refl: "f64_eq x x \<longleftrightarrow> x \<noteq> NaN"
  by (cases x) (simp_all add: f64_eq_def)

lemma f64_eq_sym: "f64_eq x y \<longleftrightarrow> f64_eq y x"
  by (cases x; cases y) (auto simp: f64_eq_def)

lemma f64_lt_irrefl: "\<not> f64_lt x x"
  by (cases x) (simp_all add: f64_lt_def)

lemma f64_lt_trans: "f64_lt x y \<Longrightarrow> f64_lt y z \<Longrightarrow> f64_lt x z"
  by (cases x; cases y; cases z) (auto simp: f64_lt_def)

lemma f64_trichotomy:
  "x \<noteq> NaN \<Longrightarrow> y \<noteq> NaN \<Longrightarrow>
    (f64_lt x y \<and> \<not> f64_eq x y \<and> \<not> f64_lt y x) \<or>
    (\<not> f64_lt x y \<and> f64_eq x y \<and> \<not> f64_lt y x) \<or>
    (\<not> f64_lt x y \<and> \<not> f64_eq x y \<and> f64_lt y x)"
  by (cases x; cases y) (auto simp: f64_lt_def f64_eq_def)

lemma f64_NaN: "\<not> f64_lt NaN y" "\<not> f64_lt x NaN" "\<not> f64_eq NaN y" "\<not> f64_eq x NaN"
  by (cases x; simp add: f64_lt_def f64_eq_def)+

text \<open>Every integer up to \<open>2 ^ 53\<close> in magnitude converts exactly.\<close>

lemma round_even_of_int [simp]: "round_even (of_int k) = k"
  by (simp add: round_even_def)

lemma bitlen_one: "bitlen 1 = 1"
  using bitlen_twopow_add_eq [of 0 0] by simp

lemma ulp_exp_of_int:
  assumes "0 < n"
  shows "ulp_exp binary64 (of_int n) = max (- 1074) (bitlen n - 53)"
proof -
  have len: "2 ^ nat (bitlen n - 1) \<le> n" using assms by (simp add: bitlen_bounds)
  have pos: "0 \<le> bitlen n - 1" using assms bitlen_nonneg [of n] bitlen_eq_zero_iff [of n] by linarith
  have "pow2 (bitlen n - 1) \<le> of_int n"
  proof -
    have "pow2 (bitlen n - 1) = of_int (2 ^ nat (bitlen n - 1))"
      using pos by (simp add: power_int_def)
    with len show ?thesis by (simp only: of_int_le_iff)
  qed
  moreover have "quotient_of (of_int n :: rat) = (n, 1)"
    by (rule quotient_of_int [unfolded Rat.of_int_def])
  ultimately show ?thesis
    by (simp add: ulp_exp_def binary64_def Let_def bitlen_one)
qed

lemma round64_int_exact:
  assumes "0 < n" "n \<le> 2 ^ 53"
  shows "round_pos binary64 (of_int n) = Fin (of_int n)"
proof -
  define e where "e = max (- 1074) (bitlen n - 53)"
  have "\<exists>k. (of_int n / pow2 e :: rat) = of_int k"
  proof (cases "n = 2 ^ 53")
    case True
    from True have "bitlen n = 54" using bitlen_twopow_add_eq [of 0 53] by simp
    then have "e = 1" by (simp add: e_def)
    with True have "(of_int n / pow2 e :: rat) = of_int (2 ^ 52)" by simp
    then show ?thesis by blast
  next
    case False
    with assms have "n < 2 ^ 53" by simp
    then have "bitlen n \<le> 53" using assms by (simp add: bitlen_le_iff_power)
    then have "e \<le> 0" by (simp add: e_def)
    then have "(of_int n / pow2 e :: rat) = of_int (n * 2 ^ nat (- e))"
      by (simp add: power_int_def field_simps)
    then show ?thesis by blast
  qed
  then obtain k where k: "of_int n / pow2 e = (of_int k :: rat)" by blast
  then have v: "of_int k * pow2 e = of_int n" by (simp add: field_simps)
  have "of_int n < pow2 1024"
  proof -
    have "(of_int n :: rat) \<le> of_int (2 ^ 53)" using assms(2) by (simp only: of_int_le_iff)
    also have "\<dots> < pow2 1024" by simp
    finally show ?thesis .
  qed
  then show ?thesis
    using assms(1) k v by (simp add: round_pos_def ulp_exp_of_int e_def Let_def) (simp add: binary64_def)
qed

lemma float64_of_int_exact: "\<bar>n\<bar> \<le> 2 ^ 53 \<Longrightarrow> float64_of_int n = Fin (of_int n)"
  using round64_int_exact [of n] round64_int_exact [of "- n"]
  by (cases n "0 :: int" rule: linorder_cases)
    (auto simp: float64_of_int_def round64_def neg64_def)

section \<open>Text of numbers\<close>

text \<open>\<open>%d\<close>.\<close>

definition digit_char :: "int \<Rightarrow> char" where
  "digit_char d = ''0123456789'' ! nat d"

function show_nat :: "int \<Rightarrow> string" where
  "show_nat n = (if n < 10 then [digit_char n] else show_nat (n div 10) @ [digit_char (n mod 10)])"
  by pat_completeness auto
termination
  by (relation "measure nat") auto

declare show_nat.simps [simp del]

definition show_int :: "int \<Rightarrow> string" where
  "show_int n = (if n < 0 then ''-'' @ show_nat (- n) else show_nat n)"

lemma show_nat_nonempty [simp]: "show_nat n \<noteq> []"
  by (subst show_nat.simps) simp

text \<open>
  The shortest decimal that reads back as the same float, and the nearest to it of that length: at
  most 17 significant digits are tried, which is enough for binary64. \<open>shortest ff q\<close> returns the
  digits without trailing zeros and the position of the decimal point.
\<close>

definition lead_zeros :: "rat \<Rightarrow> nat" where
  "lead_zeros q = length (takeWhile (\<lambda>k. q * 10 ^ Suc k < 1) [0..<400])"

definition dec_point :: "rat \<Rightarrow> int" where
  "dec_point q = (if 1 \<le> q then int (length (show_nat \<lfloor>q\<rfloor>)) else - int (lead_zeros q))"

definition dec_candidates :: "fformat \<Rightarrow> rat \<Rightarrow> nat \<Rightarrow> int list" where
  "dec_candidates ff q n =
     (let sc = 10 powi (int n - dec_point q); lo = \<lfloor>q * sc\<rfloor>;
          ok = filter (\<lambda>c. 0 < c \<and> round_pos ff (of_int c / sc) = Fin q) [lo, lo + 1] in
      if length ok = 2 \<and> 2 * (q * sc - of_int lo) > 1 then rev ok else ok)"

definition shortest :: "fformat \<Rightarrow> rat \<Rightarrow> string \<times> int" where
  "shortest ff q =
     (case find (\<lambda>n. dec_candidates ff q n \<noteq> []) [1..<18] of
        None \<Rightarrow> (''0'', 1)
      | Some n \<Rightarrow>
          let ds = show_nat (hd (dec_candidates ff q n)) in
          (trim_right CHR ''0'' ds, dec_point q - int n + int (length ds)))"

text \<open>
  \<open>%v\<close> of a positive float, which is \<open>%g\<close> with the shortest precision: the exponent form when the
  decimal exponent is below -4 or at least 6, the plain form otherwise.
\<close>

definition show_exp :: "int \<Rightarrow> string" where
  "show_exp x = (if x < 0 then ''-'' else ''+'') @
     (let ds = show_nat \<bar>x\<bar> in if length ds < 2 then ''0'' @ ds else ds)"

definition show_pos_float :: "fformat \<Rightarrow> rat \<Rightarrow> string" where
  "show_pos_float ff q =
     (case shortest ff q of (ds, dp) \<Rightarrow>
        if dp - 1 < - 4 \<or> dp - 1 \<ge> 6 then
          take 1 ds @ (if length ds > 1 then ''.'' @ drop 1 ds else '''') @ ''e'' @ show_exp (dp - 1)
        else if dp \<le> 0 then ''0.'' @ replicate (nat (- dp)) CHR ''0'' @ ds
        else take (nat dp) ds @ replicate (nat dp - length ds) CHR ''0'' @
          (if length ds > nat dp then ''.'' @ drop (nat dp) ds else ''''))"

definition show_float :: "fformat \<Rightarrow> f64 \<Rightarrow> string" where
  "show_float ff x = (case x of NaN \<Rightarrow> ''NaN'' | PInf \<Rightarrow> ''+Inf'' | NInf \<Rightarrow> ''-Inf'' | NegZero \<Rightarrow> ''-0''
     | Fin q \<Rightarrow> if q = 0 then ''0'' else if 0 < q then show_pos_float ff q
         else ''-'' @ show_pos_float ff (- q))"

end
