(* ===== verification/GoValue.thy ===== *)
theory GoValue
  imports GoFloat "HOL-Library.Char_ord" "HOL-Library.List_Lexorder"
begin

text \<open>
  The dynamic values of the program: Go's \<open>any\<close> as it occurs in telemetry, shadows, command
  parameters and rule thresholds, \<open>map[string]string\<close> and \<open>map[string]any\<close>, their clone functions,
  and the text \<open>fmt.Sprintf("%v", x)\<close> makes of a value.

  A map that may be nil is an \<open>option\<close>; the entries are listed in one iteration order, with distinct
  keys. \<open>fmt\<close> prints the keys of a map in sorted order.
\<close>

section \<open>Values\<close>

datatype intkind = KInt | KInt32 | KInt64 | KUint | KUint32 | KUint64

datatype goany =
    ANil
  | ABool bool
  | AStr string
  | AF64 f64
  | AF32 f64
  | AInt intkind int
  | ASlice "goany list"
  | AMap "(string \<times> goany) list"

type_synonym strmap = "(string \<times> string) list option"
type_synonym anymap = "(string \<times> goany) list option"

instantiation f64 :: ord
begin

definition less_f64 :: "f64 \<Rightarrow> f64 \<Rightarrow> bool" where "less_f64 = f64_lt"
definition less_eq_f64 :: "f64 \<Rightarrow> f64 \<Rightarrow> bool" where "less_eq_f64 = f64_le"

instance ..

end

section \<open>Maps that may be nil\<close>

definition entries :: "(string \<times> 'v) list option \<Rightarrow> (string \<times> 'v) list" where
  "entries m = (case m of None \<Rightarrow> [] | Some kvs \<Rightarrow> kvs)"

definition mlookup :: "(string \<times> 'v) list option \<Rightarrow> string \<Rightarrow> 'v option" where
  "mlookup m k = map_of (entries m) k"

definition mlen :: "(string \<times> 'v) list option \<Rightarrow> nat" where
  "mlen m = length (entries m)"

definition mwf :: "(string \<times> 'v) list option \<Rightarrow> bool" where
  "mwf m \<longleftrightarrow> distinct (map fst (entries m))"

lemma entries_simps [simp]: "entries None = []" "entries (Some kvs) = kvs"
  by (simp_all add: entries_def)

text \<open>\<open>cloneStringMap\<close> and \<open>cloneAnyMap\<close>: an empty map is cloned to nil.\<close>

definition cloneStringMap :: "strmap \<Rightarrow> strmap" where
  "cloneStringMap input = (if mlen input = 0 then None else Some (entries input))"

definition cloneAnyMap :: "anymap \<Rightarrow> anymap" where
  "cloneAnyMap input = (if mlen input = 0 then None else Some (entries input))"

lemma entries_clone [simp]:
  "entries (cloneStringMap m) = entries m"
  "entries (cloneAnyMap v) = entries v"
  by (auto simp: cloneStringMap_def cloneAnyMap_def mlen_def)

lemma clone_map_idem [simp, clone_simps]:
  "cloneStringMap (cloneStringMap m) = cloneStringMap m"
  "cloneAnyMap (cloneAnyMap v) = cloneAnyMap v"
  by (auto simp: cloneStringMap_def cloneAnyMap_def mlen_def)

lemma mlookup_clone [simp]: "mlookup (cloneAnyMap v) k = mlookup v k"
  by (simp add: mlookup_def)

section \<open>Text of values\<close>

definition join :: "string \<Rightarrow> string list \<Rightarrow> string" where
  "join sep xs = (case xs of [] \<Rightarrow> [] | y # ys \<Rightarrow> y @ concat (map (\<lambda>z. sep @ z) ys))"

text \<open>\<open>fmt.Sprintf("%v", x)\<close>.\<close>

fun sprint_v :: "goany \<Rightarrow> string" where
  "sprint_v ANil = ''<nil>''"
| "sprint_v (ABool b) = (if b then ''true'' else ''false'')"
| "sprint_v (AStr s) = s"
| "sprint_v (AF64 x) = show_float binary64 x"
| "sprint_v (AF32 x) = show_float binary32 x"
| "sprint_v (AInt _ n) = show_int n"
| "sprint_v (ASlice xs) = ''['' @ join '' '' (map sprint_v xs) @ '']''"
| "sprint_v (AMap kvs) = ''map['' @
     join '' '' (map (\<lambda>(k, t). k @ '':'' @ t)
       (sort_key fst (map (\<lambda>(k, v). (k, sprint_v v)) kvs))) @ '']''"

section \<open>Numbers inside values\<close>

text \<open>\<open>toFloat64\<close>, \<open>isNumber\<close>, \<open>isIntegralNumber\<close> and \<open>valuesEqual\<close> of the rule engine.\<close>

definition toFloat64 :: "goany \<Rightarrow> f64 option" where
  "toFloat64 value = (case value of
       AF64 x \<Rightarrow> Some x
     | AF32 x \<Rightarrow> Some x
     | AInt _ n \<Rightarrow> Some (float64_of_int n)
     | _ \<Rightarrow> None)"

definition isNumber :: "goany \<Rightarrow> bool" where
  "isNumber value = (case value of AF64 _ \<Rightarrow> True | AF32 _ \<Rightarrow> True | AInt _ _ \<Rightarrow> True | _ \<Rightarrow> False)"

definition isIntegralNumber :: "goany \<Rightarrow> bool" where
  "isIntegralNumber value = (case value of
       AInt _ _ \<Rightarrow> True
     | AF64 x \<Rightarrow> f64_integral x
     | AF32 x \<Rightarrow> f64_integral x
     | _ \<Rightarrow> False)"

definition valuesEqual :: "goany \<Rightarrow> goany \<Rightarrow> bool" where
  "valuesEqual left right = (case left of
       AF64 l \<Rightarrow> (case toFloat64 right of None \<Rightarrow> False | Some r \<Rightarrow> f64_eq l r)
     | AF32 l \<Rightarrow> (case toFloat64 right of None \<Rightarrow> False | Some r \<Rightarrow> f64_eq l r)
     | ABool l \<Rightarrow> (case right of ABool r \<Rightarrow> l = r | _ \<Rightarrow> False)
     | AStr l \<Rightarrow> (case right of AStr r \<Rightarrow> l = r | _ \<Rightarrow> False)
     | _ \<Rightarrow> sprint_v left = sprint_v right)"

lemma isNumber_iff: "isNumber v \<longleftrightarrow> toFloat64 v \<noteq> None"
  by (cases v) (simp_all add: isNumber_def toFloat64_def)

lemma isIntegral_isNumber: "isIntegralNumber v \<Longrightarrow> isNumber v"
  by (cases v) (simp_all add: isNumber_def isIntegralNumber_def)

definition is_NaN :: "goany \<Rightarrow> bool" where
  "is_NaN v = (v = AF64 NaN \<or> v = AF32 NaN)"

lemma valuesEqual_refl: "valuesEqual v v \<longleftrightarrow> \<not> is_NaN v"
  by (cases v) (auto simp: valuesEqual_def toFloat64_def is_NaN_def f64_eq_refl)

text \<open>On the scalar values JSON decoding produces, \<open>valuesEqual\<close> is Go's equality of the values.\<close>

fun json_scalar :: "goany \<Rightarrow> bool" where
  "json_scalar (ABool _) = True"
| "json_scalar (AStr _) = True"
| "json_scalar (AF64 x) = (x \<noteq> NaN \<and> x \<noteq> PInf \<and> x \<noteq> NInf)"
| "json_scalar _ = False"

lemma valuesEqual_scalar:
  assumes "json_scalar a" "json_scalar b"
  shows "valuesEqual a b \<longleftrightarrow> a = b \<or>
    (\<exists>x y. a = AF64 x \<and> b = AF64 y \<and> f64_eq x y)"
  using assms
  by (cases a; cases b) (auto simp: valuesEqual_def toFloat64_def f64_eq_refl)

lemma valuesEqual_scalar_sym:
  "json_scalar a \<Longrightarrow> json_scalar b \<Longrightarrow> valuesEqual a b = valuesEqual b a"
  by (auto simp: valuesEqual_scalar f64_eq_sym)

end
