(* ===== verification/GoTime.thy ===== *)
theory GoTime
  imports GoFloat
begin

text \<open>
  Go's \<open>time.Time\<close> and \<open>time.Duration\<close>. A time is the number of nanoseconds since the zero time
  (January 1 of the year 1, UTC), so \<open>IsZero\<close> is \<open>t = 0\<close>; every time the program keeps is in UTC, and
  \<open>.UTC()\<close> is the identity. A duration is a 64-bit signed number of nanoseconds: \<open>Sub\<close> saturates and
  the product \<open>time.Duration(n) * time.Second\<close> wraps around.
\<close>

type_synonym time = int
type_synonym duration = int

definition time_IsZero :: "time \<Rightarrow> bool" where
  "time_IsZero t = (t = 0)"

definition time_Before :: "time \<Rightarrow> time \<Rightarrow> bool" where
  "time_Before t u = (t < u)"

definition time_After :: "time \<Rightarrow> time \<Rightarrow> bool" where
  "time_After t u = (u < t)"

definition time_Sub :: "time \<Rightarrow> time \<Rightarrow> duration" where
  "time_Sub t u = max int64_min (min int64_max (t - u))"

text \<open>\<open>time.Duration(n) * time.Second\<close>.\<close>

definition seconds :: "int \<Rightarrow> duration" where
  "seconds n = wrap64 (n * 1000000000)"

text \<open>Seconds from the zero time to the Unix epoch, and the conversions from and to Unix time.\<close>

definition unix_epoch :: int where
  "unix_epoch = 62135596800"

definition time_Unix :: "int \<Rightarrow> time" where
  "time_Unix sec = (sec + unix_epoch) * 1000000000"

definition time_UnixMilli :: "int \<Rightarrow> time" where
  "time_UnixMilli ms = ms * 1000000 + unix_epoch * 1000000000"

definition unix_milli :: "time \<Rightarrow> int" where
  "unix_milli t = (t - unix_epoch * 1000000000) div 1000000"

definition unix_nano :: "time \<Rightarrow> int" where
  "unix_nano t = wrap64 (t - unix_epoch * 1000000000)"

lemma unix_milli_UnixMilli: "unix_milli (time_UnixMilli ms) = ms"
  by (simp add: unix_milli_def time_UnixMilli_def)

lemma seconds_exact: "0 \<le> n \<Longrightarrow> n \<le> 9223372036 \<Longrightarrow> seconds n = n * 1000000000"
  unfolding seconds_def by (rule wrap64_id) (simp add: in_int64_def int64_min_def int64_max_def)

lemma time_Sub_exact: "in_int64 (t - u) \<Longrightarrow> time_Sub t u = t - u"
  by (simp add: time_Sub_def in_int64_def)

end
