(* ===== verification/Types.thy ===== *)
theory Types
  imports GoValue GoTime
begin

text \<open>
  The data of the program (internal/model/types.go, internal/model/access.go,
  internal/model/protocol.go): one record per struct, the field names of the source with a prefix
  that names the struct. Slices are lists, maps that may be nil are options, pointers to a time that
  may be nil are \<open>time option\<close>. The typed string constants whose values only the program sets are
  datatypes; severities and alert states, which arrive from clients, stay strings.
\<close>

section \<open>Tenants, devices, telemetry, commands\<close>

record Tenant =
  tn_ID :: string
  tn_Slug :: string
  tn_Name :: string
  tn_Description :: string
  tn_Metadata :: strmap
  tn_CreatedAt :: time
  tn_UpdatedAt :: time

record TenantSummary =
  tns_ID :: string
  tns_Slug :: string
  tns_Name :: string

record TenantView =
  tnv_Tenant :: Tenant
  tnv_ProductCount :: nat
  tnv_DeviceCount :: nat
  tnv_GroupCount :: nat
  tnv_RuleCount :: nat
  tnv_ConfigProfileCount :: nat
  tnv_FirmwareCount :: nat
  tnv_OTACampaignCount :: nat

record Device =
  dev_ID :: string
  dev_TenantID :: string
  dev_Name :: string
  dev_ProductID :: string
  dev_ProductKey :: string
  dev_Token :: string
  dev_Tags :: strmap
  dev_Metadata :: strmap
  dev_CreatedAt :: time

record DeviceSummary =
  devs_ID :: string
  devs_Name :: string

record Telemetry =
  tel_DeviceID :: string
  tel_Timestamp :: time
  tel_Values :: anymap

datatype CommandStatus = CommandStatusPending | CommandStatusSent | CommandStatusAcked | CommandStatusFailed

record Command =
  cmd_ID :: string
  cmd_DeviceID :: string
  cmd_CampaignID :: string
  cmd_Name :: string
  cmd_Params :: anymap
  cmd_Status :: CommandStatus
  cmd_Result :: string
  cmd_CreatedAt :: time
  cmd_UpdatedAt :: time

section \<open>Thing models and products\<close>

record ThingModelParameter =
  par_Identifier :: string
  par_Name :: string
  par_DataType :: string
  par_Description :: string

record ThingModelProperty =
  prop_Identifier :: string
  prop_Name :: string
  prop_DataType :: string
  prop_AccessMode :: string
  prop_Required :: bool
  prop_Description :: string

record ThingModelEvent =
  ev_Identifier :: string
  ev_Name :: string
  ev_Output :: "ThingModelParameter list"
  ev_Description :: string

record ThingModelService =
  srv_Identifier :: string
  srv_Name :: string
  srv_Input :: "ThingModelParameter list"
  srv_Output :: "ThingModelParameter list"
  srv_Description :: string

record ThingModel =
  tm_Properties :: "ThingModelProperty list"
  tm_Events :: "ThingModelEvent list"
  tm_Services :: "ThingModelService list"
  tm_Version :: int
  tm_UpdatedAt :: time

record ProtocolPointMapping =
  pm_Source :: string
  pm_Property :: string
  pm_Scale :: f64
  pm_Offset :: f64
  pm_Unit :: string

record ProductAccessProfile =
  ap_Transport :: string
  ap_Protocol :: string
  ap_IngestMode :: string
  ap_PayloadFormat :: string
  ap_AuthMode :: string
  ap_SensorTemplate :: string
  ap_Topic :: string
  ap_Notes :: string
  ap_Metadata :: strmap
  ap_PointMappings :: "ProtocolPointMapping list"

record Product =
  prd_ID :: string
  prd_TenantID :: string
  prd_Key :: string
  prd_Name :: string
  prd_Description :: string
  prd_Metadata :: strmap
  prd_AccessProfile :: ProductAccessProfile
  prd_ThingModel :: ThingModel
  prd_CreatedAt :: time
  prd_UpdatedAt :: time

record ProductSummary =
  prds_ID :: string
  prds_Key :: string
  prds_Name :: string

record ProductView =
  prdv_Product :: Product
  prdv_Tenant :: "TenantSummary option"
  prdv_DeviceCount :: nat
  prdv_OnlineCount :: nat

section \<open>Groups, shadows, configuration profiles\<close>

record DeviceGroup =
  grp_ID :: string
  grp_TenantID :: string
  grp_Name :: string
  grp_Description :: string
  grp_ProductID :: string
  grp_Tags :: strmap
  grp_CreatedAt :: time
  grp_UpdatedAt :: time

record GroupSummary =
  grps_ID :: string
  grps_Name :: string

record GroupView =
  grpv_Group :: DeviceGroup
  grpv_Tenant :: "TenantSummary option"
  grpv_Product :: "ProductSummary option"
  grpv_DeviceCount :: nat
  grpv_OnlineCount :: nat

record DeviceShadow =
  sh_DeviceID :: string
  sh_ProductID :: string
  sh_Reported :: anymap
  sh_Desired :: anymap
  sh_Version :: int
  sh_UpdatedAt :: time
  sh_LastReportedAt :: "time option"
  sh_LastDesiredAt :: "time option"

record DeviceView =
  devv_Device :: Device
  devv_Tenant :: "TenantSummary option"
  devv_Product :: "ProductSummary option"
  devv_Groups :: "GroupSummary list"
  devv_Online :: bool
  devv_ConnectedAt :: "time option"
  devv_LastSeen :: "time option"

record ConfigProfile =
  cfg_ID :: string
  cfg_TenantID :: string
  cfg_Name :: string
  cfg_Description :: string
  cfg_ProductID :: string
  cfg_Values :: anymap
  cfg_AppliedCount :: int
  cfg_LastAppliedAt :: "time option"
  cfg_CreatedAt :: time
  cfg_UpdatedAt :: time

record ConfigProfileView =
  cfgv_Profile :: ConfigProfile
  cfgv_Tenant :: "TenantSummary option"
  cfgv_Product :: "ProductSummary option"

section \<open>Rules and alerts\<close>

record RuleCondition =
  cond_Property :: string
  cond_Operator :: string
  cond_Value :: goany

definition RuleActionAlert :: string where "RuleActionAlert = ''alert''"
definition RuleActionSendCommand :: string where "RuleActionSendCommand = ''send_command''"
definition RuleActionApplyConfig :: string where "RuleActionApplyConfig = ''apply_config_profile''"

record RuleAction =
  act_Type :: string
  act_Name :: string
  act_Params :: anymap
  act_ConfigProfileID :: string
  act_Severity :: string
  act_Message :: string

definition AlertSeverityInfo :: string where "AlertSeverityInfo = ''info''"
definition AlertSeverityWarning :: string where "AlertSeverityWarning = ''warning''"
definition AlertSeverityCritical :: string where "AlertSeverityCritical = ''critical''"

definition AlertStatusNew :: string where "AlertStatusNew = ''new''"
definition AlertStatusAcknowledged :: string where "AlertStatusAcknowledged = ''acknowledged''"
definition AlertStatusResolved :: string where "AlertStatusResolved = ''resolved''"

record Rule =
  rul_ID :: string
  rul_TenantID :: string
  rul_Name :: string
  rul_Description :: string
  rul_ProductID :: string
  rul_GroupID :: string
  rul_DeviceID :: string
  rul_Enabled :: bool
  rul_Severity :: string
  rul_CooldownSeconds :: int
  rul_Condition :: RuleCondition
  rul_Actions :: "RuleAction list"
  rul_CreatedAt :: time
  rul_UpdatedAt :: time

record RuleView =
  rulv_Rule :: Rule
  rulv_Tenant :: "TenantSummary option"
  rulv_Product :: "ProductSummary option"
  rulv_Group :: "GroupSummary option"
  rulv_Device :: "DeviceSummary option"
  rulv_TriggeredCount :: int
  rulv_LastTriggeredAt :: "time option"

record AlertEvent =
  alt_ID :: string
  alt_RuleID :: string
  alt_RuleName :: string
  alt_TenantID :: string
  alt_ProductID :: string
  alt_GroupID :: string
  alt_DeviceID :: string
  alt_DeviceName :: string
  alt_Property :: string
  alt_Operator :: string
  alt_Threshold :: goany
  alt_Value :: goany
  alt_Severity :: string
  alt_Status :: string
  alt_Message :: string
  alt_Note :: string
  alt_AckAt :: "time option"
  alt_ResolvedAt :: "time option"
  alt_TriggeredAt :: time

section \<open>Firmware and OTA campaigns\<close>

record FirmwareArtifact =
  fw_ID :: string
  fw_TenantID :: string
  fw_ProductID :: string
  fw_Name :: string
  fw_Version :: string
  fw_FileName :: string
  fw_URL :: string
  fw_Checksum :: string
  fw_ChecksumType :: string
  fw_SizeBytes :: int
  fw_Notes :: string
  fw_Metadata :: strmap
  fw_CreatedAt :: time
  fw_UpdatedAt :: time

record FirmwareArtifactSummary =
  fws_ID :: string
  fws_Name :: string
  fws_Version :: string

record FirmwareArtifactView =
  fwv_Artifact :: FirmwareArtifact
  fwv_Tenant :: "TenantSummary option"
  fwv_Product :: "ProductSummary option"

datatype OTACampaignStatus = OTAPending | OTARunning | OTACompleted | OTAPartial

record OTACampaign =
  ota_ID :: string
  ota_TenantID :: string
  ota_Name :: string
  ota_FirmwareID :: string
  ota_ProductID :: string
  ota_GroupID :: string
  ota_DeviceID :: string
  ota_Status :: OTACampaignStatus
  ota_TotalDevices :: int
  ota_DispatchedCount :: int
  ota_AckedCount :: int
  ota_FailedCount :: int
  ota_LastDispatchedAt :: "time option"
  ota_CreatedAt :: time
  ota_UpdatedAt :: time

record OTACampaignView =
  otav_Campaign :: OTACampaign
  otav_Tenant :: "TenantSummary option"
  otav_Product :: "ProductSummary option"
  otav_Group :: "GroupSummary option"
  otav_Device :: "DeviceSummary option"
  otav_Firmware :: "FirmwareArtifactSummary option"

section \<open>Storage statistics and messages to devices\<close>

record StorageStats =
  ss_Backend :: string
  ss_PersistencePath :: string
  ss_Tenants :: nat
  ss_Products :: nat
  ss_Devices :: nat
  ss_Groups :: nat
  ss_Rules :: nat
  ss_ConfigProfiles :: nat
  ss_FirmwareArtifacts :: nat
  ss_OTACampaigns :: nat
  ss_Shadows :: nat
  ss_Commands :: nat
  ss_Alerts :: nat
  ss_TelemetrySeries :: nat
  ss_TelemetrySamples :: nat
  ss_LastPersistedAt :: "time option"
  ss_PersistErrors :: nat

record ServerMessage =
  msg_Type :: string
  msg_ServerTime :: int
  msg_DeviceID :: string
  msg_CommandID :: string
  msg_Name :: string
  msg_Params :: anymap
  msg_Status :: string
  msg_Message :: string
  msg_Error :: string

section \<open>Errors\<close>

text \<open>
  The sentinel errors of internal/store/store.go and internal/core/service.go. An error made by
  \<open>fmt.Errorf("%w: ...", sentinel, args)\<close> carries the format text after the sentinel and its
  arguments; \<open>EOther\<close> is an error from outside (a session, the file system) or an \<open>errors.New\<close> with
  its text.
\<close>

datatype gerr =
    ErrDeviceNotFound | ErrDeviceExists | ErrInvalidCredential | ErrCommandNotFound
  | ErrTenantNotFound | ErrTenantExists | ErrProductNotFound | ErrProductExists
  | ErrGroupNotFound | ErrGroupExists | ErrRuleNotFound | ErrRuleExists
  | ErrConfigNotFound | ErrConfigExists | ErrFirmwareNotFound | ErrFirmwareExists
  | ErrOTANotFound | ErrOTAExists | ErrAlertNotFound | ErrShadowNotFound
  | ErrDeviceOffline
  | ErrUnknownThingProperty "string list"
  | ErrInvalidThingModel "string list"
  | ErrInvalidProduct "string list"
  | ErrInvalidGroup "string list"
  | ErrInvalidRule "string list"
  | ErrInvalidConfig "string list"
  | ErrInvalidAlert "string list"
  | EOther string

type_synonym 'a res = "gerr + 'a"

end
