(* ===== verification/StoreState.thy ===== *)
theory StoreState
  imports Types
begin

text \<open>
  The state of the in-memory store (internal/store/memory/memory.go, internal/store/memory/tenant_ota.go)
  and its clone functions. Every value is cloned on its way in and on its way out: the clone copies
  each field, and turns an empty map into nil.
\<close>

section \<open>The state\<close>

record Store =
  ms_tenants :: "(string \<times> Tenant) list"
  ms_products :: "(string \<times> Product) list"
  ms_devices :: "(string \<times> Device) list"
  ms_groups :: "(string \<times> DeviceGroup) list"
  ms_rules :: "(string \<times> Rule) list"
  ms_configProfiles :: "(string \<times> ConfigProfile) list"
  ms_firmwareArtifacts :: "(string \<times> FirmwareArtifact) list"
  ms_otaCampaigns :: "(string \<times> OTACampaign) list"
  ms_shadows :: "(string \<times> DeviceShadow) list"
  ms_telemetryByDevice :: "(string \<times> Telemetry list) list"
  ms_commandByID :: "(string \<times> Command) list"
  ms_commandIDsByDevice :: "(string \<times> string list) list"
  ms_groupIDsByDevice :: "(string \<times> string list) list"
  ms_deviceIDsByGroup :: "(string \<times> string list) list"
  ms_alerts :: "AlertEvent list"
  ms_telemetryRetention :: int
  ms_alertRetention :: int

definition max_int :: "int \<Rightarrow> int \<Rightarrow> int" where
  "max_int left right = (if left > right then left else right)"

definition New :: "int \<Rightarrow> Store" where
  "New telemetryRetention =
     (let telemetryRetention = (if telemetryRetention \<le> 0 then 200 else telemetryRetention) in
      \<lparr>ms_tenants = [], ms_products = [], ms_devices = [], ms_groups = [], ms_rules = [],
       ms_configProfiles = [], ms_firmwareArtifacts = [], ms_otaCampaigns = [], ms_shadows = [],
       ms_telemetryByDevice = [], ms_commandByID = [], ms_commandIDsByDevice = [],
       ms_groupIDsByDevice = [], ms_deviceIDsByGroup = [], ms_alerts = [],
       ms_telemetryRetention = telemetryRetention,
       ms_alertRetention = max_int (wrap64 (telemetryRetention * 2)) 200\<rparr>)"

section \<open>Clones\<close>

definition cloneTenant :: "Tenant \<Rightarrow> Tenant" where
  "cloneTenant tenant =
     \<lparr>tn_ID = tn_ID tenant, tn_Slug = tn_Slug tenant, tn_Name = tn_Name tenant,
      tn_Description = tn_Description tenant, tn_Metadata = cloneStringMap (tn_Metadata tenant),
      tn_CreatedAt = tn_CreatedAt tenant, tn_UpdatedAt = tn_UpdatedAt tenant\<rparr>"

definition cloneDevice :: "Device \<Rightarrow> Device" where
  "cloneDevice device =
     \<lparr>dev_ID = dev_ID device, dev_TenantID = dev_TenantID device, dev_Name = dev_Name device,
      dev_ProductID = dev_ProductID device, dev_ProductKey = dev_ProductKey device,
      dev_Token = dev_Token device, dev_Tags = cloneStringMap (dev_Tags device),
      dev_Metadata = cloneStringMap (dev_Metadata device), dev_CreatedAt = dev_CreatedAt device\<rparr>"

definition cloneTelemetry :: "Telemetry \<Rightarrow> Telemetry" where
  "cloneTelemetry telemetry =
     \<lparr>tel_DeviceID = tel_DeviceID telemetry, tel_Timestamp = tel_Timestamp telemetry,
      tel_Values = cloneAnyMap (tel_Values telemetry)\<rparr>"

definition cloneCommand :: "Command \<Rightarrow> Command" where
  "cloneCommand command =
     \<lparr>cmd_ID = cmd_ID command, cmd_DeviceID = cmd_DeviceID command,
      cmd_CampaignID = cmd_CampaignID command, cmd_Name = cmd_Name command,
      cmd_Params = cloneAnyMap (cmd_Params command), cmd_Status = cmd_Status command,
      cmd_Result = cmd_Result command, cmd_CreatedAt = cmd_CreatedAt command,
      cmd_UpdatedAt = cmd_UpdatedAt command\<rparr>"

definition cloneAccessProfile :: "ProductAccessProfile \<Rightarrow> ProductAccessProfile" where
  "cloneAccessProfile profile =
     \<lparr>ap_Transport = ap_Transport profile, ap_Protocol = ap_Protocol profile,
      ap_IngestMode = ap_IngestMode profile, ap_PayloadFormat = ap_PayloadFormat profile,
      ap_AuthMode = ap_AuthMode profile, ap_SensorTemplate = ap_SensorTemplate profile,
      ap_Topic = ap_Topic profile, ap_Notes = ap_Notes profile,
      ap_Metadata = cloneStringMap (ap_Metadata profile),
      ap_PointMappings = map (\<lambda>item. item) (ap_PointMappings profile)\<rparr>"

definition cloneThingModelParameters :: "ThingModelParameter list \<Rightarrow> ThingModelParameter list" where
  "cloneThingModelParameters values = (if length values = 0 then [] else map (\<lambda>value. value) values)"

definition cloneThingModel :: "ThingModel \<Rightarrow> ThingModel" where
  "cloneThingModel modelValue =
     \<lparr>tm_Properties = map (\<lambda>property. property) (tm_Properties modelValue),
      tm_Events = map (\<lambda>event. event\<lparr>ev_Output := cloneThingModelParameters (ev_Output event)\<rparr>)
        (tm_Events modelValue),
      tm_Services = map (\<lambda>service. service\<lparr>srv_Input := cloneThingModelParameters (srv_Input service),
          srv_Output := cloneThingModelParameters (srv_Output service)\<rparr>) (tm_Services modelValue),
      tm_Version = tm_Version modelValue,
      tm_UpdatedAt = tm_UpdatedAt modelValue\<rparr>"

definition cloneProduct :: "Product \<Rightarrow> Product" where
  "cloneProduct product =
     \<lparr>prd_ID = prd_ID product, prd_TenantID = prd_TenantID product, prd_Key = prd_Key product,
      prd_Name = prd_Name product, prd_Description = prd_Description product,
      prd_Metadata = cloneStringMap (prd_Metadata product),
      prd_AccessProfile = cloneAccessProfile (prd_AccessProfile product),
      prd_ThingModel = cloneThingModel (prd_ThingModel product),
      prd_CreatedAt = prd_CreatedAt product, prd_UpdatedAt = prd_UpdatedAt product\<rparr>"

definition cloneGroup :: "DeviceGroup \<Rightarrow> DeviceGroup" where
  "cloneGroup grp =
     \<lparr>grp_ID = grp_ID grp, grp_TenantID = grp_TenantID grp, grp_Name = grp_Name grp,
      grp_Description = grp_Description grp, grp_ProductID = grp_ProductID grp,
      grp_Tags = cloneStringMap (grp_Tags grp), grp_CreatedAt = grp_CreatedAt grp,
      grp_UpdatedAt = grp_UpdatedAt grp\<rparr>"

definition cloneRule :: "Rule \<Rightarrow> Rule" where
  "cloneRule rule =
     \<lparr>rul_ID = rul_ID rule, rul_TenantID = rul_TenantID rule, rul_Name = rul_Name rule,
      rul_Description = rul_Description rule, rul_ProductID = rul_ProductID rule,
      rul_GroupID = rul_GroupID rule, rul_DeviceID = rul_DeviceID rule,
      rul_Enabled = rul_Enabled rule, rul_Severity = rul_Severity rule,
      rul_CooldownSeconds = rul_CooldownSeconds rule,
      rul_Condition = \<lparr>cond_Property = cond_Property (rul_Condition rule),
        cond_Operator = cond_Operator (rul_Condition rule),
        cond_Value = cond_Value (rul_Condition rule)\<rparr>,
      rul_Actions = map (\<lambda>action. \<lparr>act_Type = act_Type action, act_Name = act_Name action,
        act_Params = cloneAnyMap (act_Params action),
        act_ConfigProfileID = act_ConfigProfileID action, act_Severity = act_Severity action,
        act_Message = act_Message action\<rparr>) (rul_Actions rule),
      rul_CreatedAt = rul_CreatedAt rule, rul_UpdatedAt = rul_UpdatedAt rule\<rparr>"

definition cloneConfigProfile :: "ConfigProfile \<Rightarrow> ConfigProfile" where
  "cloneConfigProfile profile =
     \<lparr>cfg_ID = cfg_ID profile, cfg_TenantID = cfg_TenantID profile, cfg_Name = cfg_Name profile,
      cfg_Description = cfg_Description profile, cfg_ProductID = cfg_ProductID profile,
      cfg_Values = cloneAnyMap (cfg_Values profile), cfg_AppliedCount = cfg_AppliedCount profile,
      cfg_LastAppliedAt = cfg_LastAppliedAt profile, cfg_CreatedAt = cfg_CreatedAt profile,
      cfg_UpdatedAt = cfg_UpdatedAt profile\<rparr>"

definition cloneShadow :: "DeviceShadow \<Rightarrow> DeviceShadow" where
  "cloneShadow shadow =
     \<lparr>sh_DeviceID = sh_DeviceID shadow, sh_ProductID = sh_ProductID shadow,
      sh_Reported = cloneAnyMap (sh_Reported shadow), sh_Desired = cloneAnyMap (sh_Desired shadow),
      sh_Version = sh_Version shadow, sh_UpdatedAt = sh_UpdatedAt shadow,
      sh_LastReportedAt = sh_LastReportedAt shadow, sh_LastDesiredAt = sh_LastDesiredAt shadow\<rparr>"

definition cloneAlert :: "AlertEvent \<Rightarrow> AlertEvent" where
  "cloneAlert alert =
     \<lparr>alt_ID = alt_ID alert, alt_RuleID = alt_RuleID alert, alt_RuleName = alt_RuleName alert,
      alt_TenantID = alt_TenantID alert, alt_ProductID = alt_ProductID alert,
      alt_GroupID = alt_GroupID alert, alt_DeviceID = alt_DeviceID alert,
      alt_DeviceName = alt_DeviceName alert, alt_Property = alt_Property alert,
      alt_Operator = alt_Operator alert, alt_Threshold = alt_Threshold alert,
      alt_Value = alt_Value alert, alt_Severity = alt_Severity alert, alt_Status = alt_Status alert,
      alt_Message = alt_Message alert, alt_Note = alt_Note alert, alt_AckAt = alt_AckAt alert,
      alt_ResolvedAt = alt_ResolvedAt alert, alt_TriggeredAt = alt_TriggeredAt alert\<rparr>"

definition cloneFirmwareArtifact :: "FirmwareArtifact \<Rightarrow> FirmwareArtifact" where
  "cloneFirmwareArtifact artifact =
     \<lparr>fw_ID = fw_ID artifact, fw_TenantID = fw_TenantID artifact, fw_ProductID = fw_ProductID artifact,
      fw_Name = fw_Name artifact, fw_Version = fw_Version artifact, fw_FileName = fw_FileName artifact,
      fw_URL = fw_URL artifact, fw_Checksum = fw_Checksum artifact,
      fw_ChecksumType = fw_ChecksumType artifact, fw_SizeBytes = fw_SizeBytes artifact,
      fw_Notes = fw_Notes artifact, fw_Metadata = cloneStringMap (fw_Metadata artifact),
      fw_CreatedAt = fw_CreatedAt artifact, fw_UpdatedAt = fw_UpdatedAt artifact\<rparr>"

definition cloneOTACampaign :: "OTACampaign \<Rightarrow> OTACampaign" where
  "cloneOTACampaign campaign =
     \<lparr>ota_ID = ota_ID campaign, ota_TenantID = ota_TenantID campaign, ota_Name = ota_Name campaign,
      ota_FirmwareID = ota_FirmwareID campaign, ota_ProductID = ota_ProductID campaign,
      ota_GroupID = ota_GroupID campaign, ota_DeviceID = ota_DeviceID campaign,
      ota_Status = ota_Status campaign, ota_TotalDevices = ota_TotalDevices campaign,
      ota_DispatchedCount = ota_DispatchedCount campaign, ota_AckedCount = ota_AckedCount campaign,
      ota_FailedCount = ota_FailedCount campaign, ota_LastDispatchedAt = ota_LastDispatchedAt campaign,
      ota_CreatedAt = ota_CreatedAt campaign, ota_UpdatedAt = ota_UpdatedAt campaign\<rparr>"

text \<open>What a clone changes: only the maps, empty to nil; a campaign and an alert are copied as they are.\<close>

lemma clone_update:
  "cloneTenant t = t\<lparr>tn_Metadata := cloneStringMap (tn_Metadata t)\<rparr>"
  "cloneDevice d = d\<lparr>dev_Tags := cloneStringMap (dev_Tags d), dev_Metadata := cloneStringMap (dev_Metadata d)\<rparr>"
  "cloneTelemetry te = te\<lparr>tel_Values := cloneAnyMap (tel_Values te)\<rparr>"
  "cloneCommand c = c\<lparr>cmd_Params := cloneAnyMap (cmd_Params c)\<rparr>"
  "cloneAccessProfile a = a\<lparr>ap_Metadata := cloneStringMap (ap_Metadata a)\<rparr>"
  "cloneGroup g = g\<lparr>grp_Tags := cloneStringMap (grp_Tags g)\<rparr>"
  "cloneConfigProfile cf = cf\<lparr>cfg_Values := cloneAnyMap (cfg_Values cf)\<rparr>"
  "cloneShadow sh = sh\<lparr>sh_Reported := cloneAnyMap (sh_Reported sh), sh_Desired := cloneAnyMap (sh_Desired sh)\<rparr>"
  "cloneFirmwareArtifact f = f\<lparr>fw_Metadata := cloneStringMap (fw_Metadata f)\<rparr>"
  by (simp_all add: cloneTenant_def cloneDevice_def cloneTelemetry_def cloneCommand_def
      cloneAccessProfile_def cloneGroup_def cloneConfigProfile_def cloneShadow_def
      cloneFirmwareArtifact_def)

lemma cloneThingModelParameters_id [simp, clone_simps]: "cloneThingModelParameters ps = ps"
  by (simp add: cloneThingModelParameters_def)

lemma clone_same [simp, clone_simps]:
  "cloneAlert a = a"
  "cloneOTACampaign c = c"
  "cloneThingModel m = m"
  by (simp_all add: cloneAlert_def cloneOTACampaign_def cloneThingModel_def)

lemma cloneRule_update:
  "cloneRule r = r\<lparr>rul_Actions := map (\<lambda>a. a\<lparr>act_Params := cloneAnyMap (act_Params a)\<rparr>) (rul_Actions r)\<rparr>"
  by (simp add: cloneRule_def)

lemma cloneProduct_update:
  "cloneProduct p = p\<lparr>prd_Metadata := cloneStringMap (prd_Metadata p),
     prd_AccessProfile := cloneAccessProfile (prd_AccessProfile p)\<rparr>"
  by (simp add: cloneProduct_def)

lemmas clone_updates = clone_update cloneRule_update cloneProduct_update

lemma clone_idem [simp, clone_simps]:
  "cloneTenant (cloneTenant t) = cloneTenant t"
  "cloneDevice (cloneDevice d) = cloneDevice d"
  "cloneTelemetry (cloneTelemetry te) = cloneTelemetry te"
  "cloneCommand (cloneCommand c) = cloneCommand c"
  "cloneAccessProfile (cloneAccessProfile a) = cloneAccessProfile a"
  "cloneProduct (cloneProduct p) = cloneProduct p"
  "cloneGroup (cloneGroup g) = cloneGroup g"
  "cloneRule (cloneRule r) = cloneRule r"
  "cloneConfigProfile (cloneConfigProfile cf) = cloneConfigProfile cf"
  "cloneShadow (cloneShadow sh) = cloneShadow sh"
  "cloneFirmwareArtifact (cloneFirmwareArtifact f) = cloneFirmwareArtifact f"
  by (simp_all add: clone_updates)

lemma clone_key [simp, clone_simps]:
  "tn_ID (cloneTenant t) = tn_ID t" "tn_CreatedAt (cloneTenant t) = tn_CreatedAt t"
  "dev_ID (cloneDevice d) = dev_ID d" "dev_CreatedAt (cloneDevice d) = dev_CreatedAt d"
  "prd_ID (cloneProduct p) = prd_ID p" "prd_CreatedAt (cloneProduct p) = prd_CreatedAt p"
  "grp_ID (cloneGroup g) = grp_ID g" "grp_CreatedAt (cloneGroup g) = grp_CreatedAt g"
  "rul_ID (cloneRule r) = rul_ID r" "rul_CreatedAt (cloneRule r) = rul_CreatedAt r"
  "cfg_ID (cloneConfigProfile cf) = cfg_ID cf" "cfg_CreatedAt (cloneConfigProfile cf) = cfg_CreatedAt cf"
  "fw_ID (cloneFirmwareArtifact f) = fw_ID f" "fw_CreatedAt (cloneFirmwareArtifact f) = fw_CreatedAt f"
  by (simp_all add: clone_updates)

end
