(* ===== verification/StoreTables.thy ===== *)
theory StoreTables
  imports StoreState
begin

text \<open>
  The eight keyed tables of the memory store (internal/store/memory/memory.go,
  internal/store/memory/tenant_ota.go): tenants, products, devices, groups, rules, configuration
  profiles, firmware artifacts and OTA campaigns. Each has \<open>Create\<close>, \<open>Get\<close>, \<open>List\<close> and \<open>Save\<close> as the
  source writes them. The locale \<open>entity_table\<close> is the contract they share (the table interfaces of
  internal/store/store.go); every table interprets it, and the facts a client needs are proved once
  inside it.
\<close>

section \<open>The contract of a table\<close>

locale entity_table =
  fixes tab :: "'s \<Rightarrow> (string \<times> 'a) list"
    and create :: "'a \<Rightarrow> ('s, 'e, unit) op"
    and save :: "'a \<Rightarrow> ('s, 'e, unit) op"
    and get :: "string \<Rightarrow> 's \<Rightarrow> 'e + 'a"
    and lst :: "'s \<Rightarrow> 'e + 'a list"
    and id_of :: "'a \<Rightarrow> string"
    and clone :: "'a \<Rightarrow> 'a"
    and created :: "'a \<Rightarrow> int"
    and exists_err :: 'e
    and notfound_err :: 'e
  assumes create_dup: "map_of (tab s) (id_of x) = Some y \<Longrightarrow> create x s = (Inl exists_err, s)"
    and create_new: "map_of (tab s) (id_of x) = None \<Longrightarrow> fst (create x s) = Inr ()"
    and create_tab: "map_of (tab s) (id_of x) = None \<Longrightarrow>
      tab (snd (create x s)) = AList.update (id_of x) (clone x) (tab s)"
    and save_miss: "map_of (tab s) (id_of x) = None \<Longrightarrow> save x s = (Inl notfound_err, s)"
    and save_hit: "map_of (tab s) (id_of x) = Some y \<Longrightarrow> fst (save x s) = Inr ()"
    and save_tab: "map_of (tab s) (id_of x) = Some y \<Longrightarrow>
      tab (snd (save x s)) = AList.update (id_of x) (clone x) (tab s)"
    and get_eq: "get k s = (case map_of (tab s) k of None \<Rightarrow> Inl notfound_err | Some x \<Rightarrow> Inr (clone x))"
    and lst_eq: "lst s = Inr (sort_newest created (map (clone \<circ> snd) (tab s)))"
    and clone_twice: "clone (clone x) = clone x"
    and id_clone: "id_of (clone x) = id_of x"
    and created_clone: "created (clone x) = created x"
begin

text \<open>Well-formed: one entry per key, filed under its own ID, stored as a clone.\<close>

definition entries_ok :: "(string \<times> 'a) list \<Rightarrow> bool" where
  "entries_ok m \<longleftrightarrow> distinct (map fst m) \<and> (\<forall>(k, x) \<in> set m. id_of x = k \<and> clone x = x)"

definition table_ok :: "'s \<Rightarrow> bool" where
  "table_ok s \<longleftrightarrow> entries_ok (tab s)"

lemma table_okD: "table_ok s \<Longrightarrow> map_of (tab s) k = Some x \<Longrightarrow> id_of x = k \<and> clone x = x"
  by (auto simp: table_ok_def entries_ok_def dest: map_of_SomeD)

lemma set_update_subset: "set (AList.update k v m) \<subseteq> insert (k, v) (set m)"
  by (induction m) auto

lemma entries_ok_update: "entries_ok m \<Longrightarrow> entries_ok (AList.update (id_of x) (clone x) m)"
  using set_update_subset [of "id_of x" "clone x" m]
  by (auto simp: entries_ok_def id_clone clone_twice)

lemma entries_ok_put: "entries_ok m \<Longrightarrow> id_of x = k \<Longrightarrow> clone x = x \<Longrightarrow> entries_ok (AList.update k x m)"
  using entries_ok_update [of m x] by simp

lemma entries_ok_Nil: "entries_ok []"
  by (simp add: entries_ok_def)

lemma entries_ok_map: "entries_ok m \<Longrightarrow> map (\<lambda>(k, x). (k, clone x)) m = m"
  by (rule map_idI) (auto simp: entries_ok_def)

lemma table_ok_update:
  "table_ok s \<Longrightarrow> tab s' = AList.update (id_of x) (clone x) (tab s) \<Longrightarrow> table_ok s'"
  by (simp add: table_ok_def entries_ok_update)

lemma create_ok: "table_ok s \<Longrightarrow> table_ok (snd (create x s))"
  by (cases "map_of (tab s) (id_of x)") (auto simp: create_dup create_tab intro: table_ok_update)

lemma save_ok: "table_ok s \<Longrightarrow> table_ok (snd (save x s))"
  by (cases "map_of (tab s) (id_of x)") (auto simp: save_miss save_tab intro: table_ok_update)

lemma preserves_create [preserves_intros]: "preserves table_ok (create x)"
  and preserves_save [preserves_intros]: "preserves table_ok (save x)"
  by (simp_all add: preserves_def create_ok save_ok)

text \<open>A created or saved value is read back as its clone, and every other key is as it was.\<close>

lemma get_create:
  "create x s = (Inr (), s') \<Longrightarrow> get k s' = (if k = id_of x then Inr (clone x) else get k s)"
  using create_dup [of s x] create_tab [of s x]
  by (cases "map_of (tab s) (id_of x)") (auto simp: get_eq clone_twice)

lemma get_save:
  "save x s = (Inr (), s') \<Longrightarrow> get k s' = (if k = id_of x then Inr (clone x) else get k s)"
  using save_miss [of s x] save_tab [of s x]
  by (cases "map_of (tab s) (id_of x)") (auto simp: get_eq clone_twice)

text \<open>\<open>Create\<close> succeeds exactly on a new ID, \<open>Save\<close> exactly on a known one; a refused call changes nothing.\<close>

lemma create_cases:
  "(get (id_of x) s = Inl notfound_err \<and> fst (create x s) = Inr ()) \<or>
   ((\<exists>y. get (id_of x) s = Inr y) \<and> create x s = (Inl exists_err, s))"
  by (cases "map_of (tab s) (id_of x)") (auto simp: get_eq create_new create_dup)

lemma save_cases:
  "((\<exists>y. get (id_of x) s = Inr y) \<and> fst (save x s) = Inr ()) \<or>
   (get (id_of x) s = Inl notfound_err \<and> save x s = (Inl notfound_err, s))"
  by (cases "map_of (tab s) (id_of x)") (auto simp: get_eq save_hit save_miss)

lemma create_twice: "create x s = (Inr (), s') \<Longrightarrow> create x s' = (Inl exists_err, s')"
  using create_cases [of x s'] get_create [of x s s' "id_of x"] by auto

lemma get_cases: "get k s = Inl e \<Longrightarrow> e = notfound_err"
  by (simp add: get_eq split: option.splits)

lemma get_id: "table_ok s \<Longrightarrow> get k s = Inr x \<Longrightarrow> id_of x = k \<and> clone x = x"
  by (auto simp: get_eq id_clone clone_twice dest: table_okD split: option.splits)

text \<open>A listing shows each stored value once, newest first.\<close>

lemma lst_total: "\<exists>xs. lst s = Inr xs"
  by (simp add: lst_eq)

lemma lst_set:
  assumes "table_ok s" "lst s = Inr xs"
  shows "x \<in> set xs \<longleftrightarrow> get (id_of x) s = Inr x"
proof -
  have "x \<in> set xs \<longleftrightarrow> (\<exists>y \<in> set (map snd (tab s)). x = clone y)"
    using assms(2) by (force simp: lst_eq)
  also have "\<dots> \<longleftrightarrow> (\<exists>k y. map_of (tab s) k = Some y \<and> x = clone y)"
    using assms(1) unfolding table_ok_def entries_ok_def by (metis (no_types, lifting) values_set_map_of)
  also have "\<dots> \<longleftrightarrow> get (id_of x) s = Inr x"
    using table_okD [OF assms(1)]
    by (auto simp: get_eq id_clone split: option.splits) (metis)
  finally show ?thesis .
qed

lemma lst_sorted: "lst s = Inr xs \<Longrightarrow> sorted_wrt (\<lambda>x y. created y \<le> created x) xs"
  using sorted_sort_newest by (auto simp: lst_eq)

lemma lst_distinct:
  assumes "table_ok s" "lst s = Inr xs"
  shows "distinct (map id_of xs)"
proof -
  have ids: "map (id_of \<circ> (clone \<circ> snd)) (tab s) = map fst (tab s)"
    using assms(1) by (auto simp: table_ok_def entries_ok_def id_clone)
  have "mset (map id_of xs) = mset (map (id_of \<circ> (clone \<circ> snd)) (tab s))"
    using assms(2) by (simp only: lst_eq sum.inject mset_map mset_sort_newest)
      (metis mset_map mset_sort_newest multiset.map_comp comp_assoc)
  then have "mset (map id_of xs) = mset (map fst (tab s))" by (simp only: ids)
  then show ?thesis using assms(1) by (metis mset_eq_imp_distinct_iff table_ok_def entries_ok_def)
qed

lemma lst_length: "lst s = Inr xs \<Longrightarrow> length xs = length (tab s)"
  by (auto simp: lst_eq)

lemma lst_create:
  assumes "create x s = (Inr (), s')" "lst s = Inr xs" "lst s' = Inr xs'"
  shows "mset xs' = add_mset (clone x) (mset xs)"
proof -
  have new: "map_of (tab s) (id_of x) = None"
    using assms(1) create_dup [of s x] by (cases "map_of (tab s) (id_of x)") auto
  then have "tab s' = tab s @ [(id_of x, clone x)]"
    using create_tab [OF new] assms(1) by (simp add: update_fresh)
  then show ?thesis using assms(2, 3) by (auto simp: lst_eq clone_twice)
qed

end

section \<open>Tenants\<close>

definition mem_CreateTenant :: "Tenant \<Rightarrow> (Store, gerr, unit) op" where
  "mem_CreateTenant tenant s =
     (case map_of (ms_tenants s) (tn_ID tenant) of
        Some _ \<Rightarrow> (Inl ErrTenantExists, s)
      | None \<Rightarrow> (Inr (), s\<lparr>ms_tenants := AList.update (tn_ID tenant) (cloneTenant tenant) (ms_tenants s)\<rparr>))"

definition mem_GetTenant :: "string \<Rightarrow> Store \<Rightarrow> Tenant res" where
  "mem_GetTenant tenantID s =
     (case map_of (ms_tenants s) tenantID of
        None \<Rightarrow> Inl ErrTenantNotFound
      | Some tenant \<Rightarrow> Inr (cloneTenant tenant))"

definition mem_ListTenants :: "Store \<Rightarrow> Tenant list res" where
  "mem_ListTenants s = Inr (sort_newest tn_CreatedAt (map (\<lambda>(_, tenant). cloneTenant tenant) (ms_tenants s)))"

definition mem_SaveTenant :: "Tenant \<Rightarrow> (Store, gerr, unit) op" where
  "mem_SaveTenant tenant s =
     (case map_of (ms_tenants s) (tn_ID tenant) of
        None \<Rightarrow> (Inl ErrTenantNotFound, s)
      | Some _ \<Rightarrow> (Inr (), s\<lparr>ms_tenants := AList.update (tn_ID tenant) (cloneTenant tenant) (ms_tenants s)\<rparr>))"

interpretation tenants: entity_table ms_tenants mem_CreateTenant mem_SaveTenant mem_GetTenant mem_ListTenants
    tn_ID cloneTenant tn_CreatedAt ErrTenantExists ErrTenantNotFound
  by unfold_locales
    (auto simp: mem_CreateTenant_def mem_SaveTenant_def mem_GetTenant_def mem_ListTenants_def comp_def case_prod_unfold
      split: option.splits)

section \<open>Products\<close>

definition mem_CreateProduct :: "Product \<Rightarrow> (Store, gerr, unit) op" where
  "mem_CreateProduct product s =
     (case map_of (ms_products s) (prd_ID product) of
        Some _ \<Rightarrow> (Inl ErrProductExists, s)
      | None \<Rightarrow> (Inr (), s\<lparr>ms_products := AList.update (prd_ID product) (cloneProduct product) (ms_products s)\<rparr>))"

definition mem_GetProduct :: "string \<Rightarrow> Store \<Rightarrow> Product res" where
  "mem_GetProduct productID s =
     (case map_of (ms_products s) productID of
        None \<Rightarrow> Inl ErrProductNotFound
      | Some product \<Rightarrow> Inr (cloneProduct product))"

definition mem_ListProducts :: "Store \<Rightarrow> Product list res" where
  "mem_ListProducts s = Inr (sort_newest prd_CreatedAt (map (\<lambda>(_, product). cloneProduct product) (ms_products s)))"

definition mem_SaveProduct :: "Product \<Rightarrow> (Store, gerr, unit) op" where
  "mem_SaveProduct product s =
     (case map_of (ms_products s) (prd_ID product) of
        None \<Rightarrow> (Inl ErrProductNotFound, s)
      | Some _ \<Rightarrow> (Inr (), s\<lparr>ms_products := AList.update (prd_ID product) (cloneProduct product) (ms_products s)\<rparr>))"

interpretation products: entity_table ms_products mem_CreateProduct mem_SaveProduct mem_GetProduct mem_ListProducts
    prd_ID cloneProduct prd_CreatedAt ErrProductExists ErrProductNotFound
  by unfold_locales
    (auto simp: mem_CreateProduct_def mem_SaveProduct_def mem_GetProduct_def mem_ListProducts_def comp_def case_prod_unfold
      split: option.splits)

section \<open>Devices\<close>

definition mem_CreateDevice :: "Device \<Rightarrow> (Store, gerr, unit) op" where
  "mem_CreateDevice device s =
     (case map_of (ms_devices s) (dev_ID device) of
        Some _ \<Rightarrow> (Inl ErrDeviceExists, s)
      | None \<Rightarrow> (Inr (), s\<lparr>ms_devices := AList.update (dev_ID device) (cloneDevice device) (ms_devices s)\<rparr>))"

definition mem_GetDevice :: "string \<Rightarrow> Store \<Rightarrow> Device res" where
  "mem_GetDevice deviceID s =
     (case map_of (ms_devices s) deviceID of
        None \<Rightarrow> Inl ErrDeviceNotFound
      | Some device \<Rightarrow> Inr (cloneDevice device))"

definition mem_ListDevices :: "Store \<Rightarrow> Device list res" where
  "mem_ListDevices s = Inr (sort_newest dev_CreatedAt (map (\<lambda>(_, device). cloneDevice device) (ms_devices s)))"

definition mem_SaveDevice :: "Device \<Rightarrow> (Store, gerr, unit) op" where
  "mem_SaveDevice device s =
     (case map_of (ms_devices s) (dev_ID device) of
        None \<Rightarrow> (Inl ErrDeviceNotFound, s)
      | Some _ \<Rightarrow> (Inr (), s\<lparr>ms_devices := AList.update (dev_ID device) (cloneDevice device) (ms_devices s)\<rparr>))"

interpretation devices: entity_table ms_devices mem_CreateDevice mem_SaveDevice mem_GetDevice mem_ListDevices
    dev_ID cloneDevice dev_CreatedAt ErrDeviceExists ErrDeviceNotFound
  by unfold_locales
    (auto simp: mem_CreateDevice_def mem_SaveDevice_def mem_GetDevice_def mem_ListDevices_def comp_def case_prod_unfold
      split: option.splits)

section \<open>Groups\<close>

definition mem_CreateGroup :: "DeviceGroup \<Rightarrow> (Store, gerr, unit) op" where
  "mem_CreateGroup grp s =
     (case map_of (ms_groups s) (grp_ID grp) of
        Some _ \<Rightarrow> (Inl ErrGroupExists, s)
      | None \<Rightarrow> (Inr (), s\<lparr>ms_groups := AList.update (grp_ID grp) (cloneGroup grp) (ms_groups s)\<rparr>))"

definition mem_GetGroup :: "string \<Rightarrow> Store \<Rightarrow> DeviceGroup res" where
  "mem_GetGroup groupID s =
     (case map_of (ms_groups s) groupID of
        None \<Rightarrow> Inl ErrGroupNotFound
      | Some grp \<Rightarrow> Inr (cloneGroup grp))"

definition mem_ListGroups :: "Store \<Rightarrow> DeviceGroup list res" where
  "mem_ListGroups s = Inr (sort_newest grp_CreatedAt (map (\<lambda>(_, grp). cloneGroup grp) (ms_groups s)))"

definition mem_SaveGroup :: "DeviceGroup \<Rightarrow> (Store, gerr, unit) op" where
  "mem_SaveGroup grp s =
     (case map_of (ms_groups s) (grp_ID grp) of
        None \<Rightarrow> (Inl ErrGroupNotFound, s)
      | Some _ \<Rightarrow> (Inr (), s\<lparr>ms_groups := AList.update (grp_ID grp) (cloneGroup grp) (ms_groups s)\<rparr>))"

interpretation groups: entity_table ms_groups mem_CreateGroup mem_SaveGroup mem_GetGroup mem_ListGroups
    grp_ID cloneGroup grp_CreatedAt ErrGroupExists ErrGroupNotFound
  by unfold_locales
    (auto simp: mem_CreateGroup_def mem_SaveGroup_def mem_GetGroup_def mem_ListGroups_def comp_def case_prod_unfold
      split: option.splits)

section \<open>Rules\<close>

definition mem_CreateRule :: "Rule \<Rightarrow> (Store, gerr, unit) op" where
  "mem_CreateRule rule s =
     (case map_of (ms_rules s) (rul_ID rule) of
        Some _ \<Rightarrow> (Inl ErrRuleExists, s)
      | None \<Rightarrow> (Inr (), s\<lparr>ms_rules := AList.update (rul_ID rule) (cloneRule rule) (ms_rules s)\<rparr>))"

definition mem_GetRule :: "string \<Rightarrow> Store \<Rightarrow> Rule res" where
  "mem_GetRule ruleID s =
     (case map_of (ms_rules s) ruleID of
        None \<Rightarrow> Inl ErrRuleNotFound
      | Some rule \<Rightarrow> Inr (cloneRule rule))"

definition mem_ListRules :: "Store \<Rightarrow> Rule list res" where
  "mem_ListRules s = Inr (sort_newest rul_CreatedAt (map (\<lambda>(_, rule). cloneRule rule) (ms_rules s)))"

definition mem_SaveRule :: "Rule \<Rightarrow> (Store, gerr, unit) op" where
  "mem_SaveRule rule s =
     (case map_of (ms_rules s) (rul_ID rule) of
        None \<Rightarrow> (Inl ErrRuleNotFound, s)
      | Some _ \<Rightarrow> (Inr (), s\<lparr>ms_rules := AList.update (rul_ID rule) (cloneRule rule) (ms_rules s)\<rparr>))"

interpretation rules: entity_table ms_rules mem_CreateRule mem_SaveRule mem_GetRule mem_ListRules
    rul_ID cloneRule rul_CreatedAt ErrRuleExists ErrRuleNotFound
  by unfold_locales
    (auto simp: mem_CreateRule_def mem_SaveRule_def mem_GetRule_def mem_ListRules_def comp_def case_prod_unfold
      split: option.splits)

section \<open>ConfigProfiles\<close>

definition mem_CreateConfigProfile :: "ConfigProfile \<Rightarrow> (Store, gerr, unit) op" where
  "mem_CreateConfigProfile profile s =
     (case map_of (ms_configProfiles s) (cfg_ID profile) of
        Some _ \<Rightarrow> (Inl ErrConfigExists, s)
      | None \<Rightarrow> (Inr (), s\<lparr>ms_configProfiles := AList.update (cfg_ID profile) (cloneConfigProfile profile) (ms_configProfiles s)\<rparr>))"

definition mem_GetConfigProfile :: "string \<Rightarrow> Store \<Rightarrow> ConfigProfile res" where
  "mem_GetConfigProfile configProfileID s =
     (case map_of (ms_configProfiles s) configProfileID of
        None \<Rightarrow> Inl ErrConfigNotFound
      | Some profile \<Rightarrow> Inr (cloneConfigProfile profile))"

definition mem_ListConfigProfiles :: "Store \<Rightarrow> ConfigProfile list res" where
  "mem_ListConfigProfiles s = Inr (sort_newest cfg_CreatedAt (map (\<lambda>(_, profile). cloneConfigProfile profile) (ms_configProfiles s)))"

definition mem_SaveConfigProfile :: "ConfigProfile \<Rightarrow> (Store, gerr, unit) op" where
  "mem_SaveConfigProfile profile s =
     (case map_of (ms_configProfiles s) (cfg_ID profile) of
        None \<Rightarrow> (Inl ErrConfigNotFound, s)
      | Some _ \<Rightarrow> (Inr (), s\<lparr>ms_configProfiles := AList.update (cfg_ID profile) (cloneConfigProfile profile) (ms_configProfiles s)\<rparr>))"

interpretation configprofiles: entity_table ms_configProfiles mem_CreateConfigProfile mem_SaveConfigProfile mem_GetConfigProfile mem_ListConfigProfiles
    cfg_ID cloneConfigProfile cfg_CreatedAt ErrConfigExists ErrConfigNotFound
  by unfold_locales
    (auto simp: mem_CreateConfigProfile_def mem_SaveConfigProfile_def mem_GetConfigProfile_def mem_ListConfigProfiles_def comp_def case_prod_unfold
      split: option.splits)

section \<open>FirmwareArtifacts\<close>

definition mem_CreateFirmwareArtifact :: "FirmwareArtifact \<Rightarrow> (Store, gerr, unit) op" where
  "mem_CreateFirmwareArtifact artifact s =
     (case map_of (ms_firmwareArtifacts s) (fw_ID artifact) of
        Some _ \<Rightarrow> (Inl ErrFirmwareExists, s)
      | None \<Rightarrow> (Inr (), s\<lparr>ms_firmwareArtifacts := AList.update (fw_ID artifact) (cloneFirmwareArtifact artifact) (ms_firmwareArtifacts s)\<rparr>))"

definition mem_GetFirmwareArtifact :: "string \<Rightarrow> Store \<Rightarrow> FirmwareArtifact res" where
  "mem_GetFirmwareArtifact firmwareArtifactID s =
     (case map_of (ms_firmwareArtifacts s) firmwareArtifactID of
        None \<Rightarrow> Inl ErrFirmwareNotFound
      | Some artifact \<Rightarrow> Inr (cloneFirmwareArtifact artifact))"

definition mem_ListFirmwareArtifacts :: "Store \<Rightarrow> FirmwareArtifact list res" where
  "mem_ListFirmwareArtifacts s = Inr (sort_newest fw_CreatedAt (map (\<lambda>(_, artifact). cloneFirmwareArtifact artifact) (ms_firmwareArtifacts s)))"

definition mem_SaveFirmwareArtifact :: "FirmwareArtifact \<Rightarrow> (Store, gerr, unit) op" where
  "mem_SaveFirmwareArtifact artifact s =
     (case map_of (ms_firmwareArtifacts s) (fw_ID artifact) of
        None \<Rightarrow> (Inl ErrFirmwareNotFound, s)
      | Some _ \<Rightarrow> (Inr (), s\<lparr>ms_firmwareArtifacts := AList.update (fw_ID artifact) (cloneFirmwareArtifact artifact) (ms_firmwareArtifacts s)\<rparr>))"

interpretation firmwareartifacts: entity_table ms_firmwareArtifacts mem_CreateFirmwareArtifact mem_SaveFirmwareArtifact mem_GetFirmwareArtifact mem_ListFirmwareArtifacts
    fw_ID cloneFirmwareArtifact fw_CreatedAt ErrFirmwareExists ErrFirmwareNotFound
  by unfold_locales
    (auto simp: mem_CreateFirmwareArtifact_def mem_SaveFirmwareArtifact_def mem_GetFirmwareArtifact_def mem_ListFirmwareArtifacts_def comp_def case_prod_unfold
      split: option.splits)

section \<open>OTACampaigns\<close>

definition mem_CreateOTACampaign :: "OTACampaign \<Rightarrow> (Store, gerr, unit) op" where
  "mem_CreateOTACampaign campaign s =
     (case map_of (ms_otaCampaigns s) (ota_ID campaign) of
        Some _ \<Rightarrow> (Inl ErrOTAExists, s)
      | None \<Rightarrow> (Inr (), s\<lparr>ms_otaCampaigns := AList.update (ota_ID campaign) (cloneOTACampaign campaign) (ms_otaCampaigns s)\<rparr>))"

definition mem_GetOTACampaign :: "string \<Rightarrow> Store \<Rightarrow> OTACampaign res" where
  "mem_GetOTACampaign oTACampaignID s =
     (case map_of (ms_otaCampaigns s) oTACampaignID of
        None \<Rightarrow> Inl ErrOTANotFound
      | Some campaign \<Rightarrow> Inr (cloneOTACampaign campaign))"

definition mem_ListOTACampaigns :: "Store \<Rightarrow> OTACampaign list res" where
  "mem_ListOTACampaigns s = Inr (sort_newest ota_CreatedAt (map (\<lambda>(_, campaign). cloneOTACampaign campaign) (ms_otaCampaigns s)))"

definition mem_SaveOTACampaign :: "OTACampaign \<Rightarrow> (Store, gerr, unit) op" where
  "mem_SaveOTACampaign campaign s =
     (case map_of (ms_otaCampaigns s) (ota_ID campaign) of
        None \<Rightarrow> (Inl ErrOTANotFound, s)
      | Some _ \<Rightarrow> (Inr (), s\<lparr>ms_otaCampaigns := AList.update (ota_ID campaign) (cloneOTACampaign campaign) (ms_otaCampaigns s)\<rparr>))"

interpretation otacampaigns: entity_table ms_otaCampaigns mem_CreateOTACampaign mem_SaveOTACampaign mem_GetOTACampaign mem_ListOTACampaigns
    ota_ID cloneOTACampaign ota_CreatedAt ErrOTAExists ErrOTANotFound
  by unfold_locales
    (auto simp: mem_CreateOTACampaign_def mem_SaveOTACampaign_def mem_GetOTACampaign_def mem_ListOTACampaigns_def comp_def case_prod_unfold
      split: option.splits)

end
