(* ===== verification/StoreSeries.thy ===== *)
theory StoreSeries
  imports StoreTables
begin

text \<open>
  The rest of the memory store (internal/store/memory/memory.go): membership of devices in groups,
  kept in two indexes; telemetry series with their retention; shadows; commands with the list of
  command IDs of each device; the alert log.
\<close>

section \<open>Helpers\<close>

definition lookup_list :: "(string \<times> 'a list) list \<Rightarrow> string \<Rightarrow> 'a list" where
  "lookup_list m k = (case map_of m k of None \<Rightarrow> [] | Some xs \<Rightarrow> xs)"

definition cloneStringSliceSorted :: "string list \<Rightarrow> string list" where
  "cloneStringSliceSorted values = (if length values = 0 then [] else sort values)"

definition addUniqueString :: "string list \<Rightarrow> string \<Rightarrow> string list" where
  "addUniqueString values value =
     (if \<exists>existing \<in> set values. existing = value then values else values @ [value])"

definition removeString :: "string list \<Rightarrow> string \<Rightarrow> string list" where
  "removeString values value =
     (if length values = 0 then [] else filter (\<lambda>existing. existing \<noteq> value) values)"

lemma lookup_list_update [simp]:
  "lookup_list (AList.update k xs m) k' = (if k' = k then xs else lookup_list m k')"
  by (simp add: lookup_list_def)

lemma cloneStringSliceSorted_simp [simp]: "cloneStringSliceSorted values = sort values"
  by (simp add: cloneStringSliceSorted_def)

lemma addUniqueString_props [simp]:
  "set (addUniqueString xs x) = insert x (set xs)"
  "distinct xs \<Longrightarrow> distinct (addUniqueString xs x)"
  by (auto simp: addUniqueString_def)

lemma removeString_props [simp]:
  "set (removeString xs x) = set xs - {x}"
  "distinct xs \<Longrightarrow> distinct (removeString xs x)"
  by (auto simp: removeString_def)

section \<open>Group membership\<close>

definition mem_AddDeviceToGroup :: "string \<Rightarrow> string \<Rightarrow> (Store, gerr, unit) op" where
  "mem_AddDeviceToGroup groupID deviceID s =
     (if map_of (ms_groups s) groupID = None then (Inl ErrGroupNotFound, s)
      else if map_of (ms_devices s) deviceID = None then (Inl ErrDeviceNotFound, s)
      else (Inr (), s\<lparr>
        ms_groupIDsByDevice := AList.update deviceID
          (addUniqueString (lookup_list (ms_groupIDsByDevice s) deviceID) groupID) (ms_groupIDsByDevice s),
        ms_deviceIDsByGroup := AList.update groupID
          (addUniqueString (lookup_list (ms_deviceIDsByGroup s) groupID) deviceID) (ms_deviceIDsByGroup s)\<rparr>))"

definition mem_RemoveDeviceFromGroup :: "string \<Rightarrow> string \<Rightarrow> (Store, gerr, unit) op" where
  "mem_RemoveDeviceFromGroup groupID deviceID s =
     (if map_of (ms_groups s) groupID = None then (Inl ErrGroupNotFound, s)
      else if map_of (ms_devices s) deviceID = None then (Inl ErrDeviceNotFound, s)
      else (Inr (), s\<lparr>
        ms_groupIDsByDevice := AList.update deviceID
          (removeString (lookup_list (ms_groupIDsByDevice s) deviceID) groupID) (ms_groupIDsByDevice s),
        ms_deviceIDsByGroup := AList.update groupID
          (removeString (lookup_list (ms_deviceIDsByGroup s) groupID) deviceID) (ms_deviceIDsByGroup s)\<rparr>))"

definition mem_ListGroupIDsByDevice :: "string \<Rightarrow> Store \<Rightarrow> string list res" where
  "mem_ListGroupIDsByDevice deviceID s =
     (if map_of (ms_devices s) deviceID = None then Inl ErrDeviceNotFound
      else Inr (cloneStringSliceSorted (lookup_list (ms_groupIDsByDevice s) deviceID)))"

definition mem_ListDeviceIDsByGroup :: "string \<Rightarrow> Store \<Rightarrow> string list res" where
  "mem_ListDeviceIDsByGroup groupID s =
     (if map_of (ms_groups s) groupID = None then Inl ErrGroupNotFound
      else Inr (cloneStringSliceSorted (lookup_list (ms_deviceIDsByGroup s) groupID)))"

text \<open>
  The two indexes agree, hold no duplicates, and only speak of known groups and devices.
\<close>

definition members_inv :: "(string \<times> DeviceGroup) list \<Rightarrow> (string \<times> Device) list \<Rightarrow>
    (string \<times> string list) list \<Rightarrow> (string \<times> string list) list \<Rightarrow> bool" where
  "members_inv gs ds groupIDs deviceIDs \<longleftrightarrow>
     (\<forall>g d. g \<in> set (lookup_list groupIDs d) \<longleftrightarrow> d \<in> set (lookup_list deviceIDs g)) \<and>
     (\<forall>d. distinct (lookup_list groupIDs d)) \<and>
     (\<forall>g. distinct (lookup_list deviceIDs g)) \<and>
     (\<forall>g d. d \<in> set (lookup_list deviceIDs g) \<longrightarrow> map_of gs g \<noteq> None \<and> map_of ds d \<noteq> None)"

definition members_ok :: "Store \<Rightarrow> bool" where
  "members_ok s \<longleftrightarrow> members_inv (ms_groups s) (ms_devices s) (ms_groupIDsByDevice s) (ms_deviceIDsByGroup s)"

lemma members_ok_add: "members_ok s \<Longrightarrow> members_ok (snd (mem_AddDeviceToGroup g d s))"
  by (auto simp: mem_AddDeviceToGroup_def members_ok_def members_inv_def)

lemma members_ok_remove: "members_ok s \<Longrightarrow> members_ok (snd (mem_RemoveDeviceFromGroup g d s))"
  by (auto simp: mem_RemoveDeviceFromGroup_def members_ok_def members_inv_def)

lemma members_inv_mono:
  "members_inv gs ds gi di \<Longrightarrow> members_inv (AList.update g x gs) ds gi di"
  "members_inv gs ds gi di \<Longrightarrow> members_inv gs (AList.update d y ds) gi di"
  by (auto simp: members_inv_def)

lemma add_member:
  assumes "mem_AddDeviceToGroup g d s = (Inr (), s')" "members_ok s"
  shows "d' \<in> set (lookup_list (ms_deviceIDsByGroup s') g') \<longleftrightarrow>
    (g' = g \<and> d' = d) \<or> d' \<in> set (lookup_list (ms_deviceIDsByGroup s) g')"
  using assms by (auto simp: mem_AddDeviceToGroup_def split: if_splits)

lemma remove_member:
  assumes "mem_RemoveDeviceFromGroup g d s = (Inr (), s')" "members_ok s"
  shows "d' \<in> set (lookup_list (ms_deviceIDsByGroup s') g') \<longleftrightarrow>
    \<not> (g' = g \<and> d' = d) \<and> d' \<in> set (lookup_list (ms_deviceIDsByGroup s) g')"
  using assms by (auto simp: mem_RemoveDeviceFromGroup_def split: if_splits)

section \<open>Telemetry\<close>

text \<open>\<open>items[len(items)-n:]\<close>, the last \<open>n\<close> elements of a longer slice.\<close>

definition last_n :: "int \<Rightarrow> 'a list \<Rightarrow> 'a list" where
  "last_n n xs = drop (length xs - nat n) xs"

definition mem_AppendTelemetry :: "Telemetry \<Rightarrow> (Store, gerr, unit) op" where
  "mem_AppendTelemetry telemetry s =
     (let items = lookup_list (ms_telemetryByDevice s) (tel_DeviceID telemetry) @ [cloneTelemetry telemetry];
          items = (if int (length items) > ms_telemetryRetention s
                   then last_n (ms_telemetryRetention s) items else items) in
      (Inr (), s\<lparr>ms_telemetryByDevice :=
         AList.update (tel_DeviceID telemetry) items (ms_telemetryByDevice s)\<rparr>))"

text \<open>The newest \<open>limit\<close> items of a series, newest first; all of them if \<open>limit\<close> is not positive.\<close>

definition newest :: "int \<Rightarrow> 'a list \<Rightarrow> 'a list" where
  "newest limit items =
     (let start = (if limit > 0 \<and> int (length items) > limit then length items - nat limit else 0) in
      rev (drop start items))"

definition mem_ListTelemetryByDevice :: "string \<Rightarrow> int \<Rightarrow> Store \<Rightarrow> Telemetry list res" where
  "mem_ListTelemetryByDevice deviceID limit s =
     (let items = lookup_list (ms_telemetryByDevice s) deviceID in
      if length items = 0 then Inr []
      else Inr (map cloneTelemetry (newest limit items)))"

lemma length_last_n: "0 \<le> n \<Longrightarrow> n \<le> int (length xs) \<Longrightarrow> length (last_n n xs) = nat n"
  by (simp add: last_n_def)

lemma newest_take: "0 < limit \<Longrightarrow> newest limit xs = take (nat limit) (rev xs)"
  by (auto simp: newest_def Let_def take_rev nat_less_iff)

lemma newest_all: "limit \<le> 0 \<Longrightarrow> newest limit xs = rev xs"
  by (simp add: newest_def)

section \<open>Shadows\<close>

definition mem_SaveShadow :: "DeviceShadow \<Rightarrow> (Store, gerr, unit) op" where
  "mem_SaveShadow shadow s =
     (Inr (), s\<lparr>ms_shadows := AList.update (sh_DeviceID shadow) (cloneShadow shadow) (ms_shadows s)\<rparr>)"

definition mem_GetShadow :: "string \<Rightarrow> Store \<Rightarrow> DeviceShadow res" where
  "mem_GetShadow deviceID s =
     (case map_of (ms_shadows s) deviceID of
        None \<Rightarrow> Inl ErrShadowNotFound
      | Some shadow \<Rightarrow> Inr (cloneShadow shadow))"

lemma get_save_shadow:
  "mem_GetShadow d (snd (mem_SaveShadow sh s)) =
     (if d = sh_DeviceID sh then Inr (cloneShadow sh) else mem_GetShadow d s)"
  by (simp add: mem_GetShadow_def mem_SaveShadow_def)

section \<open>Commands\<close>

definition zero_Command :: Command where
  "zero_Command = \<lparr>cmd_ID = [], cmd_DeviceID = [], cmd_CampaignID = [], cmd_Name = [],
     cmd_Params = None, cmd_Status = CommandStatusPending, cmd_Result = [], cmd_CreatedAt = 0,
     cmd_UpdatedAt = 0\<rparr>"

definition mem_SaveCommand :: "Command \<Rightarrow> (Store, gerr, unit) op" where
  "mem_SaveCommand command s =
     (Inr (), s\<lparr>ms_commandByID := AList.update (cmd_ID command) (cloneCommand command) (ms_commandByID s),
        ms_commandIDsByDevice := AList.update (cmd_DeviceID command)
          (lookup_list (ms_commandIDsByDevice s) (cmd_DeviceID command) @ [cmd_ID command])
          (ms_commandIDsByDevice s)\<rparr>)"

definition mem_GetCommand :: "string \<Rightarrow> Store \<Rightarrow> Command res" where
  "mem_GetCommand commandID s =
     (case map_of (ms_commandByID s) commandID of
        None \<Rightarrow> Inl ErrCommandNotFound
      | Some command \<Rightarrow> Inr (cloneCommand command))"

text \<open>\<open>now\<close> is the reading of \<open>time.Now()\<close> inside the call.\<close>

definition mem_UpdateCommandStatus ::
    "time \<Rightarrow> string \<Rightarrow> CommandStatus \<Rightarrow> string \<Rightarrow> (Store, gerr, Command) op" where
  "mem_UpdateCommandStatus now commandID status result s =
     (case map_of (ms_commandByID s) commandID of
        None \<Rightarrow> (Inl ErrCommandNotFound, s)
      | Some command \<Rightarrow>
          let command = command\<lparr>cmd_Status := status, cmd_Result := result, cmd_UpdatedAt := now\<rparr> in
          (Inr (cloneCommand command),
           s\<lparr>ms_commandByID := AList.update commandID (cloneCommand command) (ms_commandByID s)\<rparr>))"

text \<open>
  A listed ID without a command would read Go's zero command; \<open>commands_ok\<close> below rules that out.
\<close>

definition mem_ListCommandsByDevice :: "string \<Rightarrow> int \<Rightarrow> Store \<Rightarrow> Command list res" where
  "mem_ListCommandsByDevice deviceID limit s =
     (let ids = lookup_list (ms_commandIDsByDevice s) deviceID in
      if length ids = 0 then Inr []
      else Inr (map (\<lambda>i. cloneCommand (case map_of (ms_commandByID s) i of
          None \<Rightarrow> zero_Command | Some command \<Rightarrow> command)) (newest limit ids)))"

definition commands_inv :: "(string \<times> Command) list \<Rightarrow> (string \<times> string list) list \<Rightarrow> bool" where
  "commands_inv cs ids \<longleftrightarrow>
     (\<forall>(i, c) \<in> set cs. cmd_ID c = i \<and> cloneCommand c = c) \<and>
     (\<forall>d i. i \<in> set (lookup_list ids d) \<longrightarrow> map_of cs i \<noteq> None)"

definition commands_ok :: "Store \<Rightarrow> bool" where
  "commands_ok s \<longleftrightarrow> commands_inv (ms_commandByID s) (ms_commandIDsByDevice s)"

lemma cloneCommand_fields [simp]:
  "cmd_ID (cloneCommand c) = cmd_ID c" "cmd_DeviceID (cloneCommand c) = cmd_DeviceID c"
  "cmd_Status (cloneCommand c) = cmd_Status c" "cmd_Result (cloneCommand c) = cmd_Result c"
  "cmd_Name (cloneCommand c) = cmd_Name c" "cmd_CampaignID (cloneCommand c) = cmd_CampaignID c"
  by (simp_all add: cloneCommand_def)

lemma commands_ok_save: "commands_ok s \<Longrightarrow> commands_ok (snd (mem_SaveCommand c s))"
  by (auto simp: commands_ok_def commands_inv_def mem_SaveCommand_def dest!: set_update_cases)

lemma commands_ok_get:
  "commands_ok s \<Longrightarrow> map_of (ms_commandByID s) i = Some c \<Longrightarrow> cmd_ID c = i \<and> cloneCommand c = c"
  by (auto simp: commands_ok_def commands_inv_def dest!: map_of_SomeD)

lemma commands_ok_update: "commands_ok s \<Longrightarrow> commands_ok (snd (mem_UpdateCommandStatus now i st r s))"
proof (cases "map_of (ms_commandByID s) i")
  case (Some c)
  assume ok: "commands_ok s"
  note c = commands_ok_get [OF ok Some]
  from ok show ?thesis
    by (auto simp: commands_ok_def commands_inv_def mem_UpdateCommandStatus_def Let_def Some c
        clone_idem dest!: set_update_cases)
qed (simp add: mem_UpdateCommandStatus_def)

lemma get_save_command:
  "mem_GetCommand i (snd (mem_SaveCommand c s)) =
     (if i = cmd_ID c then Inr (cloneCommand c) else mem_GetCommand i s)"
  by (simp add: mem_GetCommand_def mem_SaveCommand_def)

lemma get_update_command:
  "mem_UpdateCommandStatus now i st r s = (Inr c, s') \<Longrightarrow>
     mem_GetCommand j s' = (if j = i then Inr c else mem_GetCommand j s)"
  by (auto simp: mem_GetCommand_def mem_UpdateCommandStatus_def Let_def split: option.splits if_splits)

lemma update_command_result:
  "mem_UpdateCommandStatus now i st r s = (Inr c, s') \<Longrightarrow> mem_GetCommand i s = Inr c0 \<Longrightarrow>
     c = c0\<lparr>cmd_Status := st, cmd_Result := r, cmd_UpdatedAt := now\<rparr>"
  by (auto simp: mem_GetCommand_def mem_UpdateCommandStatus_def Let_def clone_updates split: option.splits)

section \<open>Alerts\<close>

definition mem_AppendAlert :: "AlertEvent \<Rightarrow> (Store, gerr, unit) op" where
  "mem_AppendAlert alert s =
     (let alerts = ms_alerts s @ [cloneAlert alert];
          alerts = (if int (length alerts) > ms_alertRetention s
                    then last_n (ms_alertRetention s) alerts else alerts) in
      (Inr (), s\<lparr>ms_alerts := alerts\<rparr>))"

definition mem_GetAlert :: "string \<Rightarrow> Store \<Rightarrow> AlertEvent res" where
  "mem_GetAlert alertID s =
     (case find (\<lambda>alert. alt_ID alert = alertID) (rev (ms_alerts s)) of
        Some alert \<Rightarrow> Inr (cloneAlert alert)
      | None \<Rightarrow> Inl ErrAlertNotFound)"

fun replace_first :: "AlertEvent \<Rightarrow> AlertEvent list \<Rightarrow> AlertEvent list option" where
  "replace_first alert [] = None"
| "replace_first alert (a # as) =
     (if alt_ID a = alt_ID alert then Some (cloneAlert alert # as)
      else map_option ((#) a) (replace_first alert as))"

definition mem_SaveAlert :: "AlertEvent \<Rightarrow> (Store, gerr, unit) op" where
  "mem_SaveAlert alert s =
     (case replace_first alert (ms_alerts s) of
        Some alerts \<Rightarrow> (Inr (), s\<lparr>ms_alerts := alerts\<rparr>)
      | None \<Rightarrow> (Inl ErrAlertNotFound, s))"

definition mem_ListAlerts :: "int \<Rightarrow> Store \<Rightarrow> AlertEvent list res" where
  "mem_ListAlerts limit s =
     (if length (ms_alerts s) = 0 then Inr [] else Inr (map cloneAlert (newest limit (ms_alerts s))))"

lemma replace_first_None: "replace_first a as = None \<longleftrightarrow> (\<forall>b \<in> set as. alt_ID b \<noteq> alt_ID a)"
  by (induction as) auto

lemma replace_first_ids: "replace_first a as = Some bs \<Longrightarrow> map alt_ID bs = map alt_ID as"
  by (induction as arbitrary: bs) (auto split: if_splits)

lemma replace_first_mem:
  "replace_first a as = Some bs \<Longrightarrow> distinct (map alt_ID as) \<Longrightarrow>
    b \<in> set bs \<longleftrightarrow> (if alt_ID b = alt_ID a then b = a else b \<in> set as)"
  by (induction as arbitrary: bs) (auto split: if_splits, metis image_eqI)

section \<open>Bounds of the series\<close>

definition retention_inv ::
    "(string \<times> Telemetry list) list \<Rightarrow> AlertEvent list \<Rightarrow> int \<Rightarrow> int \<Rightarrow> bool" where
  "retention_inv tes as r1 r2 \<longleftrightarrow> 0 < r1 \<and> 0 < r2 \<and>
     (\<forall>d. int (length (lookup_list tes d)) \<le> r1) \<and> int (length as) \<le> r2"

definition retention_ok :: "Store \<Rightarrow> bool" where
  "retention_ok s \<longleftrightarrow> retention_inv (ms_telemetryByDevice s) (ms_alerts s)
     (ms_telemetryRetention s) (ms_alertRetention s)"

lemmas retention_defs = retention_ok_def retention_inv_def

lemma retention_ok_New: "retention_ok (New n)"
  by (auto simp: retention_defs New_def Let_def max_int_def lookup_list_def)

lemma retention_ok_AppendTelemetry: "retention_ok s \<Longrightarrow> retention_ok (snd (mem_AppendTelemetry te s))"
  by (auto simp: retention_defs mem_AppendTelemetry_def Let_def length_last_n)

lemma retention_ok_AppendAlert: "retention_ok s \<Longrightarrow> retention_ok (snd (mem_AppendAlert a s))"
  by (auto simp: retention_defs mem_AppendAlert_def Let_def length_last_n)

lemma retention_ok_SaveAlert: "retention_ok s \<Longrightarrow> retention_ok (snd (mem_SaveAlert a s))"
  by (auto simp: retention_defs mem_SaveAlert_def split: option.splits
      dest!: replace_first_ids arg_cong [where f = length])

section \<open>The contract of a bounded log\<close>

text \<open>
  Telemetry and alerts are both logs that keep the last \<open>retention\<close> items: an append drops the oldest
  item when the log is full, a listing shows the newest items first. \<open>mine\<close> tells which items go to
  the log (the readings of one device).
\<close>

locale retention_log =
  fixes items :: "'s \<Rightarrow> 'a list"
    and app :: "'a \<Rightarrow> ('s, 'e, unit) op"
    and lst :: "int \<Rightarrow> 's \<Rightarrow> 'e + 'a list"
    and retention :: "'s \<Rightarrow> int"
    and clone :: "'a \<Rightarrow> 'a"
    and mine :: "'a \<Rightarrow> bool"
  assumes app_fst: "fst (app x s) = Inr ()"
    and app_items: "mine x \<Longrightarrow> items (snd (app x s)) =
      (if int (length (items s @ [clone x])) > retention s
       then last_n (retention s) (items s @ [clone x]) else items s @ [clone x])"
    and app_other: "\<not> mine x \<Longrightarrow> items (snd (app x s)) = items s"
    and app_retention: "retention (snd (app x s)) = retention s"
    and lst_eq: "lst n s = Inr (map clone (newest n (items s)))"
    and clone_twice: "clone (clone x) = clone x"
begin

definition log_ok :: "'s \<Rightarrow> bool" where
  "log_ok s \<longleftrightarrow> 0 < retention s \<and> int (length (items s)) \<le> retention s"

lemma append_log:
  assumes "log_ok s" "mine x"
  shows "items (snd (app x s)) = rev (take (nat (retention s)) (clone x # rev (items s)))"
  using assms rev_take [of "nat (retention s)" "clone x # rev (items s)"]
  by (auto simp: log_ok_def app_items last_n_def)

lemma append_ok: "log_ok s \<Longrightarrow> log_ok (snd (app x s))"
proof (cases "mine x")
  case True
  assume "log_ok s"
  with append_log [OF this True] show ?thesis by (auto simp: log_ok_def app_retention min_def)
qed (simp add: log_ok_def app_other app_retention)

lemma list_length: "log_ok s \<Longrightarrow> lst n s = Inr xs \<Longrightarrow> int (length xs) \<le> retention s"
  by (auto simp: lst_eq log_ok_def newest_def Let_def)

lemma list_append:
  assumes "log_ok s" "mine x" "lst n s = Inr xs" "lst n (snd (app x s)) = Inr ys"
  shows "ys = (if 0 < n then take (nat (min n (retention s))) (clone x # xs)
    else take (nat (retention s)) (clone x # xs))"
proof -
  have r: "0 < retention s" using assms(1) by (simp add: log_ok_def)
  have ys: "ys = map clone (newest n (rev (take (nat (retention s)) (clone x # rev (items s)))))"
    using assms(4) append_log [OF assms(1,2)] by (simp add: lst_eq)
  have xs: "xs = map clone (newest n (items s))" using assms(3) by (simp add: lst_eq)
  show ?thesis
  proof (cases "0 < n")
    case True
    obtain m where m: "nat (min n (retention s)) = Suc m"
      using True r by (metis gr0_implies_Suc min_less_iff_conj zero_less_nat_eq)
    then have "m \<le> nat n" by linarith
    have "min (nat n) (nat (retention s)) = Suc m" using m by linarith
    then have "ys = map clone (take (Suc m) (clone x # rev (items s)))"
      using True by (simp only: ys newest_take rev_rev_ident take_take)
    moreover have "take m xs = map clone (take m (rev (items s)))"
      using True \<open>m \<le> nat n\<close> by (simp add: xs newest_take take_map min_def)
    ultimately show ?thesis using True by (simp add: m clone_twice)
  next
    case False
    have "ys = take (nat (retention s)) (clone x # map clone (rev (items s)))"
      using False r by (simp add: ys newest_all take_map take_Cons clone_twice split: nat.splits)
    then show ?thesis using False by (simp add: xs newest_all)
  qed
qed

end

interpretation alert_log: retention_log ms_alerts mem_AppendAlert mem_ListAlerts ms_alertRetention cloneAlert "\<lambda>_. True"
  by unfold_locales (auto simp: mem_AppendAlert_def mem_ListAlerts_def Let_def newest_def)

interpretation telemetry_log: retention_log
    "\<lambda>s. lookup_list (ms_telemetryByDevice s) d" mem_AppendTelemetry "mem_ListTelemetryByDevice d"
    ms_telemetryRetention cloneTelemetry "\<lambda>te. tel_DeviceID te = d" for d
  by unfold_locales (auto simp: mem_AppendTelemetry_def mem_ListTelemetryByDevice_def Let_def newest_def)

lemma retention_ok_logs:
  "retention_ok s \<Longrightarrow> alert_log.log_ok s" "retention_ok s \<Longrightarrow> telemetry_log.log_ok d s"
  by (simp_all add: retention_defs alert_log.log_ok_def telemetry_log.log_ok_def)

end
