(* ===== verification/Snapshot.thy ===== *)
theory Snapshot
  imports StoreSeries
begin

text \<open>
  Snapshots of the memory store (internal/store/memory/snapshot.go) and the invariant of the store:
  every table is well-formed, the group indexes agree, every listed command exists, the series stay
  within their retention. Every operation keeps it, and a store restored from its own snapshot is
  the store itself, but for the order inside the group lists, which \<open>Restore\<close> sorts.
\<close>

section \<open>Snapshot and restore\<close>

record SnapshotData =
  sn_Tenants :: "(string \<times> Tenant) list"
  sn_Products :: "(string \<times> Product) list"
  sn_Devices :: "(string \<times> Device) list"
  sn_Groups :: "(string \<times> DeviceGroup) list"
  sn_Rules :: "(string \<times> Rule) list"
  sn_ConfigProfiles :: "(string \<times> ConfigProfile) list"
  sn_FirmwareArtifacts :: "(string \<times> FirmwareArtifact) list"
  sn_OTACampaigns :: "(string \<times> OTACampaign) list"
  sn_Shadows :: "(string \<times> DeviceShadow) list"
  sn_TelemetryByDevice :: "(string \<times> Telemetry list) list"
  sn_CommandByID :: "(string \<times> Command) list"
  sn_CommandIDsByDevice :: "(string \<times> string list) list"
  sn_GroupIDsByDevice :: "(string \<times> string list) list"
  sn_DeviceIDsByGroup :: "(string \<times> string list) list"
  sn_Alerts :: "AlertEvent list"
  sn_TelemetryRetention :: int
  sn_AlertRetention :: int

text \<open>\<open>for key, value := range m { out[key] = f(value) }\<close> into a fresh map.\<close>

definition map_values :: "('v \<Rightarrow> 'w) \<Rightarrow> (string \<times> 'v) list \<Rightarrow> (string \<times> 'w) list" where
  "map_values f m = map (\<lambda>(k, v). (k, f v)) m"

definition mem_Snapshot :: "Store \<Rightarrow> SnapshotData" where
  "mem_Snapshot s =
     \<lparr>sn_Tenants = map_values cloneTenant (ms_tenants s),
      sn_Products = map_values cloneProduct (ms_products s),
      sn_Devices = map_values cloneDevice (ms_devices s),
      sn_Groups = map_values cloneGroup (ms_groups s),
      sn_Rules = map_values cloneRule (ms_rules s),
      sn_ConfigProfiles = map_values cloneConfigProfile (ms_configProfiles s),
      sn_FirmwareArtifacts = map_values cloneFirmwareArtifact (ms_firmwareArtifacts s),
      sn_OTACampaigns = map_values cloneOTACampaign (ms_otaCampaigns s),
      sn_Shadows = map_values cloneShadow (ms_shadows s),
      sn_TelemetryByDevice = map_values (map cloneTelemetry) (ms_telemetryByDevice s),
      sn_CommandByID = map_values cloneCommand (ms_commandByID s),
      sn_CommandIDsByDevice = map_values (\<lambda>values. [] @ values) (ms_commandIDsByDevice s),
      sn_GroupIDsByDevice = map_values (\<lambda>values. [] @ values) (ms_groupIDsByDevice s),
      sn_DeviceIDsByGroup = map_values (\<lambda>values. [] @ values) (ms_deviceIDsByGroup s),
      sn_Alerts = map cloneAlert (ms_alerts s),
      sn_TelemetryRetention = ms_telemetryRetention s,
      sn_AlertRetention = ms_alertRetention s\<rparr>"

definition mem_Restore :: "SnapshotData \<Rightarrow> Store \<Rightarrow> Store" where
  "mem_Restore snapshot s =
     \<lparr>ms_tenants = map_values cloneTenant (sn_Tenants snapshot),
      ms_products = map_values cloneProduct (sn_Products snapshot),
      ms_devices = map_values cloneDevice (sn_Devices snapshot),
      ms_groups = map_values cloneGroup (sn_Groups snapshot),
      ms_rules = map_values cloneRule (sn_Rules snapshot),
      ms_configProfiles = map_values cloneConfigProfile (sn_ConfigProfiles snapshot),
      ms_firmwareArtifacts = map_values cloneFirmwareArtifact (sn_FirmwareArtifacts snapshot),
      ms_otaCampaigns = map_values cloneOTACampaign (sn_OTACampaigns snapshot),
      ms_shadows = map_values cloneShadow (sn_Shadows snapshot),
      ms_telemetryByDevice = map_values (map cloneTelemetry) (sn_TelemetryByDevice snapshot),
      ms_commandByID = map_values cloneCommand (sn_CommandByID snapshot),
      ms_commandIDsByDevice = map_values (\<lambda>values. [] @ values) (sn_CommandIDsByDevice snapshot),
      ms_groupIDsByDevice = map_values (\<lambda>values. [] @ values) (sn_GroupIDsByDevice snapshot),
      ms_deviceIDsByGroup = map_values (\<lambda>values. sort ([] @ values)) (sn_DeviceIDsByGroup snapshot),
      ms_alerts = map cloneAlert (sn_Alerts snapshot),
      ms_telemetryRetention = (if sn_TelemetryRetention snapshot > 0
        then sn_TelemetryRetention snapshot else ms_telemetryRetention s),
      ms_alertRetention = (if sn_AlertRetention snapshot > 0
        then sn_AlertRetention snapshot else ms_alertRetention s)\<rparr>"

definition mem_StorageStats :: "Store \<Rightarrow> StorageStats res" where
  "mem_StorageStats s =
     Inr \<lparr>ss_Backend = ''memory'', ss_PersistencePath = [],
       ss_Tenants = length (ms_tenants s), ss_Products = length (ms_products s),
       ss_Devices = length (ms_devices s), ss_Groups = length (ms_groups s),
       ss_Rules = length (ms_rules s), ss_ConfigProfiles = length (ms_configProfiles s),
       ss_FirmwareArtifacts = length (ms_firmwareArtifacts s),
       ss_OTACampaigns = length (ms_otaCampaigns s), ss_Shadows = length (ms_shadows s),
       ss_Commands = length (ms_commandByID s), ss_Alerts = length (ms_alerts s),
       ss_TelemetrySeries = length (ms_telemetryByDevice s),
       ss_TelemetrySamples = sum_list (map (\<lambda>(_, items). length items) (ms_telemetryByDevice s)),
       ss_LastPersistedAt = None, ss_PersistErrors = 0\<rparr>"

section \<open>The invariant of the store\<close>

definition tables_ok :: "Store \<Rightarrow> bool" where
  "tables_ok s \<longleftrightarrow> tenants.table_ok s \<and> products.table_ok s \<and> devices.table_ok s \<and> groups.table_ok s \<and>
     rules.table_ok s \<and> configprofiles.table_ok s \<and> firmwareartifacts.table_ok s \<and> otacampaigns.table_ok s"

definition shadows_inv :: "(string \<times> DeviceShadow) list \<Rightarrow> bool" where
  "shadows_inv m \<longleftrightarrow> (\<forall>(d, sh) \<in> set m. sh_DeviceID sh = d \<and> cloneShadow sh = sh)"

definition telemetry_inv :: "(string \<times> Telemetry list) list \<Rightarrow> bool" where
  "telemetry_inv m \<longleftrightarrow> (\<forall>(d, tes) \<in> set m. \<forall>te \<in> set tes. tel_DeviceID te = d \<and> cloneTelemetry te = te)"

definition store_ok :: "Store \<Rightarrow> bool" where
  "store_ok s \<longleftrightarrow> tables_ok s \<and> shadows_inv (ms_shadows s) \<and> telemetry_inv (ms_telemetryByDevice s) \<and>
     commands_ok s \<and> members_ok s \<and> retention_ok s"

lemmas table_ok_defs = tenants.table_ok_def products.table_ok_def devices.table_ok_def
  groups.table_ok_def rules.table_ok_def configprofiles.table_ok_def
  firmwareartifacts.table_ok_def otacampaigns.table_ok_def

text \<open>The invariant, unfolded to the fields it speaks of: a write to one field leaves the rest.\<close>

lemmas store_parts = store_ok_def tables_ok_def table_ok_defs commands_ok_def members_ok_def retention_ok_def

lemmas mem_table_defs =
  mem_CreateTenant_def mem_SaveTenant_def mem_CreateProduct_def mem_SaveProduct_def
  mem_CreateDevice_def mem_SaveDevice_def mem_CreateGroup_def mem_SaveGroup_def
  mem_CreateRule_def mem_SaveRule_def mem_CreateConfigProfile_def mem_SaveConfigProfile_def
  mem_CreateFirmwareArtifact_def mem_SaveFirmwareArtifact_def
  mem_CreateOTACampaign_def mem_SaveOTACampaign_def

lemmas entries_updates = tenants.entries_ok_put products.entries_ok_put devices.entries_ok_put
  groups.entries_ok_put rules.entries_ok_put configprofiles.entries_ok_put
  firmwareartifacts.entries_ok_put otacampaigns.entries_ok_put

lemma store_ok_New: "store_ok (New n)"
  using retention_ok_New [of n]
  by (simp add: store_parts)
    (simp add: New_def Let_def tenants.entries_ok_Nil products.entries_ok_Nil devices.entries_ok_Nil
      groups.entries_ok_Nil rules.entries_ok_Nil configprofiles.entries_ok_Nil
      firmwareartifacts.entries_ok_Nil otacampaigns.entries_ok_Nil shadows_inv_def telemetry_inv_def
      commands_inv_def members_inv_def lookup_list_def)

lemma table_ops_ok [preserves_intros]:
  "preserves store_ok (mem_CreateTenant tn)" "preserves store_ok (mem_SaveTenant tn)"
  "preserves store_ok (mem_CreateProduct p)" "preserves store_ok (mem_SaveProduct p)"
  "preserves store_ok (mem_CreateRule r)" "preserves store_ok (mem_SaveRule r)"
  "preserves store_ok (mem_CreateConfigProfile cf)" "preserves store_ok (mem_SaveConfigProfile cf)"
  "preserves store_ok (mem_CreateFirmwareArtifact f)" "preserves store_ok (mem_SaveFirmwareArtifact f)"
  "preserves store_ok (mem_CreateOTACampaign c)" "preserves store_ok (mem_SaveOTACampaign c)"
  "preserves store_ok (mem_CreateDevice d)" "preserves store_ok (mem_SaveDevice d)"
  "preserves store_ok (mem_CreateGroup g)" "preserves store_ok (mem_SaveGroup g)"
  by (simp_all add: preserves_def mem_table_defs store_parts entries_updates members_inv_mono
      split: option.splits)

lemma shadows_inv_update:
  "shadows_inv m \<Longrightarrow> shadows_inv (AList.update (sh_DeviceID sh) (cloneShadow sh) m)"
  by (auto simp: shadows_inv_def clone_updates dest!: set_update_cases)

lemma telemetry_inv_update:
  assumes "telemetry_inv m" "\<forall>te \<in> set tes. tel_DeviceID te = d \<and> cloneTelemetry te = te"
  shows "telemetry_inv (AList.update d tes m)"
  using assms by (auto simp: telemetry_inv_def dest!: set_update_cases)

lemma telemetry_inv_lookup:
  "telemetry_inv m \<Longrightarrow> te \<in> set (lookup_list m d) \<Longrightarrow> tel_DeviceID te = d \<and> cloneTelemetry te = te"
  by (cases "map_of m d") (auto simp: telemetry_inv_def lookup_list_def dest!: map_of_SomeD)

lemma store_ok_AppendTelemetry [preserves_intros]: "preserves store_ok (mem_AppendTelemetry te)"
proof (rule preservesI)
  fix s assume s: "store_ok s"
  then have ret: "retention_ok (snd (mem_AppendTelemetry te s))"
    by (simp add: store_ok_def retention_ok_AppendTelemetry)
  let ?d = "tel_DeviceID te"
  let ?items = "lookup_list (ms_telemetryByDevice s) ?d @ [cloneTelemetry te]"
  have items: "\<forall>x \<in> set ?items. tel_DeviceID x = ?d \<and> cloneTelemetry x = x"
    using s telemetry_inv_lookup by (auto simp: store_ok_def clone_updates)
  then have "\<forall>x \<in> set (last_n n ?items). tel_DeviceID x = ?d \<and> cloneTelemetry x = x" for n
    unfolding last_n_def by (meson in_set_dropD)
  note last = this
  have "telemetry_inv (ms_telemetryByDevice s)" using s by (simp add: store_ok_def)
  from telemetry_inv_update [OF this items] telemetry_inv_update [OF this last]
  have "telemetry_inv (ms_telemetryByDevice (snd (mem_AppendTelemetry te s)))"
    by (simp add: mem_AppendTelemetry_def Let_def del: update.simps)
  with s ret show "store_ok (snd (mem_AppendTelemetry te s))"
    by (simp add: store_ok_def tables_ok_def table_ok_defs commands_ok_def members_ok_def
        mem_AppendTelemetry_def Let_def)
qed

lemma series_ops_ok [preserves_intros]:
  "preserves store_ok (mem_SaveShadow sh)"
  "preserves store_ok (mem_AddDeviceToGroup g d)" "preserves store_ok (mem_RemoveDeviceFromGroup g d)"
  "preserves store_ok (mem_SaveCommand c)" "preserves store_ok (mem_UpdateCommandStatus now i st r)"
  "preserves store_ok (mem_AppendAlert a)" "preserves store_ok (mem_SaveAlert a)"
proof -
  show "preserves store_ok (mem_SaveShadow sh)"
    by (simp add: preserves_def mem_SaveShadow_def store_parts shadows_inv_update)
  show "preserves store_ok (mem_AddDeviceToGroup g d)"
    using members_ok_add [of _ g d]
    by (simp add: preserves_def store_parts) (simp add: mem_AddDeviceToGroup_def)
  show "preserves store_ok (mem_RemoveDeviceFromGroup g d)"
    using members_ok_remove [of _ g d]
    by (simp add: preserves_def store_parts) (simp add: mem_RemoveDeviceFromGroup_def)
  show "preserves store_ok (mem_SaveCommand c)"
    using commands_ok_save [of _ c]
    by (simp add: preserves_def store_parts) (simp add: mem_SaveCommand_def)
  show "preserves store_ok (mem_UpdateCommandStatus now i st r)"
    using commands_ok_update [of _ now i st r]
    by (simp add: preserves_def store_parts)
      (simp add: mem_UpdateCommandStatus_def Let_def split: option.splits)
  show "preserves store_ok (mem_AppendAlert a)"
    using retention_ok_AppendAlert [of _ a]
    by (simp add: preserves_def store_parts) (simp add: mem_AppendAlert_def Let_def)
  show "preserves store_ok (mem_SaveAlert a)"
    using retention_ok_SaveAlert [of _ a]
    by (simp add: preserves_def store_parts) (simp add: mem_SaveAlert_def split: option.splits)
qed

section \<open>Restoring a snapshot\<close>

text \<open>What a restore changes in a well-formed store: the lists of the devices of a group are sorted.\<close>

definition sort_members :: "Store \<Rightarrow> Store" where
  "sort_members s = s\<lparr>ms_deviceIDsByGroup := map_values sort (ms_deviceIDsByGroup s)\<rparr>"

lemma map_values_id: "(\<And>k v. (k, v) \<in> set m \<Longrightarrow> f v = v) \<Longrightarrow> map_values f m = m"
  unfolding map_values_def by (rule map_idI) auto

lemma map_values_comp: "map_values f (map_values g m) = map_values (\<lambda>v. f (g v)) m"
  by (simp add: map_values_def comp_def case_prod_unfold)

lemma lookup_list_map_values: "f [] = [] \<Longrightarrow> lookup_list (map_values f m) k = f (lookup_list m k)"
  by (induction m) (auto simp: map_values_def lookup_list_def split: option.splits)

lemma restore_snapshot:
  assumes "store_ok s"
  shows "mem_Restore (mem_Snapshot s) s0 = sort_members s"
proof -
  have tabs: "map_values cloneTenant (ms_tenants s) = ms_tenants s"
    "map_values cloneProduct (ms_products s) = ms_products s"
    "map_values cloneDevice (ms_devices s) = ms_devices s"
    "map_values cloneGroup (ms_groups s) = ms_groups s"
    "map_values cloneRule (ms_rules s) = ms_rules s"
    "map_values cloneConfigProfile (ms_configProfiles s) = ms_configProfiles s"
    "map_values cloneFirmwareArtifact (ms_firmwareArtifacts s) = ms_firmwareArtifacts s"
    "map_values cloneOTACampaign (ms_otaCampaigns s) = ms_otaCampaigns s"
    using assms unfolding store_parts map_values_def
    by (simp_all only: tenants.entries_ok_map products.entries_ok_map devices.entries_ok_map
        groups.entries_ok_map rules.entries_ok_map configprofiles.entries_ok_map
        firmwareartifacts.entries_ok_map otacampaigns.entries_ok_map)
  have ser: "map_values cloneShadow (ms_shadows s) = ms_shadows s"
    "map_values (map cloneTelemetry) (ms_telemetryByDevice s) = ms_telemetryByDevice s"
    "map_values cloneCommand (ms_commandByID s) = ms_commandByID s"
    using assms
    by (auto intro!: map_values_id map_idI
        simp: store_parts shadows_inv_def telemetry_inv_def commands_inv_def)
  have ids: "map_values (\<lambda>v. v) m = m" for m :: "(string \<times> string list) list"
    by (rule map_values_id) simp
  have als: "map cloneAlert (ms_alerts s) = ms_alerts s" by (rule map_idI) simp
  have "0 < ms_telemetryRetention s" "0 < ms_alertRetention s"
    using assms by (simp_all add: store_ok_def retention_defs)
  then show ?thesis
    by (simp add: mem_Restore_def mem_Snapshot_def tabs ser als ids sort_members_def)
qed

lemma store_ok_sort_members:
  assumes "store_ok s"
  shows "store_ok (sort_members s)"
proof -
  have "members_ok s" using assms by (simp add: store_ok_def)
  then have "members_ok (sort_members s)"
    by (auto simp: members_ok_def members_inv_def sort_members_def lookup_list_map_values)
  with assms show ?thesis by (simp add: store_parts) (simp add: sort_members_def)
qed

text \<open>No read operation can tell the two stores apart.\<close>

lemma sort_members_unobservable:
  "mem_ListDeviceIDsByGroup g (sort_members s) = mem_ListDeviceIDsByGroup g s"
  "mem_ListGroupIDsByDevice d (sort_members s) = mem_ListGroupIDsByDevice d s"
  by (simp_all add: mem_ListDeviceIDsByGroup_def mem_ListGroupIDsByDevice_def lookup_list_map_values
      sort_members_def sorted_sort_id)

section \<open>The writes of the store\<close>

text \<open>
  The write operations of the store interfaces; the result of \<open>UpdateCommandStatus\<close> is dropped. Each
  keeps \<open>store_ok\<close>, and one that returns an error has changed nothing.
\<close>

inductive store_write :: "(Store, gerr, unit) op \<Rightarrow> bool" where
  "store_write (mem_CreateTenant tn)" | "store_write (mem_SaveTenant tn)"
| "store_write (mem_CreateProduct p)" | "store_write (mem_SaveProduct p)"
| "store_write (mem_CreateDevice d)" | "store_write (mem_SaveDevice d)"
| "store_write (mem_CreateGroup g)" | "store_write (mem_SaveGroup g)"
| "store_write (mem_CreateRule r)" | "store_write (mem_SaveRule r)"
| "store_write (mem_CreateConfigProfile cf)" | "store_write (mem_SaveConfigProfile cf)"
| "store_write (mem_CreateFirmwareArtifact f)" | "store_write (mem_SaveFirmwareArtifact f)"
| "store_write (mem_CreateOTACampaign c)" | "store_write (mem_SaveOTACampaign c)"
| "store_write (mem_AddDeviceToGroup gid did)" | "store_write (mem_RemoveDeviceFromGroup gid did)"
| "store_write (mem_AppendTelemetry te)" | "store_write (mem_SaveShadow sh)"
| "store_write (mem_SaveCommand cm)"
| "store_write (bindS (mem_UpdateCommandStatus now i st res) (\<lambda>_. retS ()))"
| "store_write (mem_AppendAlert a)" | "store_write (mem_SaveAlert a)"

lemma store_write_ok: "store_write m \<Longrightarrow> preserves store_ok m"
  by (induction rule: store_write.induct) (intro preserves_intros)+

lemma store_write_clean: "store_write m \<Longrightarrow> m s = (Inl e, t) \<Longrightarrow> t = s"
  by (induction rule: store_write.induct)
    (auto simp: mem_table_defs mem_AddDeviceToGroup_def mem_RemoveDeviceFromGroup_def
      mem_AppendTelemetry_def mem_SaveShadow_def mem_SaveCommand_def mem_UpdateCommandStatus_def
      mem_AppendAlert_def mem_SaveAlert_def Let_def bindS_def op_simps
      split: option.splits if_splits)

inductive store_reachable :: "Store \<Rightarrow> bool" where
  store_start: "store_reachable (New n)"
| store_step: "store_reachable s \<Longrightarrow> store_write m \<Longrightarrow> store_reachable (snd (m s))"

lemma store_reachable_ok: "store_reachable s \<Longrightarrow> store_ok s"
  by (induction rule: store_reachable.induct)
    (auto intro: store_ok_New preservesD store_write_ok)

end
