(* ===== verification/FileStore.thy ===== *)
theory FileStore
  imports Snapshot
begin

text \<open>
  The file-backed store (internal/store/file/store.go). Every write goes through \<open>mutate\<close>: snapshot the
  memory store, apply the operation to it, write the whole store to disk, roll back when that fails.

  The disk is a \<open>Disk\<close> (the file at \<open>s.path\<close>, the temporary file); \<open>fs_history\<close> records every disk
  the calls of \<open>writeSnapshotFile\<close> went through, so a crash between two of its steps is a member of
  that list. The outcome of each system call is a parameter (\<open>fe_fault\<close>: which step of which call
  fails, and how), as are the text codec of \<open>encoding/json\<close> and the clock. \<open>mutateMu\<close> makes a write
  one step, so operations are functions on the state.
\<close>

section \<open>State\<close>

record PersistedSnapshot =
  ps_Version :: int
  ps_SavedAt :: time
  ps_Snapshot :: SnapshotData

datatype FileStep = MkdirAll | CreateTemp | TmpWrite | TmpSync | TmpClose | RenameTmp

record FsEnv =
  fe_marshal :: "PersistedSnapshot \<Rightarrow> string res"
  fe_unmarshal :: "string \<Rightarrow> PersistedSnapshot res"
  fe_fault :: "nat \<Rightarrow> FileStep \<Rightarrow> gerr option"
  fe_now :: "nat \<Rightarrow> time"

record Disk =
  dk_file :: "string option"
  dk_tmp :: "string option"

record FileStore =
  fs_path :: string
  fs_inner :: Store
  fs_lastPersistedAt :: time
  fs_persistErrors :: nat
  fs_afterPersist :: bool
  fs_disk :: Disk
  fs_history :: "Disk list"
  fs_writes :: nat
  fs_pushed :: "string list"

text \<open>One change of the disk, recorded.\<close>

definition on_disk :: "(Disk \<Rightarrow> Disk) \<Rightarrow> (FileStore, gerr, unit) op" where
  "on_disk g s = (let d = g (fs_disk s) in (Inr (), s\<lparr>fs_disk := d, fs_history := d # fs_history s\<rparr>))"

text \<open>A system call that may fail; on failure the given clean-up runs and the error is counted.\<close>

definition step :: "FsEnv \<Rightarrow> FileStep \<Rightarrow> (FileStore, gerr, unit) op \<Rightarrow> (FileStore, gerr, unit) op" where
  "step env k cleanup s =
     (case fe_fault env (fs_writes s) k of
        None \<Rightarrow> (Inr (), s)
      | Some e \<Rightarrow> bindS cleanup (\<lambda>_. bindS (modS (\<lambda>s. s\<lparr>fs_persistErrors := Suc (fs_persistErrors s)\<rparr>))
          (\<lambda>_. errS e)) s)"

definition remove_tmp :: "(FileStore, gerr, unit) op" where
  "remove_tmp = on_disk (\<lambda>d. d\<lparr>dk_tmp := None\<rparr>)"

section \<open>Writing a snapshot\<close>

definition writeSnapshotFile :: "FsEnv \<Rightarrow> string \<Rightarrow> time \<Rightarrow> (FileStore, gerr, unit) op" where
  "writeSnapshotFile env data savedAt =
     bindS (modS (\<lambda>s. s\<lparr>fs_writes := Suc (fs_writes s)\<rparr>)) (\<lambda>_.
     bindS (step env MkdirAll (retS ())) (\<lambda>_.
     bindS (step env CreateTemp (retS ())) (\<lambda>_.
     bindS (on_disk (\<lambda>d. d\<lparr>dk_tmp := Some []\<rparr>)) (\<lambda>_.
     bindS (step env TmpWrite remove_tmp) (\<lambda>_.
     bindS (on_disk (\<lambda>d. d\<lparr>dk_tmp := Some data\<rparr>)) (\<lambda>_.
     bindS (step env TmpSync remove_tmp) (\<lambda>_.
     bindS (step env TmpClose remove_tmp) (\<lambda>_.
     bindS (on_disk (\<lambda>d. d\<lparr>dk_file := None\<rparr>)) (\<lambda>_.
     bindS (step env RenameTmp remove_tmp) (\<lambda>_.
     bindS (on_disk (\<lambda>d. \<lparr>dk_file = dk_tmp d, dk_tmp = None\<rparr>)) (\<lambda>_.
     modS (\<lambda>s. s\<lparr>fs_lastPersistedAt := savedAt\<rparr>))))))))))))"

text \<open>\<open>persist\<close> reads the clock, snapshots, marshals and writes; it returns the bytes written.\<close>

definition persist :: "FsEnv \<Rightarrow> (FileStore, gerr, string) op" where
  "persist env s =
     (let snapshot = \<lparr>ps_Version = 1, ps_SavedAt = fe_now env (fs_writes s),
        ps_Snapshot = mem_Snapshot (fs_inner s)\<rparr> in
      case fe_marshal env snapshot of
        Inl e \<Rightarrow> (Inl e, s\<lparr>fs_persistErrors := Suc (fs_persistErrors s)\<rparr>)
      | Inr data \<Rightarrow> bindS (writeSnapshotFile env data (ps_SavedAt snapshot)) (\<lambda>_. retS data) s)"

definition on_inner :: "(Store, 'e, 'a) op \<Rightarrow> (FileStore, 'e, 'a) op" where
  "on_inner m s = (case m (fs_inner s) of (r, t) \<Rightarrow> (r, s\<lparr>fs_inner := t\<rparr>))"

text \<open>The bytes handed to the hook are recorded; the hook itself runs in its own goroutine.\<close>

definition mutate :: "FsEnv \<Rightarrow> (Store, gerr, 'a) op \<Rightarrow> (FileStore, gerr, 'a) op" where
  "mutate env apply s =
     (let rollback = mem_Snapshot (fs_inner s) in
      bindS (on_inner apply) (\<lambda>a.
      tryS (persist env) (\<lambda>r. case r of
        Inl e \<Rightarrow> bindS (modS (\<lambda>s. s\<lparr>fs_inner := mem_Restore rollback (fs_inner s)\<rparr>)) (\<lambda>_. errS e)
      | Inr data \<Rightarrow> bindS (modS (\<lambda>s. if fs_afterPersist s then s\<lparr>fs_pushed := fs_pushed s @ [data]\<rparr> else s))
          (\<lambda>_. retS a))) s)"

definition decodeSnapshot :: "FsEnv \<Rightarrow> string \<Rightarrow> PersistedSnapshot res" where
  "decodeSnapshot env data = fe_unmarshal env data"

definition ApplyReplicaSnapshot :: "FsEnv \<Rightarrow> string \<Rightarrow> (FileStore, gerr, unit) op" where
  "ApplyReplicaSnapshot env data =
     bindS (liftE (decodeSnapshot env data)) (\<lambda>snapshot.
     bindS (writeSnapshotFile env data (ps_SavedAt snapshot)) (\<lambda>_.
     modS (\<lambda>s. s\<lparr>fs_inner := mem_Restore (ps_Snapshot snapshot) (fs_inner s)\<rparr>)))"

text \<open>\<open>read\<close> is the outcome of \<open>os.ReadFile\<close>: \<open>Inr None\<close> when the file does not exist.\<close>

definition load :: "FsEnv \<Rightarrow> string option res \<Rightarrow> (FileStore, gerr, unit) op" where
  "load env read =
     (case read of
        Inl e \<Rightarrow> errS e
      | Inr None \<Rightarrow> retS ()
      | Inr (Some data) \<Rightarrow>
          bindS (liftE (decodeSnapshot env data)) (\<lambda>snapshot.
          modS (\<lambda>s. s\<lparr>fs_inner := mem_Restore (ps_Snapshot snapshot) (fs_inner s),
            fs_lastPersistedAt := ps_SavedAt snapshot\<rparr>)))"

definition file_New :: "FsEnv \<Rightarrow> string \<Rightarrow> int \<Rightarrow> string option res \<Rightarrow> FileStore res" where
  "file_New env path telemetryRetention read =
     (if path = [] then Inl (EOther ''persistence path is required'')
      else (let store = \<lparr>fs_path = path, fs_inner = New telemetryRetention, fs_lastPersistedAt = 0,
              fs_persistErrors = 0, fs_afterPersist = False,
              fs_disk = \<lparr>dk_file = (case read of Inl _ \<Rightarrow> None | Inr d \<Rightarrow> d), dk_tmp = None\<rparr>,
              fs_history = [], fs_writes = 0, fs_pushed = []\<rparr>
            in case load env read store of (Inl e, _) \<Rightarrow> Inl e | (Inr _, s) \<Rightarrow> Inr s))"

definition SetAfterPersistHook :: "bool \<Rightarrow> (FileStore, gerr, unit) op" where
  "SetAfterPersistHook hook = modS (\<lambda>s. s\<lparr>fs_afterPersist := hook\<rparr>)"

definition file_StorageStats :: "FileStore \<Rightarrow> StorageStats res" where
  "file_StorageStats s =
     bindE (mem_StorageStats (fs_inner s)) (\<lambda>stats.
       let stats = stats\<lparr>ss_Backend := ''file'', ss_PersistencePath := fs_path s\<rparr>;
           stats = (if \<not> time_IsZero (fs_lastPersistedAt s)
                    then stats\<lparr>ss_LastPersistedAt := Some (fs_lastPersistedAt s)\<rparr> else stats) in
       Inr (stats\<lparr>ss_PersistErrors := fs_persistErrors s\<rparr>))"

section \<open>What a write does to the disk\<close>

lemmas file_defs = on_disk_def step_def remove_tmp_def Let_def

text \<open>The first step of a write that fails, if any.\<close>

lemma first_fault:
  fixes f :: "FileStep \<Rightarrow> gerr option"
  obtains (mkdir) e where "f MkdirAll = Some e"
  | (create) e where "f MkdirAll = None" "f CreateTemp = Some e"
  | (wr) e where "f MkdirAll = None" "f CreateTemp = None" "f TmpWrite = Some e"
  | (sync) e where "f MkdirAll = None" "f CreateTemp = None" "f TmpWrite = None" "f TmpSync = Some e"
  | (close) e where "f MkdirAll = None" "f CreateTemp = None" "f TmpWrite = None" "f TmpSync = None"
      "f TmpClose = Some e"
  | (rename) e where "f MkdirAll = None" "f CreateTemp = None" "f TmpWrite = None" "f TmpSync = None"
      "f TmpClose = None" "f RenameTmp = Some e"
  | (none) "f MkdirAll = None" "f CreateTemp = None" "f TmpWrite = None" "f TmpSync = None"
      "f TmpClose = None" "f RenameTmp = None"
  by (metis option.exhaust)

lemmas write_simps = writeSnapshotFile_def on_disk_def step_def remove_tmp_def Let_def op_simps bindS_def

text \<open>The three outcomes of a write.\<close>

lemma writeSnapshotFile_cases:
  assumes "writeSnapshotFile env data savedAt s = (r, s')"
  obtains (ok) "r = Inr ()" "dk_file (fs_disk s') = Some data" "fs_lastPersistedAt s' = savedAt"
      "fs_persistErrors s' = fs_persistErrors s" "fe_fault env (Suc (fs_writes s)) RenameTmp = None"
  | (before) k e where "r = Inl e" "k \<noteq> RenameTmp" "fe_fault env (Suc (fs_writes s)) k = Some e"
      "dk_file (fs_disk s') = dk_file (fs_disk s)" "fs_lastPersistedAt s' = fs_lastPersistedAt s"
      "fs_persistErrors s' = Suc (fs_persistErrors s)"
  | (renamed) e where "r = Inl e" "fe_fault env (Suc (fs_writes s)) RenameTmp = Some e"
      "dk_file (fs_disk s') = None" "fs_lastPersistedAt s' = fs_lastPersistedAt s"
      "fs_persistErrors s' = Suc (fs_persistErrors s)"
proof (cases rule: first_fault [of "fe_fault env (Suc (fs_writes s))"])
  case (mkdir e) with assms show thesis by (intro before [of e MkdirAll]) (auto simp: write_simps)
next
  case (create e) with assms show thesis by (intro before [of e CreateTemp]) (auto simp: write_simps)
next
  case (wr e) with assms show thesis by (intro before [of e TmpWrite]) (auto simp: write_simps)
next
  case (sync e) with assms show thesis by (intro before [of e TmpSync]) (auto simp: write_simps)
next
  case (close e) with assms show thesis by (intro before [of e TmpClose]) (auto simp: write_simps)
next
  case (rename e') with assms show thesis by (intro renamed [of e']) (auto simp: write_simps)
next
  case none with assms show thesis by (intro ok) (auto simp: write_simps)
qed

lemma writeSnapshotFile_frame:
  assumes "writeSnapshotFile env data savedAt s = (r, s')"
  shows "fs_inner s' = fs_inner s" "fs_path s' = fs_path s" "fs_afterPersist s' = fs_afterPersist s"
    "fs_pushed s' = fs_pushed s" "fs_writes s' = Suc (fs_writes s)"
  using assms
  by (cases rule: first_fault [of "fe_fault env (Suc (fs_writes s))"], auto simp: write_simps)+

text \<open>Nothing is left behind: a write that finds no temporary file leaves none.\<close>

lemma writeSnapshotFile_tmp:
  assumes "writeSnapshotFile env data savedAt s = (r, s')" "dk_tmp (fs_disk s) = None"
  shows "dk_tmp (fs_disk s') = None"
  using assms by (cases rule: first_fault [of "fe_fault env (Suc (fs_writes s))"], auto simp: write_simps)

text \<open>
  Every disk a write goes through holds the old file or the new bytes, complete, or else no file: the
  window the removal before the rename opens. In it the complete new bytes are in the temporary file,
  unless the rename failed and the clean-up removed them too.
\<close>

definition disk_steps :: "FileStore \<Rightarrow> FileStore \<Rightarrow> Disk list" where
  "disk_steps s s' = take (length (fs_history s') - length (fs_history s)) (fs_history s')"

lemma writeSnapshotFile_steps:
  assumes "writeSnapshotFile env data savedAt s = (r, s')" "d \<in> set (disk_steps s s')"
  shows "dk_file d = dk_file (fs_disk s) \<or> dk_file d = Some data \<or>
    (dk_file d = None \<and> (dk_tmp d = Some data \<or> fe_fault env (Suc (fs_writes s)) RenameTmp \<noteq> None))"
  using assms
  by (cases rule: first_fault [of "fe_fault env (Suc (fs_writes s))"])
    (auto simp: write_simps disk_steps_def)

section \<open>Transactions\<close>

lemmas mutate_defs = mutate_def persist_def on_inner_def

lemma mem_Restore_id: "store_ok s \<Longrightarrow> mem_Restore (mem_Snapshot s) t = sort_members s"
  by (rule restore_snapshot)

text \<open>
  The outcome of a write to the file store: the operation's own error with the store it leaves, or its
  result with the new snapshot in the file, or the error of the persistence with the old store.
\<close>

lemma mutate_cases:
  assumes "mutate env apply s = (r, s')" "store_ok (fs_inner s)" "apply (fs_inner s) = (ra, t)"
  obtains (refused) e where "ra = Inl e" "r = Inl e" "s' = s\<lparr>fs_inner := t\<rparr>"
  | (stored) a data ps where "ra = Inr a" "r = Inr a" "fs_inner s' = t" "dk_file (fs_disk s') = Some data"
      "fe_marshal env ps = Inr data" "ps_Snapshot ps = mem_Snapshot t" "fs_lastPersistedAt s' = ps_SavedAt ps"
      "fs_persistErrors s' = fs_persistErrors s"
      "fs_pushed s' = (if fs_afterPersist s then fs_pushed s @ [data] else fs_pushed s)"
  | (failed) a e where "ra = Inr a" "r = Inl e" "fs_inner s' = sort_members (fs_inner s)"
      "fs_lastPersistedAt s' = fs_lastPersistedAt s" "fs_persistErrors s' = Suc (fs_persistErrors s)"
      "fs_pushed s' = fs_pushed s"
      "dk_file (fs_disk s') = dk_file (fs_disk s) \<or>
        dk_file (fs_disk s') = None \<and> fe_fault env (Suc (fs_writes s)) RenameTmp = Some e"
proof (cases ra)
  case (Inl e)
  with assms show thesis by (intro refused [of e]) (auto simp: mutate_defs Let_def bindS_def)
next
  case (Inr a)
  let ?ps = "\<lparr>ps_Version = 1, ps_SavedAt = fe_now env (fs_writes s), ps_Snapshot = mem_Snapshot t\<rparr>"
  show thesis
  proof (cases "fe_marshal env ?ps")
    case m: (Inl e)
    with assms Inr show thesis
      by (intro failed [of a e])
        (auto simp: mutate_defs Let_def bindS_def tryS_def op_simps restore_snapshot)
  next
    case m: (Inr data)
    obtain w u where wu: "writeSnapshotFile env data (fe_now env (fs_writes s)) (s\<lparr>fs_inner := t\<rparr>) = (w, u)"
      by fastforce
    note frame = writeSnapshotFile_frame [OF wu]
    show thesis
    proof (cases w)
      case (Inr _)
      then have w: "w = Inr ()" by simp
      have u: "dk_file (fs_disk u) = Some data" "fs_lastPersistedAt u = fe_now env (fs_writes s)"
        "fs_persistErrors u = fs_persistErrors s"
        by (rule writeSnapshotFile_cases [OF wu]; use w in simp)+
      show thesis
        using assms \<open>ra = Inr a\<close> m wu w u frame
        by (intro stored [of a data ?ps])
          (auto simp: mutate_defs Let_def bindS_def tryS_def op_simps split: if_splits)
    next
      case (Inl e)
      have u: "fs_lastPersistedAt u = fs_lastPersistedAt s" "fs_persistErrors u = Suc (fs_persistErrors s)"
        "dk_file (fs_disk u) = dk_file (fs_disk s) \<or>
          dk_file (fs_disk u) = None \<and> fe_fault env (Suc (fs_writes s)) RenameTmp = Some e"
        by (rule writeSnapshotFile_cases [OF wu]; use Inl in simp)+
      show thesis
        using assms \<open>ra = Inr a\<close> m wu Inl u frame
        by (intro failed [of a e])
          (auto simp: mutate_defs Let_def bindS_def tryS_def op_simps restore_snapshot)
    qed
  qed
qed

lemma mutate_ok:
  assumes "store_ok (fs_inner s)" "mutate env m s = (Inr a, s')"
  shows "m (fs_inner s) = (Inr a, fs_inner s')"
proof -
  obtain ra t where m: "m (fs_inner s) = (ra, t)" by fastforce
  from mutate_cases [OF assms(2,1) m] show ?thesis by cases (use m in auto)
qed

lemma mutate_err:
  assumes "store_ok (fs_inner s)" "mutate env m s = (Inl e, s')"
  shows "m (fs_inner s) = (Inl e, fs_inner s') \<or> fs_inner s' = sort_members (fs_inner s)"
proof -
  obtain ra t where m: "m (fs_inner s) = (ra, t)" by fastforce
  from mutate_cases [OF assms(2,1) m] show ?thesis by cases (use m in auto)
qed

end
