(* ===== verification/Backend.thy ===== *)
theory Backend
  imports FileStore
begin

text \<open>
  The store the service works on: the memory store or the file store, chosen by \<open>newStorage\<close> of
  internal/app/app.go. The interfaces of internal/store/store.go are the functions \<open>st_*\<close>: a read asks
  the memory store, a write runs the operation of the memory store directly or inside \<open>mutate\<close>. The
  locale \<open>write_backend\<close> is what the service may rely on of a write.
\<close>

datatype Backend = MemoryBackend Store | FileBackend FileStore

primrec store_of :: "Backend \<Rightarrow> Store" where
  "store_of (MemoryBackend s) = s"
| "store_of (FileBackend f) = fs_inner f"

definition newStorage :: "FsEnv \<Rightarrow> string \<Rightarrow> string \<Rightarrow> int \<Rightarrow> string option res \<Rightarrow> Backend res" where
  "newStorage env StoreBackend StorePath telemetryRetention read =
     (let backend = to_lower (trim_space StoreBackend) in
      if backend = [] \<or> backend = ''memory'' then Inr (MemoryBackend (New telemetryRetention))
      else if backend = ''file'' \<or> backend = ''json'' then
        bindE (file_New env StorePath telemetryRetention read) (\<lambda>store. Inr (FileBackend store))
      else Inl (EOther (''unsupported store backend '' @ StoreBackend)))"

definition st_write :: "FsEnv \<Rightarrow> (Store, gerr, 'a) op \<Rightarrow> (Backend, gerr, 'a) op" where
  "st_write env m b =
     (case b of
        MemoryBackend s \<Rightarrow> (case m s of (r, t) \<Rightarrow> (r, MemoryBackend t))
      | FileBackend f \<Rightarrow> (case mutate env m f of (r, g) \<Rightarrow> (r, FileBackend g)))"

section \<open>What a write promises\<close>

locale write_backend =
  fixes wr :: "(Store, gerr, 'a) op \<Rightarrow> ('b, gerr, 'a) op"
    and inner :: "'b \<Rightarrow> Store"
  assumes write_ok: "store_ok (inner b) \<Longrightarrow> wr m b = (Inr a, b') \<Longrightarrow> m (inner b) = (Inr a, inner b')"
    and write_err: "store_ok (inner b) \<Longrightarrow> wr m b = (Inl e, b') \<Longrightarrow>
      m (inner b) = (Inl e, inner b') \<or> inner b' = sort_members (inner b)"
begin

lemma write_invariant: "preserves store_ok m \<Longrightarrow> store_ok (inner b) \<Longrightarrow> store_ok (inner (snd (wr m b)))"
proof (cases "wr m b")
  case (Pair r b')
  assume m: "preserves store_ok m" and b: "store_ok (inner b)"
  show ?thesis
  proof (cases r)
    case (Inl e)
    with write_err [OF b, of m e b'] Pair preserves_pair [OF m b] store_ok_sort_members [OF b]
    show ?thesis by auto
  next
    case (Inr a)
    with write_ok [OF b, of m a b'] Pair preserves_pair [OF m b] show ?thesis by auto
  qed
qed

text \<open>An operation that changes nothing when it fails is all or nothing on the backend.\<close>

lemma write_atomic:
  assumes "store_ok (inner b)" "wr m b = (Inl e, b')" "\<And>s e t. m s = (Inl e, t) \<Longrightarrow> t = s"
  shows "inner b' = inner b \<or> inner b' = sort_members (inner b)"
  using write_err [OF assms(1,2)] assms(3) by blast

text \<open>A property that sorting the group lists keeps is kept by a write the operation keeps it for.\<close>

lemma write_keeps:
  assumes "store_ok (inner b)" "P (inner b)" "P (sort_members (inner b))" "P (snd (m (inner b)))"
  shows "P (inner (snd (wr m b)))"
proof (cases "wr m b")
  case (Pair r b')
  with assms write_ok [OF assms(1), of m _ b'] write_err [OF assms(1), of m _ b'] show ?thesis
    by (cases r) (force+)
qed

end

interpretation file_write: write_backend "mutate env :: (Store, gerr, 'a) op \<Rightarrow> _" fs_inner for env
  by unfold_locales (auto dest: mutate_ok mutate_err)

lemma st_write_ok:
  "store_ok (store_of b) \<Longrightarrow> st_write env m b = (Inr a, b') \<Longrightarrow> m (store_of b) = (Inr a, store_of b')"
  by (cases b) (auto simp: st_write_def split: prod.splits dest: mutate_ok)

lemma st_write_err:
  "store_ok (store_of b) \<Longrightarrow> st_write env m b = (Inl e, b') \<Longrightarrow>
    m (store_of b) = (Inl e, store_of b') \<or> store_of b' = sort_members (store_of b)"
  by (cases b) (auto simp: st_write_def split: prod.splits dest: mutate_err)

interpretation backend_write: write_backend "st_write env :: (Store, gerr, 'a) op \<Rightarrow> _" store_of for env
  by unfold_locales (auto dest: st_write_ok st_write_err)

lemma st_write_preserves [preserves_intros]:
  "preserves store_ok m \<Longrightarrow> preserves (\<lambda>b. store_ok (store_of b)) (st_write env m)"
  by (rule preservesI) (rule backend_write.write_invariant)

section \<open>The interfaces\<close>

definition st_CreateTenant :: "FsEnv \<Rightarrow> Tenant \<Rightarrow> (Backend, gerr, unit) op" where
  "st_CreateTenant env tenant = st_write env (mem_CreateTenant tenant)"

definition st_GetTenant :: "string \<Rightarrow> Backend \<Rightarrow> Tenant res" where
  "st_GetTenant tenantID b = mem_GetTenant tenantID (store_of b)"

definition st_ListTenants :: "Backend \<Rightarrow> Tenant list res" where
  "st_ListTenants b = mem_ListTenants (store_of b)"

definition st_SaveTenant :: "FsEnv \<Rightarrow> Tenant \<Rightarrow> (Backend, gerr, unit) op" where
  "st_SaveTenant env tenant = st_write env (mem_SaveTenant tenant)"

definition st_CreateProduct :: "FsEnv \<Rightarrow> Product \<Rightarrow> (Backend, gerr, unit) op" where
  "st_CreateProduct env product = st_write env (mem_CreateProduct product)"

definition st_GetProduct :: "string \<Rightarrow> Backend \<Rightarrow> Product res" where
  "st_GetProduct productID b = mem_GetProduct productID (store_of b)"

definition st_ListProducts :: "Backend \<Rightarrow> Product list res" where
  "st_ListProducts b = mem_ListProducts (store_of b)"

definition st_SaveProduct :: "FsEnv \<Rightarrow> Product \<Rightarrow> (Backend, gerr, unit) op" where
  "st_SaveProduct env product = st_write env (mem_SaveProduct product)"

definition st_CreateDevice :: "FsEnv \<Rightarrow> Device \<Rightarrow> (Backend, gerr, unit) op" where
  "st_CreateDevice env device = st_write env (mem_CreateDevice device)"

definition st_GetDevice :: "string \<Rightarrow> Backend \<Rightarrow> Device res" where
  "st_GetDevice deviceID b = mem_GetDevice deviceID (store_of b)"

definition st_ListDevices :: "Backend \<Rightarrow> Device list res" where
  "st_ListDevices b = mem_ListDevices (store_of b)"

definition st_SaveDevice :: "FsEnv \<Rightarrow> Device \<Rightarrow> (Backend, gerr, unit) op" where
  "st_SaveDevice env device = st_write env (mem_SaveDevice device)"

definition st_CreateGroup :: "FsEnv \<Rightarrow> DeviceGroup \<Rightarrow> (Backend, gerr, unit) op" where
  "st_CreateGroup env grp = st_write env (mem_CreateGroup grp)"

definition st_GetGroup :: "string \<Rightarrow> Backend \<Rightarrow> DeviceGroup res" where
  "st_GetGroup grpID b = mem_GetGroup grpID (store_of b)"

definition st_ListGroups :: "Backend \<Rightarrow> DeviceGroup list res" where
  "st_ListGroups b = mem_ListGroups (store_of b)"

definition st_SaveGroup :: "FsEnv \<Rightarrow> DeviceGroup \<Rightarrow> (Backend, gerr, unit) op" where
  "st_SaveGroup env grp = st_write env (mem_SaveGroup grp)"

definition st_CreateRule :: "FsEnv \<Rightarrow> Rule \<Rightarrow> (Backend, gerr, unit) op" where
  "st_CreateRule env rule = st_write env (mem_CreateRule rule)"

definition st_GetRule :: "string \<Rightarrow> Backend \<Rightarrow> Rule res" where
  "st_GetRule ruleID b = mem_GetRule ruleID (store_of b)"

definition st_ListRules :: "Backend \<Rightarrow> Rule list res" where
  "st_ListRules b = mem_ListRules (store_of b)"

definition st_SaveRule :: "FsEnv \<Rightarrow> Rule \<Rightarrow> (Backend, gerr, unit) op" where
  "st_SaveRule env rule = st_write env (mem_SaveRule rule)"

definition st_CreateConfigProfile :: "FsEnv \<Rightarrow> ConfigProfile \<Rightarrow> (Backend, gerr, unit) op" where
  "st_CreateConfigProfile env profile = st_write env (mem_CreateConfigProfile profile)"

definition st_GetConfigProfile :: "string \<Rightarrow> Backend \<Rightarrow> ConfigProfile res" where
  "st_GetConfigProfile profileID b = mem_GetConfigProfile profileID (store_of b)"

definition st_ListConfigProfiles :: "Backend \<Rightarrow> ConfigProfile list res" where
  "st_ListConfigProfiles b = mem_ListConfigProfiles (store_of b)"

definition st_SaveConfigProfile :: "FsEnv \<Rightarrow> ConfigProfile \<Rightarrow> (Backend, gerr, unit) op" where
  "st_SaveConfigProfile env profile = st_write env (mem_SaveConfigProfile profile)"

definition st_CreateFirmwareArtifact :: "FsEnv \<Rightarrow> FirmwareArtifact \<Rightarrow> (Backend, gerr, unit) op" where
  "st_CreateFirmwareArtifact env artifact = st_write env (mem_CreateFirmwareArtifact artifact)"

definition st_GetFirmwareArtifact :: "string \<Rightarrow> Backend \<Rightarrow> FirmwareArtifact res" where
  "st_GetFirmwareArtifact artifactID b = mem_GetFirmwareArtifact artifactID (store_of b)"

definition st_ListFirmwareArtifacts :: "Backend \<Rightarrow> FirmwareArtifact list res" where
  "st_ListFirmwareArtifacts b = mem_ListFirmwareArtifacts (store_of b)"

definition st_SaveFirmwareArtifact :: "FsEnv \<Rightarrow> FirmwareArtifact \<Rightarrow> (Backend, gerr, unit) op" where
  "st_SaveFirmwareArtifact env artifact = st_write env (mem_SaveFirmwareArtifact artifact)"

definition st_CreateOTACampaign :: "FsEnv \<Rightarrow> OTACampaign \<Rightarrow> (Backend, gerr, unit) op" where
  "st_CreateOTACampaign env campaign = st_write env (mem_CreateOTACampaign campaign)"

definition st_GetOTACampaign :: "string \<Rightarrow> Backend \<Rightarrow> OTACampaign res" where
  "st_GetOTACampaign campaignID b = mem_GetOTACampaign campaignID (store_of b)"

definition st_ListOTACampaigns :: "Backend \<Rightarrow> OTACampaign list res" where
  "st_ListOTACampaigns b = mem_ListOTACampaigns (store_of b)"

definition st_SaveOTACampaign :: "FsEnv \<Rightarrow> OTACampaign \<Rightarrow> (Backend, gerr, unit) op" where
  "st_SaveOTACampaign env campaign = st_write env (mem_SaveOTACampaign campaign)"

definition st_AddDeviceToGroup :: "FsEnv \<Rightarrow> string \<Rightarrow> string \<Rightarrow> (Backend, gerr, unit) op" where
  "st_AddDeviceToGroup env groupID deviceID = st_write env (mem_AddDeviceToGroup groupID deviceID)"

definition st_RemoveDeviceFromGroup :: "FsEnv \<Rightarrow> string \<Rightarrow> string \<Rightarrow> (Backend, gerr, unit) op" where
  "st_RemoveDeviceFromGroup env groupID deviceID = st_write env (mem_RemoveDeviceFromGroup groupID deviceID)"

definition st_ListGroupIDsByDevice :: "string \<Rightarrow> Backend \<Rightarrow> string list res" where
  "st_ListGroupIDsByDevice deviceID b = mem_ListGroupIDsByDevice deviceID (store_of b)"

definition st_ListDeviceIDsByGroup :: "string \<Rightarrow> Backend \<Rightarrow> string list res" where
  "st_ListDeviceIDsByGroup groupID b = mem_ListDeviceIDsByGroup groupID (store_of b)"

definition st_AppendTelemetry :: "FsEnv \<Rightarrow> Telemetry \<Rightarrow> (Backend, gerr, unit) op" where
  "st_AppendTelemetry env telemetry = st_write env (mem_AppendTelemetry telemetry)"

definition st_ListTelemetryByDevice :: "string \<Rightarrow> int \<Rightarrow> Backend \<Rightarrow> Telemetry list res" where
  "st_ListTelemetryByDevice deviceID limit b = mem_ListTelemetryByDevice deviceID limit (store_of b)"

definition st_SaveShadow :: "FsEnv \<Rightarrow> DeviceShadow \<Rightarrow> (Backend, gerr, unit) op" where
  "st_SaveShadow env shadow = st_write env (mem_SaveShadow shadow)"

definition st_GetShadow :: "string \<Rightarrow> Backend \<Rightarrow> DeviceShadow res" where
  "st_GetShadow deviceID b = mem_GetShadow deviceID (store_of b)"

definition st_SaveCommand :: "FsEnv \<Rightarrow> Command \<Rightarrow> (Backend, gerr, unit) op" where
  "st_SaveCommand env command = st_write env (mem_SaveCommand command)"

definition st_GetCommand :: "string \<Rightarrow> Backend \<Rightarrow> Command res" where
  "st_GetCommand commandID b = mem_GetCommand commandID (store_of b)"

definition st_UpdateCommandStatus ::
    "FsEnv \<Rightarrow> time \<Rightarrow> string \<Rightarrow> CommandStatus \<Rightarrow> string \<Rightarrow> (Backend, gerr, Command) op" where
  "st_UpdateCommandStatus env now commandID status result =
     st_write env (mem_UpdateCommandStatus now commandID status result)"

definition st_ListCommandsByDevice :: "string \<Rightarrow> int \<Rightarrow> Backend \<Rightarrow> Command list res" where
  "st_ListCommandsByDevice deviceID limit b = mem_ListCommandsByDevice deviceID limit (store_of b)"

definition st_AppendAlert :: "FsEnv \<Rightarrow> AlertEvent \<Rightarrow> (Backend, gerr, unit) op" where
  "st_AppendAlert env alert = st_write env (mem_AppendAlert alert)"

definition st_GetAlert :: "string \<Rightarrow> Backend \<Rightarrow> AlertEvent res" where
  "st_GetAlert alertID b = mem_GetAlert alertID (store_of b)"

definition st_SaveAlert :: "FsEnv \<Rightarrow> AlertEvent \<Rightarrow> (Backend, gerr, unit) op" where
  "st_SaveAlert env alert = st_write env (mem_SaveAlert alert)"

definition st_ListAlerts :: "int \<Rightarrow> Backend \<Rightarrow> AlertEvent list res" where
  "st_ListAlerts limit b = mem_ListAlerts limit (store_of b)"

definition st_BackendName :: "Backend \<Rightarrow> string" where
  "st_BackendName b = (case b of MemoryBackend _ \<Rightarrow> ''memory'' | FileBackend _ \<Rightarrow> ''file'')"

definition st_PersistencePath :: "Backend \<Rightarrow> string" where
  "st_PersistencePath b = (case b of MemoryBackend _ \<Rightarrow> [] | FileBackend f \<Rightarrow> fs_path f)"

definition st_StorageStats :: "Backend \<Rightarrow> StorageStats res" where
  "st_StorageStats b = (case b of MemoryBackend s \<Rightarrow> mem_StorageStats s | FileBackend f \<Rightarrow> file_StorageStats f)"

lemmas st_write_defs =
  st_CreateTenant_def st_SaveTenant_def st_CreateProduct_def st_SaveProduct_def
  st_CreateDevice_def st_SaveDevice_def st_CreateGroup_def st_SaveGroup_def
  st_CreateRule_def st_SaveRule_def st_CreateConfigProfile_def st_SaveConfigProfile_def
  st_CreateFirmwareArtifact_def st_SaveFirmwareArtifact_def st_CreateOTACampaign_def st_SaveOTACampaign_def
  st_AddDeviceToGroup_def st_RemoveDeviceFromGroup_def st_AppendTelemetry_def st_SaveShadow_def
  st_SaveCommand_def st_UpdateCommandStatus_def st_AppendAlert_def st_SaveAlert_def

lemmas st_read_defs =
  st_GetTenant_def st_ListTenants_def st_GetProduct_def st_ListProducts_def
  st_GetDevice_def st_ListDevices_def st_GetGroup_def st_ListGroups_def
  st_GetRule_def st_ListRules_def st_GetConfigProfile_def st_ListConfigProfiles_def
  st_GetFirmwareArtifact_def st_ListFirmwareArtifacts_def st_GetOTACampaign_def st_ListOTACampaigns_def
  st_ListGroupIDsByDevice_def st_ListDeviceIDsByGroup_def st_ListTelemetryByDevice_def st_GetShadow_def
  st_GetCommand_def st_ListCommandsByDevice_def st_GetAlert_def st_ListAlerts_def

definition backend_ok :: "Backend \<Rightarrow> bool" where
  "backend_ok b \<longleftrightarrow> store_ok (store_of b)"

lemma st_writes_ok [preserves_intros]:
  "preserves backend_ok (st_CreateTenant env x0)"
  "preserves backend_ok (st_SaveTenant env x1)"
  "preserves backend_ok (st_CreateProduct env x2)"
  "preserves backend_ok (st_SaveProduct env x3)"
  "preserves backend_ok (st_CreateDevice env x4)"
  "preserves backend_ok (st_SaveDevice env x5)"
  "preserves backend_ok (st_CreateGroup env x6)"
  "preserves backend_ok (st_SaveGroup env x7)"
  "preserves backend_ok (st_CreateRule env x8)"
  "preserves backend_ok (st_SaveRule env x9)"
  "preserves backend_ok (st_CreateConfigProfile env x10)"
  "preserves backend_ok (st_SaveConfigProfile env x11)"
  "preserves backend_ok (st_CreateFirmwareArtifact env x12)"
  "preserves backend_ok (st_SaveFirmwareArtifact env x13)"
  "preserves backend_ok (st_CreateOTACampaign env x14)"
  "preserves backend_ok (st_SaveOTACampaign env x15)"
  "preserves backend_ok (st_AddDeviceToGroup env g d)"
  "preserves backend_ok (st_RemoveDeviceFromGroup env g d)"
  "preserves backend_ok (st_AppendTelemetry env x18)"
  "preserves backend_ok (st_SaveShadow env x19)"
  "preserves backend_ok (st_SaveCommand env x20)"
  "preserves backend_ok (st_UpdateCommandStatus env now i st r)"
  "preserves backend_ok (st_AppendAlert env x22)"
  "preserves backend_ok (st_SaveAlert env x23)"
  unfolding backend_ok_def [abs_def] st_write_defs by (intro preserves_intros)+

end
