(* ===== verification/ThingModel.thy ===== *)
theory ThingModel
  imports Types
begin

text \<open>
  Normalisation and validation of thing models, access profiles and labels (the pure functions at the
  end of internal/core/service.go). A thing model is accepted when every property, event and service
  is complete, its data types are known and its identifiers are unique; the accepted model is in
  normal form, and normalising it again changes nothing. Labels with synonyms (data type, access mode,
  severity, alert status, transport, protocol, ...) are tables of \<open>switch\<close>.
\<close>

section \<open>Labels\<close>

definition normalizeAccessMode :: "string \<Rightarrow> string" where
  "normalizeAccessMode value = switch (norm_label value)
     [([''r'', ''read''], ''r''), ([''w'', ''write''], ''w'')] ''rw''"

definition dataType_table :: "(string list \<times> string) list" where
  "dataType_table = [([''string''], ''text''), ([''integer''], ''int'')]"

definition normalizeDataType :: "string \<Rightarrow> string" where
  "normalizeDataType value = switch (norm_label value) dataType_table (norm_label value)"

definition normalizeSeverity :: "string \<Rightarrow> string" where
  "normalizeSeverity value = switch (norm_label value)
     [([''critical'', ''fatal'', ''high''], AlertSeverityCritical),
      ([''info'', ''notice'', ''low''], AlertSeverityInfo)] AlertSeverityWarning"

definition normalizeAlertStatus :: "string \<Rightarrow> string" where
  "normalizeAlertStatus value = switch (norm_label value)
     [([''new''], AlertStatusNew),
      ([''ack'', ''acked'', ''acknowledged''], AlertStatusAcknowledged),
      ([''resolved'', ''closed'', ''done''], AlertStatusResolved)] []"

definition isSupportedDataType :: "string \<Rightarrow> bool" where
  "isSupportedDataType value \<longleftrightarrow>
     value \<in> set [''int'', ''float'', ''double'', ''bool'', ''text'', ''enum'', ''object'']"

definition normalizeRuleOperator :: "string \<Rightarrow> string" where
  "normalizeRuleOperator value = switch (norm_label value)
     [([''>'', ''gt''], ''gt''), ([''>='', ''gte''], ''gte''), ([''<'', ''lt''], ''lt''),
      ([''<='', ''lte''], ''lte''), ([''='', ''=='', ''eq''], ''eq''),
      ([''!='', ''<>'', ''neq''], ''neq'')] []"

definition isNumericRuleOperator :: "string \<Rightarrow> bool" where
  "isNumericRuleOperator value \<longleftrightarrow> value \<in> set [''gt'', ''gte'', ''lt'', ''lte'']"

lemma normalizeDataType_idem: "normalizeDataType (normalizeDataType v) = normalizeDataType v"
  unfolding normalizeDataType_def by (rule plain_label_idem) code_simp

lemma normalizeAccessMode_range: "normalizeAccessMode v \<in> {''r'', ''w'', ''rw''}"
  by (simp add: normalizeAccessMode_def)

lemma normalizeAccessMode_idem: "normalizeAccessMode (normalizeAccessMode v) = normalizeAccessMode v"
proof -
  have "normalizeAccessMode ''r'' = ''r''" "normalizeAccessMode ''w'' = ''w''"
    "normalizeAccessMode ''rw'' = ''rw''" by (simp_all add: normalizeAccessMode_def label_eval)
  then show ?thesis using normalizeAccessMode_range [of v] by auto
qed

lemma normalizeSeverity_range:
  "normalizeSeverity v \<in> {AlertSeverityInfo, AlertSeverityWarning, AlertSeverityCritical}"
  by (simp add: normalizeSeverity_def)

lemma normalizeSeverity_nonempty: "normalizeSeverity v \<noteq> []"
  using normalizeSeverity_range [of v]
  by (auto simp: AlertSeverityInfo_def AlertSeverityWarning_def AlertSeverityCritical_def)

lemma normalizeAlertStatus_range:
  "normalizeAlertStatus v \<in> {AlertStatusNew, AlertStatusAcknowledged, AlertStatusResolved, []}"
  by (simp add: normalizeAlertStatus_def)

lemma normalizeRuleOperator_range:
  "normalizeRuleOperator v \<noteq> [] \<Longrightarrow>
    normalizeRuleOperator v \<in> {''gt'', ''gte'', ''lt'', ''lte'', ''eq'', ''neq''}"
  by (auto simp: normalizeRuleOperator_def split: if_splits)

lemma normalizeRuleOperator_idem:
  "normalizeRuleOperator (normalizeRuleOperator v) = normalizeRuleOperator v"
proof (cases "normalizeRuleOperator v = []")
  case True
  have "normalizeRuleOperator [] = []" by (simp add: normalizeRuleOperator_def label_eval)
  with True show ?thesis by simp
next
  case False
  have "normalizeRuleOperator ''gt'' = ''gt''" "normalizeRuleOperator ''gte'' = ''gte''"
    "normalizeRuleOperator ''lt'' = ''lt''" "normalizeRuleOperator ''lte'' = ''lte''"
    "normalizeRuleOperator ''eq'' = ''eq''" "normalizeRuleOperator ''neq'' = ''neq''"
    by (simp_all add: normalizeRuleOperator_def label_eval)
  then show ?thesis using normalizeRuleOperator_range [OF False] by auto
qed

section \<open>Thing models\<close>

definition normalizeParameters :: "ThingModelParameter list \<Rightarrow> ThingModelParameter list" where
  "normalizeParameters values = map (\<lambda>value. value\<lparr>par_Identifier := trim_space (par_Identifier value),
     par_Name := trim_space (par_Name value), par_DataType := normalizeDataType (par_DataType value)\<rparr>) values"

definition normalizeProperty :: "ThingModelProperty \<Rightarrow> ThingModelProperty" where
  "normalizeProperty property = property\<lparr>prop_Identifier := trim_space (prop_Identifier property),
     prop_Name := trim_space (prop_Name property),
     prop_DataType := normalizeDataType (prop_DataType property),
     prop_AccessMode := normalizeAccessMode (prop_AccessMode property)\<rparr>"

definition checkProperty :: "string list \<Rightarrow> ThingModelProperty \<Rightarrow> unit res" where
  "checkProperty propertySeen property =
     (if prop_Identifier property = [] \<or> prop_Name property = [] \<or> prop_DataType property = []
      then Inl (ErrInvalidThingModel [''property identifier, name and data_type are required''])
      else if \<not> isSupportedDataType (prop_DataType property)
      then Inl (ErrInvalidThingModel [''unsupported property data_type %q'', prop_DataType property])
      else if prop_Identifier property \<in> set propertySeen
      then Inl (ErrInvalidThingModel [''duplicate property identifier %q'', prop_Identifier property])
      else Inr ())"

definition normalizeEvent :: "ThingModelEvent \<Rightarrow> ThingModelEvent" where
  "normalizeEvent event = event\<lparr>ev_Identifier := trim_space (ev_Identifier event),
     ev_Name := trim_space (ev_Name event), ev_Output := normalizeParameters (ev_Output event)\<rparr>"

definition checkEvent :: "string list \<Rightarrow> ThingModelEvent \<Rightarrow> unit res" where
  "checkEvent eventSeen event =
     (if ev_Identifier event = [] \<or> ev_Name event = []
      then Inl (ErrInvalidThingModel [''event identifier and name are required''])
      else if ev_Identifier event \<in> set eventSeen
      then Inl (ErrInvalidThingModel [''duplicate event identifier %q'', ev_Identifier event])
      else Inr ())"

definition normalizeService :: "ThingModelService \<Rightarrow> ThingModelService" where
  "normalizeService service = service\<lparr>srv_Identifier := trim_space (srv_Identifier service),
     srv_Name := trim_space (srv_Name service), srv_Input := normalizeParameters (srv_Input service),
     srv_Output := normalizeParameters (srv_Output service)\<rparr>"

definition checkService :: "string list \<Rightarrow> ThingModelService \<Rightarrow> unit res" where
  "checkService serviceSeen service =
     (if srv_Identifier service = [] \<or> srv_Name service = []
      then Inl (ErrInvalidThingModel [''service identifier and name are required''])
      else if srv_Identifier service \<in> set serviceSeen
      then Inl (ErrInvalidThingModel [''duplicate service identifier %q'', srv_Identifier service])
      else Inr ())"

text \<open>
  The three loops have the same shape: normalise the item, check it against the identifiers seen so
  far, remember its identifier, append it. \<open>%q\<close> arguments are kept beside the format text.
\<close>

fun checked_loop ::
    "('a \<Rightarrow> 'a) \<Rightarrow> (string list \<Rightarrow> 'a \<Rightarrow> unit res) \<Rightarrow> ('a \<Rightarrow> string) \<Rightarrow> string list \<Rightarrow> 'a list \<Rightarrow> 'a list res" where
  "checked_loop nrm check ident seen [] = Inr []"
| "checked_loop nrm check ident seen (x # xs) =
     (let x = nrm x in
      bindE (check seen x) (\<lambda>_.
      bindE (checked_loop nrm check ident (ident x # seen) xs) (\<lambda>ys. Inr (x # ys))))"

definition normalizeThingModel :: "ThingModel \<Rightarrow> int \<Rightarrow> time \<Rightarrow> ThingModel res" where
  "normalizeThingModel thingModel version updatedAt =
     bindE (checked_loop normalizeProperty checkProperty prop_Identifier [] (tm_Properties thingModel)) (\<lambda>properties.
     bindE (checked_loop normalizeEvent checkEvent ev_Identifier [] (tm_Events thingModel)) (\<lambda>events.
     bindE (checked_loop normalizeService checkService srv_Identifier [] (tm_Services thingModel)) (\<lambda>services.
     Inr \<lparr>tm_Properties = properties, tm_Events = events, tm_Services = services,
       tm_Version = version, tm_UpdatedAt = updatedAt\<rparr>)))"

text \<open>What the loops accept, and that their result is a fixed point.\<close>

lemma checked_loop_Inr:
  assumes "\<And>seen x. check seen x = Inr () \<longleftrightarrow> good x \<and> ident x \<notin> set seen"
  shows "checked_loop nrm check ident seen xs = Inr ys \<longleftrightarrow>
    ys = map nrm xs \<and> (\<forall>y \<in> set ys. good y \<and> ident y \<notin> set seen) \<and> distinct (map ident ys)"
proof (induction xs arbitrary: seen ys)
  case (Cons x xs)
  have "checked_loop nrm check ident seen (x # xs) = Inr ys \<longleftrightarrow>
    (\<exists>zs. ys = nrm x # zs \<and> good (nrm x) \<and> ident (nrm x) \<notin> set seen \<and>
      checked_loop nrm check ident (ident (nrm x) # seen) xs = Inr zs)"
    by (auto simp: Let_def bindE_Inr assms)
  then show ?case unfolding Cons.IH
    by (cases ys) (auto simp del: checked_loop.simps simp: image_iff)
qed auto

lemma checked_loop_Inl:
  assumes "\<And>seen x e. check seen x = Inl e \<Longrightarrow> P e"
  shows "checked_loop nrm check ident seen xs = Inl e \<Longrightarrow> P e"
  by (induction xs arbitrary: seen) (auto simp: Let_def bindE_Inl assms)

definition good_property :: "ThingModelProperty \<Rightarrow> bool" where
  "good_property p \<longleftrightarrow> prop_Identifier p \<noteq> [] \<and> prop_Name p \<noteq> [] \<and> isSupportedDataType (prop_DataType p)"

definition good_event :: "ThingModelEvent \<Rightarrow> bool" where
  "good_event e \<longleftrightarrow> ev_Identifier e \<noteq> [] \<and> ev_Name e \<noteq> []"

definition good_service :: "ThingModelService \<Rightarrow> bool" where
  "good_service s \<longleftrightarrow> srv_Identifier s \<noteq> [] \<and> srv_Name s \<noteq> []"

lemma unit_res: "(r :: unit res) = Inr () \<longleftrightarrow> (\<forall>e. r \<noteq> Inl e)"
  by (cases r) auto

lemma check_iff:
  "checkProperty seen p = Inr () \<longleftrightarrow> good_property p \<and> prop_Identifier p \<notin> set seen"
  "checkEvent seen e = Inr () \<longleftrightarrow> good_event e \<and> ev_Identifier e \<notin> set seen"
  "checkService seen s = Inr () \<longleftrightarrow> good_service s \<and> srv_Identifier s \<notin> set seen"
  by (auto simp: checkProperty_def checkEvent_def checkService_def good_property_def good_event_def
      good_service_def isSupportedDataType_def)

text \<open>The normal form of a thing model.\<close>

definition thing_model_ok :: "ThingModel \<Rightarrow> bool" where
  "thing_model_ok m \<longleftrightarrow>
     (\<forall>p \<in> set (tm_Properties m). good_property p) \<and> distinct (map prop_Identifier (tm_Properties m)) \<and>
     (\<forall>e \<in> set (tm_Events m). good_event e) \<and> distinct (map ev_Identifier (tm_Events m)) \<and>
     (\<forall>s \<in> set (tm_Services m). good_service s) \<and> distinct (map srv_Identifier (tm_Services m))"

definition thing_model_image :: "ThingModel \<Rightarrow> int \<Rightarrow> time \<Rightarrow> ThingModel" where
  "thing_model_image m v t = \<lparr>tm_Properties = map normalizeProperty (tm_Properties m),
     tm_Events = map normalizeEvent (tm_Events m), tm_Services = map normalizeService (tm_Services m),
     tm_Version = v, tm_UpdatedAt = t\<rparr>"

lemma normalizeThingModel_Inr:
  "normalizeThingModel m v t = Inr n \<longleftrightarrow> n = thing_model_image m v t \<and> thing_model_ok n"
  by (auto simp: normalizeThingModel_def bindE_Inr thing_model_ok_def thing_model_image_def
      checked_loop_Inr [where check = checkProperty, OF check_iff(1)]
      checked_loop_Inr [where check = checkEvent, OF check_iff(2)]
      checked_loop_Inr [where check = checkService, OF check_iff(3)])

lemma normalizeThingModel_Inl:
  assumes "normalizeThingModel m v t = Inl e"
  shows "\<exists>args. e = ErrInvalidThingModel args"
proof -
  have "checkProperty seen p = Inl e \<Longrightarrow> \<exists>args. e = ErrInvalidThingModel args" for seen p e
    by (auto simp: checkProperty_def split: if_splits)
  moreover have "checkEvent seen x = Inl e \<Longrightarrow> \<exists>args. e = ErrInvalidThingModel args" for seen x e
    by (auto simp: checkEvent_def split: if_splits)
  moreover have "checkService seen x = Inl e \<Longrightarrow> \<exists>args. e = ErrInvalidThingModel args" for seen x e
    by (auto simp: checkService_def split: if_splits)
  ultimately show ?thesis
    using assms
      checked_loop_Inl [where check = checkProperty and P = "\<lambda>e. \<exists>args. e = ErrInvalidThingModel args"]
      checked_loop_Inl [where check = checkEvent and P = "\<lambda>e. \<exists>args. e = ErrInvalidThingModel args"]
      checked_loop_Inl [where check = checkService and P = "\<lambda>e. \<exists>args. e = ErrInvalidThingModel args"]
    unfolding normalizeThingModel_def by (force simp: bindE_Inl)
qed

lemma normalizeParameters_idem: "normalizeParameters (normalizeParameters ps) = normalizeParameters ps"
  by (simp add: normalizeParameters_def normalizeDataType_idem)

lemma normalize_item_idem:
  "normalizeProperty (normalizeProperty p) = normalizeProperty p"
  "normalizeEvent (normalizeEvent e) = normalizeEvent e"
  "normalizeService (normalizeService s) = normalizeService s"
  by (simp_all add: normalizeProperty_def normalizeEvent_def normalizeService_def
      normalizeDataType_idem normalizeAccessMode_idem normalizeParameters_idem)

lemma thing_model_image_idem: "thing_model_image (thing_model_image m v t) v' t' = thing_model_image m v' t'"
  by (simp add: thing_model_image_def comp_def normalize_item_idem)

end
