(* ===== verification/AccessProfile.thy ===== *)
theory AccessProfile
  imports ThingModel
begin

text \<open>
  Access profiles of products (\<open>normalizeAccessProfile\<close> and its helpers in internal/core/service.go):
  the labels of the five modes, the defaults that complete a profile, the point mappings. A normalised
  profile has no empty mode, and normalising it again changes nothing.
\<close>

section \<open>Modes\<close>

definition transport_table :: "(string list \<times> string) list" where
  "transport_table =
     [([''tcp'', ''socket''], ''tcp''), ([''http'', ''https''], ''http''), ([''mqtt''], ''mqtt''),
      ([''rs485'', ''serial''], ''rs485''), ([''ethernet''], ''ethernet''),
      ([''opcua'', ''opc_ua''], ''opcua''), ([''bacnet'', ''bacnet_ip''], ''bacnet''),
      ([''lorawan'', ''lora''], ''lorawan'')]"

definition normalizeTransport :: "string \<Rightarrow> string" where
  "normalizeTransport value = switch (norm_label value) transport_table (norm_label value)"

definition protocol_table :: "(string list \<times> string) list" where
  "protocol_table =
     [([[], ''default''], []), ([''tcp'', ''tcp_json'', ''json_lines''], ''tcp_json''),
      ([''http'', ''http_json''], ''http_json''), ([''mqtt'', ''mqtt_json''], ''mqtt_json''),
      ([''modbus'', ''modbus_tcp''], ''modbus_tcp''), ([''modbus_rtu''], ''modbus_rtu''),
      ([''opcua'', ''opcua_json''], ''opcua_json''), ([''bacnet'', ''bacnet_ip''], ''bacnet_ip''),
      ([''lorawan'', ''lorawan_uplink''], ''lorawan_uplink'')]"

definition normalizeProtocol :: "string \<Rightarrow> string" where
  "normalizeProtocol value = switch (norm_label value) protocol_table (norm_label value)"

definition ingestMode_table :: "(string list \<times> string) list" where
  "ingestMode_table =
     [([[], ''default''], []), ([''gateway'', ''gateway_tcp'', ''direct''], ''gateway_tcp''),
      ([''http'', ''http_push''], ''http_push''),
      ([''mqtt'', ''mqtt_broker'', ''broker_mqtt''], ''broker_mqtt''),
      ([''bridge'', ''bridge_http'', ''webhook''], ''bridge_http'')]"

definition normalizeIngestMode :: "string \<Rightarrow> string" where
  "normalizeIngestMode value = switch (norm_label value) ingestMode_table (norm_label value)"

definition payloadFormat_table :: "(string list \<times> string) list" where
  "payloadFormat_table =
     [([[], ''default''], []), ([''json'', ''json_values''], ''json_values''),
      ([''flat'', ''flat_json''], ''flat_json''), ([''registers'', ''register_map''], ''register_map''),
      ([''mapped'', ''mapped_json''], ''mapped_json'')]"

definition normalizePayloadFormat :: "string \<Rightarrow> string" where
  "normalizePayloadFormat value = switch (norm_label value) payloadFormat_table (norm_label value)"

definition authMode_table :: "(string list \<times> string) list" where
  "authMode_table =
     [([[], ''default''], []), ([''token'', ''device_token''], ''token''),
      ([''bearer'', ''bearer_token''], ''bearer_token''),
      ([''bridge_secret'', ''secret''], ''bridge_secret'')]"

definition normalizeAuthMode :: "string \<Rightarrow> string" where
  "normalizeAuthMode value = switch (norm_label value) authMode_table (norm_label value)"

lemmas mode_defs = normalizeTransport_def normalizeProtocol_def normalizeIngestMode_def
  normalizePayloadFormat_def normalizeAuthMode_def

lemma mode_idem:
  "normalizeTransport (normalizeTransport v) = normalizeTransport v"
  "normalizeProtocol (normalizeProtocol v) = normalizeProtocol v"
  "normalizeIngestMode (normalizeIngestMode v) = normalizeIngestMode v"
  "normalizePayloadFormat (normalizePayloadFormat v) = normalizePayloadFormat v"
  "normalizeAuthMode (normalizeAuthMode v) = normalizeAuthMode v"
  unfolding mode_defs by (rule plain_label_idem, code_simp)+

section \<open>Completing a profile\<close>

definition default_protocol :: "ProductAccessProfile \<Rightarrow> string" where
  "default_protocol profile =
     (if ap_IngestMode profile = ''http_push'' then ''http_json''
      else if ap_IngestMode profile = ''bridge_http'' \<or> ap_IngestMode profile = ''broker_mqtt'' \<or>
        ap_Transport profile = ''mqtt'' then ''mqtt_json''
      else if ap_Transport profile = ''http'' then ''http_json''
      else ''tcp_json'')"

definition default_transport :: "string \<Rightarrow> string" where
  "default_transport protocol = switch protocol
     [([''http_json''], ''http''), ([''mqtt_json''], ''mqtt''), ([''modbus_tcp''], ''ethernet''),
      ([''modbus_rtu''], ''rs485''), ([''opcua_json''], ''opcua''), ([''bacnet_ip''], ''bacnet''),
      ([''lorawan_uplink''], ''lorawan'')] ''tcp''"

definition default_ingestMode :: "string \<Rightarrow> string" where
  "default_ingestMode protocol = switch protocol
     [([''tcp_json''], ''gateway_tcp''), ([''http_json'', ''modbus_tcp'', ''modbus_rtu''], ''http_push''),
      ([''mqtt_json''], ''broker_mqtt'')] ''bridge_http''"

definition default_payloadFormat :: "string \<Rightarrow> string" where
  "default_payloadFormat protocol = switch protocol
     [([''modbus_tcp'', ''modbus_rtu''], ''register_map'')] ''json_values''"

text \<open>\<open>if v == "" { v = d }\<close>\<close>

definition or_default :: "string \<Rightarrow> string \<Rightarrow> string" where
  "or_default v d = (if v = [] then d else v)"

definition normalizePointMapping :: "ProtocolPointMapping \<Rightarrow> ProtocolPointMapping res" where
  "normalizePointMapping item =
     (let item = item\<lparr>pm_Source := trim_space (pm_Source item), pm_Property := trim_space (pm_Property item),
        pm_Unit := trim_space (pm_Unit item)\<rparr> in
      if pm_Source item = [] \<or> pm_Property item = []
      then Inl (ErrInvalidProduct [''point mapping source and property are required''])
      else Inr (if f64_eq (pm_Scale item) (Fin 0) then item\<lparr>pm_Scale := Fin 1\<rparr> else item))"

definition trim_profile :: "ProductAccessProfile \<Rightarrow> ProductAccessProfile" where
  "trim_profile profile = profile\<lparr>ap_Transport := normalizeTransport (ap_Transport profile),
     ap_Protocol := normalizeProtocol (ap_Protocol profile),
     ap_IngestMode := normalizeIngestMode (ap_IngestMode profile),
     ap_PayloadFormat := normalizePayloadFormat (ap_PayloadFormat profile),
     ap_AuthMode := normalizeAuthMode (ap_AuthMode profile),
     ap_SensorTemplate := trim_lower (ap_SensorTemplate profile),
     ap_Topic := trim_space (ap_Topic profile), ap_Notes := trim_space (ap_Notes profile),
     ap_Metadata := cloneStringMap (ap_Metadata profile)\<rparr>"

definition complete_profile :: "ProductAccessProfile \<Rightarrow> ProductAccessProfile" where
  "complete_profile profile =
     (let profile = profile\<lparr>ap_Protocol := or_default (ap_Protocol profile) (default_protocol profile)\<rparr>;
          protocol = ap_Protocol profile in
      profile\<lparr>ap_Transport := or_default (ap_Transport profile) (default_transport protocol),
        ap_IngestMode := or_default (ap_IngestMode profile) (default_ingestMode protocol),
        ap_PayloadFormat := or_default (ap_PayloadFormat profile) (default_payloadFormat protocol),
        ap_AuthMode := or_default (ap_AuthMode profile) ''token''\<rparr>)"

definition normalizeAccessProfile :: "ProductAccessProfile \<Rightarrow> ProductAccessProfile res" where
  "normalizeAccessProfile profile =
     (let profile = complete_profile (trim_profile profile) in
      if ap_Protocol profile = [] \<or> ap_Transport profile = [] \<or> ap_IngestMode profile = [] \<or>
         ap_PayloadFormat profile = [] \<or> ap_AuthMode profile = []
      then Inl (ErrInvalidProduct [''invalid access profile''])
      else if length (ap_PointMappings profile) > 0 then
        bindE (mapE normalizePointMapping (ap_PointMappings profile))
          (\<lambda>normalizedMappings. Inr (profile\<lparr>ap_PointMappings := normalizedMappings\<rparr>))
      else Inr profile)"

definition validateAccessMappings :: "ThingModel \<Rightarrow> ProductAccessProfile \<Rightarrow> unit res" where
  "validateAccessMappings thingModel accessProfile =
     (if length (ap_PointMappings accessProfile) = 0 \<or> length (tm_Properties thingModel) = 0 then Inr ()
      else bindE (mapE (\<lambda>item.
          if pm_Property item \<notin> set (map prop_Identifier (tm_Properties thingModel))
          then Inl (ErrInvalidProduct [''point mapping property %q not found in thing model'', pm_Property item])
          else Inr ()) (ap_PointMappings accessProfile)) (\<lambda>_. Inr ()))"

section \<open>Normal forms\<close>

text \<open>The modes of a normalised profile.\<close>

definition modes_ok :: "ProductAccessProfile \<Rightarrow> bool" where
  "modes_ok p \<longleftrightarrow> ap_Protocol p \<noteq> [] \<and> ap_Transport p \<noteq> [] \<and> ap_IngestMode p \<noteq> [] \<and>
     ap_PayloadFormat p \<noteq> [] \<and> ap_AuthMode p \<noteq> []"

definition mapping_ok :: "ProtocolPointMapping \<Rightarrow> bool" where
  "mapping_ok m \<longleftrightarrow> pm_Source m \<noteq> [] \<and> pm_Property m \<noteq> [] \<and> \<not> f64_eq (pm_Scale m) (Fin 0)"

definition fixed_modes :: "ProductAccessProfile \<Rightarrow> bool" where
  "fixed_modes p \<longleftrightarrow> normalizeTransport (ap_Transport p) = ap_Transport p \<and>
     normalizeProtocol (ap_Protocol p) = ap_Protocol p \<and> normalizeIngestMode (ap_IngestMode p) = ap_IngestMode p \<and>
     normalizePayloadFormat (ap_PayloadFormat p) = ap_PayloadFormat p \<and>
     normalizeAuthMode (ap_AuthMode p) = ap_AuthMode p"

lemma fixed_modes_trim: "fixed_modes (trim_profile p)"
  by (simp add: fixed_modes_def trim_profile_def mode_idem)

text \<open>A profile whose modes are fixed and complete is a fixed point of both steps.\<close>

lemma complete_profile_id: "modes_ok p \<Longrightarrow> complete_profile p = p"
  by (simp add: complete_profile_def modes_ok_def or_default_def Let_def)

lemma default_modes_nonempty:
  "default_protocol p \<noteq> []" "default_transport q \<noteq> []" "default_ingestMode q \<noteq> []"
  "default_payloadFormat q \<noteq> []"
  by (simp_all add: default_protocol_def default_transport_def default_ingestMode_def default_payloadFormat_def)

lemma complete_profile_modes: "modes_ok (complete_profile p)"
  by (simp add: complete_profile_def modes_ok_def or_default_def Let_def default_modes_nonempty)

lemma switch_all: "P d \<Longrightarrow> \<forall>c \<in> set cs. P (snd c) \<Longrightarrow> P (switch v cs d)"
  using switch_in [of v cs d] by auto

lemma default_modes_fixed:
  "normalizeProtocol (default_protocol p) = default_protocol p"
  "normalizeTransport (default_transport q) = default_transport q"
  "normalizeIngestMode (default_ingestMode q) = default_ingestMode q"
  "normalizePayloadFormat (default_payloadFormat q) = default_payloadFormat q"
  "normalizeAuthMode ''token'' = ''token''"
proof -
  show "normalizeProtocol (default_protocol p) = default_protocol p"
    by (simp add: default_protocol_def mode_defs label_eval protocol_table_def)
  show "normalizeTransport (default_transport q) = default_transport q"
    unfolding default_transport_def
    by (rule switch_all [where P = "\<lambda>v. normalizeTransport v = v"])
      (simp_all add: mode_defs label_eval transport_table_def)
  show "normalizeIngestMode (default_ingestMode q) = default_ingestMode q"
    unfolding default_ingestMode_def
    by (rule switch_all [where P = "\<lambda>v. normalizeIngestMode v = v"])
      (simp_all add: mode_defs label_eval ingestMode_table_def)
  show "normalizePayloadFormat (default_payloadFormat q) = default_payloadFormat q"
    unfolding default_payloadFormat_def
    by (rule switch_all [where P = "\<lambda>v. normalizePayloadFormat v = v"])
      (simp_all add: mode_defs label_eval payloadFormat_table_def)
  show "normalizeAuthMode ''token'' = ''token''"
    by (simp add: mode_defs label_eval authMode_table_def)
qed

lemma fixed_modes_complete: "fixed_modes p \<Longrightarrow> fixed_modes (complete_profile p)"
  by (simp add: fixed_modes_def complete_profile_def or_default_def Let_def default_modes_fixed)

lemma normalizePointMapping_Inr:
  assumes "normalizePointMapping m = Inr n"
  shows "mapping_ok n" "normalizePointMapping n = Inr n"
  using assms
  by (auto simp: normalizePointMapping_def mapping_ok_def Let_def f64_eq_def split: if_splits)

text \<open>The outcome of the normalisation, point mappings included.\<close>

lemma normalizeAccessProfile_Inr:
  "normalizeAccessProfile p = Inr q \<longleftrightarrow>
    (\<exists>ms. mapE normalizePointMapping (ap_PointMappings p) = Inr ms \<and>
       q = complete_profile (trim_profile p)\<lparr>ap_PointMappings := ms\<rparr>)"
proof -
  let ?c = "complete_profile (trim_profile p)"
  have ms: "ap_PointMappings ?c = ap_PointMappings p"
    by (simp add: complete_profile_def trim_profile_def Let_def)
  have "modes_ok ?c" by (rule complete_profile_modes)
  moreover have "ap_PointMappings p = [] \<Longrightarrow> ?c\<lparr>ap_PointMappings := []\<rparr> = ?c"
    using ms by (metis ProductAccessProfile.surjective ProductAccessProfile.update_convs(10))
  ultimately show ?thesis
    by (auto simp: normalizeAccessProfile_def Let_def modes_ok_def ms bindE_Inr)
qed

lemma mapE_fixed: "(\<And>x. x \<in> set xs \<Longrightarrow> f x = Inr x) \<Longrightarrow> mapE f xs = Inr xs"
  by (induction xs) auto

lemma trim_profile_id:
  "fixed_modes p \<Longrightarrow> trim_lower (ap_SensorTemplate p) = ap_SensorTemplate p \<Longrightarrow>
    trim_space (ap_Topic p) = ap_Topic p \<Longrightarrow> trim_space (ap_Notes p) = ap_Notes p \<Longrightarrow>
    cloneStringMap (ap_Metadata p) = ap_Metadata p \<Longrightarrow> trim_profile p = p"
  by (simp add: trim_profile_def fixed_modes_def)

lemma fixed_modes_mappings: "fixed_modes (p\<lparr>ap_PointMappings := ms\<rparr>) = fixed_modes p"
  by (simp add: fixed_modes_def)

lemma modes_ok_mappings: "modes_ok (p\<lparr>ap_PointMappings := ms\<rparr>) = modes_ok p"
  by (simp add: modes_ok_def)

lemma complete_profile_rest:
  "ap_SensorTemplate (complete_profile p) = ap_SensorTemplate p" "ap_Topic (complete_profile p) = ap_Topic p"
  "ap_Notes (complete_profile p) = ap_Notes p" "ap_Metadata (complete_profile p) = ap_Metadata p"
  by (simp_all add: complete_profile_def Let_def)

lemma normal_profile:
  assumes "normalizeAccessProfile p = Inr q"
  shows "modes_ok q" "fixed_modes q" "trim_profile q = q" "\<forall>m \<in> set (ap_PointMappings q). mapping_ok m"
    "mapE normalizePointMapping (ap_PointMappings q) = Inr (ap_PointMappings q)"
proof -
  obtain ms where ms: "mapE normalizePointMapping (ap_PointMappings p) = Inr ms"
    and q: "q = complete_profile (trim_profile p)\<lparr>ap_PointMappings := ms\<rparr>"
    using assms by (auto simp: normalizeAccessProfile_Inr)
  show "modes_ok q" by (simp add: q modes_ok_mappings complete_profile_modes)
  show fixed: "fixed_modes q"
    by (simp add: q fixed_modes_mappings fixed_modes_complete fixed_modes_trim)
  show "trim_profile q = q"
    by (rule trim_profile_id [OF fixed]) (simp_all add: q complete_profile_rest, simp_all add: trim_profile_def)
  have all: "\<forall>m \<in> set ms. \<exists>m0. normalizePointMapping m0 = Inr m"
    using ms by (auto simp: mapE_Inr list_all2_conv_all_nth in_set_conv_nth) (blast)
  then show "\<forall>m \<in> set (ap_PointMappings q). mapping_ok m"
    by (auto simp: q dest: normalizePointMapping_Inr)
  show "mapE normalizePointMapping (ap_PointMappings q) = Inr (ap_PointMappings q)"
    using all by (auto simp: q intro!: mapE_fixed dest: normalizePointMapping_Inr)
qed

lemma normalizeAccessProfile_idem:
  assumes "normalizeAccessProfile p = Inr q"
  shows "normalizeAccessProfile q = Inr q"
  using normal_profile [OF assms] by (simp add: normalizeAccessProfile_Inr complete_profile_id)

lemma validateAccessMappings_iff:
  "validateAccessMappings m a = Inr () \<longleftrightarrow> tm_Properties m = [] \<or>
    (\<forall>item \<in> set (ap_PointMappings a). \<exists>p \<in> set (tm_Properties m). prop_Identifier p = pm_Property item)"
proof -
  have *: "(\<exists>us. mapE g xs = Inr us) \<longleftrightarrow> (\<forall>x \<in> set xs. g x = Inr ())"
    for g :: "ProtocolPointMapping \<Rightarrow> unit res" and xs
    by (induction xs) (auto simp: bindE_Inr)
  show ?thesis
    unfolding validateAccessMappings_def bindE_Inr by (simp add: bindE_Inr *) (simp add: image_iff, metis)
qed

end
