(* ===== verification/RuleEngine.thy ===== *)
theory RuleEngine
  imports AccessProfile
begin

text \<open>
  The pure part of the rule engine and the validation of values (internal/core/service.go,
  internal/core/automation.go): data types of values, thresholds, comparison of a reported value with a
  threshold, the cooldown of a rule, the alert a rule raises.
\<close>

section \<open>Values against the thing model\<close>

definition matchesThingDataType :: "string \<Rightarrow> goany \<Rightarrow> bool" where
  "matchesThingDataType dataType value =
     (if dataType = ''bool'' then (case value of ABool _ \<Rightarrow> True | _ \<Rightarrow> False)
      else if dataType = ''text'' then (case value of AStr _ \<Rightarrow> True | _ \<Rightarrow> False)
      else if dataType = ''object'' then (case value of AMap _ \<Rightarrow> True | _ \<Rightarrow> False)
      else if dataType = ''enum'' then
        (case value of AStr _ \<Rightarrow> True | AF64 _ \<Rightarrow> True | AInt k _ \<Rightarrow> k \<in> {KInt, KInt32, KInt64} | _ \<Rightarrow> False)
      else if dataType = ''float'' \<or> dataType = ''double'' then isNumber value
      else if dataType = ''int'' then isIntegralNumber value
      else True)"

text \<open>\<open>properties[property.Identifier] = property\<close>, in order: a later duplicate wins.\<close>

definition property_map :: "ThingModelProperty list \<Rightarrow> string \<Rightarrow> ThingModelProperty option" where
  "property_map ps = map_of (rev (map (\<lambda>p. (prop_Identifier p, p)) ps))"

definition validateThingValue :: "ThingModelProperty list \<Rightarrow> string \<times> goany \<Rightarrow> unit res" where
  "validateThingValue ps kv = (case kv of (key, value) \<Rightarrow>
     (case property_map ps key of
        None \<Rightarrow> Inl (ErrUnknownThingProperty [key])
      | Some property \<Rightarrow>
          failIf (\<not> matchesThingDataType (prop_DataType property) value)
            (ErrInvalidThingModel [''property %s expects %s'', key, prop_DataType property])))"

definition validateThingValues :: "Product \<Rightarrow> anymap \<Rightarrow> unit res" where
  "validateThingValues product values =
     (if mlen values = 0 then Inr ()
      else if length (tm_Properties (prd_ThingModel product)) = 0 then Inr ()
      else bindE (mapE (validateThingValue (tm_Properties (prd_ThingModel product))) (entries values))
        (\<lambda>_. Inr ()))"

definition validateCommandName :: "Product \<Rightarrow> string \<Rightarrow> unit res" where
  "validateCommandName product name =
     (let services = tm_Services (prd_ThingModel product) in
      if length services = 0 then Inr ()
      else if name \<in> set (map srv_Identifier services) then Inr ()
      else Inl (ErrInvalidThingModel [''command %q not found in thing model services'', name]))"

lemma property_map_Some:
  "property_map ps k = Some p \<Longrightarrow> p \<in> set ps \<and> prop_Identifier p = k"
  by (auto simp: property_map_def dest!: map_of_SomeD)

lemma property_map_distinct:
  assumes "distinct (map prop_Identifier ps)"
  shows "property_map ps k = Some p \<longleftrightarrow> p \<in> set ps \<and> prop_Identifier p = k"
proof -
  have "distinct (map fst (rev (map (\<lambda>p. (prop_Identifier p, p)) ps)))"
    using assms by (simp add: rev_map [symmetric] comp_def)
  then have "property_map ps k = Some p \<longleftrightarrow> (k, p) \<in> set (rev (map (\<lambda>p. (prop_Identifier p, p)) ps))"
    unfolding property_map_def by (rule map_of_eq_Some_iff)
  then show ?thesis by auto
qed

lemma mapE_unit_iff: "(\<exists>us. mapE f xs = Inr us) \<longleftrightarrow> (\<forall>x \<in> set xs. f x = Inr ())" for f :: "'a \<Rightarrow> 'e + unit"
  by (induction xs) (auto simp: bindE_Inr)

text \<open>Which values are accepted: independent of the order in which the map is iterated.\<close>

definition value_fits :: "ThingModelProperty list \<Rightarrow> string \<Rightarrow> goany \<Rightarrow> bool" where
  "value_fits ps k v \<longleftrightarrow> (case property_map ps k of None \<Rightarrow> False
     | Some p \<Rightarrow> matchesThingDataType (prop_DataType p) v)"

lemma validateThingValue_iff: "validateThingValue ps (k, v) = Inr () \<longleftrightarrow> value_fits ps k v"
  by (simp add: validateThingValue_def value_fits_def failIf_def split: option.splits)

lemma validateThingValues_iff:
  "validateThingValues p vs = Inr () \<longleftrightarrow>
    tm_Properties (prd_ThingModel p) = [] \<or>
    (\<forall>(k, v) \<in> set (entries vs). value_fits (tm_Properties (prd_ThingModel p)) k v)"
proof -
  have "(\<forall>x \<in> set (entries vs). validateThingValue ps x = Inr ()) \<longleftrightarrow>
    (\<forall>(k, v) \<in> set (entries vs). value_fits ps k v)" for ps
    by (auto simp: validateThingValue_iff)
  then show ?thesis
    using mapE_unit_iff [of "validateThingValue (tm_Properties (prd_ThingModel p))" "entries vs"]
    by (auto simp: validateThingValues_def bindE_Inr mlen_def)
qed

lemma validateThingValues_Inl:
  assumes "validateThingValues p vs = Inl e"
  shows "(\<exists>k. e = ErrUnknownThingProperty [k] \<and> mlookup vs k \<noteq> None) \<or> (\<exists>args. e = ErrInvalidThingModel args)"
proof -
  obtain k v where kv: "(k, v) \<in> set (entries vs)"
    "validateThingValue (tm_Properties (prd_ThingModel p)) (k, v) = Inl e"
    using assms by (auto simp: validateThingValues_def bindE_Inl dest!: mapE_Inl split: if_splits)
  then have "mlookup vs k \<noteq> None"
    by (auto simp: mlookup_def map_of_eq_None_iff intro: rev_image_eqI)
  with kv(2) show ?thesis by (auto simp: validateThingValue_def split: option.splits)
qed

section \<open>Conditions\<close>

definition normalizeRuleCondition :: "Product option \<Rightarrow> RuleCondition \<Rightarrow> RuleCondition res" where
  "normalizeRuleCondition product condition =
     (let condition = condition\<lparr>cond_Property := trim_space (cond_Property condition),
        cond_Operator := normalizeRuleOperator (cond_Operator condition)\<rparr> in
      if cond_Property condition = [] then Inl (ErrInvalidRule [''condition.property is required''])
      else if cond_Operator condition = [] then Inl (ErrInvalidRule [''unsupported condition.operator''])
      else (case product of
        Some product \<Rightarrow> (case find (\<lambda>p. prop_Identifier p = cond_Property condition) (tm_Properties (prd_ThingModel product)) of
           None \<Rightarrow> Inl (ErrInvalidRule [''property %q not found in product thing model'', cond_Property condition])
         | Some property \<Rightarrow>
             if \<not> matchesThingDataType (prop_DataType property) (cond_Value condition)
             then Inl (ErrInvalidRule [''rule threshold for %s expects %s'', cond_Property condition, prop_DataType property])
             else if isNumericRuleOperator (cond_Operator condition) \<and> \<not> isNumber (cond_Value condition)
             then Inl (ErrInvalidRule [''numeric operator %s requires a numeric threshold'', cond_Operator condition])
             else Inr condition)
      | None \<Rightarrow> Inr condition))"

definition matchesRuleCondition :: "string \<Rightarrow> goany \<Rightarrow> goany \<Rightarrow> bool" where
  "matchesRuleCondition operator left right =
     (if operator = ''eq'' then valuesEqual left right
      else if operator = ''neq'' then \<not> valuesEqual left right
      else if operator \<in> set [''gt'', ''gte'', ''lt'', ''lte''] then
        (case toFloat64 left of None \<Rightarrow> False
         | Some leftNumber \<Rightarrow>
             (case toFloat64 right of None \<Rightarrow> False
              | Some rightNumber \<Rightarrow>
                  if operator = ''gt'' then f64_lt rightNumber leftNumber
                  else if operator = ''gte'' then f64_le rightNumber leftNumber
                  else if operator = ''lt'' then f64_lt leftNumber rightNumber
                  else f64_le leftNumber rightNumber))
      else False)"

text \<open>A normalised condition has a known operator, and on a known product a usable threshold.\<close>

lemma normalizeRuleCondition_Inr:
  assumes "normalizeRuleCondition p c = Inr d"
  shows "cond_Operator d \<in> {''gt'', ''gte'', ''lt'', ''lte'', ''eq'', ''neq''}"
    "cond_Property d = trim_space (cond_Property c)" "cond_Property d \<noteq> []" "cond_Value d = cond_Value c"
    "p = Some pr \<Longrightarrow> \<exists>q \<in> set (tm_Properties (prd_ThingModel pr)). prop_Identifier q = cond_Property d \<and>
       matchesThingDataType (prop_DataType q) (cond_Value d)"
    "p = Some pr \<Longrightarrow> isNumericRuleOperator (cond_Operator d) \<Longrightarrow> isNumber (cond_Value d)"
proof -
  have d: "d = c\<lparr>cond_Property := trim_space (cond_Property c), cond_Operator := normalizeRuleOperator (cond_Operator c)\<rparr>"
    "cond_Property d \<noteq> []" "cond_Operator d \<noteq> []"
    using assms by (auto simp: normalizeRuleCondition_def Let_def split: if_splits option.splits)
  then show "cond_Property d = trim_space (cond_Property c)" "cond_Property d \<noteq> []" "cond_Value d = cond_Value c"
    by simp_all
  show "cond_Operator d \<in> {''gt'', ''gte'', ''lt'', ''lte'', ''eq'', ''neq''}"
    using normalizeRuleOperator_range [of "cond_Operator c"] d by simp
  show "p = Some pr \<Longrightarrow> \<exists>q \<in> set (tm_Properties (prd_ThingModel pr)). prop_Identifier q = cond_Property d \<and>
       matchesThingDataType (prop_DataType q) (cond_Value d)"
    using assms by (auto simp: normalizeRuleCondition_def Let_def find_Some_iff split: if_splits option.splits)
  show "p = Some pr \<Longrightarrow> isNumericRuleOperator (cond_Operator d) \<Longrightarrow> isNumber (cond_Value d)"
    using assms by (auto simp: normalizeRuleCondition_def Let_def split: if_splits option.splits)
qed

text \<open>The six operators partition as the reader expects, except on NaN and on values without a number.\<close>

lemma matches_neq: "matchesRuleCondition ''neq'' l r \<longleftrightarrow> \<not> matchesRuleCondition ''eq'' l r"
  by (simp add: matchesRuleCondition_def)

lemma matches_numeric:
  assumes "toFloat64 l = Some x" "toFloat64 r = Some y"
  shows "matchesRuleCondition ''gt'' l r \<longleftrightarrow> f64_lt y x" "matchesRuleCondition ''gte'' l r \<longleftrightarrow> f64_le y x"
    "matchesRuleCondition ''lt'' l r \<longleftrightarrow> f64_lt x y" "matchesRuleCondition ''lte'' l r \<longleftrightarrow> f64_le x y"
  using assms by (simp_all add: matchesRuleCondition_def)

lemma matches_not_numeric:
  assumes "toFloat64 l = None \<or> toFloat64 r = None" "isNumericRuleOperator operator"
  shows "\<not> matchesRuleCondition operator l r"
proof -
  have "operator \<noteq> ''eq''" "operator \<noteq> ''neq''" using assms(2) by (auto simp: isNumericRuleOperator_def)
  then have "matchesRuleCondition operator l r \<Longrightarrow> \<exists>x y. toFloat64 l = Some x \<and> toFloat64 r = Some y"
    unfolding matchesRuleCondition_def by (cases "toFloat64 l"; cases "toFloat64 r") (simp_all cong: if_cong)
  with assms(1) show ?thesis by auto
qed

section \<open>Actions and alerts\<close>

definition normalizeRuleActionType :: "string \<Rightarrow> string" where
  "normalizeRuleActionType value = switch (norm_label value)
     [([''alert''], RuleActionAlert), ([''send_command'', ''command''], RuleActionSendCommand),
      ([''apply_config_profile'', ''config'', ''config_profile''], RuleActionApplyConfig)] []"

text \<open>The alert of a rule; its ID comes from \<open>util.NewID("alt")\<close>.\<close>

definition buildRuleAlert ::
    "string \<Rightarrow> Rule \<Rightarrow> Device \<Rightarrow> time \<Rightarrow> goany \<Rightarrow> RuleAction \<Rightarrow> AlertEvent" where
  "buildRuleAlert newID rule device ts value action =
     (let severity = (if act_Severity action \<noteq> [] then normalizeSeverity (act_Severity action)
            else normalizeSeverity (rul_Severity rule));
          message = trim_space (act_Message action);
          condition = rul_Condition rule;
          message = (if message = [] then rul_Name rule @ '': '' @ cond_Property condition @ '' '' @
              cond_Operator condition @ '' '' @ sprint_v (cond_Value condition) @ '', got '' @ sprint_v value
            else message) in
      \<lparr>alt_ID = newID, alt_RuleID = rul_ID rule, alt_RuleName = rul_Name rule,
       alt_TenantID = dev_TenantID device, alt_ProductID = dev_ProductID device,
       alt_GroupID = rul_GroupID rule, alt_DeviceID = dev_ID device, alt_DeviceName = dev_Name device,
       alt_Property = cond_Property condition, alt_Operator = cond_Operator condition,
       alt_Threshold = cond_Value condition, alt_Value = value, alt_Severity = severity,
       alt_Status = AlertStatusNew, alt_Message = message, alt_Note = [], alt_AckAt = None,
       alt_ResolvedAt = None, alt_TriggeredAt = ts\<rparr>)"

section \<open>Cooldown\<close>

record ruleRuntimeState =
  rrs_TriggeredCount :: int
  rrs_LastTriggeredAt :: time

definition zero_ruleRuntimeState :: ruleRuntimeState where
  "zero_ruleRuntimeState = \<lparr>rrs_TriggeredCount = 0, rrs_LastTriggeredAt = 0\<rparr>"

definition makeRuleStateKey :: "string \<Rightarrow> string \<Rightarrow> string" where
  "makeRuleStateKey ruleID deviceID = ruleID @ CHR 0x00 # deviceID"

text \<open>
  \<open>time.Duration(cooldownSeconds) * time.Second\<close> is a product of two 64-bit integers: \<open>seconds\<close> wraps.
\<close>

definition cooldown_over :: "ruleRuntimeState \<Rightarrow> int \<Rightarrow> time \<Rightarrow> bool" where
  "cooldown_over state cooldownSeconds ts =
     (cooldownSeconds \<le> 0 \<or> time_IsZero (rrs_LastTriggeredAt state) \<or>
      time_Sub ts (rrs_LastTriggeredAt state) \<ge> seconds cooldownSeconds)"

text \<open>IDs without a NUL byte have distinct keys.\<close>

lemma makeRuleStateKey_inj:
  assumes "CHR 0x00 \<notin> set r" "CHR 0x00 \<notin> set r'"
  shows "makeRuleStateKey r d = makeRuleStateKey r' d' \<longleftrightarrow> r = r' \<and> d = d'"
proof -
  have "takeWhile (\<lambda>c. c \<noteq> CHR 0x00) (makeRuleStateKey x y) = x" if "CHR 0x00 \<notin> set x" for x y
    using that by (auto simp: makeRuleStateKey_def takeWhile_append takeWhile_eq_all_conv)
  then show ?thesis using assms by (metis append_same_eq list.inject makeRuleStateKey_def same_append_eq)
qed

text \<open>Up to the largest number of seconds a duration can hold, the cooldown is the one configured.\<close>

lemma cooldown_exact:
  assumes "0 < c" "c \<le> 9223372036" "0 < rrs_LastTriggeredAt st" "in_int64 (ts - rrs_LastTriggeredAt st)"
  shows "cooldown_over st c ts \<longleftrightarrow> rrs_LastTriggeredAt st + c * 1000000000 \<le> ts"
  using assms by (auto simp: cooldown_over_def time_IsZero_def time_Sub_exact seconds_exact)

text \<open>One second more, and the product is negative: the cooldown is over at once.\<close>

lemma cooldown_wraps: "0 < rrs_LastTriggeredAt st \<Longrightarrow> rrs_LastTriggeredAt st \<le> ts \<Longrightarrow> cooldown_over st 9223372037 ts"
  by (simp add: cooldown_over_def seconds_def wrap64_def time_Sub_def int64_min_def int64_max_def)

end
