(* ===== verification/Ids.thy ===== *)
theory Ids
  imports Types
begin

text \<open>
  Identifiers and tokens (internal/util/id.go). The bytes \<open>rand.Read\<close> delivers are a parameter
  (\<open>None\<close> when it fails); the hexadecimal text determines them, so two IDs are equal only when the
  random bytes are.
\<close>

definition hex_digits :: string where
  "hex_digits = ''0123456789abcdef''"

definition hex_byte :: "nat \<Rightarrow> string" where
  "hex_byte b = [hex_digits ! (b div 16 mod 16), hex_digits ! (b mod 16)]"

text \<open>\<open>hex.EncodeToString\<close>.\<close>

definition hexEncode :: "nat list \<Rightarrow> string" where
  "hexEncode bs = concat (map hex_byte bs)"

definition randomHex :: "nat list option \<Rightarrow> time \<Rightarrow> string" where
  "randomHex random now = (case random of None \<Rightarrow> show_int (unix_nano now) | Some buffer \<Rightarrow> hexEncode buffer)"

definition NewID :: "string \<Rightarrow> nat list option \<Rightarrow> time \<Rightarrow> string" where
  "NewID prfx random now = prfx @ ''_'' @ randomHex random now"

definition NewToken :: "nat list option \<Rightarrow> time \<Rightarrow> string" where
  "NewToken random now = randomHex random now"

definition bytes_ok :: "nat list \<Rightarrow> bool" where
  "bytes_ok bs \<longleftrightarrow> (\<forall>b \<in> set bs. b < 256)"

lemma hex_digits_inj: "i < 16 \<Longrightarrow> j < 16 \<Longrightarrow> hex_digits ! i = hex_digits ! j \<longleftrightarrow> i = j"
proof -
  assume "i < 16" "j < 16"
  moreover have "distinct hex_digits" "length hex_digits = 16" by (simp_all add: hex_digits_def)
  ultimately show ?thesis by (simp add: nth_eq_iff_index_eq)
qed

lemma hex_byte_inj: "a < 256 \<Longrightarrow> b < 256 \<Longrightarrow> hex_byte a = hex_byte b \<longleftrightarrow> a = b"
proof -
  assume a: "a < 256" "b < 256"
  have "hex_byte a = hex_byte b \<longleftrightarrow> a div 16 = b div 16 \<and> a mod 16 = b mod 16"
    using a by (simp add: hex_byte_def hex_digits_inj)
  then show ?thesis by (metis div_mult_mod_eq)
qed

lemma hexEncode_length: "length (hexEncode bs) = 2 * length bs"
  by (induction bs) (simp_all add: hexEncode_def hex_byte_def)

lemma hexEncode_inj:
  "bytes_ok as \<Longrightarrow> bytes_ok bs \<Longrightarrow> hexEncode as = hexEncode bs \<longleftrightarrow> as = bs"
proof (induction as arbitrary: bs)
  case Nil
  then show ?case by (cases bs) (simp_all add: hexEncode_def hex_byte_def)
next
  case (Cons a as)
  show ?case
  proof (cases bs)
    case Nil
    then show ?thesis by (simp add: hexEncode_def hex_byte_def)
  next
    case (Cons b bs')
    with Cons.prems Cons.IH [of bs'] hex_byte_inj [of a b] show ?thesis
      by (auto simp: hexEncode_def bytes_ok_def hex_byte_def)
  qed
qed

text \<open>An ID made from random bytes has no NUL byte, so the keys of the rule states are unambiguous.\<close>

lemma hexEncode_chars: "set (hexEncode bs) \<subseteq> set hex_digits"
proof -
  have "hex_digits ! (i mod 16) \<in> set hex_digits" for i
    by (rule nth_mem) (simp add: hex_digits_def)
  then show ?thesis by (auto simp: hexEncode_def hex_byte_def)
qed

text \<open>IDs and tokens have no white space, so trimming them changes nothing.\<close>

lemma plain_show_nat: "n \<ge> 0 \<Longrightarrow> plain (show_nat n)"
proof (induction n rule: show_nat.induct)
  case (1 n)
  have "digit_char d \<in> set ''0123456789''" if "0 \<le> d" "d < 10" for d
    unfolding digit_char_def by (rule nth_mem) (use that in simp)
  then have digit: "plain [digit_char d]" if "0 \<le> d" "d < 10" for d
    using that by (fastforce simp: plain_def plain_chars_def)
  show ?case
  proof (cases "n < 10")
    case True
    then show ?thesis using digit 1 by (subst show_nat.simps) simp
  next
    case False
    then have "plain (show_nat (n div 10))" using 1 by simp
    with digit [of "n mod 10"] False show ?thesis by (subst show_nat.simps) (simp add: plain_def)
  qed
qed

lemma plain_randomHex: "plain (randomHex r t)"
proof (cases r)
  case None
  have "plain (show_int n)" for n
    using plain_show_nat [of n] plain_show_nat [of "- n"]
    by (auto simp: show_int_def plain_def plain_chars_def)
  with None show ?thesis by (simp add: randomHex_def)
next
  case (Some bs)
  have "set hex_digits \<subseteq> set plain_chars" by (simp add: hex_digits_def plain_chars_def)
  with Some hexEncode_chars [of bs] show ?thesis by (auto simp: randomHex_def plain_def)
qed

lemma trim_NewID: "plain p \<Longrightarrow> trim_space (NewID p r t) = NewID p r t"
  using plain_randomHex [of r t] by (intro plain_trim) (auto simp: NewID_def plain_def plain_chars_def)

lemma trim_NewToken: "trim_space (NewToken r t) = NewToken r t"
  by (simp add: NewToken_def plain_trim plain_randomHex)

end
