(* ===== verification/ServiceState.thy ===== *)
theory ServiceState
  imports Backend RuleEngine Ids
begin

text \<open>
  The state of \<open>core.Service\<close> (internal/core/service.go) and the primitives its methods are made of.

  \<^item> The sessions live in \<open>sv_states\<close>, the cooldown of the rules in \<open>sv_ruleStates\<close>, the statistics in
    \<open>sv_counters\<close> (the 22 atomic counters), everything else in the store behind \<open>sv_backend\<close>.
  \<^item> The environment \<open>Env\<close> holds what is outside: the readings of the clock, the random bytes, the
    outcome of every \<open>session.Send\<close>. The state counts how often each was used, and logs what was sent
    and which sessions were closed.
  \<^item> \<open>service_ok\<close> is the invariant of the service: the store is well-formed, and the online counter is
    the number of devices that have a session.
\<close>

section \<open>State\<close>

text \<open>A session: its ID and, when it implements \<open>sessionTransport\<close>, the name \<open>Transport()\<close> returns.\<close>

record Session =
  ses_ID :: string
  ses_Transport :: "string option"

record deviceState =
  dst_session :: "Session option"
  dst_sessionID :: string
  dst_transport :: string
  dst_connectedAt :: time
  dst_lastSeen :: time

definition zero_deviceState :: deviceState where
  "zero_deviceState = \<lparr>dst_session = None, dst_sessionID = [], dst_transport = [],
     dst_connectedAt = 0, dst_lastSeen = 0\<rparr>"

record Counters =
  ct_registeredDevices :: int
  ct_onlineDevices :: int
  ct_totalConnections :: int
  ct_rejectedConnections :: int
  ct_telemetryReceived :: int
  ct_commandsSent :: int
  ct_commandAcks :: int
  ct_httpRequests :: int
  ct_httpErrors :: int
  ct_httpIngestAccepted :: int
  ct_httpIngestRejected :: int
  ct_tcpTelemetryAccepted :: int
  ct_tcpCommandAcks :: int
  ct_tcpCommandsPublished :: int
  ct_mqttMessagesReceived :: int
  ct_mqttTelemetryAccepted :: int
  ct_mqttCommandAcks :: int
  ct_mqttCommandsPublished :: int
  ct_mqttConnectionsAccepted :: int
  ct_mqttConnectionsRejected :: int
  ct_bytesIngested :: int
  ct_telemetryValues :: int

definition zero_Counters :: Counters where
  "zero_Counters = \<lparr>ct_registeredDevices = 0, ct_onlineDevices = 0, ct_totalConnections = 0,
     ct_rejectedConnections = 0, ct_telemetryReceived = 0, ct_commandsSent = 0, ct_commandAcks = 0,
     ct_httpRequests = 0, ct_httpErrors = 0, ct_httpIngestAccepted = 0, ct_httpIngestRejected = 0,
     ct_tcpTelemetryAccepted = 0, ct_tcpCommandAcks = 0, ct_tcpCommandsPublished = 0,
     ct_mqttMessagesReceived = 0, ct_mqttTelemetryAccepted = 0, ct_mqttCommandAcks = 0,
     ct_mqttCommandsPublished = 0, ct_mqttConnectionsAccepted = 0, ct_mqttConnectionsRejected = 0,
     ct_bytesIngested = 0, ct_telemetryValues = 0\<rparr>"

record Service =
  sv_backend :: Backend
  sv_startedAt :: time
  sv_states :: "(string \<times> deviceState) list"
  sv_ruleStates :: "(string \<times> ruleRuntimeState) list"
  sv_counters :: Counters
  sv_ticks :: nat
  sv_rands :: nat
  sv_sends :: nat
  sv_sent :: "(Session \<times> ServerMessage) list"
  sv_closed :: "string list"

record Env =
  env_fs :: FsEnv
  env_clock :: "nat \<Rightarrow> time"
  env_rand :: "nat \<Rightarrow> nat list option"
  env_send :: "nat \<Rightarrow> string option"

type_synonym 'a sv = "(Service, gerr, 'a) op"

section \<open>Primitives\<close>

definition nowS :: "Env \<Rightarrow> time sv" where
  "nowS env s = (Inr (env_clock env (sv_ticks s)), s\<lparr>sv_ticks := Suc (sv_ticks s)\<rparr>)"

definition newID :: "Env \<Rightarrow> string \<Rightarrow> string sv" where
  "newID env prfx s =
     (Inr (NewID prfx (env_rand env (sv_rands s)) (env_clock env (sv_ticks s))), s\<lparr>sv_rands := Suc (sv_rands s)\<rparr>)"

definition newToken :: "Env \<Rightarrow> string sv" where
  "newToken env s =
     (Inr (NewToken (env_rand env (sv_rands s)) (env_clock env (sv_ticks s))), s\<lparr>sv_rands := Suc (sv_rands s)\<rparr>)"

definition onStore :: "(Backend, gerr, 'a) op \<Rightarrow> 'a sv" where
  "onStore m s = (case m (sv_backend s) of (r, b) \<Rightarrow> (r, s\<lparr>sv_backend := b\<rparr>))"

definition fromStore :: "(Backend \<Rightarrow> 'a res) \<Rightarrow> 'a sv" where
  "fromStore g = readS (\<lambda>s. g (sv_backend s))"

definition count :: "(Counters \<Rightarrow> Counters) \<Rightarrow> unit sv" where
  "count f = modS (\<lambda>s. s\<lparr>sv_counters := f (sv_counters s)\<rparr>)"

text \<open>\<open>s.states[deviceID]\<close>: the zero state when there is none.\<close>

definition state_of :: "(string \<times> deviceState) list \<Rightarrow> string \<Rightarrow> deviceState" where
  "state_of states deviceID = (case map_of states deviceID of None \<Rightarrow> zero_deviceState | Some st \<Rightarrow> st)"

definition sessionTransportName :: "Session \<Rightarrow> string" where
  "sessionTransportName session =
     (case ses_Transport session of
        Some t \<Rightarrow> (let value = norm_label t in if value \<noteq> [] then value else ''tcp'')
      | None \<Rightarrow> ''tcp'')"

text \<open>\<open>session.Send(message)\<close>: an error, or the message is delivered.\<close>

definition sendMessage :: "Env \<Rightarrow> Session \<Rightarrow> ServerMessage \<Rightarrow> string option sv" where
  "sendMessage env session message s =
     (case env_send env (sv_sends s) of
        Some e \<Rightarrow> (Inr (Some e), s\<lparr>sv_sends := Suc (sv_sends s)\<rparr>)
      | None \<Rightarrow> (Inr None, s\<lparr>sv_sends := Suc (sv_sends s), sv_sent := sv_sent s @ [(session, message)]\<rparr>))"

definition closeSession :: "Session \<Rightarrow> unit sv" where
  "closeSession session = modS (\<lambda>s. s\<lparr>sv_closed := sv_closed s @ [ses_ID session]\<rparr>)"

definition NewService :: "Env \<Rightarrow> Backend \<Rightarrow> Service" where
  "NewService env b =
     \<lparr>sv_backend = b, sv_startedAt = env_clock env 0, sv_states = [], sv_ruleStates = [],
      sv_counters = (case st_StorageStats b of
          Inl _ \<Rightarrow> zero_Counters
        | Inr stats \<Rightarrow> zero_Counters\<lparr>ct_registeredDevices := int (ss_Devices stats)\<rparr>),
      sv_ticks = 1, sv_rands = 0, sv_sends = 0, sv_sent = [], sv_closed = []\<rparr>"

section \<open>The invariant\<close>

definition online :: "(string \<times> deviceState) list \<Rightarrow> string \<Rightarrow> bool" where
  "online states d \<longleftrightarrow> dst_session (state_of states d) \<noteq> None"

definition online_ids :: "(string \<times> deviceState) list \<Rightarrow> string set" where
  "online_ids states = {d. online states d}"

definition state_ok :: "deviceState \<Rightarrow> bool" where
  "state_ok st \<longleftrightarrow> (case dst_session st of
       None \<Rightarrow> dst_sessionID st = [] \<and> dst_transport st = []
     | Some ses \<Rightarrow> dst_sessionID st = ses_ID ses \<and> dst_transport st = sessionTransportName ses)"

definition states_ok :: "(string \<times> deviceState) list \<Rightarrow> bool" where
  "states_ok states \<longleftrightarrow> distinct (map fst states) \<and> (\<forall>(d, st) \<in> set states. state_ok st)"

definition sessions_ok :: "Service \<Rightarrow> bool" where
  "sessions_ok s \<longleftrightarrow> states_ok (sv_states s) \<and>
     ct_onlineDevices (sv_counters s) = int (card (online_ids (sv_states s)))"

definition service_ok :: "Service \<Rightarrow> bool" where
  "service_ok s \<longleftrightarrow> backend_ok (sv_backend s) \<and> sessions_ok s"

lemma zero_state_ok [simp]: "state_ok zero_deviceState"
  by (simp add: state_ok_def zero_deviceState_def)

lemma state_of_ok: "states_ok states \<Longrightarrow> state_ok (state_of states d)"
  by (auto simp: states_ok_def state_of_def split: option.splits dest!: map_of_SomeD)

lemma state_of_update [simp]: "state_of (AList.update d st states) e = (if e = d then st else state_of states e)"
  by (simp add: state_of_def)

lemma states_ok_update: "states_ok states \<Longrightarrow> state_ok st \<Longrightarrow> states_ok (AList.update d st states)"
  by (auto simp: states_ok_def dest!: set_update_cases)

lemma online_ids_finite [simp]: "finite (online_ids states)"
proof (rule finite_subset)
  show "online_ids states \<subseteq> set (map fst states)"
    by (auto simp: online_ids_def online_def state_of_def zero_deviceState_def image_iff
        split: option.splits dest!: map_of_SomeD)
      (metis fst_conv)
qed simp

lemma online_ids_update:
  "online_ids (AList.update d st states) =
    (if dst_session st = None then online_ids states - {d} else insert d (online_ids states))"
  by (auto simp: online_ids_def online_def)

text \<open>Writing the state of one device moves the number of online devices by at most one.\<close>

lemma card_online_update:
  "int (card (online_ids (AList.update d st states))) = int (card (online_ids states)) +
    (if dst_session st = None then (if online states d then -1 else 0)
     else (if online states d then 0 else 1))"
proof -
  have mem: "d \<in> online_ids states \<longleftrightarrow> online states d" by (simp add: online_ids_def)
  have ins: "card (insert d (online_ids states)) = card (online_ids states) + (if online states d then 0 else 1)"
    using mem by (simp add: card_insert_if)
  have del: "int (card (online_ids states - {d})) = int (card (online_ids states)) + (if online states d then -1 else 0)"
  proof (cases "online states d")
    case True
    then have "card (online_ids states) = Suc (card (online_ids states - {d}))"
      using mem card_Suc_Diff1 [of "online_ids states" d] by simp
    then show ?thesis using True by simp
  qed (simp add: mem)
  show ?thesis by (simp add: online_ids_update ins del)
qed

section \<open>Primitives keep the invariant\<close>

lemma service_ok_parts:
  "sv_backend s' = sv_backend s \<Longrightarrow> sv_states s' = sv_states s \<Longrightarrow>
    ct_onlineDevices (sv_counters s') = ct_onlineDevices (sv_counters s) \<Longrightarrow> service_ok s \<Longrightarrow> service_ok s'"
  by (simp add: service_ok_def sessions_ok_def)

lemma service_prims_ok [preserves_intros]:
  "preserves service_ok (nowS env)"
  "preserves service_ok (newID env prfx)"
  "preserves service_ok (newToken env)"
  "preserves service_ok (fromStore g)"
  "preserves service_ok (sendMessage env session message)"
  "preserves service_ok (closeSession session)"
  by (auto simp: preserves_def nowS_def newID_def newToken_def fromStore_def sendMessage_def
      closeSession_def op_simps elim!: service_ok_parts [rotated 3] split: option.splits)

lemma onStore_ok [preserves_intros]: "preserves backend_ok m \<Longrightarrow> preserves service_ok (onStore m)"
  by (auto simp: preserves_def onStore_def service_ok_def sessions_ok_def split: prod.splits)

lemma count_ok: "(\<And>c. ct_onlineDevices (f c) = ct_onlineDevices c) \<Longrightarrow> preserves service_ok (count f)"
  by (auto simp: preserves_def count_def op_simps elim!: service_ok_parts [rotated 3])

lemma NewService_ok: "backend_ok b \<Longrightarrow> service_ok (NewService env b)"
  by (auto simp: service_ok_def sessions_ok_def NewService_def states_ok_def online_ids_def online_def
      state_of_def zero_deviceState_def zero_Counters_def split: sum.splits)

end
