(* ===== verification/Sessions.thy ===== *)
theory Sessions
  imports ServiceState
begin

text \<open>
  The session registry and the statistics of the service (internal/core/service.go): sessions are
  registered and unregistered by device, a touch moves the last-seen time, and the \<open>Record*\<close> methods
  count. Each operation keeps \<open>service_ok\<close>; the lemmas say which device goes on or off line.
\<close>

section \<open>Registry\<close>

definition RegisterSession :: "Env \<Rightarrow> string \<Rightarrow> Session \<Rightarrow> unit sv" where
  "RegisterSession env deviceID session =
     bindS (nowS env) (\<lambda>now.
     bindS (getS (\<lambda>s. state_of (sv_states s) deviceID)) (\<lambda>state.
       let shouldIncrement = (dst_session state = None);
           previous = (case dst_session state of
               None \<Rightarrow> None
             | Some p \<Rightarrow> if dst_sessionID state \<noteq> ses_ID session then Some p else None);
           state' = \<lparr>dst_session = Some session, dst_sessionID = ses_ID session,
             dst_transport = sessionTransportName session, dst_connectedAt = now, dst_lastSeen = now\<rparr> in
       bindS (modS (\<lambda>s. s\<lparr>sv_states := AList.update deviceID state' (sv_states s)\<rparr>)) (\<lambda>_.
       bindS (if shouldIncrement
              then count (\<lambda>c. c\<lparr>ct_onlineDevices := ct_onlineDevices c + 1\<rparr>) else retS ()) (\<lambda>_.
       case previous of Some p \<Rightarrow> closeSession p | None \<Rightarrow> retS ()))))"

definition UnregisterSession :: "Env \<Rightarrow> string \<Rightarrow> string \<Rightarrow> unit sv" where
  "UnregisterSession env deviceID sessionID =
     bindS (nowS env) (\<lambda>now.
     bindS (getS (\<lambda>s. state_of (sv_states s) deviceID)) (\<lambda>state.
       if dst_session state \<noteq> None \<and> dst_sessionID state = sessionID then
         bindS (modS (\<lambda>s. s\<lparr>sv_states := AList.update deviceID (state\<lparr>dst_session := None,
           dst_sessionID := [], dst_transport := [], dst_lastSeen := now\<rparr>) (sv_states s)\<rparr>)) (\<lambda>_.
         count (\<lambda>c. c\<lparr>ct_onlineDevices := ct_onlineDevices c - 1\<rparr>))
       else retS ()))"

definition TouchDevice :: "string \<Rightarrow> time \<Rightarrow> unit sv" where
  "TouchDevice deviceID now =
     modS (\<lambda>s.
       let state = state_of (sv_states s) deviceID;
           state = (if time_Before (dst_lastSeen state) now then state\<lparr>dst_lastSeen := now\<rparr> else state);
           state = (if time_IsZero (dst_connectedAt state) \<and> dst_session state \<noteq> None
                    then state\<lparr>dst_connectedAt := now\<rparr> else state) in
       s\<lparr>sv_states := AList.update deviceID state (sv_states s)\<rparr>)"

lemma RegisterSession_eq:
  "RegisterSession env d ses s =
    (let st = state_of (sv_states s) d; now = env_clock env (sv_ticks s) in
     (Inr (), s\<lparr>sv_ticks := Suc (sv_ticks s),
       sv_states := AList.update d \<lparr>dst_session = Some ses, dst_sessionID = ses_ID ses,
         dst_transport = sessionTransportName ses, dst_connectedAt = now, dst_lastSeen = now\<rparr> (sv_states s),
       sv_counters := (if dst_session st = None
         then (sv_counters s)\<lparr>ct_onlineDevices := ct_onlineDevices (sv_counters s) + 1\<rparr> else sv_counters s),
       sv_closed := (case dst_session st of None \<Rightarrow> sv_closed s
         | Some p \<Rightarrow> if dst_sessionID st \<noteq> ses_ID ses then sv_closed s @ [ses_ID p] else sv_closed s)\<rparr>))"
  by (auto simp: RegisterSession_def Let_def bindS_def nowS_def count_def closeSession_def op_simps
      split: option.splits)

lemma UnregisterSession_eq:
  "UnregisterSession env d i s =
    (let st = state_of (sv_states s) d; s' = s\<lparr>sv_ticks := Suc (sv_ticks s)\<rparr> in
     (Inr (), if dst_session st \<noteq> None \<and> dst_sessionID st = i
       then s'\<lparr>sv_states := AList.update d (st\<lparr>dst_session := None, dst_sessionID := [], dst_transport := [],
              dst_lastSeen := env_clock env (sv_ticks s)\<rparr>) (sv_states s),
            sv_counters := (sv_counters s)\<lparr>ct_onlineDevices := ct_onlineDevices (sv_counters s) - 1\<rparr>\<rparr>
       else s'))"
  by (simp add: UnregisterSession_def Let_def bindS_def nowS_def count_def op_simps)

lemma sessions_ok_write:
  assumes "sessions_ok s" "state_ok st"
    "sv_states s' = AList.update d st (sv_states s)"
    "ct_onlineDevices (sv_counters s') = ct_onlineDevices (sv_counters s) +
      (if dst_session st = None then (if online (sv_states s) d then -1 else 0)
       else (if online (sv_states s) d then 0 else 1))"
  shows "sessions_ok s'"
  using assms card_online_update [of d st "sv_states s"]
  by (simp add: sessions_ok_def states_ok_update)

lemma RegisterSession_ok [preserves_intros]: "preserves service_ok (RegisterSession env d ses)"
proof (rule preservesI)
  fix s assume s: "service_ok s"
  let ?s' = "snd (RegisterSession env d ses s)"
  have "sessions_ok ?s'"
  proof (rule sessions_ok_write)
    show "sessions_ok s" using s by (simp add: service_ok_def)
    show "state_ok \<lparr>dst_session = Some ses, dst_sessionID = ses_ID ses, dst_transport = sessionTransportName ses,
        dst_connectedAt = env_clock env (sv_ticks s), dst_lastSeen = env_clock env (sv_ticks s)\<rparr>"
      by (simp add: state_ok_def)
  qed (auto simp: RegisterSession_eq Let_def online_def)
  then show "service_ok ?s'" using s by (simp add: service_ok_def RegisterSession_eq Let_def)
qed

lemma UnregisterSession_ok [preserves_intros]: "preserves service_ok (UnregisterSession env d i)"
proof (rule preservesI)
  fix s assume s: "service_ok s"
  let ?st = "state_of (sv_states s) d"
  show "service_ok (snd (UnregisterSession env d i s))"
  proof (cases "dst_session ?st \<noteq> None \<and> dst_sessionID ?st = i")
    case True
    have "sessions_ok (snd (UnregisterSession env d i s))"
    proof (rule sessions_ok_write)
      show "sessions_ok s" using s by (simp add: service_ok_def)
      show "state_ok (?st\<lparr>dst_session := None, dst_sessionID := [], dst_transport := [],
          dst_lastSeen := env_clock env (sv_ticks s)\<rparr>)"
        by (simp add: state_ok_def)
    qed (use True in \<open>auto simp: UnregisterSession_eq Let_def online_def\<close>)
    then show ?thesis using s True by (simp add: service_ok_def UnregisterSession_eq Let_def)
  next
    case False
    then have "snd (UnregisterSession env d i s) = s\<lparr>sv_ticks := Suc (sv_ticks s)\<rparr>"
      by (auto simp: UnregisterSession_eq Let_def)
    then show ?thesis using s by (simp add: service_ok_def sessions_ok_def)
  qed
qed

lemma TouchDevice_ok [preserves_intros]: "preserves service_ok (TouchDevice d now)"
proof (rule preservesI)
  fix s assume s: "service_ok s"
  let ?st = "state_of (sv_states s) d"
  let ?st1 = "if time_Before (dst_lastSeen ?st) now then ?st\<lparr>dst_lastSeen := now\<rparr> else ?st"
  let ?st2 = "if time_IsZero (dst_connectedAt ?st1) \<and> dst_session ?st1 \<noteq> None then ?st1\<lparr>dst_connectedAt := now\<rparr> else ?st1"
  have st: "state_ok ?st" using s state_of_ok by (simp add: service_ok_def sessions_ok_def)
  have "sessions_ok (snd (TouchDevice d now s))"
  proof (rule sessions_ok_write)
    show "sessions_ok s" using s by (simp add: service_ok_def)
    show "state_ok ?st2" using st by (auto simp: state_ok_def split: option.splits)
  qed (auto simp: TouchDevice_def Let_def op_simps online_def)
  then show "service_ok (snd (TouchDevice d now s))"
    using s by (simp add: service_ok_def TouchDevice_def Let_def op_simps)
qed

section \<open>Who is on line\<close>

lemma online_Register: "online (sv_states (snd (RegisterSession env d ses s))) e \<longleftrightarrow> e = d \<or> online (sv_states s) e"
  by (simp add: RegisterSession_eq Let_def online_def)

lemma online_Unregister:
  "online (sv_states (snd (UnregisterSession env d i s))) e \<longleftrightarrow>
    online (sv_states s) e \<and> (e = d \<longrightarrow> dst_sessionID (state_of (sv_states s) d) \<noteq> i)"
  by (auto simp: UnregisterSession_eq Let_def online_def)

lemma online_Touch: "online (sv_states (snd (TouchDevice d now s))) e \<longleftrightarrow> online (sv_states s) e"
  by (simp add: TouchDevice_def Let_def op_simps online_def)

text \<open>A touch only moves the last-seen time forward.\<close>

lemma Touch_lastSeen:
  "dst_lastSeen (state_of (sv_states (snd (TouchDevice d now s))) e) =
    (if e = d then max now (dst_lastSeen (state_of (sv_states s) d)) else dst_lastSeen (state_of (sv_states s) e))"
  by (auto simp: TouchDevice_def Let_def op_simps time_Before_def)

section \<open>Statistics\<close>

definition RecordConnectionAccepted :: "unit sv" where
  "RecordConnectionAccepted = count (\<lambda>c. c\<lparr>ct_totalConnections := ct_totalConnections c + 1\<rparr>)"

definition RecordConnectionRejected :: "unit sv" where
  "RecordConnectionRejected = count (\<lambda>c. c\<lparr>ct_rejectedConnections := ct_rejectedConnections c + 1\<rparr>)"

definition RecordHTTPRequest :: "int \<Rightarrow> unit sv" where
  "RecordHTTPRequest status = count (\<lambda>c.
     let c = c\<lparr>ct_httpRequests := ct_httpRequests c + 1\<rparr> in
     if status \<ge> 400 then c\<lparr>ct_httpErrors := ct_httpErrors c + 1\<rparr> else c)"

definition recordIngressVolume :: "int \<Rightarrow> int \<Rightarrow> unit sv" where
  "recordIngressVolume payloadBytes valueCount = count (\<lambda>c.
     let c = (if payloadBytes > 0 then c\<lparr>ct_bytesIngested := ct_bytesIngested c + payloadBytes\<rparr> else c) in
     if valueCount > 0 then c\<lparr>ct_telemetryValues := ct_telemetryValues c + valueCount\<rparr> else c)"

definition RecordHTTPIngestResult :: "bool \<Rightarrow> int \<Rightarrow> int \<Rightarrow> unit sv" where
  "RecordHTTPIngestResult accepted payloadBytes valueCount =
     bindS (if accepted then count (\<lambda>c. c\<lparr>ct_httpIngestAccepted := ct_httpIngestAccepted c + 1\<rparr>)
            else count (\<lambda>c. c\<lparr>ct_httpIngestRejected := ct_httpIngestRejected c + 1\<rparr>)) (\<lambda>_.
     recordIngressVolume payloadBytes valueCount)"

definition RecordTCPTelemetryAccepted :: "int \<Rightarrow> int \<Rightarrow> unit sv" where
  "RecordTCPTelemetryAccepted payloadBytes valueCount =
     bindS (count (\<lambda>c. c\<lparr>ct_tcpTelemetryAccepted := ct_tcpTelemetryAccepted c + 1\<rparr>)) (\<lambda>_.
     recordIngressVolume payloadBytes valueCount)"

definition RecordCommandAckTransport :: "string \<Rightarrow> unit sv" where
  "RecordCommandAckTransport transport =
     count (\<lambda>c. if norm_label transport = ''mqtt'' then c\<lparr>ct_mqttCommandAcks := ct_mqttCommandAcks c + 1\<rparr>
       else c\<lparr>ct_tcpCommandAcks := ct_tcpCommandAcks c + 1\<rparr>)"

definition RecordMQTTConnectionAccepted :: "unit sv" where
  "RecordMQTTConnectionAccepted = count (\<lambda>c. c\<lparr>ct_mqttConnectionsAccepted := ct_mqttConnectionsAccepted c + 1\<rparr>)"

definition RecordMQTTConnectionRejected :: "unit sv" where
  "RecordMQTTConnectionRejected = count (\<lambda>c. c\<lparr>ct_mqttConnectionsRejected := ct_mqttConnectionsRejected c + 1\<rparr>)"

definition RecordMQTTMessageReceived :: "int \<Rightarrow> int \<Rightarrow> bool \<Rightarrow> unit sv" where
  "RecordMQTTMessageReceived payloadBytes valueCount telemetry =
     bindS (count (\<lambda>c.
       let c = c\<lparr>ct_mqttMessagesReceived := ct_mqttMessagesReceived c + 1\<rparr> in
       if telemetry then c\<lparr>ct_mqttTelemetryAccepted := ct_mqttTelemetryAccepted c + 1\<rparr> else c)) (\<lambda>_.
     recordIngressVolume payloadBytes valueCount)"

definition recordCommandPublished :: "string \<Rightarrow> unit sv" where
  "recordCommandPublished transport =
     count (\<lambda>c. if norm_label transport = ''mqtt'' then c\<lparr>ct_mqttCommandsPublished := ct_mqttCommandsPublished c + 1\<rparr>
       else c\<lparr>ct_tcpCommandsPublished := ct_tcpCommandsPublished c + 1\<rparr>)"

lemmas record_defs = RecordConnectionAccepted_def RecordConnectionRejected_def RecordHTTPRequest_def
  recordIngressVolume_def RecordHTTPIngestResult_def RecordTCPTelemetryAccepted_def
  RecordCommandAckTransport_def RecordMQTTConnectionAccepted_def RecordMQTTConnectionRejected_def
  RecordMQTTMessageReceived_def recordCommandPublished_def

lemma record_ops_ok [preserves_intros]:
  "preserves service_ok RecordConnectionAccepted" "preserves service_ok RecordConnectionRejected"
  "preserves service_ok (RecordHTTPRequest n)" "preserves service_ok (recordIngressVolume p v)"
  "preserves service_ok (RecordHTTPIngestResult a p v)" "preserves service_ok (RecordTCPTelemetryAccepted p v)"
  "preserves service_ok (RecordCommandAckTransport t)" "preserves service_ok RecordMQTTConnectionAccepted"
  "preserves service_ok RecordMQTTConnectionRejected" "preserves service_ok (RecordMQTTMessageReceived p v b)"
  "preserves service_ok (recordCommandPublished t)"
  unfolding record_defs by (intro preserves_intros count_ok; simp add: Let_def)+

text \<open>\<open>Stats\<close>, without the figures of the Go runtime and the uptime.\<close>

record Stats =
  sta_Counters :: Counters
  sta_StartedAt :: time
  sta_Storage :: StorageStats
  sta_TCPOnlineDevices :: nat
  sta_MQTTOnlineDevices :: nat

definition memory_stats :: StorageStats where
  "memory_stats = \<lparr>ss_Backend = ''memory'', ss_PersistencePath = [], ss_Tenants = 0, ss_Products = 0,
     ss_Devices = 0, ss_Groups = 0, ss_Rules = 0, ss_ConfigProfiles = 0, ss_FirmwareArtifacts = 0,
     ss_OTACampaigns = 0, ss_Shadows = 0, ss_Commands = 0, ss_Alerts = 0, ss_TelemetrySeries = 0,
     ss_TelemetrySamples = 0, ss_LastPersistedAt = None, ss_PersistErrors = 0\<rparr>"

definition Stats :: "Service \<Rightarrow> Stats" where
  "Stats s =
     (let sessions = filter (\<lambda>st. dst_session st \<noteq> None) (map snd (sv_states s)) in
      \<lparr>sta_Counters = sv_counters s, sta_StartedAt = sv_startedAt s,
       sta_Storage = (case st_StorageStats (sv_backend s) of Inl _ \<Rightarrow> memory_stats | Inr stats \<Rightarrow> stats),
       sta_TCPOnlineDevices = length (filter (\<lambda>st. dst_transport st \<noteq> ''mqtt'') sessions),
       sta_MQTTOnlineDevices = length (filter (\<lambda>st. dst_transport st = ''mqtt'') sessions)\<rparr>)"

lemma length_online:
  assumes "states_ok states"
  shows "length (filter (\<lambda>st. dst_session st \<noteq> None) (map snd states)) = card (online_ids states)"
proof -
  have d: "distinct (map fst states)" using assms by (simp add: states_ok_def)
  let ?on = "filter (\<lambda>(k, st). dst_session st \<noteq> None) states"
  have "online_ids states = set (map fst ?on)"
  proof -
    have "online states k \<longleftrightarrow> (\<exists>st. (k, st) \<in> set states \<and> dst_session st \<noteq> None)" for k
      by (auto simp: online_def state_of_def zero_deviceState_def map_of_eq_Some_iff [OF d, symmetric]
          split: option.splits)
    then show ?thesis by (force simp: online_ids_def)
  qed
  moreover have "distinct (map fst ?on)" using d by (simp add: distinct_map_filter)
  ultimately have "card (online_ids states) = length ?on"
    by (metis distinct_card length_map)
  then show ?thesis by (simp add: filter_map comp_def case_prod_unfold)
qed

text \<open>The two figures per transport add up to the number of devices on line.\<close>

lemma Stats_online:
  assumes "service_ok s"
  shows "int (sta_TCPOnlineDevices (Stats s)) + int (sta_MQTTOnlineDevices (Stats s)) =
    ct_onlineDevices (sta_Counters (Stats s))"
proof -
  define ss where "ss = filter (\<lambda>st. dst_session st \<noteq> None) (map snd (sv_states s))"
  have "length ss = card (online_ids (sv_states s))"
    unfolding ss_def using assms by (intro length_online) (simp add: service_ok_def sessions_ok_def)
  moreover have "length (filter (\<lambda>st. dst_transport st \<noteq> ''mqtt'') ss) +
      length (filter (\<lambda>st. dst_transport st = ''mqtt'') ss) = length ss"
    using sum_length_filter_compl [of "\<lambda>st. dst_transport st = ''mqtt''" ss] by simp
  moreover have "sta_TCPOnlineDevices (Stats s) = length (filter (\<lambda>st. dst_transport st \<noteq> ''mqtt'') ss)"
    "sta_MQTTOnlineDevices (Stats s) = length (filter (\<lambda>st. dst_transport st = ''mqtt'') ss)"
    "ct_onlineDevices (sta_Counters (Stats s)) = int (card (online_ids (sv_states s)))"
    using assms by (simp_all only: Stats_def Let_def ss_def Stats.simps service_ok_def sessions_ok_def)
  ultimately show ?thesis by linarith
qed

end
