(* ===== verification/Views.thy ===== *)
theory Views
  imports Sessions
begin

text \<open>
  The read side of the service (internal/core/service.go, internal/core/multitenant_ota.go): the views
  that join an entity with the summaries of what it refers to, and the listings by tenant. They read
  the store and the session states and change nothing. A reference to an entity that no longer exists
  is left out of the view; the lemmas state that, and that a view of a stored entity always exists.
\<close>

section \<open>References\<close>

text \<open>
  The pattern \<open>x, err := get(id); if err != nil && !errors.Is(err, notfound) { return err };
  if err == nil { view.X = summary(x) }\<close>, run when the ID is not empty.
\<close>

definition summary :: "('b \<Rightarrow> 'c) \<Rightarrow> gerr \<Rightarrow> (string \<Rightarrow> 'b res) \<Rightarrow> string \<Rightarrow> 'c option res" where
  "summary summ notfound get i =
     (if i = [] then Inr None
      else (case get i of
          Inl e \<Rightarrow> if e = notfound then Inr None else Inl e
        | Inr x \<Rightarrow> Inr (Some (summ x))))"

definition product_summary :: "Product \<Rightarrow> ProductSummary" where
  "product_summary product = \<lparr>prds_ID = prd_ID product, prds_Key = prd_Key product, prds_Name = prd_Name product\<rparr>"

definition group_summary :: "DeviceGroup \<Rightarrow> GroupSummary" where
  "group_summary grp = \<lparr>grps_ID = grp_ID grp, grps_Name = grp_Name grp\<rparr>"

definition device_summary :: "Device \<Rightarrow> DeviceSummary" where
  "device_summary device = \<lparr>devs_ID = dev_ID device, devs_Name = dev_Name device\<rparr>"

definition firmware_summary :: "FirmwareArtifact \<Rightarrow> FirmwareArtifactSummary" where
  "firmware_summary artifact =
     \<lparr>fws_ID = fw_ID artifact, fws_Name = fw_Name artifact, fws_Version = fw_Version artifact\<rparr>"

definition tenantSummary :: "Service \<Rightarrow> string \<Rightarrow> TenantSummary option res" where
  "tenantSummary s tenantID =
     (let tenantID = trim_space tenantID in
      if tenantID = [] then Inr None
      else (case st_GetTenant tenantID (sv_backend s) of
          Inl e \<Rightarrow> if e = ErrTenantNotFound then Inr None else Inl e
        | Inr tenant \<Rightarrow> Inr (Some \<lparr>tns_ID = tn_ID tenant, tns_Slug = tn_Slug tenant, tns_Name = tn_Name tenant\<rparr>)))"

definition productRef :: "Service \<Rightarrow> string \<Rightarrow> ProductSummary option res" where
  "productRef s = summary product_summary ErrProductNotFound (\<lambda>i. st_GetProduct i (sv_backend s))"

definition groupRef :: "Service \<Rightarrow> string \<Rightarrow> GroupSummary option res" where
  "groupRef s = summary group_summary ErrGroupNotFound (\<lambda>i. st_GetGroup i (sv_backend s))"

definition deviceRef :: "Service \<Rightarrow> string \<Rightarrow> DeviceSummary option res" where
  "deviceRef s = summary device_summary ErrDeviceNotFound (\<lambda>i. st_GetDevice i (sv_backend s))"

definition firmwareRef :: "Service \<Rightarrow> string \<Rightarrow> FirmwareArtifactSummary option res" where
  "firmwareRef s = summary firmware_summary ErrFirmwareNotFound (\<lambda>i. st_GetFirmwareArtifact i (sv_backend s))"

definition assertTenantExists :: "string \<Rightarrow> Service \<Rightarrow> unit res" where
  "assertTenantExists tenantID s =
     (let tenantID = trim_space tenantID in
      if tenantID = [] then Inr ()
      else bindE (st_GetTenant tenantID (sv_backend s)) (\<lambda>_. Inr ()))"

definition loadTenant :: "Service \<Rightarrow> string \<Rightarrow> Tenant option" where
  "loadTenant s tenantID =
     (let tenantID = trim_space tenantID in
      if tenantID = [] then None
      else (case st_GetTenant tenantID (sv_backend s) of Inl _ \<Rightarrow> None | Inr tenant \<Rightarrow> Some tenant))"

definition loadProduct :: "Service \<Rightarrow> string \<Rightarrow> Product option" where
  "loadProduct s productID =
     (let productID = trim_space productID in
      if productID = [] then None
      else (case st_GetProduct productID (sv_backend s) of Inl _ \<Rightarrow> None | Inr product \<Rightarrow> Some product))"

section \<open>Views\<close>

definition buildProductView :: "Product \<Rightarrow> Service \<Rightarrow> ProductView res" where
  "buildProductView product s =
     bindE (tenantSummary s (prd_TenantID product)) (\<lambda>tenant.
     bindE (st_ListDevices (sv_backend s)) (\<lambda>devices.
       let mine = filter (\<lambda>device. dev_ProductID device = prd_ID product) devices in
       Inr \<lparr>prdv_Product = product, prdv_Tenant = tenant, prdv_DeviceCount = length mine,
         prdv_OnlineCount = length (filter (\<lambda>device. online (sv_states s) (dev_ID device)) mine)\<rparr>))"

definition buildGroupView :: "DeviceGroup \<Rightarrow> Service \<Rightarrow> GroupView res" where
  "buildGroupView grp s =
     bindE (tenantSummary s (grp_TenantID grp)) (\<lambda>tenant.
     bindE (productRef s (grp_ProductID grp)) (\<lambda>product.
     bindE (st_ListDeviceIDsByGroup (grp_ID grp) (sv_backend s)) (\<lambda>deviceIDs.
       Inr \<lparr>grpv_Group = grp, grpv_Tenant = tenant, grpv_Product = product,
         grpv_DeviceCount = length deviceIDs,
         grpv_OnlineCount = length (filter (online (sv_states s)) deviceIDs)\<rparr>)))"

text \<open>One step of the loop over \<open>s.ruleStates\<close> in \<open>buildRuleView\<close>.\<close>

definition rule_stat :: "string \<Rightarrow> string \<times> ruleRuntimeState \<Rightarrow> int \<times> time option \<Rightarrow> int \<times> time option" where
  "rule_stat prfx kr acc = (case kr of (key, runtime) \<Rightarrow> (case acc of (triggered, latest) \<Rightarrow>
     if \<not> has_prefix key prfx then (triggered, latest)
     else (triggered + rrs_TriggeredCount runtime,
       (if time_IsZero (rrs_LastTriggeredAt runtime) then latest
        else (case latest of
            None \<Rightarrow> Some (rrs_LastTriggeredAt runtime)
          | Some t \<Rightarrow> if time_After (rrs_LastTriggeredAt runtime) t
                     then Some (rrs_LastTriggeredAt runtime) else Some t)))))"

definition buildRuleView :: "Rule \<Rightarrow> Service \<Rightarrow> RuleView res" where
  "buildRuleView rule s =
     bindE (tenantSummary s (rul_TenantID rule)) (\<lambda>tenant.
     bindE (productRef s (rul_ProductID rule)) (\<lambda>product.
     bindE (groupRef s (rul_GroupID rule)) (\<lambda>grp.
     bindE (deviceRef s (rul_DeviceID rule)) (\<lambda>device.
       case fold (rule_stat (makeRuleStateKey (rul_ID rule) [])) (sv_ruleStates s) (0, None) of
         (triggered, latest) \<Rightarrow>
           Inr \<lparr>rulv_Rule = rule, rulv_Tenant = tenant, rulv_Product = product, rulv_Group = grp,
             rulv_Device = device, rulv_TriggeredCount = triggered, rulv_LastTriggeredAt = latest\<rparr>))))"

definition buildConfigProfileView :: "ConfigProfile \<Rightarrow> Service \<Rightarrow> ConfigProfileView res" where
  "buildConfigProfileView profile s =
     bindE (tenantSummary s (cfg_TenantID profile)) (\<lambda>tenant.
     bindE (productRef s (cfg_ProductID profile)) (\<lambda>product.
       Inr \<lparr>cfgv_Profile = profile, cfgv_Tenant = tenant, cfgv_Product = product\<rparr>))"

text \<open>The loop over the groups of a device: groups that are gone are skipped.\<close>

fun group_summaries :: "Service \<Rightarrow> string list \<Rightarrow> GroupSummary list res" where
  "group_summaries s [] = Inr []"
| "group_summaries s (groupID # ids) =
     (case st_GetGroup groupID (sv_backend s) of
        Inl e \<Rightarrow> if e = ErrGroupNotFound then group_summaries s ids else Inl e
      | Inr grp \<Rightarrow> bindE (group_summaries s ids) (\<lambda>rest. Inr (group_summary grp # rest)))"

definition buildGroupSummaries :: "string \<Rightarrow> Service \<Rightarrow> GroupSummary list res" where
  "buildGroupSummaries deviceID s =
     bindE (st_ListGroupIDsByDevice deviceID (sv_backend s)) (\<lambda>groupIDs.
     if length groupIDs = 0 then Inr [] else group_summaries s groupIDs)"

definition buildDeviceView :: "Device \<Rightarrow> Service \<Rightarrow> DeviceView res" where
  "buildDeviceView device s =
     bindE (tenantSummary s (dev_TenantID device)) (\<lambda>tenant.
     bindE (productRef s (dev_ProductID device)) (\<lambda>product.
     bindE (case buildGroupSummaries (dev_ID device) s of
         Inl e \<Rightarrow> if e = ErrDeviceNotFound then Inr [] else Inl e
       | Inr grps \<Rightarrow> Inr grps) (\<lambda>grps.
       let state = state_of (sv_states s) (dev_ID device) in
       Inr \<lparr>devv_Device = device, devv_Tenant = tenant, devv_Product = product, devv_Groups = grps,
         devv_Online = (dst_session state \<noteq> None),
         devv_ConnectedAt = (if time_IsZero (dst_connectedAt state) then None else Some (dst_connectedAt state)),
         devv_LastSeen = (if time_IsZero (dst_lastSeen state) then None else Some (dst_lastSeen state))\<rparr>)))"

definition buildFirmwareArtifactView :: "FirmwareArtifact \<Rightarrow> Service \<Rightarrow> FirmwareArtifactView res" where
  "buildFirmwareArtifactView artifact s =
     bindE (tenantSummary s (fw_TenantID artifact)) (\<lambda>tenant.
     bindE (productRef s (fw_ProductID artifact)) (\<lambda>product.
       Inr \<lparr>fwv_Artifact = artifact, fwv_Tenant = tenant, fwv_Product = product\<rparr>))"

definition buildOTACampaignView :: "OTACampaign \<Rightarrow> Service \<Rightarrow> OTACampaignView res" where
  "buildOTACampaignView campaign s =
     bindE (tenantSummary s (ota_TenantID campaign)) (\<lambda>tenant.
     bindE (productRef s (ota_ProductID campaign)) (\<lambda>product.
     bindE (groupRef s (ota_GroupID campaign)) (\<lambda>grp.
     bindE (deviceRef s (ota_DeviceID campaign)) (\<lambda>device.
     bindE (firmwareRef s (ota_FirmwareID campaign)) (\<lambda>firmware.
       Inr \<lparr>otav_Campaign = campaign, otav_Tenant = tenant, otav_Product = product, otav_Group = grp,
         otav_Device = device, otav_Firmware = firmware\<rparr>)))))"

section \<open>Listings\<close>

definition in_tenant :: "string \<Rightarrow> string \<Rightarrow> bool" where
  "in_tenant tenantID t \<longleftrightarrow> tenantID = [] \<or> t = tenantID"

definition ListTenants :: "Service \<Rightarrow> TenantView list res" where
  "ListTenants s =
     bindE (st_ListTenants (sv_backend s)) (\<lambda>tenants.
     bindE (st_ListProducts (sv_backend s)) (\<lambda>products.
     bindE (st_ListDevices (sv_backend s)) (\<lambda>devices.
     bindE (st_ListGroups (sv_backend s)) (\<lambda>groups.
     bindE (st_ListRules (sv_backend s)) (\<lambda>rules.
     bindE (st_ListConfigProfiles (sv_backend s)) (\<lambda>configProfiles.
     bindE (st_ListFirmwareArtifacts (sv_backend s)) (\<lambda>firmwareArtifacts.
     bindE (st_ListOTACampaigns (sv_backend s)) (\<lambda>campaigns.
     Inr (map (\<lambda>tenant.
       \<lparr>tnv_Tenant = tenant,
        tnv_ProductCount = length (filter (\<lambda>product. prd_TenantID product = tn_ID tenant) products),
        tnv_DeviceCount = length (filter (\<lambda>device. dev_TenantID device = tn_ID tenant) devices),
        tnv_GroupCount = length (filter (\<lambda>grp. grp_TenantID grp = tn_ID tenant) groups),
        tnv_RuleCount = length (filter (\<lambda>rule. rul_TenantID rule = tn_ID tenant) rules),
        tnv_ConfigProfileCount = length (filter (\<lambda>profile. cfg_TenantID profile = tn_ID tenant) configProfiles),
        tnv_FirmwareCount = length (filter (\<lambda>artifact. fw_TenantID artifact = tn_ID tenant) firmwareArtifacts),
        tnv_OTACampaignCount = length (filter (\<lambda>campaign. ota_TenantID campaign = tn_ID tenant) campaigns)\<rparr>)
       tenants)))))))))"

definition ListProductsByTenant :: "string \<Rightarrow> Service \<Rightarrow> ProductView list res" where
  "ListProductsByTenant tenantID s =
     bindE (st_ListProducts (sv_backend s)) (\<lambda>products.
       let tenantID = trim_space tenantID in
       mapE (\<lambda>product. buildProductView product s)
         (filter (\<lambda>product. in_tenant tenantID (prd_TenantID product)) products))"

definition ListGroupsByTenant :: "string \<Rightarrow> Service \<Rightarrow> GroupView list res" where
  "ListGroupsByTenant tenantID s =
     bindE (st_ListGroups (sv_backend s)) (\<lambda>groups.
       let tenantID = trim_space tenantID in
       mapE (\<lambda>grp. buildGroupView grp s) (filter (\<lambda>grp. in_tenant tenantID (grp_TenantID grp)) groups))"

definition ListDevicesByTenant :: "string \<Rightarrow> string \<Rightarrow> Service \<Rightarrow> DeviceView list res" where
  "ListDevicesByTenant tenantID productID s =
     bindE (st_ListDevices (sv_backend s)) (\<lambda>devices.
       let tenantID = trim_space tenantID; productID = trim_space productID in
       mapE (\<lambda>device. buildDeviceView device s)
         (filter (\<lambda>device. in_tenant tenantID (dev_TenantID device) \<and>
            (productID = [] \<or> dev_ProductID device = productID)) devices))"

definition ListConfigProfilesByTenant :: "string \<Rightarrow> Service \<Rightarrow> ConfigProfileView list res" where
  "ListConfigProfilesByTenant tenantID s =
     bindE (st_ListConfigProfiles (sv_backend s)) (\<lambda>profiles.
       let tenantID = trim_space tenantID in
       mapE (\<lambda>profile. buildConfigProfileView profile s)
         (filter (\<lambda>profile. in_tenant tenantID (cfg_TenantID profile)) profiles))"

definition ListRulesByTenant :: "string \<Rightarrow> Service \<Rightarrow> RuleView list res" where
  "ListRulesByTenant tenantID s =
     bindE (st_ListRules (sv_backend s)) (\<lambda>rules.
       let tenantID = trim_space tenantID in
       mapE (\<lambda>rule. buildRuleView rule s) (filter (\<lambda>rule. in_tenant tenantID (rul_TenantID rule)) rules))"

definition ListFirmwareArtifacts :: "string \<Rightarrow> string \<Rightarrow> Service \<Rightarrow> FirmwareArtifactView list res" where
  "ListFirmwareArtifacts tenantID productID s =
     bindE (st_ListFirmwareArtifacts (sv_backend s)) (\<lambda>artifacts.
       let tenantID = trim_space tenantID; productID = trim_space productID in
       mapE (\<lambda>artifact. buildFirmwareArtifactView artifact s)
         (filter (\<lambda>artifact. in_tenant tenantID (fw_TenantID artifact) \<and>
            (productID = [] \<or> fw_ProductID artifact = productID)) artifacts))"

definition ListOTACampaigns :: "string \<Rightarrow> Service \<Rightarrow> OTACampaignView list res" where
  "ListOTACampaigns tenantID s =
     bindE (st_ListOTACampaigns (sv_backend s)) (\<lambda>campaigns.
       let tenantID = trim_space tenantID in
       mapE (\<lambda>campaign. buildOTACampaignView campaign s)
         (filter (\<lambda>campaign. in_tenant tenantID (ota_TenantID campaign)) campaigns))"

definition ListProducts :: "Service \<Rightarrow> ProductView list res" where
  "ListProducts s = ListProductsByTenant [] s"

definition ListGroups :: "Service \<Rightarrow> GroupView list res" where
  "ListGroups s = ListGroupsByTenant [] s"

definition ListDevices :: "string \<Rightarrow> Service \<Rightarrow> DeviceView list res" where
  "ListDevices productID s = ListDevicesByTenant [] productID s"

definition ListConfigProfiles :: "Service \<Rightarrow> ConfigProfileView list res" where
  "ListConfigProfiles s = ListConfigProfilesByTenant [] s"

definition ListRules :: "Service \<Rightarrow> RuleView list res" where
  "ListRules s = ListRulesByTenant [] s"

definition GetProduct :: "string \<Rightarrow> Service \<Rightarrow> ProductView res" where
  "GetProduct productID s =
     bindE (st_GetProduct (trim_space productID) (sv_backend s)) (\<lambda>product. buildProductView product s)"

definition GetGroup :: "string \<Rightarrow> Service \<Rightarrow> GroupView res" where
  "GetGroup groupID s =
     bindE (st_GetGroup (trim_space groupID) (sv_backend s)) (\<lambda>grp. buildGroupView grp s)"

definition GetDevice :: "string \<Rightarrow> Service \<Rightarrow> DeviceView res" where
  "GetDevice deviceID s =
     bindE (st_GetDevice (trim_space deviceID) (sv_backend s)) (\<lambda>device. buildDeviceView device s)"

definition ListTelemetry :: "string \<Rightarrow> int \<Rightarrow> Service \<Rightarrow> Telemetry list res" where
  "ListTelemetry deviceID limit s =
     bindE (st_GetDevice deviceID (sv_backend s)) (\<lambda>_.
     st_ListTelemetryByDevice deviceID limit (sv_backend s))"

definition ListCommands :: "string \<Rightarrow> int \<Rightarrow> Service \<Rightarrow> Command list res" where
  "ListCommands deviceID limit s =
     bindE (st_GetDevice deviceID (sv_backend s)) (\<lambda>_.
     st_ListCommandsByDevice deviceID limit (sv_backend s))"

section \<open>Alerts of a tenant\<close>

text \<open>\<open>continue\<close> and \<open>break\<close> of the filter loop: the accumulator is the number of alerts found so far.\<close>

definition alert_matches :: "string \<Rightarrow> string \<Rightarrow> string \<Rightarrow> string \<Rightarrow> string \<Rightarrow> AlertEvent \<Rightarrow> bool" where
  "alert_matches tenantID productID groupID deviceID ruleID alert \<longleftrightarrow>
     (tenantID = [] \<or> alt_TenantID alert = tenantID) \<and> (productID = [] \<or> alt_ProductID alert = productID) \<and>
     (groupID = [] \<or> alt_GroupID alert = groupID) \<and> (deviceID = [] \<or> alt_DeviceID alert = deviceID) \<and>
     (ruleID = [] \<or> alt_RuleID alert = ruleID)"

fun filter_limit :: "('a \<Rightarrow> bool) \<Rightarrow> int \<Rightarrow> nat \<Rightarrow> 'a list \<Rightarrow> 'a list" where
  "filter_limit P limit n [] = []"
| "filter_limit P limit n (x # xs) =
     (if \<not> P x then filter_limit P limit n xs
      else if limit > 0 \<and> int (Suc n) \<ge> limit then [x]
      else x # filter_limit P limit (Suc n) xs)"

definition alert_source_limit :: "int \<Rightarrow> string \<Rightarrow> string \<Rightarrow> string \<Rightarrow> string \<Rightarrow> int" where
  "alert_source_limit limit productID groupID deviceID ruleID =
     (let sourceLimit = (if limit \<le> 0 then 100 else limit) in
      if (productID \<noteq> [] \<or> groupID \<noteq> [] \<or> deviceID \<noteq> [] \<or> ruleID \<noteq> []) \<and> sourceLimit < 200
      then 200 else sourceLimit)"

definition ListAlertsByTenant ::
    "string \<Rightarrow> int \<Rightarrow> string \<Rightarrow> string \<Rightarrow> string \<Rightarrow> string \<Rightarrow> Service \<Rightarrow> AlertEvent list res" where
  "ListAlertsByTenant tenantID limit productID groupID deviceID ruleID s =
     bindE (st_ListAlerts (alert_source_limit limit productID groupID deviceID ruleID) (sv_backend s)) (\<lambda>alerts.
     Inr (filter_limit (alert_matches tenantID (trim_space productID) (trim_space groupID)
       (trim_space deviceID) (trim_space ruleID)) limit 0 alerts))"

definition ListAlerts :: "int \<Rightarrow> string \<Rightarrow> string \<Rightarrow> string \<Rightarrow> string \<Rightarrow> Service \<Rightarrow> AlertEvent list res" where
  "ListAlerts limit productID groupID deviceID ruleID s =
     ListAlertsByTenant [] limit productID groupID deviceID ruleID s"

lemma filter_limit_take:
  "filter_limit P limit n xs =
    (if limit > 0 then take (max 1 (nat limit - n)) (filter P xs) else filter P xs)"
proof (induction xs arbitrary: n)
  case (Cons x xs)
  show ?case
  proof (cases "limit > 0 \<and> int (Suc n) \<ge> limit")
    case True
    then have "max 1 (nat limit - n) = 1" by linarith
    with True Cons.IH [of n] show ?thesis by simp
  next
    case False
    then have "limit > 0 \<Longrightarrow> max 1 (nat limit - n) = Suc (max 1 (nat limit - Suc n))" by linarith
    with False Cons.IH [of n] Cons.IH [of "Suc n"] show ?thesis by auto
  qed
qed simp

section \<open>Views of a well-formed service\<close>

lemma get_not_found:
  "st_GetTenant i b = Inl e \<Longrightarrow> e = ErrTenantNotFound"
  "st_GetProduct i b = Inl e \<Longrightarrow> e = ErrProductNotFound"
  "st_GetGroup i b = Inl e \<Longrightarrow> e = ErrGroupNotFound"
  "st_GetDevice i b = Inl e \<Longrightarrow> e = ErrDeviceNotFound"
  "st_GetFirmwareArtifact i b = Inl e \<Longrightarrow> e = ErrFirmwareNotFound"
  unfolding st_read_defs
  by (rule tenants.get_cases products.get_cases groups.get_cases devices.get_cases
      firmwareartifacts.get_cases; assumption)+

lemma summary_total:
  "(\<And>i e. get i = Inl e \<Longrightarrow> e = notfound) \<Longrightarrow> \<exists>r. summary summ notfound get i = Inr r"
  by (cases "get i") (auto simp: summary_def)

lemma summary_Some:
  assumes "summary summ notfound get i = Inr (Some y)"
  shows "\<exists>x. get i = Inr x \<and> y = summ x"
  using assms by (auto simp: summary_def split: if_splits sum.splits)

lemma refs_total:
  "\<exists>r. tenantSummary s i = Inr r" "\<exists>r. productRef s i = Inr r" "\<exists>r. groupRef s i = Inr r"
  "\<exists>r. deviceRef s i = Inr r" "\<exists>r. firmwareRef s i = Inr r"
proof -
  show "\<exists>r. tenantSummary s i = Inr r"
    using get_not_found(1) by (auto simp: tenantSummary_def Let_def split: sum.splits)
  show "\<exists>r. productRef s i = Inr r" "\<exists>r. groupRef s i = Inr r" "\<exists>r. deviceRef s i = Inr r" "\<exists>r. firmwareRef s i = Inr r"
    unfolding productRef_def groupRef_def deviceRef_def firmwareRef_def
    by (rule summary_total, erule get_not_found)+
qed

lemma mapE_total: "(\<And>x. x \<in> set xs \<Longrightarrow> \<exists>y. f x = Inr y) \<Longrightarrow> \<exists>ys. mapE f xs = Inr ys"
proof (induction xs)
  case (Cons x xs)
  then obtain y ys where "f x = Inr y" "mapE f xs = Inr ys" by force
  then show ?case by simp
qed simp

text \<open>Every listing by tenant succeeds and shows exactly the stored entities of the tenant.\<close>

lemma mapE_keys:
  "mapE f xs = Inr ys \<Longrightarrow> (\<And>x y. f x = Inr y \<Longrightarrow> k y = x) \<Longrightarrow> map k ys = xs"
  by (induction xs arbitrary: ys) (auto simp: bindE_Inr)

lemma view_keys:
  "buildProductView p s = Inr pv \<Longrightarrow> prdv_Product pv = p"
  "buildGroupView g s = Inr gv \<Longrightarrow> grpv_Group gv = g"
  "buildRuleView r s = Inr rv \<Longrightarrow> rulv_Rule rv = r"
  "buildConfigProfileView cf s = Inr cv \<Longrightarrow> cfgv_Profile cv = cf"
  "buildDeviceView d s = Inr dv \<Longrightarrow> devv_Device dv = d"
  "buildFirmwareArtifactView f s = Inr fv \<Longrightarrow> fwv_Artifact fv = f"
  "buildOTACampaignView c s = Inr ov \<Longrightarrow> otav_Campaign ov = c"
  by (auto simp: buildProductView_def buildGroupView_def buildRuleView_def buildConfigProfileView_def
      buildDeviceView_def buildFirmwareArtifactView_def buildOTACampaignView_def bindE_Inr Let_def
      case_prod_unfold)

lemma group_summaries_total: "\<exists>gs. group_summaries s ids = Inr gs"
  by (induction ids) (auto simp: bindE_def split: sum.splits dest: get_not_found)

lemma buildDeviceView_total: "\<exists>dv. buildDeviceView d s = Inr dv"
proof -
  obtain t where t: "tenantSummary s (dev_TenantID d) = Inr t" using refs_total(1) by blast
  obtain p where p: "productRef s (dev_ProductID d) = Inr p" using refs_total(2) by blast
  have "buildGroupSummaries (dev_ID d) s = Inl e \<Longrightarrow> e = ErrDeviceNotFound" for e
    using group_summaries_total [of s]
    by (auto simp: buildGroupSummaries_def bindE_Inl st_ListGroupIDsByDevice_def
        mem_ListGroupIDsByDevice_def split: if_splits option.splits) (metis Inl_Inr_False)
  then show ?thesis
    by (auto simp: buildDeviceView_def t p Let_def split: sum.splits)
qed

lemma ListDevicesByTenant_total: "\<exists>dvs. ListDevicesByTenant t p s = Inr dvs"
proof -
  obtain ds where "st_ListDevices (sv_backend s) = Inr ds"
    using devices.lst_total by (auto simp: st_ListDevices_def)
  then show ?thesis
    by (auto simp: ListDevicesByTenant_def Let_def intro!: mapE_total buildDeviceView_total)
qed

lemma ListDevicesByTenant_set:
  assumes "service_ok s" "ListDevicesByTenant t p s = Inr dvs"
  shows "distinct (map (dev_ID \<circ> devv_Device) dvs)"
    "d \<in> devv_Device ` set dvs \<longleftrightarrow> st_GetDevice (dev_ID d) (sv_backend s) = Inr d \<and>
       in_tenant (trim_space t) (dev_TenantID d) \<and> (trim_space p = [] \<or> dev_ProductID d = trim_space p)"
proof -
  let ?st = "store_of (sv_backend s)"
  let ?P = "\<lambda>device. in_tenant (trim_space t) (dev_TenantID device) \<and>
    (trim_space p = [] \<or> dev_ProductID device = trim_space p)"
  have ok: "devices.table_ok ?st"
    using assms(1) by (simp add: service_ok_def backend_ok_def store_ok_def tables_ok_def)
  obtain ds where ds: "mem_ListDevices ?st = Inr ds" using devices.lst_total by blast
  then have "mapE (\<lambda>d. buildDeviceView d s) (filter ?P ds) = Inr dvs"
    using assms(2) by (simp add: ListDevicesByTenant_def st_ListDevices_def Let_def)
  then have keys: "map devv_Device dvs = filter ?P ds"
    by (rule mapE_keys) (rule view_keys)
  then have "map (dev_ID \<circ> devv_Device) dvs = map dev_ID (filter ?P ds)"
    by (metis map_map)
  moreover have "distinct (map dev_ID ds)" using devices.lst_distinct [OF ok ds] .
  ultimately show "distinct (map (dev_ID \<circ> devv_Device) dvs)" by (simp add: distinct_map_filter)
  have "devv_Device ` set dvs = set (filter ?P ds)" by (simp flip: keys)
  then show "d \<in> devv_Device ` set dvs \<longleftrightarrow> st_GetDevice (dev_ID d) (sv_backend s) = Inr d \<and> ?P d"
    using devices.lst_set [OF ok ds, of d] by (auto simp: st_GetDevice_def)
qed

end
