(* ===== verification/Catalog.thy ===== *)
theory Catalog
  imports Views
begin

text \<open>
  The operations that create and change tenants, products, groups, devices, configuration profiles,
  rules, firmware artifacts and alerts (internal/core/service.go, internal/core/multitenant_ota.go).
  Each is the sequence of calls of the source, in its order: checks, reads of the store, the clock, the
  new ID, the write. The lemmas show that each keeps \<open>service_ok\<close>, and what a created entity looks
  like: its references exist and stay inside one tenant.
\<close>

definition failS :: "bool \<Rightarrow> gerr \<Rightarrow> unit sv" where
  "failS c e = liftE (failIf c e)"

lemma failS_ok [preserves_intros]: "preserves service_ok (failS c e)"
  by (simp add: failS_def preserves_prim)

lemma failS_Inr [simp]: "failS c e s = (Inr u, t) \<longleftrightarrow> \<not> c \<and> t = s"
  by (auto simp: failS_def op_simps)

section \<open>Tenants\<close>

definition slug_char :: "char \<Rightarrow> bool" where
  "slug_char r \<longleftrightarrow> r \<in> set ''abcdefghijklmnopqrstuvwxyz0123456789''"

text \<open>
  The loop over the runes, byte by byte: every byte of a multi-byte rune goes to the default case, and
  a run of them writes one dash.
\<close>

fun slug_loop :: "bool \<Rightarrow> string \<Rightarrow> string" where
  "slug_loop lastDash [] = []"
| "slug_loop lastDash (r # rs) =
     (if slug_char r then r # slug_loop False rs
      else if \<not> lastDash then CHR ''-'' # slug_loop True rs
      else slug_loop True rs)"

definition normalizeTenantSlug :: "string \<Rightarrow> string \<Rightarrow> string" where
  "normalizeTenantSlug slug name =
     (let raw = trim_lower slug;
          raw = (if raw = [] then trim_lower name else raw);
          result = trim CHR ''-'' (slug_loop False raw) in
      if result = [] then ''tenant'' else result)"

definition CreateTenant :: "Env \<Rightarrow> string \<Rightarrow> string \<Rightarrow> string \<Rightarrow> strmap \<Rightarrow> Tenant sv" where
  "CreateTenant env name slug description metadata =
     (let name = trim_space name in
      bindS (failS (name = []) (ErrInvalidProduct [''tenant name is required''])) (\<lambda>_.
      let slug = normalizeTenantSlug slug name in
      bindS (fromStore st_ListTenants) (\<lambda>existing.
      bindS (failS (\<exists>tenant \<in> set existing. tn_Slug tenant = slug) ErrTenantExists) (\<lambda>_.
      bindS (nowS env) (\<lambda>now.
      bindS (newID env ''ten'') (\<lambda>newid.
      let tenant = \<lparr>tn_ID = newid, tn_Slug = slug, tn_Name = name,
            tn_Description = trim_space description, tn_Metadata = cloneStringMap metadata,
            tn_CreatedAt = now, tn_UpdatedAt = now\<rparr> in
      bindS (onStore (st_CreateTenant (env_fs env) tenant)) (\<lambda>_.
      retS tenant)))))))"

section \<open>Products\<close>

definition CreateProductWithTenant ::
    "Env \<Rightarrow> string \<Rightarrow> string \<Rightarrow> string \<Rightarrow> strmap \<Rightarrow> ProductAccessProfile \<Rightarrow> ThingModel \<Rightarrow> Product sv" where
  "CreateProductWithTenant env tenantID name description metadata accessProfile thingModel =
     (let tenantID = trim_space tenantID in
      bindS (readS (assertTenantExists tenantID)) (\<lambda>_.
      let name = trim_space name in
      bindS (failS (name = []) (ErrInvalidProduct [''product name is required''])) (\<lambda>_.
      bindS (nowS env) (\<lambda>now.
      bindS (liftE (normalizeThingModel thingModel 1 now)) (\<lambda>normalizedThingModel.
      bindS (liftE (normalizeAccessProfile accessProfile)) (\<lambda>normalizedAccessProfile.
      bindS (liftE (validateAccessMappings normalizedThingModel normalizedAccessProfile)) (\<lambda>_.
      bindS (newID env ''prd'') (\<lambda>newid.
      bindS (newID env ''pk'') (\<lambda>newkey.
      let product = \<lparr>prd_ID = newid, prd_TenantID = tenantID, prd_Key = newkey, prd_Name = name,
            prd_Description = trim_space description, prd_Metadata = cloneStringMap metadata,
            prd_AccessProfile = normalizedAccessProfile, prd_ThingModel = normalizedThingModel,
            prd_CreatedAt = now, prd_UpdatedAt = now\<rparr> in
      bindS (onStore (st_CreateProduct (env_fs env) product)) (\<lambda>_.
      retS product))))))))))"

definition CreateProduct ::
    "Env \<Rightarrow> string \<Rightarrow> string \<Rightarrow> strmap \<Rightarrow> ProductAccessProfile \<Rightarrow> ThingModel \<Rightarrow> Product sv" where
  "CreateProduct env name description metadata accessProfile thingModel =
     CreateProductWithTenant env [] name description metadata accessProfile thingModel"

definition UpdateProductThingModel :: "Env \<Rightarrow> string \<Rightarrow> ThingModel \<Rightarrow> Product sv" where
  "UpdateProductThingModel env productID thingModel =
     bindS (fromStore (st_GetProduct (trim_space productID))) (\<lambda>product.
     bindS (nowS env) (\<lambda>now.
     bindS (liftE (normalizeThingModel thingModel (tm_Version (prd_ThingModel product) + 1) now)) (\<lambda>normalizedThingModel.
     let product = product\<lparr>prd_ThingModel := normalizedThingModel, prd_UpdatedAt := now\<rparr> in
     bindS (onStore (st_SaveProduct (env_fs env) product)) (\<lambda>_.
     retS product))))"

definition UpdateProductAccessProfile :: "Env \<Rightarrow> string \<Rightarrow> ProductAccessProfile \<Rightarrow> Product sv" where
  "UpdateProductAccessProfile env productID accessProfile =
     bindS (fromStore (st_GetProduct (trim_space productID))) (\<lambda>product.
     bindS (liftE (normalizeAccessProfile accessProfile)) (\<lambda>normalizedAccessProfile.
     bindS (liftE (validateAccessMappings (prd_ThingModel product) normalizedAccessProfile)) (\<lambda>_.
     bindS (nowS env) (\<lambda>now.
     let product = product\<lparr>prd_AccessProfile := normalizedAccessProfile, prd_UpdatedAt := now\<rparr> in
     bindS (onStore (st_SaveProduct (env_fs env) product)) (\<lambda>_.
     retS product)))))"

section \<open>Groups\<close>

definition CreateGroupWithTenant ::
    "Env \<Rightarrow> string \<Rightarrow> string \<Rightarrow> string \<Rightarrow> string \<Rightarrow> strmap \<Rightarrow> DeviceGroup sv" where
  "CreateGroupWithTenant env tenantID name description productID tags =
     (let name = trim_space name in
      bindS (failS (name = []) (ErrInvalidGroup [''group name is required''])) (\<lambda>_.
      let tenantID = trim_space tenantID; productID = trim_space productID in
      bindS (readS (assertTenantExists tenantID)) (\<lambda>_.
      bindS (if productID \<noteq> [] then
          bindS (fromStore (st_GetProduct productID)) (\<lambda>product.
            if tenantID = [] then retS (prd_TenantID product)
            else if prd_TenantID product \<noteq> tenantID
            then errS (ErrInvalidGroup [''group tenant does not match product tenant''])
            else retS tenantID)
        else retS tenantID) (\<lambda>tenantID.
      bindS (nowS env) (\<lambda>now.
      bindS (newID env ''grp'') (\<lambda>newid.
      let grp = \<lparr>grp_ID = newid, grp_TenantID = tenantID, grp_Name = name,
            grp_Description = trim_space description, grp_ProductID = productID,
            grp_Tags = cloneStringMap tags, grp_CreatedAt = now, grp_UpdatedAt = now\<rparr> in
      bindS (onStore (st_CreateGroup (env_fs env) grp)) (\<lambda>_.
      retS grp)))))))"

definition CreateGroup :: "Env \<Rightarrow> string \<Rightarrow> string \<Rightarrow> string \<Rightarrow> strmap \<Rightarrow> DeviceGroup sv" where
  "CreateGroup env name description productID tags = CreateGroupWithTenant env [] name description productID tags"

definition AssignDeviceToGroup :: "Env \<Rightarrow> string \<Rightarrow> string \<Rightarrow> GroupView sv" where
  "AssignDeviceToGroup env groupID deviceID =
     bindS (fromStore (st_GetGroup (trim_space groupID))) (\<lambda>grp.
     bindS (fromStore (st_GetDevice (trim_space deviceID))) (\<lambda>device.
     bindS (failS (grp_TenantID grp \<noteq> [] \<and> dev_TenantID device \<noteq> grp_TenantID grp)
       (ErrInvalidGroup [''group tenant scope mismatch''])) (\<lambda>_.
     bindS (failS (grp_ProductID grp \<noteq> [] \<and> dev_ProductID device \<noteq> grp_ProductID grp)
       (ErrInvalidGroup [''group %s only accepts devices from product %s'', grp_ID grp, grp_ProductID grp])) (\<lambda>_.
     bindS (onStore (st_AddDeviceToGroup (env_fs env) (grp_ID grp) (dev_ID device))) (\<lambda>_.
     readS (buildGroupView grp))))))"

definition RemoveDeviceFromGroup :: "Env \<Rightarrow> string \<Rightarrow> string \<Rightarrow> GroupView sv" where
  "RemoveDeviceFromGroup env groupID deviceID =
     bindS (fromStore (st_GetGroup (trim_space groupID))) (\<lambda>grp.
     bindS (fromStore (st_GetDevice (trim_space deviceID))) (\<lambda>_.
     bindS (onStore (st_RemoveDeviceFromGroup (env_fs env) (grp_ID grp) (trim_space deviceID))) (\<lambda>_.
     readS (buildGroupView grp))))"

section \<open>Devices\<close>

definition new_shadow :: "string \<Rightarrow> string \<Rightarrow> time \<Rightarrow> DeviceShadow" where
  "new_shadow deviceID productID now =
     \<lparr>sh_DeviceID = deviceID, sh_ProductID = productID, sh_Reported = Some [], sh_Desired = Some [],
      sh_Version = 1, sh_UpdatedAt = now, sh_LastReportedAt = None, sh_LastDesiredAt = None\<rparr>"

definition CreateDeviceWithTenant ::
    "Env \<Rightarrow> string \<Rightarrow> string \<Rightarrow> string \<Rightarrow> strmap \<Rightarrow> strmap \<Rightarrow> Device sv" where
  "CreateDeviceWithTenant env tenantID name productID tags metadata =
     (let name = (if trim_space name = [] then ''device'' else trim_space name);
          tenantID = trim_space tenantID; productID = trim_space productID in
      bindS (readS (assertTenantExists tenantID)) (\<lambda>_.
      bindS (if productID \<noteq> [] then
          bindS (fromStore (st_GetProduct productID)) (\<lambda>product.
            if tenantID = [] then retS (prd_TenantID product, prd_Key product)
            else if prd_TenantID product \<noteq> tenantID
            then errS (ErrInvalidProduct [''device tenant does not match product tenant''])
            else retS (tenantID, prd_Key product))
        else retS (tenantID, [])) (\<lambda>(tenantID, productKey).
      bindS (nowS env) (\<lambda>now.
      bindS (newID env ''dev'') (\<lambda>newid.
      bindS (newToken env) (\<lambda>newtoken.
      let device = \<lparr>dev_ID = newid, dev_TenantID = tenantID, dev_Name = name, dev_ProductID = productID,
            dev_ProductKey = productKey, dev_Token = newtoken, dev_Tags = cloneStringMap tags,
            dev_Metadata = cloneStringMap metadata, dev_CreatedAt = now\<rparr> in
      bindS (onStore (st_CreateDevice (env_fs env) device)) (\<lambda>_.
      bindS (onStore (st_SaveShadow (env_fs env) (new_shadow newid productID now))) (\<lambda>_.
      bindS (if productID \<noteq> [] then TouchDevice newid now else retS ()) (\<lambda>_.
      bindS (count (\<lambda>c. c\<lparr>ct_registeredDevices := ct_registeredDevices c + 1\<rparr>)) (\<lambda>_.
      retS device))))))))))"

definition CreateDevice :: "Env \<Rightarrow> string \<Rightarrow> string \<Rightarrow> strmap \<Rightarrow> strmap \<Rightarrow> Device sv" where
  "CreateDevice env name productID tags metadata = CreateDeviceWithTenant env [] name productID tags metadata"

definition UpdateDeviceTags :: "Env \<Rightarrow> string \<Rightarrow> strmap \<Rightarrow> Device sv" where
  "UpdateDeviceTags env deviceID tags =
     bindS (fromStore (st_GetDevice (trim_space deviceID))) (\<lambda>device.
     let device = device\<lparr>dev_Tags := cloneStringMap tags\<rparr> in
     bindS (onStore (st_SaveDevice (env_fs env) device)) (\<lambda>_.
     retS device))"

definition AuthenticateDevice :: "string \<Rightarrow> string \<Rightarrow> Service \<Rightarrow> Device res" where
  "AuthenticateDevice deviceID token s =
     bindE (st_GetDevice (trim_space deviceID) (sv_backend s)) (\<lambda>device.
     if dev_Token device \<noteq> trim_space token then Inl ErrInvalidCredential else Inr device)"

section \<open>Configuration profiles\<close>

definition CreateConfigProfileWithTenant ::
    "Env \<Rightarrow> string \<Rightarrow> string \<Rightarrow> string \<Rightarrow> string \<Rightarrow> anymap \<Rightarrow> ConfigProfile sv" where
  "CreateConfigProfileWithTenant env tenantID name description productID values =
     (let name = trim_space name in
      bindS (failS (name = []) (ErrInvalidConfig [''config profile name is required''])) (\<lambda>_.
      let tenantID = trim_space tenantID; productID = trim_space productID in
      bindS (readS (assertTenantExists tenantID)) (\<lambda>_.
      bindS (getS (\<lambda>s. loadProduct s productID)) (\<lambda>product.
      bindS (failS (productID \<noteq> [] \<and> product = None) ErrProductNotFound) (\<lambda>_.
      bindS (case product of
          None \<Rightarrow> retS tenantID
        | Some product \<Rightarrow>
            bindS (if tenantID = [] then retS (prd_TenantID product)
              else if prd_TenantID product \<noteq> tenantID
              then errS (ErrInvalidConfig [''config tenant does not match product tenant''])
              else retS tenantID) (\<lambda>tenantID.
            bindS (liftE (validateThingValues product values)) (\<lambda>_. retS tenantID))) (\<lambda>tenantID.
      bindS (nowS env) (\<lambda>now.
      bindS (newID env ''cfg'') (\<lambda>newid.
      let profile = \<lparr>cfg_ID = newid, cfg_TenantID = tenantID, cfg_Name = name,
            cfg_Description = trim_space description, cfg_ProductID = productID,
            cfg_Values = (case cloneAnyMap values of None \<Rightarrow> Some [] | Some m \<Rightarrow> Some m),
            cfg_AppliedCount = 0, cfg_LastAppliedAt = None, cfg_CreatedAt = now, cfg_UpdatedAt = now\<rparr> in
      bindS (onStore (st_CreateConfigProfile (env_fs env) profile)) (\<lambda>_.
      retS profile)))))))))"

definition CreateConfigProfile ::
    "Env \<Rightarrow> string \<Rightarrow> string \<Rightarrow> string \<Rightarrow> anymap \<Rightarrow> ConfigProfile sv" where
  "CreateConfigProfile env name description productID values =
     CreateConfigProfileWithTenant env [] name description productID values"

section \<open>Rules\<close>

definition normalizeRuleAction ::
    "Service \<Rightarrow> string \<Rightarrow> Product option \<Rightarrow> string \<Rightarrow> RuleAction \<Rightarrow> RuleAction res" where
  "normalizeRuleAction s tenantID product defaultSeverity action =
     (let actionType = normalizeRuleActionType (act_Type action) in
      if actionType = [] then Inl (ErrInvalidRule [''unsupported action type''])
      else
        let item = \<lparr>act_Type = actionType, act_Name = trim_space (act_Name action),
              act_Params = cloneAnyMap (act_Params action),
              act_ConfigProfileID = trim_space (act_ConfigProfileID action),
              act_Severity = normalizeSeverity (act_Severity action),
              act_Message = trim_space (act_Message action)\<rparr> in
        if act_Type item = RuleActionAlert then
          Inr (if act_Severity item = [] then item\<lparr>act_Severity := normalizeSeverity defaultSeverity\<rparr> else item)
        else if act_Type item = RuleActionSendCommand then
          (if act_Name item = [] then Inl (ErrInvalidRule [''send_command action requires name''])
           else (case product of
               None \<Rightarrow> Inr item
             | Some product \<Rightarrow> bindE (validateCommandName product (act_Name item)) (\<lambda>_. Inr item)))
        else if act_Type item = RuleActionApplyConfig then
          (if act_ConfigProfileID item = []
           then Inl (ErrInvalidRule [''apply_config_profile action requires config_profile_id''])
           else bindE (st_GetConfigProfile (act_ConfigProfileID item) (sv_backend s)) (\<lambda>profile.
             if tenantID \<noteq> [] \<and> cfg_TenantID profile \<noteq> tenantID
             then Inl (ErrInvalidRule [''config profile tenant mismatch''])
             else (case product of
                 None \<Rightarrow> Inr item
               | Some product \<Rightarrow>
                   if cfg_ProductID profile \<noteq> [] \<and> cfg_ProductID profile \<noteq> prd_ID product
                   then Inl (ErrInvalidRule [''config profile product mismatch'']) else Inr item)))
        else Inr item)"

definition default_action :: "string \<Rightarrow> RuleAction" where
  "default_action severity = \<lparr>act_Type = RuleActionAlert, act_Name = [], act_Params = None,
     act_ConfigProfileID = [], act_Severity = severity, act_Message = []\<rparr>"

definition normalizeRuleActions ::
    "string \<Rightarrow> Product option \<Rightarrow> string \<Rightarrow> RuleAction list \<Rightarrow> Service \<Rightarrow> RuleAction list res" where
  "normalizeRuleActions tenantID product defaultSeverity actions s =
     (if length actions = 0 then Inr [default_action (normalizeSeverity defaultSeverity)]
      else mapE (normalizeRuleAction s tenantID product defaultSeverity) actions)"

text \<open>The scope of a rule as it is resolved: tenant and product, narrowed by the group and the device.\<close>

definition scope_tenant :: "string \<Rightarrow> string \<Rightarrow> string \<Rightarrow> string res" where
  "scope_tenant what tenantID t =
     (if tenantID = [] then Inr t
      else if t \<noteq> tenantID then Inl (ErrInvalidRule [what @ '' tenant scope mismatch'']) else Inr tenantID)"

definition scope_product :: "string \<Rightarrow> string \<Rightarrow> string \<Rightarrow> string res" where
  "scope_product what productID p =
     (if p = [] then Inr productID
      else if productID = [] then Inr p
      else if productID \<noteq> p then Inl (ErrInvalidRule [what @ '' product scope mismatch'']) else Inr productID)"

definition scope_group :: "string \<Rightarrow> string \<times> string \<Rightarrow> Service \<Rightarrow> (string \<times> string) res" where
  "scope_group groupID tp s = (case tp of (tenantID, productID) \<Rightarrow>
     if groupID = [] then Inr (tenantID, productID)
     else bindE (st_GetGroup groupID (sv_backend s)) (\<lambda>grp.
       bindE (scope_tenant ''group'' tenantID (grp_TenantID grp)) (\<lambda>tenantID.
       bindE (scope_product ''group'' productID (grp_ProductID grp)) (\<lambda>productID.
       Inr (tenantID, productID)))))"

definition scope_device :: "string \<Rightarrow> string \<times> string \<Rightarrow> Service \<Rightarrow> (string \<times> string) res" where
  "scope_device deviceID tp s = (case tp of (tenantID, productID) \<Rightarrow>
     if deviceID = [] then Inr (tenantID, productID)
     else bindE (st_GetDevice deviceID (sv_backend s)) (\<lambda>device.
       bindE (scope_tenant ''device'' tenantID (dev_TenantID device)) (\<lambda>tenantID.
       bindE (scope_product ''device'' productID (dev_ProductID device)) (\<lambda>productID.
       Inr (tenantID, productID)))))"

definition CreateRuleWithTenant ::
    "Env \<Rightarrow> string \<Rightarrow> string \<Rightarrow> string \<Rightarrow> string \<Rightarrow> string \<Rightarrow> string \<Rightarrow> bool \<Rightarrow> string \<Rightarrow> int \<Rightarrow>
      RuleCondition \<Rightarrow> RuleAction list \<Rightarrow> Rule sv" where
  "CreateRuleWithTenant env tenantID name description productID groupID deviceID enabled severity
       cooldownSeconds condition actions =
     (let name = trim_space name in
      bindS (failS (name = []) (ErrInvalidRule [''rule name is required''])) (\<lambda>_.
      let tenantID = trim_space tenantID; groupID = trim_space groupID; deviceID = trim_space deviceID;
          productID = trim_space productID in
      bindS (failS (productID = [] \<and> groupID = [] \<and> deviceID = [])
        (ErrInvalidRule [''at least one scope product_id, group_id or device_id is required''])) (\<lambda>_.
      bindS (failS (cooldownSeconds < 0) (ErrInvalidRule [''cooldown_seconds must be >= 0''])) (\<lambda>_.
      bindS (readS (assertTenantExists tenantID)) (\<lambda>_.
      bindS (readS (scope_group groupID (tenantID, productID))) (\<lambda>tp.
      bindS (readS (scope_device deviceID tp)) (\<lambda>(tenantID, productID).
      bindS (getS (\<lambda>s. loadProduct s productID)) (\<lambda>product.
      bindS (case product of
          None \<Rightarrow> retS tenantID
        | Some product \<Rightarrow> liftE (scope_tenant ''product'' tenantID (prd_TenantID product))) (\<lambda>tenantID.
      bindS (liftE (normalizeRuleCondition product condition)) (\<lambda>normalizedCondition.
      bindS (readS (normalizeRuleActions tenantID product severity actions)) (\<lambda>normalizedActions.
      bindS (nowS env) (\<lambda>now.
      bindS (newID env ''rul'') (\<lambda>newid.
      let rule = \<lparr>rul_ID = newid, rul_TenantID = tenantID, rul_Name = name,
            rul_Description = trim_space description, rul_ProductID = productID, rul_GroupID = groupID,
            rul_DeviceID = deviceID, rul_Enabled = enabled, rul_Severity = normalizeSeverity severity,
            rul_CooldownSeconds = cooldownSeconds, rul_Condition = normalizedCondition,
            rul_Actions = normalizedActions, rul_CreatedAt = now, rul_UpdatedAt = now\<rparr> in
      bindS (onStore (st_CreateRule (env_fs env) rule)) (\<lambda>_.
      retS rule))))))))))))))"

definition CreateRule ::
    "Env \<Rightarrow> string \<Rightarrow> string \<Rightarrow> string \<Rightarrow> string \<Rightarrow> string \<Rightarrow> bool \<Rightarrow> string \<Rightarrow> int \<Rightarrow> RuleCondition \<Rightarrow> Rule sv" where
  "CreateRule env name description productID groupID deviceID enabled severity cooldownSeconds condition =
     CreateRuleWithTenant env [] name description productID groupID deviceID enabled severity
       cooldownSeconds condition []"

section \<open>Firmware\<close>

definition CreateFirmwareArtifact ::
    "Env \<Rightarrow> string \<Rightarrow> string \<Rightarrow> string \<Rightarrow> string \<Rightarrow> string \<Rightarrow> string \<Rightarrow> string \<Rightarrow> string \<Rightarrow> int \<Rightarrow>
      strmap \<Rightarrow> string \<Rightarrow> FirmwareArtifact sv" where
  "CreateFirmwareArtifact env tenantID productID name version fileName url checksum checksumType
       sizeBytes metadata notes =
     (let tenantID = trim_space tenantID; productID = trim_space productID; name = trim_space name;
          version = trim_space version; url = trim_space url in
      bindS (failS (name = [] \<or> version = [] \<or> url = [])
        (ErrInvalidConfig [''firmware name, version and url are required''])) (\<lambda>_.
      bindS (readS (assertTenantExists tenantID)) (\<lambda>_.
      bindS (if productID \<noteq> [] then
          bindS (fromStore (st_GetProduct productID)) (\<lambda>product.
            if tenantID = [] then retS (prd_TenantID product)
            else if prd_TenantID product \<noteq> tenantID
            then errS (ErrInvalidConfig [''firmware tenant does not match product tenant''])
            else retS tenantID)
        else retS tenantID) (\<lambda>tenantID.
      bindS (nowS env) (\<lambda>now.
      bindS (newID env ''fw'') (\<lambda>newid.
      let artifact = \<lparr>fw_ID = newid, fw_TenantID = tenantID, fw_ProductID = productID, fw_Name = name,
            fw_Version = version, fw_FileName = trim_space fileName, fw_URL = url,
            fw_Checksum = trim_space checksum, fw_ChecksumType = trim_space checksumType,
            fw_SizeBytes = sizeBytes, fw_Notes = trim_space notes, fw_Metadata = cloneStringMap metadata,
            fw_CreatedAt = now, fw_UpdatedAt = now\<rparr> in
      bindS (onStore (st_CreateFirmwareArtifact (env_fs env) artifact)) (\<lambda>_.
      retS artifact)))))))"

section \<open>Alerts\<close>

definition UpdateAlert :: "Env \<Rightarrow> string \<Rightarrow> string \<Rightarrow> string \<Rightarrow> AlertEvent sv" where
  "UpdateAlert env alertID status note =
     bindS (fromStore (st_GetAlert (trim_space alertID))) (\<lambda>alert.
     let status = normalizeAlertStatus status in
     bindS (failS (status = []) (ErrInvalidAlert [''unsupported alert status''])) (\<lambda>_.
     bindS (nowS env) (\<lambda>now.
     let alert = alert\<lparr>alt_Status := status, alt_Note := trim_space note\<rparr>;
         alert = (if status = AlertStatusAcknowledged then alert\<lparr>alt_AckAt := Some now\<rparr>
           else if status = AlertStatusResolved then
             (if alt_AckAt alert = None then alert\<lparr>alt_AckAt := Some now\<rparr> else alert)\<lparr>alt_ResolvedAt := Some now\<rparr>
           else alert) in
     bindS (onStore (st_SaveAlert (env_fs env) alert)) (\<lambda>_.
     retS alert))))"

section \<open>The invariant\<close>

lemma preserves_Let [preserves_intros]: "(\<And>x. preserves I (f x)) \<Longrightarrow> preserves I (Let v f)"
  by simp

lemma preserves_case_prod [preserves_intros]:
  "(\<And>a b. preserves I (f a b)) \<Longrightarrow> preserves I (case p of (a, b) \<Rightarrow> f a b)"
  by (cases p) simp

lemma count_registered_ok [preserves_intros]:
  "preserves service_ok (count (\<lambda>c. c\<lparr>ct_registeredDevices := g c\<rparr>))"
  by (rule count_ok) simp

lemma catalog_ops_ok [preserves_intros]:
  "preserves service_ok (CreateTenant env n sl ds m)"
  "preserves service_ok (CreateProductWithTenant env t n ds m ap thm)"
  "preserves service_ok (CreateProduct env n ds m ap thm)"
  "preserves service_ok (UpdateProductThingModel env p thm)"
  "preserves service_ok (UpdateProductAccessProfile env p ap)"
  "preserves service_ok (CreateGroupWithTenant env t n ds p m)"
  "preserves service_ok (CreateGroup env n ds p m)"
  "preserves service_ok (AssignDeviceToGroup env g d)"
  "preserves service_ok (RemoveDeviceFromGroup env g d)"
  "preserves service_ok (CreateDeviceWithTenant env t n p m m')"
  "preserves service_ok (CreateDevice env n p m m')"
  "preserves service_ok (UpdateDeviceTags env d m)"
  "preserves service_ok (CreateConfigProfileWithTenant env t n ds p v)"
  "preserves service_ok (CreateConfigProfile env n ds p v)"
  "preserves service_ok (CreateRuleWithTenant env t n ds p g d en sev cd co acs)"
  "preserves service_ok (CreateRule env n ds p g d en sev cd co)"
  "preserves service_ok (CreateFirmwareArtifact env t p n ver f u c ct z m no)"
  "preserves service_ok (UpdateAlert env a st no)"
  unfolding CreateTenant_def CreateProductWithTenant_def CreateProduct_def UpdateProductThingModel_def
    UpdateProductAccessProfile_def CreateGroupWithTenant_def CreateGroup_def AssignDeviceToGroup_def
    RemoveDeviceFromGroup_def CreateDeviceWithTenant_def CreateDevice_def UpdateDeviceTags_def
    CreateConfigProfileWithTenant_def CreateConfigProfile_def CreateRuleWithTenant_def CreateRule_def
    CreateFirmwareArtifact_def UpdateAlert_def
  by (intro preserves_intros)+

end
