(* ===== verification/Shadows.thy ===== *)
theory Shadows
  imports Catalog
begin

text \<open>
  Device shadows (internal/core/service.go): the shadow of a device is made on first use, its desired
  part is replaced as a whole, its reported part is merged from telemetry, and a desired value the
  device has reported is removed. \<open>merge_telemetry\<close> is the loop of \<open>HandleTelemetry\<close>; the lemmas give
  its result key by key, whatever the order in which the map is iterated.
\<close>

section \<open>Operations\<close>

definition ensureShadow :: "Env \<Rightarrow> Device \<Rightarrow> DeviceShadow sv" where
  "ensureShadow env device =
     tryS (fromStore (st_GetShadow (dev_ID device))) (\<lambda>r. case r of
       Inr shadow \<Rightarrow> retS shadow
     | Inl e \<Rightarrow>
         if e \<noteq> ErrShadowNotFound then errS e
         else bindS (nowS env) (\<lambda>now.
           let shadow = new_shadow (dev_ID device) (dev_ProductID device) now in
           bindS (onStore (st_SaveShadow (env_fs env) shadow)) (\<lambda>_. retS shadow)))"

definition GetShadow :: "Env \<Rightarrow> string \<Rightarrow> DeviceShadow sv" where
  "GetShadow env deviceID =
     bindS (fromStore (st_GetDevice (trim_space deviceID))) (\<lambda>device. ensureShadow env device)"

definition validate_product_values :: "Product option \<Rightarrow> anymap \<Rightarrow> unit res" where
  "validate_product_values product values =
     (case product of None \<Rightarrow> Inr () | Some product \<Rightarrow> validateThingValues product values)"

definition or_empty :: "anymap \<Rightarrow> anymap" where
  "or_empty m = (case m of None \<Rightarrow> Some [] | Some kvs \<Rightarrow> Some kvs)"

definition UpdateDesiredShadow :: "Env \<Rightarrow> string \<Rightarrow> anymap \<Rightarrow> DeviceShadow sv" where
  "UpdateDesiredShadow env deviceID desired =
     bindS (fromStore (st_GetDevice (trim_space deviceID))) (\<lambda>device.
     bindS (getS (\<lambda>s. loadProduct s (dev_ProductID device))) (\<lambda>product.
     bindS (liftE (validate_product_values product desired)) (\<lambda>_.
     bindS (ensureShadow env device) (\<lambda>shadow.
     bindS (nowS env) (\<lambda>now.
     let shadow = shadow\<lparr>sh_Desired := or_empty (cloneAnyMap desired), sh_Version := sh_Version shadow + 1,
           sh_UpdatedAt := now, sh_LastDesiredAt := Some now\<rparr> in
     bindS (onStore (st_SaveShadow (env_fs env) shadow)) (\<lambda>_.
     retS shadow))))))"

definition ApplyConfigProfile :: "Env \<Rightarrow> string \<Rightarrow> string \<Rightarrow> DeviceShadow sv" where
  "ApplyConfigProfile env profileID deviceID =
     bindS (fromStore (st_GetConfigProfile (trim_space profileID))) (\<lambda>profile.
     bindS (fromStore (st_GetDevice (trim_space deviceID))) (\<lambda>device.
     bindS (failS (cfg_TenantID profile \<noteq> [] \<and> dev_TenantID device \<noteq> cfg_TenantID profile)
       (ErrInvalidConfig [''config profile tenant scope mismatch''])) (\<lambda>_.
     bindS (failS (cfg_ProductID profile \<noteq> [] \<and> dev_ProductID device \<noteq> cfg_ProductID profile)
       (ErrInvalidConfig [''config profile product scope mismatch''])) (\<lambda>_.
     bindS (UpdateDesiredShadow env (dev_ID device) (cfg_Values profile)) (\<lambda>shadow.
     bindS (nowS env) (\<lambda>now.
     let profile = profile\<lparr>cfg_AppliedCount := cfg_AppliedCount profile + 1,
           cfg_LastAppliedAt := Some now, cfg_UpdatedAt := now\<rparr> in
     bindS (onStore (st_SaveConfigProfile (env_fs env) profile)) (\<lambda>_.
     retS shadow)))))))"

section \<open>Merging telemetry\<close>

text \<open>\<open>reported[key] = value\<close> (a nil map is made first), and \<open>delete(desired, key)\<close>.\<close>

definition put :: "string \<Rightarrow> goany \<Rightarrow> anymap \<Rightarrow> anymap" where
  "put key value m = Some (AList.update key value (entries m))"

definition del :: "string \<Rightarrow> anymap \<Rightarrow> anymap" where
  "del key m = map_option (AList.delete key) m"

definition merge_value :: "string \<times> goany \<Rightarrow> DeviceShadow \<Rightarrow> DeviceShadow" where
  "merge_value kv shadow = (case kv of (key, value) \<Rightarrow>
     let shadow = shadow\<lparr>sh_Reported := put key value (sh_Reported shadow)\<rparr> in
     case mlookup (sh_Desired shadow) key of
       Some desiredValue \<Rightarrow>
         if valuesEqual desiredValue value then shadow\<lparr>sh_Desired := del key (sh_Desired shadow)\<rparr> else shadow
     | None \<Rightarrow> shadow)"

definition merge_telemetry :: "anymap \<Rightarrow> DeviceShadow \<Rightarrow> DeviceShadow" where
  "merge_telemetry values shadow = fold merge_value (entries values) shadow"

definition report_shadow :: "Telemetry \<Rightarrow> DeviceShadow \<Rightarrow> DeviceShadow" where
  "report_shadow telemetry shadow =
     (let shadow = merge_telemetry (tel_Values telemetry) shadow; now = tel_Timestamp telemetry in
      shadow\<lparr>sh_Version := sh_Version shadow + 1, sh_UpdatedAt := now, sh_LastReportedAt := Some now\<rparr>)"

lemma mlookup_put [simp]: "mlookup (put k v m) = (mlookup m)(k \<mapsto> v)"
  by (simp add: mlookup_def put_def fun_eq_iff)

lemma mlookup_del [simp]: "mlookup (del k m) = (mlookup m)(k := None)"
  by (cases m) (auto simp: mlookup_def del_def fun_eq_iff delete_conv')

lemma merge_value_lookup:
  "mlookup (sh_Reported (merge_value (k, v) sh)) = (mlookup (sh_Reported sh))(k \<mapsto> v)"
  "mlookup (sh_Desired (merge_value (k, v) sh)) j =
    (if j = k \<and> (\<exists>d. mlookup (sh_Desired sh) k = Some d \<and> valuesEqual d v) then None
     else mlookup (sh_Desired sh) j)"
  by (auto simp: merge_value_def Let_def split: option.splits)

lemma merge_value_frame:
  "sh_DeviceID (merge_value kv sh) = sh_DeviceID sh" "sh_ProductID (merge_value kv sh) = sh_ProductID sh"
  "sh_Version (merge_value kv sh) = sh_Version sh" "sh_UpdatedAt (merge_value kv sh) = sh_UpdatedAt sh"
  "sh_LastReportedAt (merge_value kv sh) = sh_LastReportedAt sh"
  "sh_LastDesiredAt (merge_value kv sh) = sh_LastDesiredAt sh"
  by (auto simp: merge_value_def Let_def split: prod.splits option.splits)

lemma fold_merge:
  assumes "distinct (map fst kvs)"
  shows "mlookup (sh_Reported (fold merge_value kvs sh)) k =
      (case map_of kvs k of Some v \<Rightarrow> Some v | None \<Rightarrow> mlookup (sh_Reported sh) k)"
    "mlookup (sh_Desired (fold merge_value kvs sh)) k =
      (case (map_of kvs k, mlookup (sh_Desired sh) k) of
         (Some v, Some d) \<Rightarrow> if valuesEqual d v then None else Some d
       | (_, d) \<Rightarrow> d)"
    "sh_DeviceID (fold merge_value kvs sh) = sh_DeviceID sh" "sh_ProductID (fold merge_value kvs sh) = sh_ProductID sh"
    "sh_Version (fold merge_value kvs sh) = sh_Version sh"
  using assms
proof (induction kvs arbitrary: sh)
  case (Cons kv kvs)
  obtain j v where kv: "kv = (j, v)" by fastforce
  {
    case 1
    then have "distinct (map fst kvs)" "map_of kvs j = None" by (auto simp: kv map_of_eq_None_iff)
    with Cons.IH(1) [of "merge_value kv sh"] show ?case
      by (cases "k = j") (auto simp: kv merge_value_lookup split: option.splits)
  next
    case 2
    then have "distinct (map fst kvs)" "map_of kvs j = None" by (auto simp: kv map_of_eq_None_iff)
    with Cons.IH(2) [of "merge_value kv sh"] show ?case
      by (cases "k = j") (auto simp: kv merge_value_lookup split: option.splits)
  next
    case 3
    then show ?case using Cons.IH(3) by (simp add: merge_value_frame)
  next
    case 4
    then show ?case using Cons.IH(4) by (simp add: merge_value_frame)
  next
    case 5
    then show ?case using Cons.IH(5) by (simp add: merge_value_frame)
  }
qed simp_all

lemma shadow_ops_ok [preserves_intros]:
  "preserves service_ok (ensureShadow env d)"
  "preserves service_ok (GetShadow env i)"
  "preserves service_ok (UpdateDesiredShadow env i v)"
  "preserves service_ok (ApplyConfigProfile env p i)"
proof -
  show 1: "preserves service_ok (ensureShadow env d)" for d
    unfolding ensureShadow_def by (intro preserves_intros)
  show "preserves service_ok (GetShadow env i)"
    unfolding GetShadow_def by (intro preserves_intros 1)
  show 2: "preserves service_ok (UpdateDesiredShadow env i v)" for i v
    unfolding UpdateDesiredShadow_def by (intro preserves_intros 1)
  show "preserves service_ok (ApplyConfigProfile env p i)"
    unfolding ApplyConfigProfile_def by (intro preserves_intros 2)
qed

end
