(* ===== verification/Commands.thy ===== *)
theory Commands
  imports Shadows
begin

text \<open>
  Commands to devices and their acknowledgements (internal/core/automation.go,
  internal/core/service.go). A command is stored as pending, sent on the session of the device, and
  marked sent or failed; an acknowledgement is accepted from the device the command was sent to, and
  counts for the OTA campaign the command belongs to.

  \<open>sendCommandWithCampaign\<close> may return a command and an error together; its result is a command with
  an optional error, and \<open>Inl\<close> stands for an error with the zero command.
\<close>

definition error_of_send :: "string \<Rightarrow> gerr" where
  "error_of_send e = EOther e"

definition UpdateCommandStatus :: "Env \<Rightarrow> string \<Rightarrow> CommandStatus \<Rightarrow> string \<Rightarrow> Command sv" where
  "UpdateCommandStatus env commandID status result =
     bindS (nowS env) (\<lambda>now. onStore (st_UpdateCommandStatus (env_fs env) now commandID status result))"

text \<open>\<open>updated, updateErr := ...; if updateErr == nil { command = updated }; return command, err\<close>.\<close>

definition fail_command :: "Env \<Rightarrow> Command \<Rightarrow> string \<Rightarrow> gerr \<Rightarrow> (Command \<times> gerr option) sv" where
  "fail_command env command result err =
     tryS (UpdateCommandStatus env (cmd_ID command) CommandStatusFailed result) (\<lambda>r. case r of
       Inl _ \<Rightarrow> retS (command, Some err)
     | Inr updated \<Rightarrow> retS (updated, Some err))"

definition new_command :: "string \<Rightarrow> string \<Rightarrow> string \<Rightarrow> string \<Rightarrow> anymap \<Rightarrow> time \<Rightarrow> Command" where
  "new_command newid deviceID campaignID name params now =
     \<lparr>cmd_ID = newid, cmd_DeviceID = deviceID, cmd_CampaignID = trim_space campaignID, cmd_Name = name,
      cmd_Params = cloneAnyMap params, cmd_Status = CommandStatusPending, cmd_Result = [],
      cmd_CreatedAt = now, cmd_UpdatedAt = now\<rparr>"

definition command_message :: "Command \<Rightarrow> time \<Rightarrow> ServerMessage" where
  "command_message command now =
     \<lparr>msg_Type = ''command'', msg_ServerTime = unix_milli now, msg_DeviceID = [],
      msg_CommandID = cmd_ID command, msg_Name = cmd_Name command,
      msg_Params = cloneAnyMap (cmd_Params command), msg_Status = [], msg_Message = [], msg_Error = []\<rparr>"

definition validate_command :: "Product option \<Rightarrow> string \<Rightarrow> unit res" where
  "validate_command product name =
     (case product of None \<Rightarrow> Inr () | Some product \<Rightarrow> validateCommandName product name)"

definition deliver_command ::
    "Env \<Rightarrow> string \<Rightarrow> time \<Rightarrow> Command \<Rightarrow> (Command \<times> gerr option) sv" where
  "deliver_command env deviceID now command =
     bindS (getS (\<lambda>s. dst_session (state_of (sv_states s) deviceID))) (\<lambda>session. case session of
       None \<Rightarrow> fail_command env command ''device offline'' ErrDeviceOffline
     | Some session \<Rightarrow>
         bindS (sendMessage env session (command_message command now)) (\<lambda>sendErr. case sendErr of
           Some e \<Rightarrow> fail_command env command e (error_of_send e)
         | None \<Rightarrow>
             bindS (UpdateCommandStatus env (cmd_ID command) CommandStatusSent ''sent'') (\<lambda>updated.
             bindS (count (\<lambda>c. c\<lparr>ct_commandsSent := ct_commandsSent c + 1\<rparr>)) (\<lambda>_.
             bindS (recordCommandPublished (sessionTransportName session)) (\<lambda>_.
             bindS (TouchDevice deviceID now) (\<lambda>_.
             retS (updated, None)))))))"

definition sendCommandWithCampaign ::
    "Env \<Rightarrow> string \<Rightarrow> string \<Rightarrow> string \<Rightarrow> anymap \<Rightarrow> (Command \<times> gerr option) sv" where
  "sendCommandWithCampaign env deviceID campaignID name params =
     bindS (fromStore (st_GetDevice deviceID)) (\<lambda>device.
     let name = trim_space name in
     bindS (failS (name = []) (EOther ''command name is required'')) (\<lambda>_.
     bindS (getS (\<lambda>s. loadProduct s (dev_ProductID device))) (\<lambda>product.
     bindS (liftE (validate_command product name)) (\<lambda>_.
     bindS (nowS env) (\<lambda>now.
     bindS (newID env ''cmd'') (\<lambda>newid.
     let command = new_command newid deviceID campaignID name params now in
     bindS (onStore (st_SaveCommand (env_fs env) command)) (\<lambda>_.
     deliver_command env deviceID now command)))))))"

definition SendCommand :: "Env \<Rightarrow> string \<Rightarrow> string \<Rightarrow> anymap \<Rightarrow> (Command \<times> gerr option) sv" where
  "SendCommand env deviceID name params = sendCommandWithCampaign env deviceID [] name params"

section \<open>Acknowledgements\<close>

definition ack_campaign :: "CommandStatus \<Rightarrow> time \<Rightarrow> OTACampaign \<Rightarrow> OTACampaign" where
  "ack_campaign status now campaign =
     (let campaign = (if status = CommandStatusFailed
            then campaign\<lparr>ota_FailedCount := ota_FailedCount campaign + 1\<rparr>
            else campaign\<lparr>ota_AckedCount := ota_AckedCount campaign + 1\<rparr>);
          campaign =
            (if ota_AckedCount campaign + ota_FailedCount campaign \<ge> ota_TotalDevices campaign \<and>
                ota_TotalDevices campaign > 0
             then campaign\<lparr>ota_Status := (if ota_FailedCount campaign > 0 then OTAPartial else OTACompleted)\<rparr>
             else if ota_DispatchedCount campaign > 0 then campaign\<lparr>ota_Status := OTARunning\<rparr>
             else campaign) in
      campaign\<lparr>ota_UpdatedAt := now\<rparr>)"

definition updateCampaignFromCommandAck :: "Env \<Rightarrow> string \<Rightarrow> CommandStatus \<Rightarrow> unit sv" where
  "updateCampaignFromCommandAck env campaignID status =
     bindS (fromStore (st_GetOTACampaign campaignID)) (\<lambda>campaign.
     bindS (nowS env) (\<lambda>now.
     onStore (st_SaveOTACampaign (env_fs env) (ack_campaign status now campaign))))"

definition ack_status :: "string \<Rightarrow> CommandStatus" where
  "ack_status status = switch (norm_label status)
     [([''failed'', ''error'', ''timeout''], CommandStatusFailed)] CommandStatusAcked"

definition HandleCommandAck :: "Env \<Rightarrow> string \<Rightarrow> string \<Rightarrow> string \<Rightarrow> string \<Rightarrow> unit sv" where
  "HandleCommandAck env deviceID commandID status result =
     bindS (fromStore (st_GetCommand commandID)) (\<lambda>command.
     bindS (failS (cmd_DeviceID command \<noteq> deviceID) ErrCommandNotFound) (\<lambda>_.
     let nextStatus = ack_status status in
     bindS (UpdateCommandStatus env commandID nextStatus (trim_space result)) (\<lambda>_.
     bindS (if cmd_CampaignID command \<noteq> []
            then tryS (updateCampaignFromCommandAck env (cmd_CampaignID command) nextStatus) (\<lambda>_. retS ())
            else retS ()) (\<lambda>_.
     bindS (count (\<lambda>c. c\<lparr>ct_commandAcks := ct_commandAcks c + 1\<rparr>)) (\<lambda>_.
     bindS (nowS env) (\<lambda>now.
     TouchDevice deviceID now))))))"

lemma count_other_ok [preserves_intros]:
  "preserves service_ok (count (\<lambda>c. c\<lparr>ct_commandsSent := g c\<rparr>))"
  "preserves service_ok (count (\<lambda>c. c\<lparr>ct_commandAcks := g c\<rparr>))"
  "preserves service_ok (count (\<lambda>c. c\<lparr>ct_telemetryReceived := g c\<rparr>))"
  by (rule count_ok, simp)+

lemma command_ops_ok [preserves_intros]:
  "preserves service_ok (UpdateCommandStatus env i st r)"
  "preserves service_ok (fail_command env c x e)"
  "preserves service_ok (deliver_command env d now c)"
  "preserves service_ok (sendCommandWithCampaign env d ca n p)"
  "preserves service_ok (SendCommand env d n p)"
  "preserves service_ok (updateCampaignFromCommandAck env ca st)"
  "preserves service_ok (HandleCommandAck env d i status x)"
proof -
  show 1: "preserves service_ok (UpdateCommandStatus env i st r)" for i st r
    unfolding UpdateCommandStatus_def by (intro preserves_intros)
  show 2: "preserves service_ok (fail_command env c x e)" for c x e
    unfolding fail_command_def by (intro preserves_intros 1)
  show 3: "preserves service_ok (deliver_command env d now c)" for d now c
    unfolding deliver_command_def by (intro preserves_intros 1 2)
  show 4: "preserves service_ok (sendCommandWithCampaign env d ca n p)" for d ca n p
    unfolding sendCommandWithCampaign_def by (intro preserves_intros 3)
  show "preserves service_ok (SendCommand env d n p)"
    unfolding SendCommand_def by (rule 4)
  show 5: "preserves service_ok (updateCampaignFromCommandAck env ca st)" for ca st
    unfolding updateCampaignFromCommandAck_def by (intro preserves_intros)
  show "preserves service_ok (HandleCommandAck env d i status x)"
    unfolding HandleCommandAck_def by (intro preserves_intros 1 5)
qed

end
