(* ===== verification/Telemetry.thy ===== *)
theory Telemetry
  imports Commands
begin

text \<open>
  Telemetry and the rules it triggers (\<open>HandleTelemetry\<close>, \<open>evaluateRules\<close> of internal/core/service.go,
  \<open>executeRuleActions\<close> of internal/core/automation.go). A reading is validated, stored, merged into the
  shadow, and run through the rules in the order of the listing; an action that fails is only logged,
  so the rules are always run to the end.
\<close>

section \<open>Rules\<close>

definition canTriggerRule :: "string \<Rightarrow> string \<Rightarrow> int \<Rightarrow> time \<Rightarrow> Service \<Rightarrow> bool" where
  "canTriggerRule ruleID deviceID cooldownSeconds ts s =
     cooldown_over (case map_of (sv_ruleStates s) (makeRuleStateKey ruleID deviceID) of
         None \<Rightarrow> zero_ruleRuntimeState | Some state \<Rightarrow> state) cooldownSeconds ts"

definition recordRuleTrigger :: "string \<Rightarrow> string \<Rightarrow> time \<Rightarrow> unit sv" where
  "recordRuleTrigger ruleID deviceID ts =
     modS (\<lambda>s.
       let key = makeRuleStateKey ruleID deviceID;
           runtime = (case map_of (sv_ruleStates s) key of None \<Rightarrow> zero_ruleRuntimeState | Some st \<Rightarrow> st) in
       s\<lparr>sv_ruleStates := AList.update key
         (runtime\<lparr>rrs_TriggeredCount := rrs_TriggeredCount runtime + 1, rrs_LastTriggeredAt := ts\<rparr>)
         (sv_ruleStates s)\<rparr>)"

text \<open>One action of a rule; its error is logged and forgotten.\<close>

definition executeRuleAction :: "Env \<Rightarrow> Rule \<Rightarrow> Device \<Rightarrow> Telemetry \<Rightarrow> goany \<Rightarrow> RuleAction \<Rightarrow> unit sv" where
  "executeRuleAction env rule device telemetry value action =
     (if act_Type action = RuleActionSendCommand then
        tryS (sendCommandWithCampaign env (dev_ID device) [] (act_Name action) (act_Params action)) (\<lambda>_. retS ())
      else if act_Type action = RuleActionApplyConfig then
        tryS (ApplyConfigProfile env (act_ConfigProfileID action) (dev_ID device)) (\<lambda>_. retS ())
      else
        bindS (newID env ''alt'') (\<lambda>newid.
        tryS (onStore (st_AppendAlert (env_fs env)
            (buildRuleAlert newid rule device (tel_Timestamp telemetry) value action))) (\<lambda>_. retS ())))"

definition rule_actions :: "Rule \<Rightarrow> RuleAction list" where
  "rule_actions rule =
     (if length (rul_Actions rule) = 0 then [default_action (rul_Severity rule)] else rul_Actions rule)"

definition executeRuleActions :: "Env \<Rightarrow> Rule \<Rightarrow> Device \<Rightarrow> Telemetry \<Rightarrow> goany \<Rightarrow> unit sv" where
  "executeRuleActions env rule device telemetry value =
     forS (rule_actions rule) (executeRuleAction env rule device telemetry value)"

text \<open>The guards of a rule that need no store: enabled, and inside the tenant, product and device scope.\<close>

definition rule_in_scope :: "Rule \<Rightarrow> Device \<Rightarrow> bool" where
  "rule_in_scope rule device \<longleftrightarrow> rul_Enabled rule \<and>
     (rul_TenantID rule = [] \<or> rul_TenantID rule = dev_TenantID device) \<and>
     (rul_ProductID rule = [] \<or> rul_ProductID rule = dev_ProductID device) \<and>
     (rul_DeviceID rule = [] \<or> rul_DeviceID rule = dev_ID device)"

text \<open>
  The groups of the device are read once, at the first rule with a group scope: \<open>membership\<close> is the
  cached list, \<open>None\<close> before. An error other than \<open>ErrDeviceNotFound\<close> ends the evaluation.
\<close>

definition load_membership :: "Device \<Rightarrow> string list option \<Rightarrow> Service \<Rightarrow> string list res" where
  "load_membership device membership s =
     (case membership of
        Some m \<Rightarrow> Inr m
      | None \<Rightarrow> (case st_ListGroupIDsByDevice (dev_ID device) (sv_backend s) of
          Inr groupIDs \<Rightarrow> Inr groupIDs
        | Inl e \<Rightarrow> if e = ErrDeviceNotFound then Inr [] else Inl e))"

definition run_rule :: "Env \<Rightarrow> Device \<Rightarrow> Telemetry \<Rightarrow> Rule \<Rightarrow> unit sv" where
  "run_rule env device telemetry rule =
     (case mlookup (tel_Values telemetry) (cond_Property (rul_Condition rule)) of
        None \<Rightarrow> retS ()
      | Some value \<Rightarrow>
          if \<not> matchesRuleCondition (cond_Operator (rul_Condition rule)) value (cond_Value (rul_Condition rule))
          then retS ()
          else bindS (getS (canTriggerRule (rul_ID rule) (dev_ID device) (rul_CooldownSeconds rule)
              (tel_Timestamp telemetry))) (\<lambda>can.
            if \<not> can then retS ()
            else bindS (executeRuleActions env rule device telemetry value) (\<lambda>_.
              recordRuleTrigger (rul_ID rule) (dev_ID device) (tel_Timestamp telemetry))))"

fun rules_loop :: "Env \<Rightarrow> Device \<Rightarrow> Telemetry \<Rightarrow> string list option \<Rightarrow> Rule list \<Rightarrow> unit sv" where
  "rules_loop env device telemetry membership [] = retS ()"
| "rules_loop env device telemetry membership (rule # rules) =
     (if \<not> rule_in_scope rule device then rules_loop env device telemetry membership rules
      else if rul_GroupID rule \<noteq> [] then
        bindS (readS (load_membership device membership)) (\<lambda>m.
          if rul_GroupID rule \<notin> set m then rules_loop env device telemetry (Some m) rules
          else bindS (run_rule env device telemetry rule) (\<lambda>_.
            rules_loop env device telemetry (Some m) rules))
      else bindS (run_rule env device telemetry rule) (\<lambda>_.
        rules_loop env device telemetry membership rules))"

definition evaluateRules :: "Env \<Rightarrow> Device \<Rightarrow> Telemetry \<Rightarrow> unit sv" where
  "evaluateRules env device telemetry =
     bindS (fromStore st_ListRules) (\<lambda>rules. rules_loop env device telemetry None rules)"

section \<open>Telemetry\<close>

definition HandleTelemetry :: "Env \<Rightarrow> string \<Rightarrow> time \<Rightarrow> anymap \<Rightarrow> unit sv" where
  "HandleTelemetry env deviceID ts values =
     bindS (fromStore (st_GetDevice deviceID)) (\<lambda>device.
     bindS (getS (\<lambda>s. loadProduct s (dev_ProductID device))) (\<lambda>product.
     bindS (liftE (validate_product_values product values)) (\<lambda>_.
     bindS (if time_IsZero ts then nowS env else retS ts) (\<lambda>ts.
     let telemetry = \<lparr>tel_DeviceID = deviceID, tel_Timestamp = ts, tel_Values = cloneAnyMap values\<rparr> in
     bindS (onStore (st_AppendTelemetry (env_fs env) telemetry)) (\<lambda>_.
     bindS (ensureShadow env device) (\<lambda>shadow.
     bindS (onStore (st_SaveShadow (env_fs env) (report_shadow telemetry shadow))) (\<lambda>_.
     bindS (evaluateRules env device telemetry) (\<lambda>_.
     bindS (count (\<lambda>c. c\<lparr>ct_telemetryReceived := ct_telemetryReceived c + 1\<rparr>)) (\<lambda>_.
     TouchDevice deviceID (tel_Timestamp telemetry))))))))))"

lemma recordRuleTrigger_ok [preserves_intros]: "preserves service_ok (recordRuleTrigger r d ts)"
  unfolding recordRuleTrigger_def
  by (rule preserves_modS) (auto simp: Let_def elim!: service_ok_parts [rotated 3])

lemma executeRuleActions_ok [preserves_intros]:
  "preserves service_ok (executeRuleAction env rule d te v a)"
  "preserves service_ok (executeRuleActions env rule d te v)"
  unfolding executeRuleActions_def executeRuleAction_def by (intro preserves_intros)+

lemma run_rule_ok [preserves_intros]: "preserves service_ok (run_rule env d te rule)"
  unfolding run_rule_def by (intro preserves_intros)

lemma rules_loop_ok [preserves_intros]: "preserves service_ok (rules_loop env d te m rules)"
  by (induction env d te m rules rule: rules_loop.induct) (auto intro!: preserves_intros)

lemma telemetry_ops_ok [preserves_intros]:
  "preserves service_ok (evaluateRules env d te)"
  "preserves service_ok (HandleTelemetry env i ts vs)"
  unfolding HandleTelemetry_def evaluateRules_def by (intro preserves_intros)+

end
