(* ===== verification/Ota.thy ===== *)
theory Ota
  imports Telemetry
begin

text \<open>
  OTA campaigns (internal/core/multitenant_ota.go): the target of a campaign is resolved against the
  firmware, the campaign is stored, an upgrade command is sent to every target device, and the counts
  are stored. \<open>dispatch_targets\<close> is the loop over the devices; between its steps the campaign is held in
  a local copy, which the interleaving lemmas of the root theory look at.
\<close>

definition resolveOTATargetProduct ::
    "string \<Rightarrow> FirmwareArtifact \<Rightarrow> string \<Rightarrow> string \<Rightarrow> string \<Rightarrow> Service \<Rightarrow> string res" where
  "resolveOTATargetProduct tenantID artifact productID groupID deviceID s =
     (if deviceID \<noteq> [] then
        bindE (st_GetDevice deviceID (sv_backend s)) (\<lambda>device.
          if tenantID \<noteq> [] \<and> dev_TenantID device \<noteq> tenantID
          then Inl (ErrInvalidConfig [''ota device tenant mismatch''])
          else if fw_ProductID artifact \<noteq> [] \<and> dev_ProductID device \<noteq> fw_ProductID artifact
          then Inl (ErrInvalidConfig [''ota device product mismatch''])
          else Inr (dev_ProductID device))
      else
        bindE (if groupID \<noteq> [] then
            bindE (st_GetGroup groupID (sv_backend s)) (\<lambda>grp.
              if tenantID \<noteq> [] \<and> grp_TenantID grp \<noteq> tenantID
              then Inl (ErrInvalidConfig [''ota group tenant mismatch''])
              else if fw_ProductID artifact \<noteq> [] \<and> grp_ProductID grp \<noteq> [] \<and>
                grp_ProductID grp \<noteq> fw_ProductID artifact
              then Inl (ErrInvalidConfig [''ota group product mismatch''])
              else Inr (if productID = [] then grp_ProductID grp else productID))
          else Inr productID) (\<lambda>productID.
        if productID \<noteq> [] then
          bindE (st_GetProduct productID (sv_backend s)) (\<lambda>product.
            if tenantID \<noteq> [] \<and> prd_TenantID product \<noteq> tenantID
            then Inl (ErrInvalidConfig [''ota product tenant mismatch''])
            else if fw_ProductID artifact \<noteq> [] \<and> fw_ProductID artifact \<noteq> prd_ID product
            then Inl (ErrInvalidConfig [''ota firmware product mismatch''])
            else Inr (prd_ID product))
        else if fw_ProductID artifact \<noteq> [] then Inr (fw_ProductID artifact)
        else Inl (ErrInvalidConfig [''ota target scope is required''])))"

definition resolveOTATargetDevices :: "OTACampaign \<Rightarrow> Service \<Rightarrow> string list res" where
  "resolveOTATargetDevices campaign s =
     (if ota_DeviceID campaign \<noteq> [] then Inr [ota_DeviceID campaign]
      else if ota_GroupID campaign \<noteq> [] then st_ListDeviceIDsByGroup (ota_GroupID campaign) (sv_backend s)
      else bindE (st_ListDevices (sv_backend s)) (\<lambda>devices.
        Inr (map dev_ID (filter (\<lambda>device. in_tenant (ota_TenantID campaign) (dev_TenantID device) \<and>
          (ota_ProductID campaign = [] \<or> dev_ProductID device = ota_ProductID campaign)) devices))))"

definition ota_params :: "OTACampaign \<Rightarrow> FirmwareArtifact \<Rightarrow> anymap" where
  "ota_params campaign artifact = Some
     [(''campaign_id'', AStr (ota_ID campaign)), (''firmware_id'', AStr (fw_ID artifact)),
      (''name'', AStr (fw_Name artifact)), (''version'', AStr (fw_Version artifact)),
      (''url'', AStr (fw_URL artifact)), (''checksum'', AStr (fw_Checksum artifact)),
      (''checksum_type'', AStr (fw_ChecksumType artifact)), (''file_name'', AStr (fw_FileName artifact)),
      (''size_bytes'', AInt KInt64 (fw_SizeBytes artifact))]"

text \<open>One device of the dispatch loop: the counts of the local copy after the send.\<close>

definition dispatch_one :: "Env \<Rightarrow> anymap \<Rightarrow> string \<Rightarrow> OTACampaign \<Rightarrow> OTACampaign sv" where
  "dispatch_one env params deviceID campaign =
     tryS (sendCommandWithCampaign env deviceID (ota_ID campaign) ''ota_upgrade'' params) (\<lambda>r.
       retS (case r of
           Inr (_, None) \<Rightarrow> campaign\<lparr>ota_DispatchedCount := ota_DispatchedCount campaign + 1\<rparr>
         | _ \<Rightarrow> campaign\<lparr>ota_FailedCount := ota_FailedCount campaign + 1\<rparr>))"

fun dispatch_targets :: "Env \<Rightarrow> anymap \<Rightarrow> string list \<Rightarrow> OTACampaign \<Rightarrow> OTACampaign sv" where
  "dispatch_targets env params [] campaign = retS campaign"
| "dispatch_targets env params (deviceID # ids) campaign =
     bindS (dispatch_one env params deviceID campaign) (\<lambda>campaign. dispatch_targets env params ids campaign)"

definition dispatched :: "OTACampaign \<Rightarrow> time \<Rightarrow> OTACampaign" where
  "dispatched campaign now = campaign\<lparr>ota_LastDispatchedAt := Some now, ota_UpdatedAt := now,
     ota_Status := (if ota_DispatchedCount campaign > 0 \<and> ota_FailedCount campaign = 0 then OTARunning
       else if ota_DispatchedCount campaign > 0 then OTAPartial else OTAPending)\<rparr>"

definition dispatchOTACampaign :: "Env \<Rightarrow> OTACampaign \<Rightarrow> FirmwareArtifact \<Rightarrow> OTACampaign sv" where
  "dispatchOTACampaign env campaign artifact =
     bindS (readS (resolveOTATargetDevices campaign)) (\<lambda>deviceIDs.
     let params = ota_params campaign artifact;
         campaign = campaign\<lparr>ota_TotalDevices := int (length deviceIDs), ota_DispatchedCount := 0,
           ota_FailedCount := 0\<rparr> in
     bindS (nowS env) (\<lambda>now.
     bindS (dispatch_targets env params deviceIDs campaign) (\<lambda>campaign.
     let campaign = dispatched campaign now in
     bindS (onStore (st_SaveOTACampaign (env_fs env) campaign)) (\<lambda>_.
     retS campaign))))"

definition CreateOTACampaign ::
    "Env \<Rightarrow> string \<Rightarrow> string \<Rightarrow> string \<Rightarrow> string \<Rightarrow> string \<Rightarrow> string \<Rightarrow> OTACampaign sv" where
  "CreateOTACampaign env tenantID name firmwareID productID groupID deviceID =
     (let tenantID = trim_space tenantID; name = trim_space name; firmwareID = trim_space firmwareID;
          productID = trim_space productID; groupID = trim_space groupID; deviceID = trim_space deviceID in
      bindS (failS (name = [] \<or> firmwareID = [])
        (ErrInvalidConfig [''ota name and firmware_id are required''])) (\<lambda>_.
      bindS (fromStore (st_GetFirmwareArtifact firmwareID)) (\<lambda>artifact.
      bindS (if tenantID = [] then retS (fw_TenantID artifact)
        else if fw_TenantID artifact \<noteq> tenantID
        then errS (ErrInvalidConfig [''ota tenant does not match firmware tenant''])
        else retS tenantID) (\<lambda>tenantID.
      bindS (readS (resolveOTATargetProduct tenantID artifact productID groupID deviceID)) (\<lambda>resolvedProductID.
      bindS (nowS env) (\<lambda>now.
      bindS (newID env ''ota'') (\<lambda>newid.
      let campaign = \<lparr>ota_ID = newid, ota_TenantID = tenantID, ota_Name = name,
            ota_FirmwareID = fw_ID artifact, ota_ProductID = resolvedProductID, ota_GroupID = groupID,
            ota_DeviceID = deviceID, ota_Status = OTAPending, ota_TotalDevices = 0,
            ota_DispatchedCount = 0, ota_AckedCount = 0, ota_FailedCount = 0,
            ota_LastDispatchedAt = None, ota_CreatedAt = now, ota_UpdatedAt = now\<rparr> in
      bindS (onStore (st_CreateOTACampaign (env_fs env) campaign)) (\<lambda>_.
      dispatchOTACampaign env campaign artifact))))))))"

section \<open>Invariant and counts\<close>

lemma dispatch_ok [preserves_intros]:
  "preserves service_ok (dispatch_one env ps d c)"
  "preserves service_ok (dispatch_targets env ps ds c)"
proof -
  show 1: "preserves service_ok (dispatch_one env ps d c)" for d c
    unfolding dispatch_one_def by (intro preserves_intros)
  show "preserves service_ok (dispatch_targets env ps ds c)"
    by (induction ds arbitrary: c) (auto intro!: preserves_intros 1)
qed

lemma ota_ops_ok [preserves_intros]:
  "preserves service_ok (dispatchOTACampaign env c a)"
  "preserves service_ok (CreateOTACampaign env t n f p g d)"
  unfolding dispatchOTACampaign_def CreateOTACampaign_def by (intro preserves_intros)+

text \<open>The loop never fails; it counts every target once, as dispatched or as failed.\<close>

definition counted :: "OTACampaign \<Rightarrow> int \<Rightarrow> int \<Rightarrow> OTACampaign" where
  "counted c k m = c\<lparr>ota_DispatchedCount := ota_DispatchedCount c + k, ota_FailedCount := ota_FailedCount c + m\<rparr>"

lemma counted_counted: "counted (counted c k m) k' m' = counted c (k + k') (m + m')"
  by (simp add: counted_def)

lemma counted_id: "counted c 0 0 = c"
  by (simp add: counted_def)

definition send_failed :: "gerr + (Command \<times> gerr option) \<Rightarrow> bool" where
  "send_failed r = (case r of Inr (_, None) \<Rightarrow> False | _ \<Rightarrow> True)"

lemma dispatch_one_eq:
  "dispatch_one env ps d c s =
    (case sendCommandWithCampaign env d (ota_ID c) ''ota_upgrade'' ps s of
       (r, s') \<Rightarrow> (Inr (if send_failed r then counted c 0 1 else counted c 1 0), s'))"
  by (simp add: dispatch_one_def tryS_def op_simps counted_def send_failed_def
      split: prod.splits sum.splits option.splits)

lemma dispatch_targets_counts:
  "\<exists>k s'. k \<le> length ds \<and>
     dispatch_targets env ps ds c s = (Inr (counted c (int k) (int (length ds - k))), s')"
proof (induction ds arbitrary: c s)
  case Nil
  then show ?case by (simp add: op_simps counted_id)
next
  case (Cons d ds)
  obtain r s1 where r: "sendCommandWithCampaign env d (ota_ID c) ''ota_upgrade'' ps s = (r, s1)" by fastforce
  let ?c1 = "if send_failed r then counted c 0 1 else counted c 1 0"
  have one: "dispatch_one env ps d c s = (Inr ?c1, s1)" by (simp add: dispatch_one_eq r)
  obtain k s' where k: "k \<le> length ds"
    "dispatch_targets env ps ds ?c1 s1 = (Inr (counted ?c1 (int k) (int (length ds - k))), s')"
    using Cons.IH by blast
  have "dispatch_targets env ps (d # ds) c s = (Inr (counted ?c1 (int k) (int (length ds - k))), s')"
    using one k(2) by (simp add: bindS_apply(2))
  moreover have "counted ?c1 (int k) (int (length ds - k)) =
      counted c (int (if send_failed r then k else Suc k))
        (int (length (d # ds) - (if send_failed r then k else Suc k)))"
    using k(1) by (auto simp: counted_counted intro!: arg_cong2 [where f = "counted c"])
  ultimately show ?case using k(1) by (auto intro!: exI [of _ "if send_failed r then k else Suc k"])
qed

end
