(* ===== verification/ServiceSteps.thy ===== *)
theory ServiceSteps
  imports Ota
begin

text \<open>
  The service as a state machine: a step is one call of a public operation that changes state, with any
  arguments, any clock, any random bytes and any fault of the file system or of a session. \<open>reachable\<close>
  starts at \<open>NewService\<close> over a well-formed backend. A call is one step: the locks of the service and of the
  store make each single store operation atomic, but the code does not lock a call as a whole, so two calls
  that overlap may behave in ways no sequence of steps shows (a list and a create of \<open>CreateTenant\<close>, the
  counts of a campaign during its dispatch). The last two steps are the other users of the clock and of the
  random source.
\<close>

definition changed :: "'a sv \<Rightarrow> Service \<Rightarrow> Service" where
  "changed m s = snd (m s)"

inductive service_step :: "Service \<Rightarrow> Service \<Rightarrow> bool" where
  create_tenant: "service_step s (changed (CreateTenant env name slug descr metadata) s)"
| create_product: "service_step s (changed (CreateProductWithTenant env tid name descr metadata ap tm) s)"
| update_thing_model: "service_step s (changed (UpdateProductThingModel env pid tm) s)"
| update_access_profile: "service_step s (changed (UpdateProductAccessProfile env pid ap) s)"
| create_group: "service_step s (changed (CreateGroupWithTenant env tid name descr pid tags) s)"
| assign_device: "service_step s (changed (AssignDeviceToGroup env gid did) s)"
| remove_device: "service_step s (changed (RemoveDeviceFromGroup env gid did) s)"
| create_device: "service_step s (changed (CreateDeviceWithTenant env tid name pid tags metadata) s)"
| update_tags: "service_step s (changed (UpdateDeviceTags env did tags) s)"
| create_config: "service_step s (changed (CreateConfigProfileWithTenant env tid name descr pid vals) s)"
| apply_config: "service_step s (changed (ApplyConfigProfile env cid did) s)"
| create_rule: "service_step s (changed (CreateRuleWithTenant env tid name descr pid gid did enabled severity
    cooldown condition actions) s)"
| create_firmware: "service_step s (changed (CreateFirmwareArtifact env tid pid name version file url checksum
    ctype sz metadata notes) s)"
| create_campaign: "service_step s (changed (CreateOTACampaign env tid name fid pid gid did) s)"
| update_alert: "service_step s (changed (UpdateAlert env aid status note) s)"
| get_shadow: "service_step s (changed (GetShadow env did) s)"
| update_desired: "service_step s (changed (UpdateDesiredShadow env did desired) s)"
| telemetry: "service_step s (changed (HandleTelemetry env did ts vals) s)"
| send_command: "service_step s (changed (SendCommand env did name params) s)"
| command_ack: "service_step s (changed (HandleCommandAck env did cid status result) s)"
| register: "service_step s (changed (RegisterSession env did ses) s)"
| unregister: "service_step s (changed (UnregisterSession env did sid) s)"
| touch: "service_step s (changed (TouchDevice did ts) s)"
| record_connection: "service_step s (changed RecordConnectionAccepted s)"
| record_rejected: "service_step s (changed RecordConnectionRejected s)"
| record_http: "service_step s (changed (RecordHTTPRequest code) s)"
| record_ingest: "service_step s (changed (RecordHTTPIngestResult accepted bytes n) s)"
| record_tcp: "service_step s (changed (RecordTCPTelemetryAccepted bytes n) s)"
| record_ack: "service_step s (changed (RecordCommandAckTransport transport) s)"
| record_mqtt_accepted: "service_step s (changed RecordMQTTConnectionAccepted s)"
| record_mqtt_rejected: "service_step s (changed RecordMQTTConnectionRejected s)"
| record_mqtt_message: "service_step s (changed (RecordMQTTMessageReceived bytes n isTelemetry) s)"
| read_clock: "service_step s (changed (nowS env) s)"
| take_id: "service_step s (changed (newID env name) s)"

inductive_cases service_stepE: "service_step s s'"

inductive reachable :: "Service \<Rightarrow> bool" where
  start: "backend_ok b \<Longrightarrow> reachable (NewService env b)"
| step: "reachable s \<Longrightarrow> service_step s s' \<Longrightarrow> reachable s'"

lemma changed_ok: "preserves I m \<Longrightarrow> I s \<Longrightarrow> I (changed m s)"
  by (simp add: preserves_def changed_def)

lemma service_step_ok: "service_step s s' \<Longrightarrow> service_ok s \<Longrightarrow> service_ok s'"
  by (induction rule: service_step.induct; rule changed_ok, (intro preserves_intros)?, assumption)

lemma reachable_service_ok: "reachable s \<Longrightarrow> service_ok s"
  by (induction rule: reachable.induct) (auto intro: NewService_ok service_step_ok)

lemma newStorage_ok:
  assumes "newStorage env bk path n read = Inr b"
    "\<And>data ps. read = Inr (Some data) \<Longrightarrow> fe_unmarshal env data = Inr ps \<Longrightarrow>
       \<forall>s. store_ok (mem_Restore (ps_Snapshot ps) s)"
  shows "backend_ok b"
proof -
  have "store_ok (fs_inner f)" if f: "file_New env path n read = Inr f" for f
  proof (cases read)
    case (Inr d)
    with f assms(2) show ?thesis
      by (auto simp: file_New_def load_def Let_def op_simps bindS_def decodeSnapshot_def store_ok_New
          split: if_splits option.splits sum.splits)
  qed (use f in \<open>auto simp: file_New_def load_def Let_def op_simps split: if_splits\<close>)
  then show ?thesis
    using assms(1)
    by (auto simp: newStorage_def Let_def backend_ok_def store_ok_New bindE_Inr split: if_splits)
qed

end
