(* ===== verification/Demo.thy ===== *)
theory Demo
  imports ServiceSteps
begin

text \<open>
  Concrete values the witnesses of the properties are evaluated on: small entities, a store with one
  tenant, product, device and group, an environment without faults, and one whose rename fails.
\<close>

definition demo_tenant :: Tenant where
  "demo_tenant = \<lparr>tn_ID = ''t1'', tn_Slug = ''acme'', tn_Name = ''acme'', tn_Description = [],
     tn_Metadata = None, tn_CreatedAt = 5, tn_UpdatedAt = 5\<rparr>"

definition demo_thing_model :: ThingModel where
  "demo_thing_model = \<lparr>tm_Properties = [\<lparr>prop_Identifier = ''t'', prop_Name = ''temp'',
     prop_DataType = ''float'', prop_AccessMode = ''r'', prop_Required = False, prop_Description = []\<rparr>],
     tm_Events = [], tm_Services = [], tm_Version = 1, tm_UpdatedAt = 5\<rparr>"

definition demo_profile :: ProductAccessProfile where
  "demo_profile = \<lparr>ap_Transport = ''tcp'', ap_Protocol = ''tcp_json'', ap_IngestMode = ''gateway_tcp'',
     ap_PayloadFormat = ''json_values'', ap_AuthMode = ''token'', ap_SensorTemplate = [], ap_Topic = [],
     ap_Notes = [], ap_Metadata = None, ap_PointMappings = []\<rparr>"

definition demo_product :: "string \<Rightarrow> Product" where
  "demo_product i = \<lparr>prd_ID = i, prd_TenantID = [], prd_Key = ''k'', prd_Name = ''sensor'',
     prd_Description = [], prd_Metadata = None, prd_AccessProfile = demo_profile,
     prd_ThingModel = demo_thing_model, prd_CreatedAt = 5, prd_UpdatedAt = 5\<rparr>"

definition demo_device :: "string \<Rightarrow> string \<Rightarrow> Device" where
  "demo_device i p = \<lparr>dev_ID = i, dev_TenantID = [], dev_Name = ''probe'', dev_ProductID = p,
     dev_ProductKey = ''k'', dev_Token = ''secret'', dev_Tags = None, dev_Metadata = None, dev_CreatedAt = 6\<rparr>"

definition demo_group :: DeviceGroup where
  "demo_group = \<lparr>grp_ID = ''g1'', grp_TenantID = [], grp_Name = ''lab'', grp_Description = [],
     grp_ProductID = [], grp_Tags = None, grp_CreatedAt = 7, grp_UpdatedAt = 7\<rparr>"

definition demo_store :: Store where
  "demo_store = (New 3)\<lparr>ms_tenants := [(''t1'', demo_tenant)], ms_products := [(''p1'', demo_product ''p1'')],
     ms_devices := [(''d1'', demo_device ''d1'' ''p1'')], ms_groups := [(''g1'', demo_group)]\<rparr>"

definition demo_snapshot :: PersistedSnapshot where
  "demo_snapshot = \<lparr>ps_Version = 1, ps_SavedAt = 9,
     ps_Snapshot = mem_Snapshot (snd (mem_CreateTenant demo_tenant (New 3)))\<rparr>"

definition demo_fs :: "(FileStep \<Rightarrow> gerr option) \<Rightarrow> FsEnv" where
  "demo_fs fault = \<lparr>fe_marshal = (\<lambda>ps. if ps = demo_snapshot then Inr ''json'' else Inl (EOther ''unsupported value'')),
     fe_unmarshal = (\<lambda>_. Inr demo_snapshot), fe_fault = (\<lambda>_. fault), fe_now = (\<lambda>_. 9)\<rparr>"

definition no_fault :: "FileStep \<Rightarrow> gerr option" where
  "no_fault k = None"

definition rename_fault :: "FileStep \<Rightarrow> gerr option" where
  "rename_fault k = (if k = RenameTmp then Some (EOther ''access denied'') else None)"

definition demo_fs_any :: "(FileStep \<Rightarrow> gerr option) \<Rightarrow> FsEnv" where
  "demo_fs_any fault = (demo_fs fault)\<lparr>fe_marshal := (\<lambda>_. Inr ''json'')\<rparr>"

definition demo_file :: "string option \<Rightarrow> FileStore" where
  "demo_file content = \<lparr>fs_path = ''data.json'', fs_inner = New 3, fs_lastPersistedAt = 0,
     fs_persistErrors = 0, fs_afterPersist = False, fs_disk = \<lparr>dk_file = content, dk_tmp = None\<rparr>,
     fs_history = [], fs_writes = 0, fs_pushed = []\<rparr>"

definition demo_env :: Env where
  "demo_env = \<lparr>env_fs = demo_fs no_fault, env_clock = (\<lambda>n. 100 + int n),
     env_rand = (\<lambda>n. Some [n mod 256]), env_send = (\<lambda>_. None)\<rparr>"

definition demo_session :: Session where
  "demo_session = \<lparr>ses_ID = ''s1'', ses_Transport = Some ''mqtt''\<rparr>"

definition demo_service :: Service where
  "demo_service = NewService demo_env (MemoryBackend demo_store)"

definition demo_online :: Service where
  "demo_online = snd (RegisterSession demo_env ''d1'' demo_session demo_service)"

lemmas demo_defs = demo_tenant_def demo_thing_model_def demo_profile_def demo_product_def
  demo_device_def demo_group_def demo_session_def

lemma demo_store_fields [simp]:
  "ms_tenants demo_store = [(''t1'', demo_tenant)]" "ms_products demo_store = [(''p1'', demo_product ''p1'')]"
  "ms_devices demo_store = [(''d1'', demo_device ''d1'' ''p1'')]" "ms_groups demo_store = [(''g1'', demo_group)]"
  "ms_rules demo_store = []" "ms_configProfiles demo_store = []" "ms_firmwareArtifacts demo_store = []"
  "ms_otaCampaigns demo_store = []" "ms_shadows demo_store = []" "ms_telemetryByDevice demo_store = []"
  "ms_commandByID demo_store = []" "ms_commandIDsByDevice demo_store = []" "ms_groupIDsByDevice demo_store = []"
  "ms_deviceIDsByGroup demo_store = []" "ms_alerts demo_store = []" "ms_telemetryRetention demo_store = 3"
  by (simp_all add: demo_store_def New_def)

lemma demo_store_ok: "store_ok demo_store"
proof -
  have "retention_ok (New 3)" by (rule retention_ok_New)
  then have "retention_ok demo_store" by (simp add: retention_defs demo_store_def New_def Let_def)
  moreover have "members_ok demo_store" by (simp add: members_ok_def members_inv_def lookup_list_def)
  moreover have "commands_ok demo_store" by (simp add: commands_ok_def commands_inv_def lookup_list_def)
  moreover have "tables_ok demo_store"
    by (simp add: tables_ok_def table_ok_defs tenants.entries_ok_def products.entries_ok_def
        devices.entries_ok_def groups.entries_ok_def rules.entries_ok_def configprofiles.entries_ok_def
        firmwareartifacts.entries_ok_def otacampaigns.entries_ok_def clone_updates demo_defs
        cloneStringMap_def mlen_def)
  ultimately show ?thesis
    by (simp add: store_ok_def shadows_inv_def telemetry_inv_def)
qed

lemma demo_reachable: "reachable demo_service"
  unfolding demo_service_def by (rule reachable.start) (simp add: backend_ok_def demo_store_ok)

lemma demo_online_reachable: "reachable demo_online"
  unfolding demo_online_def changed_def [symmetric]
  by (intro reachable.step [OF demo_reachable] service_step.register)

lemma demo_service_fields [simp]:
  "sv_backend demo_service = MemoryBackend demo_store" "sv_states demo_service = []"
  "sv_ruleStates demo_service = []" "sv_ticks demo_service = 1" "sv_rands demo_service = 0"
  "sv_sends demo_service = 0" "sv_sent demo_service = []"
  by (simp_all add: demo_service_def NewService_def)

lemma demo_online_fields [simp]:
  "sv_backend demo_online = MemoryBackend demo_store" "sv_ruleStates demo_online = []"
  "sv_states demo_online = [(''d1'', \<lparr>dst_session = Some demo_session, dst_sessionID = ''s1'',
     dst_transport = ''mqtt'', dst_connectedAt = 101, dst_lastSeen = 101\<rparr>)]"
  "sv_sends demo_online = 0" "sv_sent demo_online = []" "sv_ticks demo_online = 2" "sv_rands demo_online = 0"
  "sv_closed demo_online = []"
  by (simp_all add: demo_online_def RegisterSession_eq Let_def state_of_def zero_deviceState_def demo_session_def
      demo_env_def sessionTransportName_def label_eval demo_service_def NewService_def)

lemma demo_product_normal:
  "normalizeThingModel demo_thing_model 1 5 = Inr demo_thing_model"
  "normalizeAccessProfile demo_profile = Inr demo_profile"
  "tm_Version demo_thing_model = 1" "tm_UpdatedAt demo_thing_model = 5"
  by code_simp+

lemma demo_clones [simp]:
  "cloneDevice (demo_device i p) = demo_device i p" "cloneGroup demo_group = demo_group"
  "cloneProduct (demo_product i) = demo_product i" "cloneTenant demo_tenant = demo_tenant"
  by (simp_all add: clone_updates demo_defs cloneStringMap_def mlen_def)

lemma demo_fields [simp]:
  "dev_ID (demo_device i p) = i" "dev_ProductID (demo_device i p) = p" "dev_TenantID (demo_device i p) = []"
  "dev_Token (demo_device i p) = ''secret''" "grp_ID demo_group = ''g1''" "grp_TenantID demo_group = []"
  "grp_ProductID demo_group = []" "prd_ID (demo_product i) = i" "prd_TenantID (demo_product i) = []"
  "prd_Key (demo_product i) = ''k''" "prd_ThingModel (demo_product i) = demo_thing_model"
  "env_clock demo_env n = 100 + int n" "env_rand demo_env n = Some [n mod 256]" "env_send demo_env n = None"
  "ses_ID demo_session = ''s1''" "ses_Transport demo_session = Some ''mqtt''"
  by (simp_all add: demo_device_def demo_group_def demo_product_def demo_env_def demo_session_def)

lemma demo_ids: "NewID p (Some [0]) t = p @ ''_00''"
  by (simp add: NewID_def randomHex_def hexEncode_def hex_byte_def hex_digits_def)

lemma demo_token: "NewToken (Some [Suc 0]) t = ''01''"
  by (simp add: NewToken_def randomHex_def hexEncode_def hex_byte_def hex_digits_def)

text \<open>A store in the middle of a campaign: two devices were sent the upgrade, none has answered.\<close>

definition demo_command :: Command where
  "demo_command = \<lparr>cmd_ID = ''c1'', cmd_DeviceID = ''d1'', cmd_CampaignID = ''o1'', cmd_Name = ''ota_upgrade'',
     cmd_Params = None, cmd_Status = CommandStatusSent, cmd_Result = ''sent'', cmd_CreatedAt = 8, cmd_UpdatedAt = 8\<rparr>"

definition demo_campaign :: OTACampaign where
  "demo_campaign = \<lparr>ota_ID = ''o1'', ota_TenantID = [], ota_Name = ''v2'', ota_FirmwareID = ''f1'',
     ota_ProductID = ''p1'', ota_GroupID = [], ota_DeviceID = [], ota_Status = OTARunning, ota_TotalDevices = 2,
     ota_DispatchedCount = 2, ota_AckedCount = 0, ota_FailedCount = 0, ota_LastDispatchedAt = Some 8,
     ota_CreatedAt = 8, ota_UpdatedAt = 8\<rparr>"

definition demo_store2 :: Store where
  "demo_store2 = demo_store\<lparr>ms_commandByID := [(''c1'', demo_command)],
     ms_commandIDsByDevice := [(''d1'', [''c1''])], ms_otaCampaigns := [(''o1'', demo_campaign)]\<rparr>"

definition demo_service2 :: Service where
  "demo_service2 = NewService demo_env (MemoryBackend demo_store2)"

lemma demo_store2_ok: "store_ok demo_store2"
proof -
  have ok: "store_ok demo_store" by (rule demo_store_ok)
  then have "retention_ok demo_store2" "members_ok demo_store2"
    by (simp_all add: store_ok_def retention_defs demo_store2_def members_ok_def Let_def)
  moreover have "commands_ok demo_store2"
    by (auto simp: commands_ok_def commands_inv_def demo_store2_def demo_command_def lookup_list_def clone_updates
        cloneAnyMap_def mlen_def split: if_splits)
  moreover have "tables_ok demo_store2"
    using ok by (simp add: store_ok_def tables_ok_def table_ok_defs demo_store2_def otacampaigns.entries_ok_def
        demo_campaign_def)
  ultimately show ?thesis using ok by (simp add: store_ok_def demo_store2_def)
qed

lemma demo_reachable2: "reachable demo_service2"
  unfolding demo_service2_def by (rule reachable.start) (simp add: backend_ok_def demo_store2_ok)

lemma demo_service2_fields [simp]:
  "sv_backend demo_service2 = MemoryBackend demo_store2" "sv_states demo_service2 = []" "sv_ticks demo_service2 = 1"
  "ms_commandByID demo_store2 = [(''c1'', demo_command)]" "ms_otaCampaigns demo_store2 = [(''o1'', demo_campaign)]"
  "cmd_ID demo_command = ''c1''" "cmd_DeviceID demo_command = ''d1''" "cmd_CampaignID demo_command = ''o1''"
  "ota_ID demo_campaign = ''o1''"
  by (simp_all add: demo_service2_def NewService_def demo_store2_def demo_command_def demo_campaign_def)

definition demo_firmware :: FirmwareArtifact where
  "demo_firmware = \<lparr>fw_ID = ''f1'', fw_TenantID = [], fw_ProductID = ''p1'', fw_Name = ''probe'', fw_Version = ''2'',
     fw_FileName = [], fw_URL = ''u'', fw_Checksum = [], fw_ChecksumType = [], fw_SizeBytes = 1, fw_Notes = [],
     fw_Metadata = None, fw_CreatedAt = 8, fw_UpdatedAt = 8\<rparr>"

definition demo_store3 :: Store where
  "demo_store3 = demo_store\<lparr>ms_firmwareArtifacts := [(''f1'', demo_firmware)]\<rparr>"

definition demo_service3 :: Service where
  "demo_service3 = NewService demo_env (MemoryBackend demo_store3)"

lemma demo_reachable3: "reachable demo_service3"
proof -
  have ok: "store_ok demo_store" by (rule demo_store_ok)
  then have "tables_ok demo_store3"
    by (simp add: store_ok_def tables_ok_def table_ok_defs demo_store3_def firmwareartifacts.entries_ok_def
        demo_firmware_def clone_updates cloneStringMap_def mlen_def)
  with ok have "store_ok demo_store3"
    by (simp add: store_ok_def retention_defs members_ok_def commands_ok_def demo_store3_def)
  then show ?thesis unfolding demo_service3_def by (intro reachable.start) (simp add: backend_ok_def)
qed

end
