(* ===== verification/StoreProperties.thy ===== *)
theory StoreProperties
  imports Demo
begin

text \<open>
  The properties of the stores: what a write to the file store does to memory and disk, what is read
  back after a restart, what a crash can leave, and the contracts of the tables and series.
\<close>

section \<open>The file store\<close>


lemma demo_file_ok: "store_ok (fs_inner (demo_file c))"
  by (simp add: demo_file_def store_ok_New)

lemma demo_create_fails:
  "\<exists>e f'. mutate (demo_fs rename_fault) (mem_CreateTenant demo_tenant) (demo_file c) = (Inl e, f')"
  by (auto simp: mutate_def persist_def on_inner_def Let_def bindS_def tryS_def op_simps demo_fs_def
      demo_file_def write_simps rename_fault_def mem_CreateTenant_def New_def split: sum.splits)



lemma demo_write:
  "mutate (demo_fs no_fault) (mem_CreateTenant demo_tenant) (demo_file None) =
    (Inr (), (demo_file None)\<lparr>fs_inner := snd (mem_CreateTenant demo_tenant (New 3)),
       fs_lastPersistedAt := 9, fs_writes := 1,
       fs_disk := \<lparr>dk_file = Some ''json'', dk_tmp = None\<rparr>,
       fs_history := [\<lparr>dk_file = Some ''json'', dk_tmp = None\<rparr>, \<lparr>dk_file = None, dk_tmp = Some ''json''\<rparr>,
         \<lparr>dk_file = None, dk_tmp = Some ''json''\<rparr>, \<lparr>dk_file = None, dk_tmp = Some []\<rparr>]\<rparr>)"
proof -
  obtain t where "mem_CreateTenant demo_tenant (New 3) = (Inr (), t)"
    by (simp add: mem_CreateTenant_def New_def)
  then show ?thesis
    by (simp add: mutate_def persist_def on_inner_def Let_def bindS_def tryS_def op_simps demo_fs_def
        demo_file_def write_simps no_fault_def demo_snapshot_def)
qed


text \<open>When only the last step of a write fails, the rename, the write returns the error and the memory
  store is rolled back, but the snapshot file is gone: the old file was removed before the rename. A
  restart then finds no file and starts with an empty store, so the snapshot on disk is not replaced
  atomically as the README says.\<close>

lemma rename_failure_loses_file:
  assumes "store_ok (fs_inner f)" "m (fs_inner f) = (Inr a, t)" "\<And>ps. \<exists>data. fe_marshal env ps = Inr data"
    and "fe_fault env (Suc (fs_writes f)) RenameTmp = Some e"
    and "\<And>k. k \<noteq> RenameTmp \<Longrightarrow> fe_fault env (Suc (fs_writes f)) k = None"
    and "mutate env m f = (r, f')" "fs_path f \<noteq> []"
  shows "r = Inl e \<and> fs_inner f' = sort_members (fs_inner f) \<and> fs_disk f' = \<lparr>dk_file = None, dk_tmp = None\<rparr> \<and>
    (\<exists>g. file_New env (fs_path f) n (Inr (dk_file (fs_disk f'))) = Inr g \<and> fs_inner g = New n)"
proof -
  obtain data where "fe_marshal env \<lparr>ps_Version = 1, ps_SavedAt = fe_now env (fs_writes f),
      ps_Snapshot = mem_Snapshot t\<rparr> = Inr data"
    using assms(3) by blast
  then have "r = Inl e \<and> fs_inner f' = sort_members (fs_inner f) \<and> fs_disk f' = \<lparr>dk_file = None, dk_tmp = None\<rparr>"
    using assms(1,2,4-6)
    by (auto simp: mutate_def persist_def on_inner_def Let_def bindS_def tryS_def op_simps write_simps
        restore_snapshot)
  then show ?thesis
    using assms(7) by (auto simp: file_New_def load_def Let_def op_simps)
qed

lemma rename_failure_loses_file_witness:
  "\<exists>e f'. mutate (demo_fs_any rename_fault) (mem_CreateTenant demo_tenant) (demo_file (Some ''old'')) = (Inl e, f') \<and>
    dk_file (fs_disk (demo_file (Some ''old''))) = Some ''old'' \<and> dk_file (fs_disk f') = None"
proof -
  obtain r f' where m: "mutate (demo_fs_any rename_fault) (mem_CreateTenant demo_tenant) (demo_file (Some ''old'')) = (r, f')"
    by fastforce
  have new: "mem_CreateTenant demo_tenant (fs_inner (demo_file (Some ''old''))) =
      (Inr (), snd (mem_CreateTenant demo_tenant (New 3)))"
    by (simp add: mem_CreateTenant_def New_def demo_file_def)
  show ?thesis
    using rename_failure_loses_file [OF demo_file_ok new _ _ _ m, where e = "EOther ''access denied''" and n = 3] m
    by (auto simp: demo_fs_any_def demo_fs_def rename_fault_def demo_file_def)
qed

text \<open>C4: Crash safety of a snapshot write. Whenever the process stops during a write, the file at the
  path is the old one or the new one, complete, or it is missing: between the removal of the old file and
  the rename. In that window the complete new snapshot is in the temporary file, unless the rename itself
  failed.\<close>

theorem write_crash_states:
  assumes "writeSnapshotFile env data savedAt f = (r, f')" "d \<in> set (disk_steps f f')"
  shows "dk_file d = dk_file (fs_disk f) \<or> dk_file d = Some data \<or>
    (dk_file d = None \<and> (dk_tmp d = Some data \<or> fe_fault env (Suc (fs_writes f)) RenameTmp \<noteq> None))"
  using assms by (rule writeSnapshotFile_steps)

theorem write_crash_states_witness:
  "\<exists>f' d. writeSnapshotFile (demo_fs no_fault) ''new'' 9 (demo_file (Some ''old'')) = (Inr (), f') \<and>
    d \<in> set (disk_steps (demo_file (Some ''old'')) f') \<and> dk_file d = None \<and> dk_tmp d = Some ''new''"
proof -
  obtain r f' where w: "writeSnapshotFile (demo_fs no_fault) ''new'' 9 (demo_file (Some ''old'')) = (r, f')" by fastforce
  let ?d = "\<lparr>dk_file = None, dk_tmp = Some ''new''\<rparr> :: Disk"
  have r: "r = Inr ()" "?d \<in> set (disk_steps (demo_file (Some ''old'')) f')"
    using w by (auto simp: write_simps demo_fs_def no_fault_def demo_file_def disk_steps_def)
  show ?thesis
    using write_crash_states [OF w r(2)] w r by auto
qed

section \<open>The memory store\<close>



text \<open>C5: Restoring a snapshot of a well-formed store into any store gives back that store, up to the order
  of the members inside each group list, and no listing of members sees that order.\<close>

theorem snapshot_roundtrip:
  assumes "store_ok s"
  shows "mem_Restore (mem_Snapshot s) s0 = sort_members s \<and> store_ok (sort_members s) \<and>
    mem_ListDeviceIDsByGroup g (sort_members s) = mem_ListDeviceIDsByGroup g s \<and>
    mem_ListGroupIDsByDevice d (sort_members s) = mem_ListGroupIDsByDevice d s"
  using assms restore_snapshot store_ok_sort_members sort_members_unobservable by blast

theorem snapshot_roundtrip_witness:
  "mem_Restore (mem_Snapshot demo_store) (New 1) = sort_members demo_store"
  using snapshot_roundtrip [OF demo_store_ok] by blast

text \<open>The contract of a table, for the devices: a created device is read back under its ID, every other
  ID reads as before, the listing gains exactly that device and is sorted newest first without
  duplicates, and creating the same ID again is refused and changes nothing.\<close>

lemma device_table_contract:
  assumes "store_ok s" "mem_CreateDevice d s = (Inr (), s')"
    and "mem_ListDevices s = Inr ds" "mem_ListDevices s' = Inr ds'"
  shows "(\<forall>i. mem_GetDevice i s' = (if i = dev_ID d then Inr (cloneDevice d) else mem_GetDevice i s)) \<and>
    mset ds' = add_mset (cloneDevice d) (mset ds) \<and> sorted_wrt (\<lambda>x y. dev_CreatedAt y \<le> dev_CreatedAt x) ds' \<and>
    distinct (map dev_ID ds') \<and> mem_CreateDevice d s' = (Inl ErrDeviceExists, s')"
proof -
  have "devices.table_ok s" using assms(1) by (simp add: store_ok_def tables_ok_def)
  then have ok: "devices.table_ok s'" using devices.create_ok [of s d] assms(2) by simp
  have get: "\<forall>i. mem_GetDevice i s' = (if i = dev_ID d then Inr (cloneDevice d) else mem_GetDevice i s)"
    using devices.get_create [OF assms(2)] by blast
  show ?thesis
    using get devices.lst_create [OF assms(2-4)] devices.lst_sorted [OF assms(4)]
      devices.lst_distinct [OF ok assms(4)] devices.create_twice [OF assms(2)] by blast
qed

lemma device_table_contract_example:
  "\<exists>s'. mem_CreateDevice (demo_device ''d2'' []) demo_store = (Inr (), s') \<and>
    mem_GetDevice ''d2'' s' = Inr (cloneDevice (demo_device ''d2'' [])) \<and>
    mem_CreateDevice (demo_device ''d2'' []) s' = (Inl ErrDeviceExists, s')"
proof -
  let ?d = "demo_device ''d2'' []"
  have c: "mem_CreateDevice ?d demo_store = (Inr (), snd (mem_CreateDevice ?d demo_store))"
    by (simp add: mem_CreateDevice_def demo_device_def)
  obtain ds ds' where l: "mem_ListDevices demo_store = Inr ds"
    "mem_ListDevices (snd (mem_CreateDevice ?d demo_store)) = Inr ds'"
    using devices.lst_total by blast
  show ?thesis
    using device_table_contract [OF demo_store_ok c l] c by (auto simp: demo_device_def)
qed

text \<open>C6: Telemetry is a bounded log per device: after a reading is appended, a listing of the device shows
  it first and then what the listing showed before, cut to the limit and to the retention; the listings
  of other devices do not change.\<close>

theorem telemetry_log_contract:
  assumes "store_ok s" "mem_ListTelemetryByDevice (tel_DeviceID te) n s = Inr xs"
    and "mem_ListTelemetryByDevice (tel_DeviceID te) n (snd (mem_AppendTelemetry te s)) = Inr ys"
  shows "ys = (if 0 < n then take (nat (min n (ms_telemetryRetention s))) (cloneTelemetry te # xs)
      else take (nat (ms_telemetryRetention s)) (cloneTelemetry te # xs)) \<and>
    int (length ys) \<le> ms_telemetryRetention s \<and>
    (\<forall>d. d \<noteq> tel_DeviceID te \<longrightarrow>
      mem_ListTelemetryByDevice d n (snd (mem_AppendTelemetry te s)) = mem_ListTelemetryByDevice d n s)"
proof -
  let ?s' = "snd (mem_AppendTelemetry te s)"
  have "retention_ok s" using assms(1) by (simp add: store_ok_def)
  then have ok: "telemetry_log.log_ok (tel_DeviceID te) s" by (rule retention_ok_logs)
  have ok': "telemetry_log.log_ok (tel_DeviceID te) ?s'" using telemetry_log.append_ok [OF ok] .
  have "mem_ListTelemetryByDevice d n ?s' = mem_ListTelemetryByDevice d n s" if "d \<noteq> tel_DeviceID te" for d
    using telemetry_log.app_other [of te d s] telemetry_log.lst_eq that by auto
  then show ?thesis
    using telemetry_log.list_append [OF ok refl assms(2,3)] telemetry_log.list_length [OF ok' assms(3)]
      telemetry_log.app_retention [of te s] by auto
qed

theorem telemetry_log_contract_witness:
  "mem_ListTelemetryByDevice ''d1'' 5 (snd (mem_AppendTelemetry
      \<lparr>tel_DeviceID = ''d1'', tel_Timestamp = 7, tel_Values = Some [(''t'', AF64 (Fin 1))]\<rparr> demo_store)) =
    Inr [\<lparr>tel_DeviceID = ''d1'', tel_Timestamp = 7, tel_Values = Some [(''t'', AF64 (Fin 1))]\<rparr>]"
proof -
  let ?te = "\<lparr>tel_DeviceID = ''d1'', tel_Timestamp = 7, tel_Values = Some [(''t'', AF64 (Fin 1))]\<rparr> :: Telemetry"
  obtain ys where ys: "mem_ListTelemetryByDevice (tel_DeviceID ?te) 5 (snd (mem_AppendTelemetry ?te demo_store)) = Inr ys"
    using telemetry_log.lst_eq by blast
  have xs: "mem_ListTelemetryByDevice (tel_DeviceID ?te) 5 demo_store = Inr []"
    by (simp add: mem_ListTelemetryByDevice_def lookup_list_def)
  show ?thesis
    using telemetry_log_contract [OF demo_store_ok xs ys] ys
    by (auto simp: clone_updates cloneAnyMap_def mlen_def)
qed

text \<open>A command is listed for its device and can be updated by its ID: after the update the command
  reads with the new status and result, everything else of it and every other command unchanged, and the
  listing of a device still shows only stored commands, the last saved first.\<close>

lemma command_update_contract:
  assumes "store_ok s" "mem_GetCommand i s = Inr c0"
    and "mem_UpdateCommandStatus now i st r s = (Inr c, s')"
  shows "c = c0\<lparr>cmd_Status := st, cmd_Result := r, cmd_UpdatedAt := now\<rparr> \<and>
    (\<forall>j. mem_GetCommand j s' = (if j = i then Inr c else mem_GetCommand j s)) \<and>
    (\<forall>d cs. mem_ListCommandsByDevice d 0 s' = Inr cs \<longrightarrow>
       map cmd_ID cs = rev (lookup_list (ms_commandIDsByDevice s) d))"
proof -
  have "store_ok s'" using preserves_pair [OF series_ops_ok(5) assms(1,3)] .
  then have ok: "commands_ok s'" by (simp add: store_ok_def)
  have ids: "ms_commandIDsByDevice s' = ms_commandIDsByDevice s"
    using assms(3) by (auto simp: mem_UpdateCommandStatus_def Let_def split: option.splits)
  have "map cmd_ID cs = rev (lookup_list (ms_commandIDsByDevice s) d)"
    if "mem_ListCommandsByDevice d 0 s' = Inr cs" for d cs
  proof -
    let ?ids = "lookup_list (ms_commandIDsByDevice s) d"
    have "cmd_ID (cloneCommand (case map_of (ms_commandByID s') j of None \<Rightarrow> zero_Command | Some c \<Rightarrow> c)) = j"
      if "j \<in> set ?ids" for j
      using ok that ids commands_ok_get [OF ok, of j]
      by (auto simp: commands_ok_def commands_inv_def split: option.splits)
    then have "map (\<lambda>j. cmd_ID (cloneCommand (case map_of (ms_commandByID s') j of
        None \<Rightarrow> zero_Command | Some c \<Rightarrow> c))) (rev ?ids) = rev ?ids"
      by (intro map_idI) simp
    then show ?thesis
      using that by (auto simp: mem_ListCommandsByDevice_def Let_def ids newest_all comp_def split: if_splits)
  qed
  then show ?thesis
    using update_command_result [OF assms(3,2)] get_update_command [OF assms(3)] by blast
qed

lemma command_update_contract_example:
  "let c0 = zero_Command\<lparr>cmd_ID := ''c1'', cmd_DeviceID := ''d1''\<rparr>;
       s = snd (mem_SaveCommand c0 demo_store) in
     mem_GetCommand ''c1'' (snd (mem_UpdateCommandStatus 50 ''c1'' CommandStatusAcked ''ok'' s)) =
       Inr (c0\<lparr>cmd_Status := CommandStatusAcked, cmd_Result := ''ok'', cmd_UpdatedAt := 50\<rparr>)"
proof -
  let ?c0 = "zero_Command\<lparr>cmd_ID := ''c1'', cmd_DeviceID := ''d1''\<rparr>"
  let ?s = "snd (mem_SaveCommand ?c0 demo_store)"
  have ok: "store_ok ?s" using preservesD [OF series_ops_ok(4) demo_store_ok] .
  have get: "mem_GetCommand ''c1'' ?s = Inr ?c0"
    by (simp add: get_save_command clone_updates zero_Command_def cloneAnyMap_def mlen_def)
  then obtain c s' where u: "mem_UpdateCommandStatus 50 ''c1'' CommandStatusAcked ''ok'' ?s = (Inr c, s')"
    by (cases "map_of (ms_commandByID ?s) ''c1''")
      (auto simp: mem_UpdateCommandStatus_def mem_GetCommand_def Let_def)
  show ?thesis
    using command_update_contract [OF ok get u] u by (simp add: Let_def)
qed

end
