(* ===== verification/ModelProperties.thy ===== *)
theory ModelProperties
  imports Demo
begin

text \<open>
  The properties of the pure functions: normal forms of thing models and access profiles, validation of
  values, the comparison of values with thresholds, the cooldown of a rule.
\<close>

section \<open>Normal forms\<close>

text \<open>C7: A thing model is accepted exactly when, with identifiers and names trimmed and labels
  normalised, every property, event and service is complete, every property has a supported data type
  and identifiers are unique per kind; nothing is dropped, the version and time are the given ones, and
  normalising an accepted model again changes nothing. A refusal is always an invalid thing model.\<close>

theorem thing_model_normal_form:
  "(normalizeThingModel m v t = Inr n \<longleftrightarrow>
      n = thing_model_image m v t \<and>
      (\<forall>p \<in> set (tm_Properties n). prop_Identifier p \<noteq> [] \<and> prop_Name p \<noteq> [] \<and>
         isSupportedDataType (prop_DataType p)) \<and> distinct (map prop_Identifier (tm_Properties n)) \<and>
      (\<forall>e \<in> set (tm_Events n). ev_Identifier e \<noteq> [] \<and> ev_Name e \<noteq> []) \<and> distinct (map ev_Identifier (tm_Events n)) \<and>
      (\<forall>s \<in> set (tm_Services n). srv_Identifier s \<noteq> [] \<and> srv_Name s \<noteq> []) \<and>
      distinct (map srv_Identifier (tm_Services n))) \<and>
   (normalizeThingModel m v t = Inr n \<longrightarrow>
      normalizeThingModel n (tm_Version n) (tm_UpdatedAt n) = Inr n) \<and>
   (\<forall>e. normalizeThingModel m v t = Inl e \<longrightarrow> (\<exists>args. e = ErrInvalidThingModel args))"
proof -
  have "normalizeThingModel n (tm_Version n) (tm_UpdatedAt n) = Inr n" if "normalizeThingModel m v t = Inr n"
    using that thing_model_image_idem [of m v t v t]
    by (auto simp: normalizeThingModel_Inr thing_model_image_def)
  then show ?thesis
    using normalizeThingModel_Inl [of m v t]
    unfolding normalizeThingModel_Inr thing_model_ok_def good_property_def good_event_def good_service_def
    by blast
qed

theorem thing_model_normal_form_witness:
  "normalizeThingModel demo_thing_model 2 9 = Inr (thing_model_image demo_thing_model 2 9)"
proof -
  have "normalizeThingModel demo_thing_model 2 9 = Inr (thing_model_image demo_thing_model 2 9)"
    using thing_model_normal_form [of demo_thing_model 2 9 "thing_model_image demo_thing_model 2 9"]
    by (simp add: thing_model_image_def demo_thing_model_def normalizeProperty_def label_eval
        normalizeDataType_def dataType_table_def isSupportedDataType_def)
  then show ?thesis .
qed

text \<open>C8: A normalised access profile has all five modes, its point mappings name a source and a property
  and have a scale other than zero, and normalising it again changes nothing; the only refusals are
  invalid products.\<close>

theorem access_profile_normal_form:
  "(normalizeAccessProfile p = Inr q \<longrightarrow>
      ap_Transport q \<noteq> [] \<and> ap_Protocol q \<noteq> [] \<and> ap_IngestMode q \<noteq> [] \<and> ap_PayloadFormat q \<noteq> [] \<and>
      ap_AuthMode q \<noteq> [] \<and> length (ap_PointMappings q) = length (ap_PointMappings p) \<and>
      (\<forall>m \<in> set (ap_PointMappings q). pm_Source m \<noteq> [] \<and> pm_Property m \<noteq> [] \<and> \<not> f64_eq (pm_Scale m) (Fin 0)) \<and>
      normalizeAccessProfile q = Inr q) \<and>
   (\<forall>e. normalizeAccessProfile p = Inl e \<longrightarrow> (\<exists>args. e = ErrInvalidProduct args))"
proof -
  have len: "length (ap_PointMappings q) = length (ap_PointMappings p)" if "normalizeAccessProfile p = Inr q"
    using that by (auto simp: normalizeAccessProfile_Inr dest: mapE_length)
  have err: "\<exists>args. e = ErrInvalidProduct args" if "normalizeAccessProfile p = Inl e" for e
    using that by (auto simp: normalizeAccessProfile_def Let_def bindE_Inl normalizePointMapping_def
        dest!: mapE_Inl split: if_splits)
  show ?thesis
    using normal_profile [of p q] normalizeAccessProfile_idem [of p q] len err
    by (auto simp: modes_ok_def mapping_ok_def)
qed

theorem access_profile_normal_form_witness:
  "normalizeAccessProfile demo_profile = Inr demo_profile \<and> normalizeAccessProfile demo_profile \<noteq> Inl (ErrInvalidProduct [])"
proof -
  have "normalizeAccessProfile demo_profile = Inr demo_profile"
    by (simp add: normalizeAccessProfile_def trim_profile_def complete_profile_def or_default_def Let_def
        demo_profile_def mode_defs label_eval transport_table_def protocol_table_def ingestMode_table_def
        payloadFormat_table_def authMode_table_def trim_lower_def cloneStringMap_def mlen_def)
  then show ?thesis using access_profile_normal_form [of demo_profile demo_profile] by simp
qed

text \<open>A reading is accepted by a product exactly when the product has no properties, or every key is a
  declared property and its value has the data type of that property; so the verdict does not depend on
  the order in which the map of values is iterated.\<close>

lemma reading_accepted:
  assumes "distinct (map prop_Identifier (tm_Properties (prd_ThingModel p)))"
  shows "(validateThingValues p vs = Inr () \<longleftrightarrow>
      tm_Properties (prd_ThingModel p) = [] \<or>
      (\<forall>(k, v) \<in> set (entries vs). \<exists>q \<in> set (tm_Properties (prd_ThingModel p)).
         prop_Identifier q = k \<and> matchesThingDataType (prop_DataType q) v)) \<and>
    (mset (entries vs) = mset (entries ws) \<longrightarrow>
      (validateThingValues p vs = Inr ()) = (validateThingValues p ws = Inr ()))"
proof -
  have fits: "value_fits (tm_Properties (prd_ThingModel p)) k v \<longleftrightarrow>
    (\<exists>q \<in> set (tm_Properties (prd_ThingModel p)). prop_Identifier q = k \<and> matchesThingDataType (prop_DataType q) v)" for k v
    using property_map_distinct [OF assms, of k]
    by (cases "property_map (tm_Properties (prd_ThingModel p)) k") (simp_all add: value_fits_def, metis+)
  show ?thesis
    using mset_eq_setD [of "entries vs" "entries ws"] by (simp add: validateThingValues_iff fits)
qed

lemma reading_accepted_witness:
  "validateThingValues (demo_product ''p1'') (Some [(''t'', AF64 (Fin 21))]) = Inr () \<and>
   validateThingValues (demo_product ''p1'') (Some [(''t'', AStr ''warm'')]) \<noteq> Inr ()"
  using reading_accepted [of "demo_product ''p1''" "Some [(''t'', AF64 (Fin 21))]"]
    reading_accepted [of "demo_product ''p1''" "Some [(''t'', AStr ''warm'')]"]
  by (simp add: demo_product_def demo_thing_model_def matchesThingDataType_def isNumber_def)

section \<open>Rules\<close>

text \<open>C9: The condition of a rule that was accepted for a product is meaningful: its property is declared
  by the product, its threshold has the data type of the property, its operator is one of six, and an
  ordering operator has a numeric threshold; then a numeric reading triggers it exactly when the numbers
  compare as the operator says.\<close>

theorem rule_condition_sound:
  assumes "normalizeRuleCondition (Some p) c = Inr d"
  shows "(\<exists>q \<in> set (tm_Properties (prd_ThingModel p)). prop_Identifier q = cond_Property d \<and>
       matchesThingDataType (prop_DataType q) (cond_Value d)) \<and>
    cond_Operator d \<in> {''gt'', ''gte'', ''lt'', ''lte'', ''eq'', ''neq''} \<and>
    (cond_Operator d \<in> {''gt'', ''gte'', ''lt'', ''lte''} \<longrightarrow>
      (\<exists>y. toFloat64 (cond_Value d) = Some y \<and>
        (\<forall>v x. toFloat64 v = Some x \<longrightarrow>
          matchesRuleCondition (cond_Operator d) v (cond_Value d) =
            (if cond_Operator d = ''gt'' then f64_lt y x else if cond_Operator d = ''gte'' then f64_le y x
             else if cond_Operator d = ''lt'' then f64_lt x y else f64_le x y))))"
proof -
  note d = normalizeRuleCondition_Inr [OF assms]
  have "\<exists>y. toFloat64 (cond_Value d) = Some y \<and>
      (\<forall>v x. toFloat64 v = Some x \<longrightarrow> matchesRuleCondition (cond_Operator d) v (cond_Value d) =
         (if cond_Operator d = ''gt'' then f64_lt y x else if cond_Operator d = ''gte'' then f64_le y x
          else if cond_Operator d = ''lt'' then f64_lt x y else f64_le x y))"
    if op: "cond_Operator d \<in> {''gt'', ''gte'', ''lt'', ''lte''}"
  proof -
    have "isNumber (cond_Value d)" using d(6) op by (auto simp: isNumericRuleOperator_def)
    then obtain y where "toFloat64 (cond_Value d) = Some y" by (auto simp: isNumber_iff)
    with op show ?thesis by (auto simp: matches_numeric)
  qed
  then show ?thesis using d(1,5) by blast
qed

theorem rule_condition_sound_witness:
  "normalizeRuleCondition (Some (demo_product ''p1'')) \<lparr>cond_Property = ''t'', cond_Operator = '' > '', cond_Value = AF64 (Fin 30)\<rparr> =
     Inr \<lparr>cond_Property = ''t'', cond_Operator = ''gt'', cond_Value = AF64 (Fin 30)\<rparr> \<and>
   matchesRuleCondition ''gt'' (AF64 (Fin 31)) (AF64 (Fin 30))"
proof -
  have n: "norm_label '' > '' = ''>''" by code_simp
  let ?c = "\<lparr>cond_Property = ''t'', cond_Operator = '' > '', cond_Value = AF64 (Fin 30)\<rparr>"
  let ?d = "\<lparr>cond_Property = ''t'', cond_Operator = ''gt'', cond_Value = AF64 (Fin 30)\<rparr>"
  have c: "normalizeRuleCondition (Some (demo_product ''p1'')) ?c = Inr ?d"
    by (simp add: normalizeRuleCondition_def Let_def n normalizeRuleOperator_def label_eval demo_product_def
        demo_thing_model_def matchesThingDataType_def isNumber_def)
  then show ?thesis
    using rule_condition_sound [OF c] by (auto simp: toFloat64_def f64_lt_def)
qed

text \<open>C10: The cooldown of a rule, per device, from its last trigger. Up to 9,223,372,036 seconds it is kept
  to the nanosecond: the rule may trigger again exactly when that much time has passed. A longer cooldown
  is not kept, because the product of the seconds with the nanoseconds of a second wraps around at 64 bits:
  with 9,223,372,037 seconds a rule that has just triggered may trigger again at once, and the
  service accepts such a cooldown.\<close>

theorem cooldown_kept:
  assumes "map_of (sv_ruleStates s) (makeRuleStateKey r d) = Some st" "0 < rrs_LastTriggeredAt st"
  shows "(0 < c \<and> c \<le> 9223372036 \<and> in_int64 (ts - rrs_LastTriggeredAt st) \<longrightarrow>
      (canTriggerRule r d c ts s \<longleftrightarrow> rrs_LastTriggeredAt st + c * 1000000000 \<le> ts)) \<and>
    (rrs_LastTriggeredAt st \<le> ts \<longrightarrow> canTriggerRule r d 9223372037 ts s)"
  using assms cooldown_exact [of c st ts] cooldown_wraps [of st ts] by (simp add: canTriggerRule_def)

theorem cooldown_kept_witness:
  "let s = snd (recordRuleTrigger ''r1'' ''d1'' 1000000000 demo_service) in
    \<not> canTriggerRule ''r1'' ''d1'' 60 60000000000 s \<and> canTriggerRule ''r1'' ''d1'' 9223372037 1000000000 s"
proof -
  let ?s = "snd (recordRuleTrigger ''r1'' ''d1'' 1000000000 demo_service)"
  have "map_of (sv_ruleStates ?s) (makeRuleStateKey ''r1'' ''d1'') = Some \<lparr>rrs_TriggeredCount = 1, rrs_LastTriggeredAt = 1000000000\<rparr>"
    by (simp add: recordRuleTrigger_def op_apply Let_def demo_service_def NewService_def zero_ruleRuntimeState_def)
  from cooldown_kept [OF this, of 60 60000000000] cooldown_kept [OF this, of 60 1000000000] show ?thesis
    by (simp add: Let_def in_int64_def int64_min_def int64_max_def)
qed

text \<open>Reported and desired values are compared by value: every value but NaN equals itself, and two
  scalars of JSON are equal exactly when they are the same boolean, the same text or the same number. For
  other values the printed texts are compared, so the list of the value true equals the list of the text
  true.\<close>

lemma values_equal:
  "(valuesEqual v v \<longleftrightarrow> v \<noteq> AF64 NaN \<and> v \<noteq> AF32 NaN) \<and>
   (json_scalar a \<and> json_scalar b \<longrightarrow>
     (valuesEqual a b \<longleftrightarrow> a = b \<or> (\<exists>x y. a = AF64 x \<and> b = AF64 y \<and> f64_eq x y)) \<and>
     valuesEqual a b = valuesEqual b a) \<and>
   valuesEqual (ASlice [ABool True]) (ASlice [AStr ''true''])"
proof -
  have "valuesEqual (ASlice [ABool True]) (ASlice [AStr ''true''])"
    by (simp add: valuesEqual_def join_def)
  then show ?thesis
    using valuesEqual_scalar [of a b] valuesEqual_scalar_sym [of a b] by (auto simp: valuesEqual_refl is_NaN_def)
qed

text \<open>Two IDs made from random bytes are equal only when their prefixes and bytes are: the hexadecimal
  text loses nothing.\<close>

lemma new_ids_distinct:
  assumes "bytes_ok as" "bytes_ok bs"
  shows "NewID prfx (Some as) t = NewID prfx (Some bs) t' \<longleftrightarrow> as = bs"
  using hexEncode_inj [OF assms] by (simp add: NewID_def randomHex_def)

end
