(* ===== verification/ServiceFacts.thy ===== *)
theory ServiceFacts
  imports ServiceSteps
begin

text \<open>
  Facts about the stored data that hold in every reachable state of the service. The locale
  \<open>service_fact\<close> states when a fact about the store survives the operations of the service: it must not
  see the order of the group members (a rollback may sort them) and must survive every store write of a
  given class. Each operation then keeps it, provided its writes are in the class. Two facts are
  interpreted: the slugs of the tenants are unique, and every stored product is in normal form.
\<close>

section \<open>Value postconditions\<close>

text \<open>\<open>ensures I m Q\<close>: the operation keeps \<open>I\<close>, and what it returns satisfies \<open>Q\<close>.\<close>

definition ensures :: "('s \<Rightarrow> bool) \<Rightarrow> ('s, 'e, 'a) op \<Rightarrow> ('a \<Rightarrow> bool) \<Rightarrow> bool" where
  "ensures I m Q \<longleftrightarrow> (\<forall>s. I s \<longrightarrow> I (snd (m s)) \<and> (\<forall>a. fst (m s) = Inr a \<longrightarrow> Q a))"

lemma ensures_bind:
  "ensures I m Q \<Longrightarrow> (\<And>a. Q a \<Longrightarrow> preserves I (f a)) \<Longrightarrow> preserves I (bindS m f)"
  by (force simp: ensures_def preserves_def bindS_def split: prod.splits sum.splits)

lemma ensures_liftE: "ensures I (liftE r) (\<lambda>a. r = Inr a)"
  by (simp add: ensures_def op_simps)

lemma ensures_fromStore:
  "(\<And>s a. I s \<Longrightarrow> g (sv_backend s) = Inr a \<Longrightarrow> Q a) \<Longrightarrow> ensures I (fromStore g) Q"
  by (auto simp: ensures_def fromStore_def op_simps)

abbreviation the_store :: "Service \<Rightarrow> Store" where
  "the_store s \<equiv> store_of (sv_backend s)"

section \<open>Facts that survive the operations\<close>

locale service_fact =
  fixes J :: "Store \<Rightarrow> bool"
    and W :: "(Store, gerr, unit) op \<Rightarrow> bool"
  assumes J_sort: "store_ok s \<Longrightarrow> J s \<Longrightarrow> J (sort_members s)"
    and J_write: "store_ok s \<Longrightarrow> J s \<Longrightarrow> W m \<Longrightarrow> J (snd (m s))"
    and W_write: "W m \<Longrightarrow> store_write m"
begin

definition fact :: "Service \<Rightarrow> bool" where
  "fact s \<longleftrightarrow> service_ok s \<and> J (the_store s)"

lemma fact_frame:
  "service_ok s' \<Longrightarrow> sv_backend s' = sv_backend s \<Longrightarrow> fact s \<Longrightarrow> fact s'"
  by (simp add: fact_def)

lemma fact_of_frame:
  assumes "preserves service_ok m" "\<And>s. sv_backend (snd (m s)) = sv_backend s"
  shows "preserves fact m"
  using assms by (auto simp: preserves_def fact_def)

lemma fact_prims [intro]:
  "preserves fact (nowS env)" "preserves fact (newID env p)" "preserves fact (newToken env)"
  "preserves fact (fromStore g)" "preserves fact (sendMessage env ses msg)" "preserves fact (closeSession ses)"
  "preserves fact (failS c e)" "preserves fact (TouchDevice d t)" "preserves fact (RegisterSession env d ses)"
  "preserves fact (UnregisterSession env d sid)" "preserves fact (recordRuleTrigger rid d t)"
  by (intro fact_of_frame preserves_intros;
      auto simp: nowS_def newID_def newToken_def fromStore_def sendMessage_def closeSession_def failS_def
        TouchDevice_def RegisterSession_eq UnregisterSession_eq recordRuleTrigger_def Let_def op_simps
        split: option.splits)+

lemma fact_count: "(\<And>c. ct_onlineDevices (f c) = ct_onlineDevices c) \<Longrightarrow> preserves fact (count f)"
  by (intro fact_of_frame count_ok) (simp_all add: count_def op_simps)

lemma fact_write_at:
  assumes s: "fact s" and m: "store_ok (snd (m (the_store s)))" "J (snd (m (the_store s)))"
  shows "fact (snd (onStore (st_write env m) s))"
proof -
  have ok: "store_ok (the_store s)" "J (the_store s)" "sessions_ok s"
    using s by (simp_all add: fact_def service_ok_def backend_ok_def)
  let ?P = "\<lambda>t. store_ok t \<and> J t"
  have P: "?P (store_of (snd (st_write env m (sv_backend s))))"
  proof (rule backend_write.write_keeps [OF ok(1), where P = ?P])
    show "?P (the_store s)" using ok by simp
    show "?P (sort_members (the_store s))" using ok J_sort store_ok_sort_members by blast
    show "?P (snd (m (the_store s)))" using m by simp
  qed
  have "onStore (st_write env m) s = (fst (st_write env m (sv_backend s)),
      s\<lparr>sv_backend := snd (st_write env m (sv_backend s))\<rparr>)"
    by (simp add: onStore_def split: prod.splits)
  with P ok(3) show ?thesis
    by (simp add: fact_def service_ok_def backend_ok_def sessions_ok_def)
qed

lemma fact_write:
  assumes "\<And>s. store_ok s \<Longrightarrow> J s \<Longrightarrow> store_ok (snd (m s)) \<and> J (snd (m s))"
  shows "preserves fact (onStore (st_write env m))"
proof (rule preservesI)
  fix s assume s: "fact s"
  then have "store_ok (the_store s)" "J (the_store s)" by (simp_all add: fact_def service_ok_def backend_ok_def)
  with assms s show "fact (snd (onStore (st_write env m) s))" by (intro fact_write_at) auto
qed

lemma fact_W: "W m \<Longrightarrow> preserves fact (onStore (st_write env m))"
proof (rule fact_write)
  fix s assume "W m" "store_ok s" "J s"
  then show "store_ok (snd (m s)) \<and> J (snd (m s))"
    by (intro conjI preservesD [OF store_write_ok [OF W_write]] J_write)
qed

lemma fact_update:
  assumes "W (bindS (mem_UpdateCommandStatus now i st r) (\<lambda>_. retS ()))"
  shows "preserves fact (onStore (st_write env (mem_UpdateCommandStatus now i st r)))"
proof (rule fact_write)
  fix s assume s: "store_ok s" "J s"
  have "snd (bindS (mem_UpdateCommandStatus now i st r) (\<lambda>_. retS ()) s) = snd (mem_UpdateCommandStatus now i st r s)"
    by (auto simp: bindS_def op_simps split: prod.splits sum.splits)
  then show "store_ok (snd (mem_UpdateCommandStatus now i st r s)) \<and> J (snd (mem_UpdateCommandStatus now i st r s))"
    using J_write [OF s assms] preservesD [OF series_ops_ok(5) s(1)] by metis
qed

lemmas fact_intros = fact_prims fact_W fact_update preserves_prim preserves_bindS preserves_tryS
  preserves_if preserves_case_sum preserves_case_option preserves_Let preserves_case_prod preserves_forS

lemma fact_counts [intro]:
  "preserves fact (count (\<lambda>c. c\<lparr>ct_registeredDevices := g c\<rparr>))" "preserves fact (count (\<lambda>c. c\<lparr>ct_commandsSent := g c\<rparr>))"
  "preserves fact (count (\<lambda>c. c\<lparr>ct_commandAcks := g c\<rparr>))" "preserves fact (count (\<lambda>c. c\<lparr>ct_telemetryReceived := g c\<rparr>))"
  by (rule fact_count, simp)+

lemma fact_records [intro]:
  "preserves fact RecordConnectionAccepted" "preserves fact RecordConnectionRejected"
  "preserves fact (RecordHTTPRequest n)" "preserves fact (recordIngressVolume p v)"
  "preserves fact (RecordHTTPIngestResult a p v)" "preserves fact (RecordTCPTelemetryAccepted p v)"
  "preserves fact (RecordCommandAckTransport t)" "preserves fact RecordMQTTConnectionAccepted"
  "preserves fact RecordMQTTConnectionRejected" "preserves fact (RecordMQTTMessageReceived p v b)"
  "preserves fact (recordCommandPublished t)"
  unfolding record_defs by (intro fact_intros fact_count; simp add: Let_def)+

end

text \<open>The operations of the service, given which writes the class allows.\<close>

locale device_fact = service_fact +
  assumes W_device: "W (mem_SaveShadow sh)" "W (mem_SaveCommand c)"
      "W (bindS (mem_UpdateCommandStatus now i st r) (\<lambda>_. retS ()))" "W (mem_AppendTelemetry te)"
      "W (mem_AppendAlert a)" "W (mem_SaveAlert a)" "W (mem_SaveConfigProfile cf)" "W (mem_SaveOTACampaign oc)"
      "W (mem_CreateDevice d)" "W (mem_CreateGroup g)"
      "W (mem_AddDeviceToGroup gid did)" "W (mem_RemoveDeviceFromGroup gid did)" "W (mem_CreateRule rl)"
      "W (mem_CreateConfigProfile cf)" "W (mem_CreateFirmwareArtifact fw)" "W (mem_CreateOTACampaign oc)"
begin

lemmas dev_intros = fact_intros W_device fact_counts fact_records

lemma fact_shadow [intro]:
  "preserves fact (ensureShadow env d)"
  "preserves fact (GetShadow env did)"
  "preserves fact (UpdateDesiredShadow env did v)"
  "preserves fact (ApplyConfigProfile env pid did)"
  unfolding ApplyConfigProfile_def UpdateDesiredShadow_def GetShadow_def ensureShadow_def st_write_defs
  by (intro dev_intros)+

lemma fact_command [intro]:
  "preserves fact (UpdateCommandStatus env i st r)"
  "preserves fact (sendCommandWithCampaign env did cid n p)"
  "preserves fact (SendCommand env did n p)"
  "preserves fact (HandleCommandAck env did i status r)"
  unfolding SendCommand_def sendCommandWithCampaign_def deliver_command_def fail_command_def
    HandleCommandAck_def updateCampaignFromCommandAck_def UpdateCommandStatus_def st_write_defs
  by (intro dev_intros)+

lemma fact_action: "preserves fact (executeRuleActions env rule d te v)"
  unfolding executeRuleActions_def executeRuleAction_def st_write_defs by (intro dev_intros fact_shadow fact_command)

lemma fact_run_rule: "preserves fact (run_rule env d te rule)"
  unfolding run_rule_def by (intro dev_intros fact_action)

lemma fact_rules: "preserves fact (rules_loop env d te m rules)"
  by (induction env d te m rules rule: rules_loop.induct) (auto intro!: fact_intros fact_run_rule)

lemma fact_telemetry [intro]: "preserves fact (HandleTelemetry env did ts v)"
  unfolding HandleTelemetry_def evaluateRules_def st_write_defs by (intro dev_intros fact_shadow fact_rules)

lemma fact_dispatch: "preserves fact (dispatch_targets env ps ds c)"
  by (induction ds arbitrary: c) (auto simp: dispatch_one_def intro!: fact_intros fact_command)

lemma fact_ota [intro]:
  "preserves fact (CreateOTACampaign env tid n fid pid gid did)"
  unfolding CreateOTACampaign_def dispatchOTACampaign_def st_write_defs by (intro dev_intros fact_dispatch)

lemma fact_catalog [intro]:
  "preserves fact (CreateGroupWithTenant env t n ds p m)"
  "preserves fact (AssignDeviceToGroup env g d)"
  "preserves fact (RemoveDeviceFromGroup env g d)"
  "preserves fact (CreateDeviceWithTenant env t n p m m')"
  "preserves fact (CreateConfigProfileWithTenant env t n ds p v)"
  "preserves fact (CreateRuleWithTenant env t n ds p g d en sev cd co acs)"
  "preserves fact (CreateFirmwareArtifact env t p n ver f u c ct z m no)"
  "preserves fact (UpdateAlert env a st no)"
  unfolding CreateGroupWithTenant_def AssignDeviceToGroup_def RemoveDeviceFromGroup_def
    CreateDeviceWithTenant_def CreateConfigProfileWithTenant_def
    CreateRuleWithTenant_def CreateFirmwareArtifact_def UpdateAlert_def st_write_defs
  by (intro dev_intros)+

lemma fact_tags: "(\<And>d. W (mem_SaveDevice d)) \<Longrightarrow> preserves fact (UpdateDeviceTags env d m)"
  unfolding UpdateDeviceTags_def st_write_defs by (intro dev_intros)

text \<open>
  A step keeps the fact if the writes of tenants and products do, and the only one that changes a stored
  device.
\<close>

lemma fact_step:
  assumes "\<And>env n sl ds m. preserves fact (CreateTenant env n sl ds m)"
    and "\<And>env t n ds m ap thm. preserves fact (CreateProductWithTenant env t n ds m ap thm)"
    and "\<And>env p thm. preserves fact (UpdateProductThingModel env p thm)"
    and "\<And>env p ap. preserves fact (UpdateProductAccessProfile env p ap)"
    and "\<And>env d m. preserves fact (UpdateDeviceTags env d m)"
    and "service_step s s'" "fact s"
  shows "fact s'"
  using assms(6,7)
  by (cases rule: service_step.cases)
    (auto intro!: changed_ok [where I = fact] assms(1-5) fact_shadow fact_command fact_telemetry fact_ota
      fact_catalog fact_prims fact_records)

end

section \<open>The slugs of the tenants\<close>

text \<open>The class of the writes that leave one part of the store alone.\<close>

definition leaves :: "(Store \<Rightarrow> 'x) \<Rightarrow> (Store, gerr, unit) op \<Rightarrow> bool" where
  "leaves part m \<longleftrightarrow> store_write m \<and> (\<forall>s. part (snd (m s)) = part s)"

lemma leaves_write: "leaves part m \<Longrightarrow> store_write m"
  by (simp add: leaves_def)

definition slugs_unique :: "Store \<Rightarrow> bool" where
  "slugs_unique s \<longleftrightarrow> distinct (map (tn_Slug \<circ> snd) (ms_tenants s))"

lemmas series_write_defs = mem_AddDeviceToGroup_def mem_RemoveDeviceFromGroup_def mem_AppendTelemetry_def
  mem_SaveShadow_def mem_SaveCommand_def mem_UpdateCommandStatus_def mem_AppendAlert_def mem_SaveAlert_def

lemma leaves_tenants_products:
  "leaves ms_tenants (mem_SaveShadow sh)" "leaves ms_tenants (mem_SaveCommand c)"
  "leaves ms_tenants (bindS (mem_UpdateCommandStatus now i st r) (\<lambda>_. retS ()))"
  "leaves ms_tenants (mem_AppendTelemetry te)" "leaves ms_tenants (mem_AppendAlert a)"
  "leaves ms_tenants (mem_SaveAlert a)" "leaves ms_tenants (mem_SaveConfigProfile cf)"
  "leaves ms_tenants (mem_SaveOTACampaign oc)" "leaves ms_tenants (mem_CreateDevice d)"
  "leaves ms_tenants (mem_SaveDevice d)" "leaves ms_tenants (mem_CreateGroup g)"
  "leaves ms_tenants (mem_AddDeviceToGroup gid did)" "leaves ms_tenants (mem_RemoveDeviceFromGroup gid did)"
  "leaves ms_tenants (mem_CreateRule rl)" "leaves ms_tenants (mem_CreateConfigProfile cf)"
  "leaves ms_tenants (mem_CreateFirmwareArtifact fw)" "leaves ms_tenants (mem_CreateOTACampaign oc)"
  "leaves ms_tenants (mem_CreateProduct p)" "leaves ms_tenants (mem_SaveProduct p)"
  "leaves ms_products (mem_SaveShadow sh)" "leaves ms_products (mem_SaveCommand c)"
  "leaves ms_products (bindS (mem_UpdateCommandStatus now i st r) (\<lambda>_. retS ()))"
  "leaves ms_products (mem_AppendTelemetry te)" "leaves ms_products (mem_AppendAlert a)"
  "leaves ms_products (mem_SaveAlert a)" "leaves ms_products (mem_SaveConfigProfile cf)"
  "leaves ms_products (mem_SaveOTACampaign oc)" "leaves ms_products (mem_CreateDevice d)"
  "leaves ms_products (mem_SaveDevice d)" "leaves ms_products (mem_CreateGroup g)"
  "leaves ms_products (mem_AddDeviceToGroup gid did)" "leaves ms_products (mem_RemoveDeviceFromGroup gid did)"
  "leaves ms_products (mem_CreateRule rl)" "leaves ms_products (mem_CreateConfigProfile cf)"
  "leaves ms_products (mem_CreateFirmwareArtifact fw)" "leaves ms_products (mem_CreateOTACampaign oc)"
  "leaves ms_products (mem_CreateTenant tn)"
  by (simp_all add: leaves_def store_write.intros mem_table_defs series_write_defs Let_def bindS_def op_simps
      split: option.splits prod.splits sum.splits)

interpretation slug_fact: device_fact slugs_unique "leaves ms_tenants"
proof unfold_locales
  show "store_ok s \<Longrightarrow> slugs_unique s \<Longrightarrow> slugs_unique (sort_members s)" for s
    by (simp add: slugs_unique_def sort_members_def)
  show "store_ok s \<Longrightarrow> slugs_unique s \<Longrightarrow> leaves ms_tenants m \<Longrightarrow> slugs_unique (snd (m s))" for s m
    by (simp add: slugs_unique_def leaves_def)
qed (rule leaves_write leaves_tenants_products, assumption?)+

lemma slugs_CreateTenant: "preserves slug_fact.fact (CreateTenant env n sl ds m)"
proof (rule preservesI)
  fix s assume s: "slug_fact.fact s"
  let ?nm = "trim_space n"
  let ?slug = "normalizeTenantSlug sl ?nm"
  obtain ts where ts: "mem_ListTenants (the_store s) = Inr ts" using tenants.lst_total by blast
  have set_ts: "set ts = (cloneTenant \<circ> snd) ` set (ms_tenants (the_store s))"
    using ts by (force simp: tenants.lst_eq)
  show "slug_fact.fact (snd (CreateTenant env n sl ds m s))"
  proof (cases "?nm = [] \<or> (\<exists>t \<in> set ts. tn_Slug t = ?slug)")
    case True
    then have "snd (CreateTenant env n sl ds m s) = s"
      by (auto simp: CreateTenant_def Let_def bindS_def failS_def op_simps fromStore_def st_ListTenants_def
          ts failIf_def)
    then show ?thesis using s by simp
  next
    case False
    define s1 where "s1 = snd (newID env ''ten'' (snd (nowS env s)))"
    define newid where "newid = projr (fst (newID env ''ten'' (snd (nowS env s))))"
    define t where "t = \<lparr>tn_ID = newid, tn_Slug = ?slug, tn_Name = ?nm, tn_Description = trim_space ds,
      tn_Metadata = cloneStringMap m, tn_CreatedAt = env_clock env (sv_ticks s), tn_UpdatedAt = env_clock env (sv_ticks s)\<rparr>"
    have s1: "slug_fact.fact s1" "the_store s1 = the_store s"
      using s slug_fact.fact_prims(1,2) unfolding s1_def
      by (auto simp: preserves_def nowS_def newID_def)
    have "snd (CreateTenant env n sl ds m s) = snd (onStore (st_write (env_fs env) (mem_CreateTenant t)) s1)"
      using False
      by (auto simp: CreateTenant_def Let_def bindS_def failS_def op_simps fromStore_def st_ListTenants_def
          ts failIf_def nowS_def newID_def s1_def t_def newid_def st_write_defs split: prod.splits sum.splits)
    moreover have "store_ok (snd (mem_CreateTenant t (the_store s1)))"
      using s1 preservesD [OF table_ops_ok(1)] by (simp add: slug_fact.fact_def service_ok_def backend_ok_def)
    moreover have "slugs_unique (snd (mem_CreateTenant t (the_store s1)))"
    proof (cases "map_of (ms_tenants (the_store s)) newid")
      case None
      have "tn_Slug (cloneTenant x) = tn_Slug x" for x by (simp add: clone_updates)
      moreover have "?slug \<notin> tn_Slug ` set ts" using False by auto
      ultimately have "?slug \<notin> set (map (tn_Slug \<circ> snd) (ms_tenants (the_store s)))"
        by (auto simp: set_ts image_image)
      then show ?thesis
        using None s1 by (simp add: slugs_unique_def mem_CreateTenant_def t_def update_fresh clone_updates
            slug_fact.fact_def)
    next
      case (Some x)
      then show ?thesis
        using s1 by (simp add: mem_CreateTenant_def t_def slug_fact.fact_def)
    qed
    ultimately show ?thesis using slug_fact.fact_write_at [OF s1(1)] by simp
  qed
qed

lemma leaves_product_ops:
  "preserves slug_fact.fact (CreateProductWithTenant env t n ds m ap thm)"
  "preserves slug_fact.fact (UpdateProductThingModel env p thm)"
  "preserves slug_fact.fact (UpdateProductAccessProfile env p ap)"
  unfolding CreateProductWithTenant_def UpdateProductThingModel_def UpdateProductAccessProfile_def st_write_defs
  by (intro slug_fact.fact_intros leaves_tenants_products)+

lemma slug_step: "service_step s s' \<Longrightarrow> slug_fact.fact s \<Longrightarrow> slug_fact.fact s'"
  by (rule slug_fact.fact_step [OF slugs_CreateTenant leaves_product_ops slug_fact.fact_tags])
    (rule leaves_tenants_products)

section \<open>The products\<close>

definition product_ok :: "Product \<Rightarrow> bool" where
  "product_ok p \<longleftrightarrow>
     normalizeThingModel (prd_ThingModel p) (tm_Version (prd_ThingModel p)) (tm_UpdatedAt (prd_ThingModel p)) =
       Inr (prd_ThingModel p) \<and>
     normalizeAccessProfile (prd_AccessProfile p) = Inr (prd_AccessProfile p)"

definition products_ok :: "Store \<Rightarrow> bool" where
  "products_ok s \<longleftrightarrow> (\<forall>(k, p) \<in> set (ms_products s). product_ok p)"

interpretation product_fact: device_fact products_ok "leaves ms_products"
proof unfold_locales
  show "store_ok s \<Longrightarrow> products_ok s \<Longrightarrow> products_ok (sort_members s)" for s
    by (simp add: products_ok_def sort_members_def)
  show "store_ok s \<Longrightarrow> products_ok s \<Longrightarrow> leaves ms_products m \<Longrightarrow> products_ok (snd (m s))" for s m
    by (simp add: products_ok_def leaves_def)
qed (rule leaves_write leaves_tenants_products, assumption?)+

lemma product_ok_clone: "product_ok p \<Longrightarrow> product_ok (cloneProduct p)"
proof -
  assume p: "product_ok p"
  then have "trim_profile (prd_AccessProfile p) = prd_AccessProfile p"
    using normal_profile(3) [of "prd_AccessProfile p" "prd_AccessProfile p"] by (simp add: product_ok_def)
  then have "cloneStringMap (ap_Metadata (prd_AccessProfile p)) = ap_Metadata (prd_AccessProfile p)"
    by (metis trim_profile_def ProductAccessProfile.select_convs(9) ProductAccessProfile.surjective
        ProductAccessProfile.update_convs(9))
  then have "cloneAccessProfile (prd_AccessProfile p) = prd_AccessProfile p"
    by (simp add: clone_updates)
  with p show ?thesis by (simp add: product_ok_def clone_updates)
qed

lemma products_ok_write:
  assumes "product_ok p"
  shows "preserves product_fact.fact (onStore (st_write env (mem_CreateProduct p)))"
    "preserves product_fact.fact (onStore (st_write env (mem_SaveProduct p)))"
proof -
  have upd: "products_ok s \<Longrightarrow> products_ok (s\<lparr>ms_products := AList.update k (cloneProduct p) (ms_products s)\<rparr>)" for s k
    using product_ok_clone [OF assms] by (auto simp: products_ok_def dest!: set_update_cases)
  show "preserves product_fact.fact (onStore (st_write env (mem_CreateProduct p)))"
    by (rule product_fact.fact_write) (use upd preservesD [OF table_ops_ok(3)] in
      \<open>auto simp: mem_CreateProduct_def split: option.splits\<close>)
  show "preserves product_fact.fact (onStore (st_write env (mem_SaveProduct p)))"
    by (rule product_fact.fact_write) (use upd preservesD [OF table_ops_ok(4)] in
      \<open>auto simp: mem_SaveProduct_def split: option.splits\<close>)
qed

lemma stored_product_ok: "product_fact.fact s \<Longrightarrow> st_GetProduct i (sv_backend s) = Inr p \<Longrightarrow> product_ok p"
  by (auto simp: product_fact.fact_def products_ok_def st_GetProduct_def mem_GetProduct_def
      split: option.splits dest!: map_of_SomeD intro!: product_ok_clone)

lemma normal_thing_model:
  "normalizeThingModel m v t = Inr n \<Longrightarrow> normalizeThingModel n (tm_Version n) (tm_UpdatedAt n) = Inr n"
  using thing_model_image_idem [of m v t v t] by (auto simp: normalizeThingModel_Inr thing_model_image_def)

lemma products_ops:
  "preserves product_fact.fact (CreateTenant env n sl ds m)"
  "preserves product_fact.fact (CreateProductWithTenant env t n ds m ap thm)"
  "preserves product_fact.fact (UpdateProductThingModel env p thm)"
  "preserves product_fact.fact (UpdateProductAccessProfile env p ap)"
proof -
  show "preserves product_fact.fact (CreateTenant env n sl ds m)"
    unfolding CreateTenant_def st_write_defs by (intro product_fact.fact_intros leaves_tenants_products)
  show "preserves product_fact.fact (CreateProductWithTenant env t n ds m ap thm)"
    unfolding CreateProductWithTenant_def st_write_defs Let_def
    by (intro products_ok_write ensures_bind [OF ensures_liftE] product_fact.fact_intros)
      (auto simp: product_ok_def intro: normal_thing_model normalizeAccessProfile_idem)
  show "preserves product_fact.fact (UpdateProductThingModel env p thm)"
    unfolding UpdateProductThingModel_def st_write_defs Let_def
    by (intro ensures_bind [OF ensures_fromStore [where Q = product_ok]] ensures_bind [OF ensures_liftE]
        products_ok_write product_fact.fact_intros)
      (auto simp: product_ok_def intro: normal_thing_model dest: stored_product_ok)
  show "preserves product_fact.fact (UpdateProductAccessProfile env p ap)"
    unfolding UpdateProductAccessProfile_def st_write_defs Let_def
    by (intro ensures_bind [OF ensures_fromStore [where Q = product_ok]] ensures_bind [OF ensures_liftE]
        products_ok_write product_fact.fact_intros)
      (auto simp: product_ok_def intro: normalizeAccessProfile_idem dest: stored_product_ok)
qed

lemma product_step: "service_step s s' \<Longrightarrow> product_fact.fact s \<Longrightarrow> product_fact.fact s'"
  by (rule product_fact.fact_step [OF products_ops product_fact.fact_tags]) (rule leaves_tenants_products)

end
