(* ===== verification/ServiceLemmas.thy ===== *)
theory ServiceLemmas
  imports ServiceFacts
begin

text \<open>
  What a successful call of each primitive of the service did: the rules the properties of the
  service are read off the definitions with. A write that succeeded ran on the stored data, whichever
  the backend.
\<close>

section \<open>Fields the invariant does not look at\<close>

lemma service_ok_frames [simp]:
  "service_ok (s\<lparr>sv_ticks := n\<rparr>) = service_ok s"
  "service_ok (s\<lparr>sv_rands := n\<rparr>) = service_ok s"
  "service_ok (s\<lparr>sv_sends := n\<rparr>) = service_ok s"
  "service_ok (s\<lparr>sv_sent := sent\<rparr>) = service_ok s"
  "service_ok (s\<lparr>sv_closed := cl\<rparr>) = service_ok s"
  "service_ok (s\<lparr>sv_ruleStates := rs\<rparr>) = service_ok s"
  by (simp_all add: service_ok_def sessions_ok_def)

lemma service_store_ok: "service_ok s \<Longrightarrow> store_ok (the_store s)"
  by (simp add: service_ok_def backend_ok_def)

section \<open>Successful calls\<close>

lemma prims_Inr:
  "nowS env s = (Inr t, s') \<longleftrightarrow> t = env_clock env (sv_ticks s) \<and> s' = s\<lparr>sv_ticks := Suc (sv_ticks s)\<rparr>"
  "newID env p s = (Inr i, s') \<longleftrightarrow>
    i = NewID p (env_rand env (sv_rands s)) (env_clock env (sv_ticks s)) \<and> s' = s\<lparr>sv_rands := Suc (sv_rands s)\<rparr>"
  "newToken env s = (Inr i, s') \<longleftrightarrow>
    i = NewToken (env_rand env (sv_rands s)) (env_clock env (sv_ticks s)) \<and> s' = s\<lparr>sv_rands := Suc (sv_rands s)\<rparr>"
  "fromStore g s = (Inr a, s') \<longleftrightarrow> g (sv_backend s) = Inr a \<and> s' = s"
  "getS h s = (Inr b, s') \<longleftrightarrow> b = h s \<and> s' = s"
  "readS r s = (Inr c, s') \<longleftrightarrow> r s = Inr c \<and> s' = s"
  "retS d s = (Inr d', s') \<longleftrightarrow> d' = d \<and> s' = s"
  "errS e s = (Inr d', s') \<longleftrightarrow> False"
  "liftE x s = (Inr f, s') \<longleftrightarrow> x = Inr f \<and> s' = s"
  "count k s = (Inr u, s') \<longleftrightarrow> s' = s\<lparr>sv_counters := k (sv_counters s)\<rparr>"
  by (auto simp: nowS_def newID_def newToken_def fromStore_def count_def op_simps)

lemma onStore_Inr:
  assumes "onStore (st_write env m) s = (Inr a, s')" "service_ok s"
  shows "m (the_store s) = (Inr a, the_store s')" "s' = s\<lparr>sv_backend := sv_backend s'\<rparr>"
proof -
  from assms(1) have w: "st_write env m (sv_backend s) = (Inr a, sv_backend s')"
    and s': "s' = s\<lparr>sv_backend := sv_backend s'\<rparr>"
    by (auto simp: onStore_def split: prod.splits)
  show "m (the_store s) = (Inr a, the_store s')" using st_write_ok [OF _ w] assms(2) service_store_ok by blast
  show "s' = s\<lparr>sv_backend := sv_backend s'\<rparr>" by (rule s')
qed

lemma onStore_service_ok:
  "onStore (st_write env m) s = (r, s') \<Longrightarrow> preserves store_ok m \<Longrightarrow> service_ok s \<Longrightarrow> service_ok s'"
  using preserves_pair [of service_ok "onStore (st_write env m)" s r s'] onStore_ok [of "st_write env m"]
    st_write_preserves [of m env]
  by (auto simp: backend_ok_def [abs_def])

lemma onStore_keeps:
  assumes "service_ok s" "P (the_store s)" "\<And>t. P t \<Longrightarrow> P (sort_members t)" "\<And>t. P t \<Longrightarrow> P (snd (m t))"
  shows "P (the_store (snd (onStore (st_write env m) s)))"
proof -
  have "snd (onStore (st_write env m) s) = s\<lparr>sv_backend := snd (st_write env m (sv_backend s))\<rparr>"
    by (simp add: onStore_def split: prod.splits)
  moreover have "P (store_of (snd (st_write env m (sv_backend s))))"
    using service_store_ok [OF assms(1)] assms(2) assms(3) [OF assms(2)] assms(4) [OF assms(2)]
    by (rule backend_write.write_keeps)
  ultimately show ?thesis by simp
qed

text \<open>On the memory backend a write is the operation itself.\<close>

lemma onStore_memory:
  "sv_backend s = MemoryBackend st \<Longrightarrow>
    onStore (st_write env m) s = (fst (m st), s\<lparr>sv_backend := MemoryBackend (snd (m st))\<rparr>)"
  by (simp add: onStore_def st_write_def split: prod.splits)

text \<open>Running an operation call by call on the memory backend; the witnesses are evaluated with these.\<close>

lemma run_simps:
  "bindS (nowS env) f1 s = f1 (env_clock env (sv_ticks s)) (s\<lparr>sv_ticks := Suc (sv_ticks s)\<rparr>)"
  "bindS (newID env p) f2 s = f2 (NewID p (env_rand env (sv_rands s)) (env_clock env (sv_ticks s)))
     (s\<lparr>sv_rands := Suc (sv_rands s)\<rparr>)"
  "bindS (newToken env) f2 s = f2 (NewToken (env_rand env (sv_rands s)) (env_clock env (sv_ticks s)))
     (s\<lparr>sv_rands := Suc (sv_rands s)\<rparr>)"
  "bindS (fromStore g) f3 s = (case g (sv_backend s) of Inl e \<Rightarrow> (Inl e, s) | Inr a \<Rightarrow> f3 a s)"
  "bindS (failS c e) f4 s = (if c then (Inl e, s) else f4 () s)"
  "bindS (count k) f4 s = f4 () (s\<lparr>sv_counters := k (sv_counters s)\<rparr>)"
  "bindS (TouchDevice d t) f4 s = f4 () (snd (TouchDevice d t s))"
  "bindS (readS r) f5 s = (case r s of Inl e \<Rightarrow> (Inl e, s) | Inr a \<Rightarrow> f5 a s)"
  "bindS (bindS m6 f6) h6 s = bindS m6 (\<lambda>x. bindS (f6 x) h6) s"
  "sv_backend s = MemoryBackend st \<Longrightarrow> bindS (onStore (st_write fs m)) f s =
     (let s' = s\<lparr>sv_backend := MemoryBackend (snd (m st))\<rparr> in
      case fst (m st) of Inl e \<Rightarrow> (Inl e, s') | Inr a \<Rightarrow> f a s')"
  "tryS (fromStore g) h7 s = h7 (g (sv_backend s)) s"
  by (auto simp: bindS_def tryS_def nowS_def newID_def newToken_def fromStore_def failS_def count_def failIf_def
      TouchDevice_def Let_def op_simps onStore_memory split: sum.splits prod.splits)

lemma touch_frame [simp]:
  "fst (TouchDevice d t s) = Inr ()"
  "sv_backend (snd (TouchDevice d t s)) = sv_backend s" "sv_counters (snd (TouchDevice d t s)) = sv_counters s"
  "sv_ruleStates (snd (TouchDevice d t s)) = sv_ruleStates s" "sv_sent (snd (TouchDevice d t s)) = sv_sent s"
  by (simp_all add: TouchDevice_def Let_def op_simps)

lemma touch_Inr: "TouchDevice d t s = (Inr u, s') \<longleftrightarrow> s' = snd (TouchDevice d t s)"
  by (auto simp: TouchDevice_def Let_def op_simps)

lemma onStore_frame:
  assumes "onStore m s = (r, s')"
  shows "sv_counters s' = sv_counters s" "sv_states s' = sv_states s" "sv_ruleStates s' = sv_ruleStates s"
    "sv_ticks s' = sv_ticks s" "sv_rands s' = sv_rands s" "sv_sends s' = sv_sends s"
    "sv_sent s' = sv_sent s" "sv_closed s' = sv_closed s"
  using assms by (auto simp: onStore_def split: prod.splits)

lemma send_Inr:
  "sendMessage env ses msg s = (Inr r, s') \<longleftrightarrow> r = env_send env (sv_sends s) \<and>
     s' = s\<lparr>sv_sends := Suc (sv_sends s), sv_sent := sv_sent s @ (if r = None then [(ses, msg)] else [])\<rparr>"
  by (auto simp: sendMessage_def split: option.splits)

lemma record_frame [simp]:
  "fst (recordCommandPublished t s) = Inr ()"
  "sv_backend (snd (recordCommandPublished t s)) = sv_backend s" "sv_sent (snd (recordCommandPublished t s)) = sv_sent s"
  "ct_commandsSent (sv_counters (snd (recordCommandPublished t s))) = ct_commandsSent (sv_counters s)"
  by (simp_all add: recordCommandPublished_def count_def op_simps)

lemma record_Inr: "recordCommandPublished t s = (Inr u, s') \<longleftrightarrow> s' = snd (recordCommandPublished t s)"
  by (auto simp: recordCommandPublished_def count_def op_simps)

lemma run_send:
  "bindS (sendMessage env ses msg) f s = f (env_send env (sv_sends s)) (s\<lparr>sv_sends := Suc (sv_sends s),
     sv_sent := sv_sent s @ (if env_send env (sv_sends s) = None then [(ses, msg)] else [])\<rparr>)"
  "bindS (recordCommandPublished t) g s = g () (snd (recordCommandPublished t s))"
  by (auto simp: sendMessage_def bindS_def recordCommandPublished_def count_def op_simps split: option.splits)

lemma run_try:
  "tryS m h s = (case m s of (r, s') \<Rightarrow> h r s')"
  "bindS (tryS m h) f s = (case m s of (r, s') \<Rightarrow> bindS (h r) f s')"
  by (simp_all add: tryS_def bindS_def split: prod.splits)

lemma get_updated_command:
  "mem_UpdateCommandStatus now i st r t = (Inr c, t') \<Longrightarrow>
    mem_GetCommand j t' = (if j = i then Inr c else mem_GetCommand j t)"
  by (cases "j = i") (auto simp: mem_UpdateCommandStatus_def mem_GetCommand_def Let_def clone_updates split: option.splits)

lemma get_saved_command:
  "mem_GetCommand j (snd (mem_SaveCommand c t)) = (if j = cmd_ID c then Inr (cloneCommand c) else mem_GetCommand j t)"
  by (simp add: mem_SaveCommand_def mem_GetCommand_def clone_updates)

lemma update_command_Inr:
  assumes "UpdateCommandStatus env i st r s = (Inr c, s')" "service_ok s"
  shows "\<exists>c0. mem_GetCommand i (the_store s) = Inr c0 \<and>
      c = c0\<lparr>cmd_Status := st, cmd_Result := r, cmd_UpdatedAt := env_clock env (sv_ticks s)\<rparr>"
    "mem_GetCommand j (the_store s') = (if j = i then Inr c else mem_GetCommand j (the_store s))"
    "service_ok s'" "sv_sent s' = sv_sent s" "sv_counters s' = sv_counters s" "sv_states s' = sv_states s"
proof -
  let ?s1 = "s\<lparr>sv_ticks := Suc (sv_ticks s)\<rparr>"
  have w: "onStore (st_write (env_fs env) (mem_UpdateCommandStatus (env_clock env (sv_ticks s)) i st r)) ?s1 = (Inr c, s')"
    using assms(1) by (auto simp: UpdateCommandStatus_def bindS_Inr prims_Inr st_write_defs)
  have ok1: "service_ok ?s1" using assms(2) by simp
  have m: "mem_UpdateCommandStatus (env_clock env (sv_ticks s)) i st r (the_store s) = (Inr c, the_store s')"
    using onStore_Inr(1) [OF w ok1] by simp
  then show "\<exists>c0. mem_GetCommand i (the_store s) = Inr c0 \<and>
      c = c0\<lparr>cmd_Status := st, cmd_Result := r, cmd_UpdatedAt := env_clock env (sv_ticks s)\<rparr>"
    by (auto simp: mem_UpdateCommandStatus_def mem_GetCommand_def Let_def clone_updates split: option.splits)
  show "mem_GetCommand j (the_store s') = (if j = i then Inr c else mem_GetCommand j (the_store s))"
    by (rule get_updated_command [OF m])
  show "service_ok s'" using onStore_service_ok [OF w _ ok1] by (simp add: series_ops_ok)
  show "sv_sent s' = sv_sent s" "sv_counters s' = sv_counters s" "sv_states s' = sv_states s"
    using onStore_frame [OF w] by simp_all
qed

section \<open>Steps from a state\<close>

abbreviation steps :: "Service \<Rightarrow> Service \<Rightarrow> bool" where
  "steps \<equiv> service_step\<^sup>*\<^sup>*"

lemma steps_fact:
  assumes "\<And>s s'. service_step s s' \<Longrightarrow> P s \<Longrightarrow> P s'" "steps s s'" "P s"
  shows "P s'"
  using assms(2,3) by (induction rule: rtranclp_induct) (auto intro: assms(1))

lemma reachable_steps: "reachable s \<Longrightarrow> steps s s' \<Longrightarrow> reachable s'"
  by (rule steps_fact [where P = reachable]) (auto intro: reachable.step)

section \<open>Stored entities\<close>

lemma mapE_Inr_set: "mapE f xs = Inr ys \<Longrightarrow> y \<in> set ys \<Longrightarrow> \<exists>x \<in> set xs. f x = Inr y"
  by (induction xs arbitrary: ys) (auto simp: bindE_Inr)

lemma add_member_lists:
  assumes "mem_AddDeviceToGroup g d s = (Inr (), s')"
  shows "\<exists>ids. mem_ListDeviceIDsByGroup g s' = Inr ids \<and> d \<in> set ids"
    "\<exists>ids. mem_ListGroupIDsByDevice d s' = Inr ids \<and> g \<in> set ids"
  using assms
  by (auto simp: mem_AddDeviceToGroup_def mem_ListDeviceIDsByGroup_def mem_ListGroupIDsByDevice_def split: if_splits)

lemma device_view: "buildDeviceView d s = Inr dv \<Longrightarrow>
    devv_Device dv = d \<and> devv_Online dv = online (sv_states s) (dev_ID d)"
  by (auto simp: buildDeviceView_def bindE_Inr Let_def online_def)

text \<open>What the store returns for an ID carries that ID and is its own clone.\<close>

lemma store_keys:
  assumes "store_ok s"
  shows "mem_GetTenant i s = Inr t \<Longrightarrow> tn_ID t = i \<and> cloneTenant t = t"
    "mem_GetProduct i s = Inr p \<Longrightarrow> prd_ID p = i \<and> cloneProduct p = p"
    "mem_GetDevice i s = Inr d \<Longrightarrow> dev_ID d = i \<and> cloneDevice d = d"
    "mem_GetGroup i s = Inr g \<Longrightarrow> grp_ID g = i \<and> cloneGroup g = g"
    "mem_GetRule i s = Inr r \<Longrightarrow> rul_ID r = i \<and> cloneRule r = r"
    "mem_GetConfigProfile i s = Inr cf \<Longrightarrow> cfg_ID cf = i \<and> cloneConfigProfile cf = cf"
    "mem_GetFirmwareArtifact i s = Inr fw \<Longrightarrow> fw_ID fw = i \<and> cloneFirmwareArtifact fw = fw"
    "mem_GetOTACampaign i s = Inr oc \<Longrightarrow> ota_ID oc = i"
proof -
  have tabs: "tenants.table_ok s" "products.table_ok s" "devices.table_ok s" "groups.table_ok s" "rules.table_ok s"
      "configprofiles.table_ok s" "firmwareartifacts.table_ok s" "otacampaigns.table_ok s"
    using assms by (simp_all add: store_ok_def tables_ok_def)
  show "mem_GetTenant i s = Inr t \<Longrightarrow> tn_ID t = i \<and> cloneTenant t = t" by (rule tenants.get_id [OF tabs(1)])
  show "mem_GetProduct i s = Inr p \<Longrightarrow> prd_ID p = i \<and> cloneProduct p = p" by (rule products.get_id [OF tabs(2)])
  show "mem_GetDevice i s = Inr d \<Longrightarrow> dev_ID d = i \<and> cloneDevice d = d" by (rule devices.get_id [OF tabs(3)])
  show "mem_GetGroup i s = Inr g \<Longrightarrow> grp_ID g = i \<and> cloneGroup g = g" by (rule groups.get_id [OF tabs(4)])
  show "mem_GetRule i s = Inr r \<Longrightarrow> rul_ID r = i \<and> cloneRule r = r" by (rule rules.get_id [OF tabs(5)])
  show "mem_GetConfigProfile i s = Inr cf \<Longrightarrow> cfg_ID cf = i \<and> cloneConfigProfile cf = cf"
    by (rule configprofiles.get_id [OF tabs(6)])
  show "mem_GetFirmwareArtifact i s = Inr fw \<Longrightarrow> fw_ID fw = i \<and> cloneFirmwareArtifact fw = fw"
    by (rule firmwareartifacts.get_id [OF tabs(7)])
  show "mem_GetOTACampaign i s = Inr oc \<Longrightarrow> ota_ID oc = i"
    using otacampaigns.get_id [OF tabs(8)] by blast
qed

end
