(* ===== verification/Credentials.thy ===== *)
theory Credentials
  imports ServiceLemmas
begin

text \<open>
  The credentials of the devices. A device is never deleted and its token never changes, over either
  backend and whatever faults occur, so a credential that was accepted once is accepted for ever. This is
  a third fact of the locale \<open>device_fact\<close>; \<open>created_device_facts\<close> says what a new device can do.
\<close>

section \<open>Tokens are permanent\<close>

definition has_token :: "string \<Rightarrow> string \<Rightarrow> Store \<Rightarrow> bool" where
  "has_token i t s \<longleftrightarrow> (\<exists>d. map_of (ms_devices s) i = Some d \<and> dev_Token d = t)"

definition keeps_tokens :: "(Store, gerr, unit) op \<Rightarrow> bool" where
  "keeps_tokens m \<longleftrightarrow> store_write m \<and> (\<forall>s i t. has_token i t s \<longrightarrow> has_token i t (snd (m s)))"

lemma keeps_tokens_write: "keeps_tokens m \<Longrightarrow> store_write m"
  by (simp add: keeps_tokens_def)

lemma keeps_tokens_ops:
  "keeps_tokens (mem_SaveShadow sh)" "keeps_tokens (mem_SaveCommand c)"
  "keeps_tokens (bindS (mem_UpdateCommandStatus now i st r) (\<lambda>_. retS ()))"
  "keeps_tokens (mem_AppendTelemetry te)" "keeps_tokens (mem_AppendAlert a)"
  "keeps_tokens (mem_SaveAlert a)" "keeps_tokens (mem_SaveConfigProfile cf)"
  "keeps_tokens (mem_SaveOTACampaign oc)" "keeps_tokens (mem_CreateDevice d)"
  "keeps_tokens (mem_CreateGroup g)"
  "keeps_tokens (mem_AddDeviceToGroup gid did)" "keeps_tokens (mem_RemoveDeviceFromGroup gid did)"
  "keeps_tokens (mem_CreateRule rl)" "keeps_tokens (mem_CreateConfigProfile cf)"
  "keeps_tokens (mem_CreateFirmwareArtifact fw)" "keeps_tokens (mem_CreateOTACampaign oc)"
  "keeps_tokens (mem_CreateProduct p)" "keeps_tokens (mem_SaveProduct p)" "keeps_tokens (mem_CreateTenant tn)"
  by (auto simp: keeps_tokens_def has_token_def store_write.intros mem_table_defs series_write_defs Let_def bindS_def
      op_simps split: option.splits prod.splits sum.splits)

interpretation token_fact: device_fact "has_token i t" keeps_tokens for i t
proof unfold_locales
  show "store_ok s \<Longrightarrow> has_token i t s \<Longrightarrow> has_token i t (sort_members s)" for s
    by (simp add: has_token_def sort_members_def)
  show "store_ok s \<Longrightarrow> has_token i t s \<Longrightarrow> keeps_tokens m \<Longrightarrow> has_token i t (snd (m s))" for s m
    by (simp add: keeps_tokens_def)
qed (rule keeps_tokens_write keeps_tokens_ops, assumption?)+

lemma token_products:
  "preserves (token_fact.fact i t) (CreateTenant env n sl ds m)"
  "preserves (token_fact.fact i t) (CreateProductWithTenant env tid n ds m ap thm)"
  "preserves (token_fact.fact i t) (UpdateProductThingModel env p thm)"
  "preserves (token_fact.fact i t) (UpdateProductAccessProfile env p ap)"
  unfolding CreateTenant_def CreateProductWithTenant_def UpdateProductThingModel_def UpdateProductAccessProfile_def st_write_defs
  by (intro token_fact.fact_intros keeps_tokens_ops)+

text \<open>Saving a device that was just read: the key is its own ID, and the token is the stored one.\<close>

lemma token_tags: "preserves (token_fact.fact i t) (UpdateDeviceTags env d tags)"
proof (rule preservesI)
  fix s assume s: "token_fact.fact i t s"
  then have ok: "store_ok (the_store s)" and t: "has_token i t (the_store s)"
    by (auto simp: token_fact.fact_def service_ok_def backend_ok_def)
  show "token_fact.fact i t (snd (UpdateDeviceTags env d tags s))"
  proof (cases "st_GetDevice (trim_space d) (sv_backend s)")
    case (Inl e)
    then show ?thesis using s by (simp add: UpdateDeviceTags_def bindS_def fromStore_def op_apply)
  next
    case (Inr device)
    then have get: "mem_GetDevice (trim_space d) (the_store s) = Inr device" by (simp add: st_GetDevice_def)
    let ?d = "device\<lparr>dev_Tags := cloneStringMap tags\<rparr>"
    have "snd (UpdateDeviceTags env d tags s) = snd (onStore (st_write (env_fs env) (mem_SaveDevice ?d)) s)"
      using Inr by (auto simp: UpdateDeviceTags_def bindS_def fromStore_def op_apply Let_def st_write_defs
          split: prod.splits sum.splits)
    moreover have "store_ok (snd (mem_SaveDevice ?d (the_store s)))"
      using preservesD [of store_ok "mem_SaveDevice ?d" "the_store s"] ok by (simp add: table_ops_ok)
    moreover have "has_token i t (snd (mem_SaveDevice ?d (the_store s)))"
      using t get store_keys(3) [OF ok get]
      by (auto simp: has_token_def mem_SaveDevice_def mem_GetDevice_def clone_updates split: option.splits)
    ultimately show ?thesis using token_fact.fact_write_at [OF s] by simp
  qed
qed

lemma token_step: "service_step s s' \<Longrightarrow> token_fact.fact i t s \<Longrightarrow> token_fact.fact i t s'"
  by (rule token_fact.fact_step [OF token_products token_tags])

text \<open>In terms of the login.\<close>

lemma accepted_iff_token:
  assumes "service_ok s"
  shows "(\<exists>d. AuthenticateDevice i t s = Inr d \<and> dev_ID d = trim_space i \<and> dev_Token d = trim_space t) \<longleftrightarrow>
      token_fact.fact (trim_space i) (trim_space t) s"
    "AuthenticateDevice i t s = Inr d \<Longrightarrow> dev_ID d = trim_space i \<and> dev_Token d = trim_space t"
proof -
  have ok: "store_ok (the_store s)" using assms by (simp add: service_ok_def backend_ok_def)
  have get: "mem_GetDevice (trim_space i) (the_store s) = Inr d \<Longrightarrow> dev_ID d = trim_space i" for d
    using store_keys(3) [OF ok] by blast
  show d: "AuthenticateDevice i t s = Inr d \<Longrightarrow> dev_ID d = trim_space i \<and> dev_Token d = trim_space t" for d
    using get by (auto simp: AuthenticateDevice_def bindE_Inr st_GetDevice_def split: if_splits)
  show "(\<exists>d. AuthenticateDevice i t s = Inr d \<and> dev_ID d = trim_space i \<and> dev_Token d = trim_space t) \<longleftrightarrow>
      token_fact.fact (trim_space i) (trim_space t) s"
  proof
    assume "\<exists>d. AuthenticateDevice i t s = Inr d \<and> dev_ID d = trim_space i \<and> dev_Token d = trim_space t"
    then show "token_fact.fact (trim_space i) (trim_space t) s"
      using assms by (auto simp: token_fact.fact_def has_token_def AuthenticateDevice_def bindE_Inr st_GetDevice_def
          mem_GetDevice_def clone_updates split: option.splits if_splits)
  next
    assume "token_fact.fact (trim_space i) (trim_space t) s"
    then obtain d where d: "map_of (ms_devices (the_store s)) (trim_space i) = Some d" "dev_Token d = trim_space t"
      by (auto simp: token_fact.fact_def has_token_def)
    then have "AuthenticateDevice i t s = Inr (cloneDevice d)"
      by (simp add: AuthenticateDevice_def st_GetDevice_def mem_GetDevice_def clone_updates)
    then show "\<exists>d. AuthenticateDevice i t s = Inr d \<and> dev_ID d = trim_space i \<and> dev_Token d = trim_space t"
      using \<open>\<And>d. AuthenticateDevice i t s = Inr d \<Longrightarrow> dev_ID d = trim_space i \<and> dev_Token d = trim_space t\<close> by blast
  qed
qed

lemma login_permanent:
  assumes "service_step s s'" "service_ok s" "AuthenticateDevice i t s = Inr d"
  shows "\<exists>d'. AuthenticateDevice i t s' = Inr d' \<and> dev_ID d' = dev_ID d \<and> dev_Token d' = dev_Token d"
proof -
  note d = accepted_iff_token(2) [OF assms(2,3)]
  have "token_fact.fact (trim_space i) (trim_space t) s" using accepted_iff_token(1) [OF assms(2)] assms(3) d by blast
  then have "token_fact.fact (trim_space i) (trim_space t) s'" by (rule token_step [OF assms(1)])
  then show ?thesis using accepted_iff_token(1) [OF service_step_ok [OF assms(1,2)]] d by auto
qed

section \<open>A new device\<close>

text \<open>What a successful \<open>CreateDeviceWithTenant\<close> returned and stored.\<close>

lemma created_device_facts:
  assumes "service_ok s" "CreateDeviceWithTenant env t n p tags metadata s = (Inr d, s')"
  shows "trim_space (dev_ID d) = dev_ID d" "trim_space (dev_Token d) = dev_Token d"
    "AuthenticateDevice (dev_ID d) token s' =
      (if trim_space token = dev_Token d then Inr (cloneDevice d) else Inl ErrInvalidCredential)"
    "st_GetShadow (dev_ID d) (sv_backend s') =
      Inr (cloneShadow (new_shadow (dev_ID d) (dev_ProductID d) (dev_CreatedAt d)))"
    "trim_space t \<noteq> [] \<longrightarrow> dev_TenantID d = trim_space t"
    "if trim_space p = [] then dev_ProductKey d = [] else
      (\<exists>product. st_GetProduct (trim_space p) (sv_backend s) = Inr product \<and> dev_ProductID d = trim_space p \<and>
        dev_TenantID d = prd_TenantID product \<and> dev_ProductKey d = prd_Key product)"
    "ct_registeredDevices (sv_counters s') = ct_registeredDevices (sv_counters s) + 1"
proof -
  note ok = assms(1)
  let ?s3 = "s\<lparr>sv_ticks := Suc (sv_ticks s), sv_rands := Suc (Suc (sv_rands s))\<rparr>"
  obtain s4 s5 where w1: "onStore (st_CreateDevice (env_fs env) d) ?s3 = (Inr (), s4)"
    and w2: "onStore (st_SaveShadow (env_fs env) (new_shadow (dev_ID d) (dev_ProductID d) (dev_CreatedAt d))) s4 = (Inr (), s5)"
    and s': "s' = (let s6 = if dev_ProductID d = [] then s5 else snd (TouchDevice (dev_ID d) (dev_CreatedAt d) s5) in
      s6\<lparr>sv_counters := (sv_counters s6)\<lparr>ct_registeredDevices := ct_registeredDevices (sv_counters s6) + 1\<rparr>\<rparr>)"
    and d: "dev_ProductID d = trim_space p" "dev_ID d = NewID ''dev'' (env_rand env (sv_rands s)) (env_clock env (Suc (sv_ticks s)))"
      "dev_Token d = NewToken (env_rand env (Suc (sv_rands s))) (env_clock env (Suc (sv_ticks s)))"
      "trim_space t \<noteq> [] \<longrightarrow> dev_TenantID d = trim_space t"
      "trim_space p = [] \<longrightarrow> dev_ProductKey d = []"
      "trim_space p \<noteq> [] \<longrightarrow> (\<exists>product. st_GetProduct (trim_space p) (sv_backend s) = Inr product \<and>
        dev_TenantID d = prd_TenantID product \<and> dev_ProductKey d = prd_Key product)"
    using assms(2)
    by (auto simp: CreateDeviceWithTenant_def Let_def bindS_Inr prims_Inr touch_Inr split: if_splits)
  have m1: "mem_CreateDevice d (the_store ?s3) = (Inr (), the_store s4)" and ok4: "service_ok s4"
    using onStore_Inr(1) [OF w1 [unfolded st_write_defs]] onStore_service_ok [OF w1 [unfolded st_write_defs]] ok
    by (simp_all add: table_ops_ok)
  have m2: "mem_SaveShadow (new_shadow (dev_ID d) (dev_ProductID d) (dev_CreatedAt d)) (the_store s4) = (Inr (), the_store s5)"
    using onStore_Inr(1) [OF w2 [unfolded st_write_defs] ok4] .
  have ct: "sv_counters s5 = sv_counters s" using onStore_frame(1) [OF w1] onStore_frame(1) [OF w2] by simp
  have s4: "the_store s4 = (the_store s)\<lparr>ms_devices :=
      AList.update (dev_ID d) (cloneDevice d) (ms_devices (the_store s))\<rparr>"
    using m1 by (auto simp: mem_CreateDevice_def split: option.splits)
  have s5: "the_store s5 = snd (mem_SaveShadow (new_shadow (dev_ID d) (dev_ProductID d) (dev_CreatedAt d)) (the_store s4))"
    using m2 by simp
  have dv: "map_of (ms_devices (the_store s5)) (dev_ID d) = Some (cloneDevice d)"
    by (simp add: s5 s4 mem_SaveShadow_def)
  have sh: "map_of (ms_shadows (the_store s5)) (dev_ID d) =
      Some (cloneShadow (new_shadow (dev_ID d) (dev_ProductID d) (dev_CreatedAt d)))"
    by (simp add: s5 mem_SaveShadow_def new_shadow_def)
  have st': "the_store s' = the_store s5"
    using s' by (simp add: Let_def)
  show trim: "trim_space (dev_ID d) = dev_ID d"
    unfolding d(2) by (rule trim_NewID) (simp add: label_eval)
  show "trim_space (dev_Token d) = dev_Token d" unfolding d(3) by (rule trim_NewToken)
  show "AuthenticateDevice (dev_ID d) token s' =
      (if trim_space token = dev_Token d then Inr (cloneDevice d) else Inl ErrInvalidCredential)"
    by (auto simp: AuthenticateDevice_def st_GetDevice_def mem_GetDevice_def trim st' dv clone_updates)
  show "st_GetShadow (dev_ID d) (sv_backend s') =
      Inr (cloneShadow (new_shadow (dev_ID d) (dev_ProductID d) (dev_CreatedAt d)))"
    by (simp add: st_GetShadow_def mem_GetShadow_def st' sh clone_updates)
  show "ct_registeredDevices (sv_counters s') = ct_registeredDevices (sv_counters s) + 1"
    using s' ct by (simp add: Let_def)
  show "trim_space t \<noteq> [] \<longrightarrow> dev_TenantID d = trim_space t"
    "if trim_space p = [] then dev_ProductKey d = [] else
      (\<exists>product. st_GetProduct (trim_space p) (sv_backend s) = Inr product \<and> dev_ProductID d = trim_space p \<and>
        dev_TenantID d = prd_TenantID product \<and> dev_ProductKey d = prd_Key product)"
    using d(1,4-6) by simp_all
qed

end
