(* ===== verification/ServiceProperties.thy ===== *)
theory ServiceProperties
  imports Credentials Demo
begin

text \<open>
  The properties of the registry of the service: the invariant of every reachable state, the sessions,
  the slugs of the tenants, the products, the devices and their groups, the rules. Each has a witness
  on the values of \<open>Demo\<close>.
\<close>

text \<open>C11: in every state the service can reach, over either backend, the stored data is well-formed
  (references between the tables, retention, command index), the online counter is the number of
  devices with a session, and the TCP and MQTT figures of the statistics add up to it.\<close>
theorem service_invariant:
  assumes "reachable s"
  shows "store_ok (the_store s) \<and>
    ct_onlineDevices (sv_counters s) = int (card (online_ids (sv_states s))) \<and>
    int (sta_TCPOnlineDevices (Stats s)) + int (sta_MQTTOnlineDevices (Stats s)) =
      ct_onlineDevices (sta_Counters (Stats s))"
proof -
  have s: "service_ok s" using assms by (rule reachable_service_ok)
  then show ?thesis using Stats_online [OF s] by (simp add: service_ok_def backend_ok_def sessions_ok_def)
qed

theorem service_invariant_witness:
  "store_ok (the_store demo_online) \<and>
    ct_onlineDevices (sv_counters demo_online) = int (card (online_ids (sv_states demo_online)))"
  using service_invariant [OF demo_online_reachable] by blast

text \<open>C12: a new session replaces the old one of the device: the old one is closed, the device stays on
  line and is counted once, and when the connection of the old session ends later, its unregistration
  does not take the device off line; that of the new session does.\<close>
theorem session_replaced:
  assumes "reachable s" "dst_session (state_of (sv_states s) d) = Some p" "ses_ID ses \<noteq> ses_ID p"
  shows "let s1 = snd (RegisterSession env d ses s);
             s2 = snd (UnregisterSession env' d (ses_ID p) s1);
             s3 = snd (UnregisterSession env'' d (ses_ID ses) s2) in
    sv_closed s1 = sv_closed s @ [ses_ID p] \<and>
    dst_session (state_of (sv_states s2) d) = Some ses \<and>
    ct_onlineDevices (sv_counters s2) = ct_onlineDevices (sv_counters s) \<and>
    dst_session (state_of (sv_states s3) d) = None \<and>
    ct_onlineDevices (sv_counters s3) = ct_onlineDevices (sv_counters s) - 1"
proof -
  have "state_ok (state_of (sv_states s) d)"
    using reachable_service_ok [OF assms(1)] by (simp add: service_ok_def sessions_ok_def state_of_ok)
  then have "dst_sessionID (state_of (sv_states s) d) = ses_ID p" using assms(2) by (simp add: state_ok_def)
  then show ?thesis using assms(2,3) by (simp add: RegisterSession_eq UnregisterSession_eq Let_def)
qed

definition demo_session2 :: Session where
  "demo_session2 = demo_session\<lparr>ses_ID := ''s2''\<rparr>"

theorem session_replaced_witness:
  "dst_session (state_of (sv_states (snd (UnregisterSession demo_env ''d1'' ''s1''
     (snd (RegisterSession demo_env ''d1'' demo_session2 demo_online))))) ''d1'') = Some demo_session2"
  using session_replaced [OF demo_online_reachable, of "''d1''" demo_session demo_session2 demo_env demo_env demo_env]
  by (simp add: Let_def state_of_def demo_session2_def demo_session_def)

text \<open>C13: from a store whose tenants have different slugs, no sequence of calls makes two tenants with
  the same slug, whatever names and slugs are asked for and whatever writes fail.\<close>
theorem tenant_slugs_unique:
  assumes "backend_ok b" "slugs_unique (store_of b)" "steps (NewService env b) s"
  shows "distinct (map (tn_Slug \<circ> snd) (ms_tenants (the_store s)))"
proof -
  have "slug_fact.fact (NewService env b)"
    using assms(1,2) NewService_ok by (simp add: slug_fact.fact_def NewService_def)
  then have "slug_fact.fact s" by (rule steps_fact [rotated 2]) (rule slug_step, assumption+, rule assms(3))
  then show ?thesis by (simp add: slug_fact.fact_def slugs_unique_def)
qed

definition demo_two_tenants :: Service where
  "demo_two_tenants = changed (CreateTenant demo_env ''beta'' [] [] None) demo_service"

theorem tenant_slugs_unique_witness:
  "distinct (map (tn_Slug \<circ> snd) (ms_tenants (the_store demo_two_tenants)))"
proof (rule tenant_slugs_unique)
  show "backend_ok (MemoryBackend demo_store)" "slugs_unique (store_of (MemoryBackend demo_store))"
    by (simp_all add: backend_ok_def demo_store_ok slugs_unique_def)
  show "steps (NewService demo_env (MemoryBackend demo_store)) demo_two_tenants"
    unfolding demo_two_tenants_def demo_service_def by (intro r_into_rtranclp service_step.create_tenant)
qed



text \<open>C15: a device that was created authenticates with its token, and with no other; the service holds
  an empty shadow for it; it carries the key and the tenant of its product, and the tenant asked for.\<close>
theorem created_device:
  assumes "reachable s" "CreateDeviceWithTenant env t n p tags metadata s = (Inr d, s')"
  shows "AuthenticateDevice (dev_ID d) token s' =
      (if trim_space token = dev_Token d then Inr (cloneDevice d) else Inl ErrInvalidCredential) \<and>
    st_GetShadow (dev_ID d) (sv_backend s') =
      Inr (cloneShadow (new_shadow (dev_ID d) (dev_ProductID d) (dev_CreatedAt d))) \<and>
    (trim_space t \<noteq> [] \<longrightarrow> dev_TenantID d = trim_space t) \<and>
    (if trim_space p = [] then dev_ProductKey d = [] else
      (\<exists>product. st_GetProduct (trim_space p) (sv_backend s) = Inr product \<and> dev_ProductID d = trim_space p \<and>
        dev_TenantID d = prd_TenantID product \<and> dev_ProductKey d = prd_Key product)) \<and>
    ct_registeredDevices (sv_counters s') = ct_registeredDevices (sv_counters s) + 1"
  using created_device_facts [OF reachable_service_ok [OF assms(1)] assms(2)] by simp

theorem created_device_witness:
  "\<exists>d s'. CreateDeviceWithTenant demo_env [] ''probe'' ''p1'' None None demo_service = (Inr d, s') \<and>
    AuthenticateDevice (dev_ID d) (dev_Token d) s' = Inr (cloneDevice d)"
proof -
  have "\<exists>d. fst (CreateDeviceWithTenant demo_env [] ''probe'' ''p1'' None None demo_service) = Inr d \<and> dev_Token d = ''01''"
    by (simp add: CreateDeviceWithTenant_def run_simps op_simps assertTenantExists_def label_eval st_write_defs
        st_GetProduct_def mem_GetProduct_def mem_CreateDevice_def mem_SaveShadow_def Let_def demo_ids demo_token)
  then obtain d s' where c: "CreateDeviceWithTenant demo_env [] ''probe'' ''p1'' None None demo_service = (Inr d, s')"
      and "dev_Token d = ''01''"
    by (metis prod.collapse)
  with created_device [OF demo_reachable c, of "dev_Token d"] show ?thesis by (auto simp: label_eval)
qed

text \<open>The listing of a tenant succeeds in every reachable state and shows exactly the stored devices of
  the tenant (and of the product, when one is given), each once, on line exactly when it has a session.\<close>
lemma device_listing:
  assumes "reachable s"
  shows "\<exists>dvs. ListDevicesByTenant t p s = Inr dvs \<and> distinct (map (dev_ID \<circ> devv_Device) dvs) \<and>
    (\<forall>d. d \<in> devv_Device ` set dvs \<longleftrightarrow> st_GetDevice (dev_ID d) (sv_backend s) = Inr d \<and>
       in_tenant (trim_space t) (dev_TenantID d) \<and> (trim_space p = [] \<or> dev_ProductID d = trim_space p)) \<and>
    (\<forall>dv \<in> set dvs. devv_Online dv = online (sv_states s) (dev_ID (devv_Device dv)))"
proof -
  have ok: "service_ok s" using assms by (rule reachable_service_ok)
  obtain dvs where dvs: "ListDevicesByTenant t p s = Inr dvs" using ListDevicesByTenant_total by blast
  have "devv_Online dv = online (sv_states s) (dev_ID (devv_Device dv))" if "dv \<in> set dvs" for dv
  proof -
    obtain ds where "mapE (\<lambda>device. buildDeviceView device s) ds = Inr dvs"
      using dvs by (auto simp: ListDevicesByTenant_def bindE_Inr Let_def)
    from mapE_Inr_set [OF this that] device_view show ?thesis by force
  qed
  then show ?thesis using dvs ListDevicesByTenant_set [OF ok dvs] by blast
qed

lemma device_listing_example:
  "\<exists>dvs. ListDevicesByTenant [] ''p1'' demo_online = Inr dvs \<and> distinct (map (dev_ID \<circ> devv_Device) dvs)"
  using device_listing [OF demo_online_reachable, of "[]" "''p1''"] by blast

text \<open>A device enters a group only if the group and the device are stored, and the group, when it
  has a tenant or a product, has those of the device; the membership is then seen from both sides.\<close>
lemma assigned_device:
  assumes "reachable s" "AssignDeviceToGroup env g d s = (Inr gv, s')"
  shows "\<exists>grp dev. st_GetGroup (trim_space g) (sv_backend s) = Inr grp \<and>
    st_GetDevice (trim_space d) (sv_backend s) = Inr dev \<and>
    (grp_TenantID grp \<noteq> [] \<longrightarrow> dev_TenantID dev = grp_TenantID grp) \<and>
    (grp_ProductID grp \<noteq> [] \<longrightarrow> dev_ProductID dev = grp_ProductID grp) \<and>
    (\<exists>ids. st_ListDeviceIDsByGroup (trim_space g) (sv_backend s') = Inr ids \<and> trim_space d \<in> set ids \<and>
      grpv_DeviceCount gv = length ids) \<and>
    (\<exists>ids. st_ListGroupIDsByDevice (trim_space d) (sv_backend s') = Inr ids \<and> trim_space g \<in> set ids)"
proof -
  have ok: "service_ok s" using assms(1) by (rule reachable_service_ok)
  obtain grp dev where grp: "st_GetGroup (trim_space g) (sv_backend s) = Inr grp"
    and dev: "st_GetDevice (trim_space d) (sv_backend s) = Inr dev"
    and scope: "grp_TenantID grp \<noteq> [] \<longrightarrow> dev_TenantID dev = grp_TenantID grp"
      "grp_ProductID grp \<noteq> [] \<longrightarrow> dev_ProductID dev = grp_ProductID grp"
    and w: "onStore (st_write (env_fs env) (mem_AddDeviceToGroup (grp_ID grp) (dev_ID dev))) s = (Inr (), s')"
    and gv: "buildGroupView grp s' = Inr gv"
    using assms(2) by (auto simp: AssignDeviceToGroup_def bindS_Inr prims_Inr st_write_defs)
  have ids: "grp_ID grp = trim_space g" "dev_ID dev = trim_space d"
    using store_keys [OF service_store_ok [OF ok]] grp dev by (auto simp: st_read_defs)
  have m: "mem_AddDeviceToGroup (trim_space g) (trim_space d) (the_store s) = (Inr (), the_store s')"
    using onStore_Inr(1) [OF w ok] ids by simp
  obtain gids where gids: "mem_ListDeviceIDsByGroup (trim_space g) (the_store s') = Inr gids" "trim_space d \<in> set gids"
    using add_member_lists(1) [OF m] by blast
  obtain dids where dids: "mem_ListGroupIDsByDevice (trim_space d) (the_store s') = Inr dids" "trim_space g \<in> set dids"
    using add_member_lists(2) [OF m] by blast
  have "grpv_DeviceCount gv = length gids"
    using gv gids(1) ids by (auto simp: buildGroupView_def bindE_Inr st_ListDeviceIDsByGroup_def)
  then show ?thesis using grp dev scope gids dids by (auto simp: st_read_defs)
qed

lemma assigned_device_witness:
  "\<exists>gv s'. AssignDeviceToGroup demo_env ''g1'' ''d1'' demo_service = (Inr gv, s') \<and>
    (\<exists>ids. st_ListDeviceIDsByGroup ''g1'' (sv_backend s') = Inr ids \<and> ''d1'' \<in> set ids)"
proof -
  have "\<exists>gv. fst (AssignDeviceToGroup demo_env ''g1'' ''d1'' demo_service) = Inr gv"
    by (simp add: AssignDeviceToGroup_def run_simps op_simps label_eval st_write_defs st_read_defs
        mem_GetGroup_def mem_GetDevice_def mem_AddDeviceToGroup_def buildGroupView_def tenantSummary_def
        productRef_def summary_def mem_ListDeviceIDsByGroup_def)
  then obtain gv s' where g: "AssignDeviceToGroup demo_env ''g1'' ''d1'' demo_service = (Inr gv, s')"
    by (metis prod.collapse)
  from assigned_device [OF demo_reachable g] g show ?thesis by (auto simp: label_eval)
qed

text \<open>The scope a rule gets from its group, its device and its product.\<close>

lemma scope_group_Inr:
  "scope_group g (t, p) s = (Inr (t', p') :: _ res) \<Longrightarrow> g \<noteq> [] \<Longrightarrow>
    \<exists>grp. st_GetGroup g (sv_backend s) = Inr grp \<and> (grp_TenantID grp = t' \<and> (t = [] \<or> t = t')) \<and>
      (grp_ProductID grp = [] \<and> p' = p \<or> grp_ProductID grp = p' \<and> (p = [] \<or> p = p'))"
  by (auto simp: scope_group_def scope_tenant_def scope_product_def bindE_Inr split: if_splits)

lemma scope_device_Inr:
  "scope_device d (t, p) s = (Inr (t', p') :: _ res) \<Longrightarrow> d \<noteq> [] \<Longrightarrow>
    \<exists>dev. st_GetDevice d (sv_backend s) = Inr dev \<and> (dev_TenantID dev = t' \<and> (t = [] \<or> t = t')) \<and>
      (dev_ProductID dev = [] \<and> p' = p \<or> dev_ProductID dev = p' \<and> (p = [] \<or> p = p'))"
  by (auto simp: scope_device_def scope_tenant_def scope_product_def bindE_Inr split: if_splits)

lemma scope_mono:
  "scope_group g (t, p) s = (Inr (t', p') :: _ res) \<Longrightarrow> (t = [] \<or> t' = t) \<and> (p = [] \<or> p' = p)"
  "scope_device d (t, p) s = (Inr (t', p') :: _ res) \<Longrightarrow> (t = [] \<or> t' = t) \<and> (p = [] \<or> p' = p)"
  by (auto simp: scope_group_def scope_device_def scope_tenant_def scope_product_def bindE_Inr split: if_splits)

text \<open>A rule that was created is stored; it names at least one scope, its group and its device
  exist, and tenant and product of the rule agree with those of its group, device and product wherever
  these have one.\<close>
lemma created_rule_scope:
  assumes "reachable s"
    "CreateRuleWithTenant env t n ds p g d en sev cd co acs s = (Inr rule, s')"
  shows "st_GetRule (rul_ID rule) (sv_backend s') = Inr (cloneRule rule) \<and> 0 \<le> rul_CooldownSeconds rule \<and>
    (rul_ProductID rule \<noteq> [] \<or> rul_GroupID rule \<noteq> [] \<or> rul_DeviceID rule \<noteq> []) \<and>
    (trim_space t \<noteq> [] \<longrightarrow> rul_TenantID rule = trim_space t) \<and>
    (rul_GroupID rule \<noteq> [] \<longrightarrow> (\<exists>grp. st_GetGroup (rul_GroupID rule) (sv_backend s) = Inr grp \<and>
      grp_TenantID grp \<in> {[], rul_TenantID rule} \<and> grp_ProductID grp \<in> {[], rul_ProductID rule})) \<and>
    (rul_DeviceID rule \<noteq> [] \<longrightarrow> (\<exists>dev. st_GetDevice (rul_DeviceID rule) (sv_backend s) = Inr dev \<and>
      dev_TenantID dev \<in> {[], rul_TenantID rule} \<and> dev_ProductID dev \<in> {[], rul_ProductID rule})) \<and>
    (\<forall>product. loadProduct s (rul_ProductID rule) = Some product \<longrightarrow> prd_TenantID product = rul_TenantID rule)"
proof -
  have ok: "service_ok s" using assms(1) by (rule reachable_service_ok)
  let ?s2 = "s\<lparr>sv_ticks := Suc (sv_ticks s), sv_rands := Suc (sv_rands s)\<rparr>"
  obtain t1 p1 t2 where sg: "scope_group (trim_space g) (trim_space t, trim_space p) s = Inr (t1, p1)"
    and sd: "scope_device (trim_space d) (t1, p1) s = Inr (t2, rul_ProductID rule)"
    and sp: "case loadProduct s (rul_ProductID rule) of None \<Rightarrow> rul_TenantID rule = t2
      | Some product \<Rightarrow> scope_tenant ''product'' t2 (prd_TenantID product) = Inr (rul_TenantID rule)"
    and r: "rul_GroupID rule = trim_space g" "rul_DeviceID rule = trim_space d" "0 \<le> rul_CooldownSeconds rule"
      "trim_space p \<noteq> [] \<or> trim_space g \<noteq> [] \<or> trim_space d \<noteq> []"
    and w: "onStore (st_write (env_fs env) (mem_CreateRule rule)) ?s2 = (Inr (), s')"
    using assms(2)
    by (auto simp: CreateRuleWithTenant_def Let_def bindS_Inr prims_Inr st_write_defs not_less split: option.splits)
  have "mem_CreateRule rule (the_store s) = (Inr (), the_store s')"
    using onStore_Inr(1) [OF w] ok by simp
  then have st: "st_GetRule (rul_ID rule) (sv_backend s') = Inr (cloneRule rule)"
    using rules.get_create [of rule "the_store s" "the_store s'" "rul_ID rule"] by (simp add: st_read_defs)
  have mono: "trim_space t = [] \<or> t1 = trim_space t" "trim_space p = [] \<or> p1 = trim_space p"
      "t1 = [] \<or> t2 = t1" "p1 = [] \<or> rul_ProductID rule = p1"
    using scope_mono(1) [OF sg] scope_mono(2) [OF sd] by auto
  have prod: "\<forall>product. loadProduct s (rul_ProductID rule) = Some product \<longrightarrow> prd_TenantID product = rul_TenantID rule"
    and t2: "t2 = [] \<or> rul_TenantID rule = t2"
    using sp by (auto simp: scope_tenant_def split: option.splits if_splits)
  have "rul_GroupID rule \<noteq> [] \<longrightarrow> (\<exists>grp. st_GetGroup (rul_GroupID rule) (sv_backend s) = Inr grp \<and>
      grp_TenantID grp \<in> {[], rul_TenantID rule} \<and> grp_ProductID grp \<in> {[], rul_ProductID rule})"
    using scope_group_Inr [OF sg] mono t2 r(1) by auto
  moreover have "rul_DeviceID rule \<noteq> [] \<longrightarrow> (\<exists>dev. st_GetDevice (rul_DeviceID rule) (sv_backend s) = Inr dev \<and>
      dev_TenantID dev \<in> {[], rul_TenantID rule} \<and> dev_ProductID dev \<in> {[], rul_ProductID rule})"
    using scope_device_Inr [OF sd] t2 r(2) by auto
  moreover have "trim_space t \<noteq> [] \<longrightarrow> rul_TenantID rule = trim_space t" using mono t2 by auto
  moreover have "rul_ProductID rule \<noteq> [] \<or> rul_GroupID rule \<noteq> [] \<or> rul_DeviceID rule \<noteq> []"
    using r(1,2,4) mono by auto
  ultimately show ?thesis using st r(3) prod by blast
qed

definition demo_condition :: RuleCondition where
  "demo_condition = \<lparr>cond_Property = ''t'', cond_Operator = ''gt'', cond_Value = AInt KInt 30\<rparr>"

lemma demo_condition_normal:
  "normalizeRuleCondition (Some (demo_product ''p1'')) demo_condition = Inr demo_condition"
  by (simp add: demo_condition_def normalizeRuleCondition_def Let_def normalizeRuleOperator_def label_eval
      demo_thing_model_def matchesThingDataType_def isNumber_def)

lemma created_rule_scope_witness:
  "\<exists>rule s'. CreateRuleWithTenant demo_env [] ''hot'' [] [] ''g1'' ''d1'' True ''high'' 60 demo_condition [] demo_service =
      (Inr rule, s') \<and> rul_ProductID rule = ''p1'' \<and> st_GetRule (rul_ID rule) (sv_backend s') = Inr (cloneRule rule)"
proof -
  have "\<exists>rule. fst (CreateRuleWithTenant demo_env [] ''hot'' [] [] ''g1'' ''d1'' True ''high'' 60 demo_condition []
      demo_service) = Inr rule \<and> rul_ProductID rule = ''p1''"
    by (simp add: CreateRuleWithTenant_def run_simps op_simps assertTenantExists_def label_eval st_write_defs
        st_read_defs mem_GetProduct_def mem_GetGroup_def mem_GetDevice_def mem_CreateRule_def Let_def scope_group_def
        scope_device_def scope_tenant_def scope_product_def loadProduct_def demo_condition_normal normalizeRuleActions_def)
  then obtain rule s' where c: "CreateRuleWithTenant demo_env [] ''hot'' [] [] ''g1'' ''d1'' True ''high'' 60
      demo_condition [] demo_service = (Inr rule, s')" and "rul_ProductID rule = ''p1''"
    by (metis prod.collapse)
  with created_rule_scope [OF demo_reachable c] show ?thesis by auto
qed

end
