(* ===== verification/RuleFacts.thy ===== *)
theory RuleFacts
  imports ServiceLemmas
begin

text \<open>
  What running the rules of a reading cannot do: it never fails, and whatever its actions are (commands,
  configuration profiles, alerts), it changes neither the telemetry log nor the reported part of a
  shadow. The second fact is an instance of the locale \<open>service_fact\<close>.
\<close>

section \<open>Rules never fail\<close>

definition succeeds :: "('s, 'e, unit) op \<Rightarrow> bool" where
  "succeeds m \<longleftrightarrow> (\<forall>s. fst (m s) = Inr ())"

lemma succeeds_intros:
  "succeeds (retS ())"
  "succeeds m \<Longrightarrow> (\<And>u. succeeds (f u)) \<Longrightarrow> succeeds (bindS m f)"
  "(\<And>b. succeeds (f' b)) \<Longrightarrow> succeeds (bindS (getS h) f')"
  "(\<And>c. succeeds (f'' c)) \<Longrightarrow> succeeds (bindS (newID env p) f'')"
  "(\<And>r. succeeds (g r)) \<Longrightarrow> succeeds (tryS n g)"
  "succeeds (modS k)"
  "succeeds m \<Longrightarrow> succeeds m' \<Longrightarrow> succeeds (if c then m else m')"
  by (auto simp: succeeds_def bindS_def tryS_def newID_def op_simps split: prod.splits sum.splits)
    (metis fst_conv sum.distinct(1))

lemma succeeds_forS: "(\<And>x. succeeds (f x)) \<Longrightarrow> succeeds (forS xs f)"
  by (induction xs) (auto intro: succeeds_intros)

lemma load_membership_total: "\<exists>m'. load_membership device m s = Inr m'"
  by (auto simp: load_membership_def st_ListGroupIDsByDevice_def mem_ListGroupIDsByDevice_def
      split: option.splits sum.splits if_splits)

lemma run_rule_succeeds: "succeeds (run_rule env d te rule)"
proof -
  have "succeeds (executeRuleActions env rule d te v)" for v
    unfolding executeRuleActions_def executeRuleAction_def
    by (intro succeeds_forS succeeds_intros)
  moreover have "succeeds (recordRuleTrigger r i t)" for r i t
    unfolding recordRuleTrigger_def by (rule succeeds_intros)
  ultimately show ?thesis
    unfolding run_rule_def by (auto intro!: succeeds_intros split: option.splits)
qed

lemma rules_loop_succeeds: "succeeds (rules_loop env d te m rules)"
proof (induction env d te m rules rule: rules_loop.induct)
  case (2 env d te m rule rules)
  have "succeeds (bindS (readS (load_membership d m)) f)" if "\<And>m'. succeeds (f m')" for f
  proof -
    have "fst (bindS (readS (load_membership d m)) f s) = Inr ()" for s
      using load_membership_total [of d m s] that by (auto simp: succeeds_def run_simps)
    then show ?thesis by (simp add: succeeds_def)
  qed
  then have "rul_GroupID rule \<noteq> [] \<longrightarrow> rule_in_scope rule d \<longrightarrow> ?case"
    using 2 run_rule_succeeds [of env d te rule] by (simp add: succeeds_intros(2))
  then show ?case using 2 run_rule_succeeds [of env d te rule] by (auto intro!: succeeds_intros(2))
qed (auto intro: succeeds_intros)

lemma evaluateRules_total: "\<exists>s'. evaluateRules env d te s = (Inr (), s')"
proof -
  obtain rs where "st_ListRules (sv_backend s) = Inr rs" using rules.lst_total by (auto simp: st_ListRules_def)
  then have "evaluateRules env d te s = rules_loop env d te None rs s" by (simp add: evaluateRules_def run_simps)
  then show ?thesis using rules_loop_succeeds [of env d te None rs] by (metis succeeds_def prod.collapse)
qed

section \<open>The recorded data\<close>

text \<open>The log of device \<open>d\<close> is \<open>X\<close> and its shadow reports \<open>Y\<close>.\<close>

definition recorded :: "string \<Rightarrow> Telemetry list \<Rightarrow> (string \<Rightarrow> goany option) \<Rightarrow> Store \<Rightarrow> bool" where
  "recorded d X Y st \<longleftrightarrow> lookup_list (ms_telemetryByDevice st) d = X \<and>
     (\<exists>sh. map_of (ms_shadows st) d = Some sh \<and> mlookup (sh_Reported sh) = Y)"

definition reading_part :: "Store \<Rightarrow> (string \<times> Telemetry list) list \<times> (string \<times> DeviceShadow) list" where
  "reading_part st = (ms_telemetryByDevice st, ms_shadows st)"

lemma leaves_readings:
  "leaves reading_part (mem_SaveCommand c)"
  "leaves reading_part (bindS (mem_UpdateCommandStatus now i st r) (\<lambda>_. retS ()))"
  "leaves reading_part (mem_AppendAlert a)" "leaves reading_part (mem_SaveConfigProfile cf)"
  by (simp_all add: leaves_def reading_part_def store_write.intros mem_table_defs series_write_defs Let_def
      bindS_def op_simps split: option.splits prod.splits sum.splits)

interpretation reading_fact: service_fact "recorded d X Y" "leaves reading_part" for d X Y
  by unfold_locales
    (auto simp: recorded_def sort_members_def leaves_def reading_part_def)

lemma save_desired:
  assumes "sh_DeviceID sh = d \<longrightarrow> mlookup (sh_Reported sh) = Y"
  shows "preserves (reading_fact.fact d X Y) (onStore (st_write env (mem_SaveShadow sh)))"
proof (rule reading_fact.fact_write)
  fix s assume s: "store_ok s" "recorded d X Y s"
  have "store_ok (snd (mem_SaveShadow sh s))"
    by (rule preservesD [OF store_write_ok s(1)]) (rule store_write.intros)
  moreover have "recorded d X Y (snd (mem_SaveShadow sh s))"
    using s(2) assms by (auto simp: recorded_def mem_SaveShadow_def clone_updates)
  ultimately show "store_ok (snd (mem_SaveShadow sh s)) \<and> recorded d X Y (snd (mem_SaveShadow sh s))" ..
qed

lemma ensureShadow_eq:
  "ensureShadow env dev s =
    (case map_of (ms_shadows (the_store s)) (dev_ID dev) of
       Some x \<Rightarrow> (Inr (cloneShadow x), s)
     | None \<Rightarrow> (let sh = new_shadow (dev_ID dev) (dev_ProductID dev) (env_clock env (sv_ticks s)) in
         bindS (onStore (st_write (env_fs env) (mem_SaveShadow sh))) (\<lambda>_. retS sh) (s\<lparr>sv_ticks := Suc (sv_ticks s)\<rparr>)))"
  by (simp add: ensureShadow_def run_simps op_simps st_GetShadow_def mem_GetShadow_def st_write_defs Let_def
      split: option.splits)

lemma ensureShadow_Inr:
  assumes "ensureShadow env dev s = (Inr sh, s')" "service_ok s"
  shows "service_ok s'" "sh_DeviceID sh = dev_ID dev" "ms_telemetryByDevice (the_store s') = ms_telemetryByDevice (the_store s)"
    "mlookup (sh_Reported sh) =
      (case map_of (ms_shadows (the_store s)) (dev_ID dev) of None \<Rightarrow> (\<lambda>_. None) | Some x \<Rightarrow> mlookup (sh_Reported x))"
proof -
  show "service_ok s'" using preserves_pair [OF shadow_ops_ok(1) assms(2,1)] .
  have inv: "shadows_inv (ms_shadows (the_store s))"
    using assms(2) by (simp add: service_ok_def backend_ok_def store_ok_def)
  have "sh_DeviceID sh = dev_ID dev \<and> ms_telemetryByDevice (the_store s') = ms_telemetryByDevice (the_store s) \<and>
      mlookup (sh_Reported sh) =
        (case map_of (ms_shadows (the_store s)) (dev_ID dev) of None \<Rightarrow> (\<lambda>_. None) | Some x \<Rightarrow> mlookup (sh_Reported x))"
  proof (cases "map_of (ms_shadows (the_store s)) (dev_ID dev)")
    case None
    let ?s1 = "s\<lparr>sv_ticks := Suc (sv_ticks s)\<rparr>"
    let ?new = "new_shadow (dev_ID dev) (dev_ProductID dev) (env_clock env (sv_ticks s))"
    have "sh = ?new" and w: "onStore (st_write (env_fs env) (mem_SaveShadow ?new)) ?s1 = (Inr (), s')"
      using assms(1) None by (auto simp: ensureShadow_eq Let_def bindS_Inr prims_Inr)
    moreover have "the_store s' = snd (mem_SaveShadow ?new (the_store s))"
      using onStore_Inr(1) [OF w] assms(2) by simp
    ultimately show ?thesis using None
      by (auto simp: new_shadow_def mem_SaveShadow_def mlookup_def fun_eq_iff)
  next
    case (Some x)
    then show ?thesis using assms(1) inv
      by (auto simp: ensureShadow_eq shadows_inv_def clone_updates fun_eq_iff dest!: map_of_SomeD)
  qed
  then show "sh_DeviceID sh = dev_ID dev" "ms_telemetryByDevice (the_store s') = ms_telemetryByDevice (the_store s)"
    "mlookup (sh_Reported sh) =
      (case map_of (ms_shadows (the_store s)) (dev_ID dev) of None \<Rightarrow> (\<lambda>_. None) | Some x \<Rightarrow> mlookup (sh_Reported x))"
    by blast+
qed

lemma ensureShadow_reported:
  "ensures (reading_fact.fact d X Y) (ensureShadow env dev)
     (\<lambda>sh. sh_DeviceID sh = d \<longrightarrow> mlookup (sh_Reported sh) = Y)"
  unfolding ensures_def
proof (intro allI impI conjI)
  fix s assume s: "reading_fact.fact d X Y s"
  let ?i = "dev_ID dev"
  let ?new = "new_shadow ?i (dev_ProductID dev) (env_clock env (sv_ticks s))"
  obtain sh0 where sh0: "map_of (ms_shadows (the_store s)) d = Some sh0" "mlookup (sh_Reported sh0) = Y"
    using s by (auto simp: reading_fact.fact_def recorded_def)
  have inv: "shadows_inv (ms_shadows (the_store s))"
    using s by (simp add: reading_fact.fact_def service_ok_def backend_ok_def store_ok_def)
  show "reading_fact.fact d X Y (snd (ensureShadow env dev s))"
  proof (cases "map_of (ms_shadows (the_store s)) ?i")
    case None
    then have "?i \<noteq> d" using sh0 by auto
    then have "preserves (reading_fact.fact d X Y)
        (bindS (onStore (st_write (env_fs env) (mem_SaveShadow ?new))) (\<lambda>_. retS ?new))"
      by (intro preserves_bindS save_desired preserves_prim) (simp add: new_shadow_def)
    moreover have "reading_fact.fact d X Y (s\<lparr>sv_ticks := Suc (sv_ticks s)\<rparr>)"
      using s by (simp add: reading_fact.fact_def)
    ultimately show ?thesis using None by (simp add: ensureShadow_eq Let_def preserves_def)
  qed (use s in \<open>simp add: ensureShadow_eq\<close>)
  fix sh assume sh: "fst (ensureShadow env dev s) = Inr sh" "sh_DeviceID sh = d"
  show "mlookup (sh_Reported sh) = Y"
  proof (cases "map_of (ms_shadows (the_store s)) ?i")
    case None
    then have "sh = ?new"
      using sh(1) by (auto simp: ensureShadow_eq Let_def bindS_def op_simps split: prod.splits sum.splits)
    then show ?thesis using None sh0 sh(2) by (simp add: new_shadow_def)
  next
    case (Some x)
    then have "sh = cloneShadow x" "sh_DeviceID x = ?i"
      using sh(1) inv by (auto simp: ensureShadow_eq shadows_inv_def dest!: map_of_SomeD)
    then show ?thesis using Some sh0 sh(2) by (auto simp: clone_updates fun_eq_iff)
  qed
qed

lemma readings_desired: "preserves (reading_fact.fact d X Y) (UpdateDesiredShadow env i v)"
  unfolding UpdateDesiredShadow_def st_write_defs Let_def
  by (intro ensures_bind [OF ensureShadow_reported] save_desired reading_fact.fact_intros) auto

lemma fact_readings:
  "preserves (reading_fact.fact d X Y) (ApplyConfigProfile env pid did)"
  "preserves (reading_fact.fact d X Y) (sendCommandWithCampaign env did cid n p)"
  "preserves (reading_fact.fact d X Y) (run_rule env dev te rule)"
proof -
  show 1: "preserves (reading_fact.fact d X Y) (ApplyConfigProfile env pid did)" for pid did
    unfolding ApplyConfigProfile_def st_write_defs
    by (intro readings_desired reading_fact.fact_intros leaves_readings)
  show 2: "preserves (reading_fact.fact d X Y) (sendCommandWithCampaign env did cid n p)" for did cid n p
    unfolding sendCommandWithCampaign_def deliver_command_def fail_command_def UpdateCommandStatus_def st_write_defs
    by (intro reading_fact.fact_intros leaves_readings reading_fact.fact_counts reading_fact.fact_records)
  show "preserves (reading_fact.fact d X Y) (run_rule env dev te rule)"
    unfolding run_rule_def executeRuleActions_def executeRuleAction_def st_write_defs
    by (intro 1 2 reading_fact.fact_intros leaves_readings)
qed

lemma readings_rules: "preserves (reading_fact.fact d X Y) (evaluateRules env dev te)"
proof -
  have "preserves (reading_fact.fact d X Y) (rules_loop env dev te m rules)" for m rules
    by (induction env dev te m rules rule: rules_loop.induct)
      (auto intro!: reading_fact.fact_intros fact_readings)
  then show ?thesis unfolding evaluateRules_def by (intro reading_fact.fact_intros)
qed

end
