(* ===== verification/FlowProperties.thy ===== *)
theory FlowProperties
  imports RuleFacts Demo
begin

text \<open>
  The properties of the flows through the service: telemetry and the rules it triggers, commands and
  their acknowledgements, OTA campaigns, alerts.
\<close>

section \<open>Telemetry\<close>

text \<open>A reading of an unknown device, or one whose values do not fit the thing model of the product
  of the device, is refused with the error and changes nothing: neither the log, the shadow, the
  counters nor the last-seen time, and no rule runs.\<close>
lemma telemetry_refused:
  assumes "st_GetDevice d (sv_backend s) = Inl e \<or>
    (\<exists>dev p. st_GetDevice d (sv_backend s) = Inr dev \<and> loadProduct s (dev_ProductID dev) = Some p \<and>
      validateThingValues p v = Inl e)"
  shows "HandleTelemetry env d ts v s = (Inl e, s)"
  using assms by (auto simp: HandleTelemetry_def run_simps op_simps validate_product_values_def)

lemma telemetry_refused_witness:
  "HandleTelemetry demo_env ''d9'' 7 (Some [(''t'', AStr ''warm'')]) demo_service = (Inl ErrDeviceNotFound, demo_service)"
  using telemetry_refused [of "''d9''" demo_service ErrDeviceNotFound]
  by (simp add: st_GetDevice_def mem_GetDevice_def)

lemma telemetry_log_after:
  assumes "store_ok s" "mem_ListTelemetryByDevice (tel_DeviceID te) 0 s = Inr xs"
    "lookup_list (ms_telemetryByDevice s') (tel_DeviceID te) =
      lookup_list (ms_telemetryByDevice (snd (mem_AppendTelemetry te s))) (tel_DeviceID te)"
  shows "mem_ListTelemetryByDevice (tel_DeviceID te) 0 s' =
    Inr (take (nat (ms_telemetryRetention s)) (cloneTelemetry te # xs))"
proof -
  have "mem_ListTelemetryByDevice (tel_DeviceID te) 0 s' =
      mem_ListTelemetryByDevice (tel_DeviceID te) 0 (snd (mem_AppendTelemetry te s))"
    using assms(3) by (simp add: mem_ListTelemetryByDevice_def)
  moreover have "telemetry_log.log_ok (tel_DeviceID te) s"
    using assms(1) by (auto simp: store_ok_def intro: retention_ok_logs)
  ultimately show ?thesis
    using telemetry_log.list_append [OF _ refl assms(2)] telemetry_log.lst_eq by fastforce
qed

lemma report_lookup:
  assumes "distinct (map fst (entries (tel_Values te)))"
  shows "mlookup (sh_Reported (report_shadow te sh)) k =
    (case mlookup (tel_Values te) k of Some x \<Rightarrow> Some x | None \<Rightarrow> mlookup (sh_Reported sh) k)"
  using fold_merge(1) [OF assms, of sh]
  by (simp add: report_shadow_def merge_telemetry_def Let_def mlookup_def)

lemma report_id: "sh_DeviceID (report_shadow te sh) = sh_DeviceID sh"
proof -
  have "sh_DeviceID (fold merge_value kvs sh) = sh_DeviceID sh" for kvs
    by (induction kvs arbitrary: sh) (simp_all add: merge_value_frame)
  then show ?thesis by (simp add: report_shadow_def merge_telemetry_def Let_def)
qed

lemma demo_fits: "validateThingValues (demo_product ''p1'') (Some [(''t'', AInt KInt 21)]) = Inr ()"
  by (simp add: validateThingValues_def validateThingValue_def property_map_def demo_thing_model_def matchesThingDataType_def isNumber_def)

text \<open>What a reading that was accepted has done, whatever the keys of its values.\<close>

lemma telemetry_effect:
  assumes "reachable s"
    "HandleTelemetry env d ts v s = (Inr (), s')"
    "st_ListTelemetryByDevice d 0 (sv_backend s) = Inr xs"
  shows "\<exists>t. (if time_IsZero ts then t = env_clock env (sv_ticks s) else t = ts) \<and>
    st_ListTelemetryByDevice d 0 (sv_backend s') =
      Inr (take (nat (ms_telemetryRetention (the_store s)))
        (\<lparr>tel_DeviceID = d, tel_Timestamp = t, tel_Values = cloneAnyMap v\<rparr> # xs)) \<and>
    (\<exists>sh. st_GetShadow d (sv_backend s') = Inr sh \<and> (distinct (map fst (entries v)) \<longrightarrow>
      (\<forall>k. mlookup (sh_Reported sh) k = (case mlookup v k of Some x \<Rightarrow> Some x | None \<Rightarrow>
        (case st_GetShadow d (sv_backend s) of Inl _ \<Rightarrow> None | Inr sh0 \<Rightarrow> mlookup (sh_Reported sh0) k)))))"
proof -
  have ok: "service_ok s" using assms(1) by (rule reachable_service_ok)
  define t where "t = (if time_IsZero ts then env_clock env (sv_ticks s) else ts)"
  define te where "te = \<lparr>tel_DeviceID = d, tel_Timestamp = t, tel_Values = cloneAnyMap v\<rparr>"
  define s0 where "s0 = (if time_IsZero ts then s\<lparr>sv_ticks := Suc (sv_ticks s)\<rparr> else s)"
  obtain dev s1 s2 s3 s4 sh where dev: "st_GetDevice d (sv_backend s) = Inr dev"
    and w1: "onStore (st_write (env_fs env) (mem_AppendTelemetry te)) s0 = (Inr (), s1)"
    and e: "ensureShadow env dev s1 = (Inr sh, s2)"
    and w2: "onStore (st_write (env_fs env) (mem_SaveShadow (report_shadow te sh))) s2 = (Inr (), s3)"
    and r: "evaluateRules env dev te s3 = (Inr (), s4)" and s': "the_store s' = the_store s4"
    using assms(2)
    by (auto simp: HandleTelemetry_def bindS_Inr prims_Inr touch_Inr Let_def st_write_defs te_def t_def s0_def
        split: if_splits)
  have id: "dev_ID dev = d" using store_keys(3) [OF service_store_ok [OF ok]] dev by (simp add: st_read_defs)
  have ok0: "service_ok s0" "the_store s0 = the_store s" using ok by (auto simp: s0_def)
  have m1: "the_store s1 = snd (mem_AppendTelemetry te (the_store s))" and ok1: "service_ok s1"
    using onStore_Inr(1) [OF w1 ok0(1)] onStore_service_ok [OF w1 _ ok0(1)] ok0(2)
    by (simp_all add: store_ok_AppendTelemetry)
  note sh = ensureShadow_Inr [OF e ok1, unfolded id]
  have m3: "the_store s3 = snd (mem_SaveShadow (report_shadow te sh) (the_store s2))" and ok3: "service_ok s3"
    using onStore_Inr(1) [OF w2 sh(1)] onStore_service_ok [OF w2 _ sh(1)] store_write_ok [OF store_write.intros(20)]
    by simp_all
  have tev: "distinct (map fst (entries v)) \<Longrightarrow> distinct (map fst (entries (tel_Values te)))" "mlookup (tel_Values te) = mlookup v"
    by (auto simp: te_def fun_eq_iff)
  have id3: "sh_DeviceID (report_shadow te sh) = d" using report_id sh(2) by simp
  let ?X = "lookup_list (ms_telemetryByDevice (the_store s1)) d"
  let ?Y = "mlookup (sh_Reported (report_shadow te sh))"
  have "reading_fact.fact d ?X ?Y s3"
    using ok3 sh(3) id3 by (auto simp: reading_fact.fact_def recorded_def m3 mem_SaveShadow_def clone_updates)
  then have rec: "recorded d ?X ?Y (the_store s')"
    using preserves_pair [OF readings_rules _ r] s' by (simp add: reading_fact.fact_def)
  have "st_ListTelemetryByDevice d 0 (sv_backend s') =
      Inr (take (nat (ms_telemetryRetention (the_store s))) (cloneTelemetry te # xs))"
    using telemetry_log_after [of "the_store s" te xs "the_store s'"] assms(3) rec service_store_ok [OF ok]
    by (simp add: st_read_defs recorded_def m1 te_def)
  moreover have shadows: "map_of (ms_shadows (the_store s1)) d = map_of (ms_shadows (the_store s)) d"
    by (simp add: m1 mem_AppendTelemetry_def Let_def)
  moreover have "\<exists>sh'. st_GetShadow d (sv_backend s') = Inr sh' \<and> (distinct (map fst (entries v)) \<longrightarrow>
      (\<forall>k. mlookup (sh_Reported sh') k = (case mlookup v k of Some x \<Rightarrow> Some x | None \<Rightarrow>
        (case st_GetShadow d (sv_backend s) of Inl _ \<Rightarrow> None | Inr sh0 \<Rightarrow> mlookup (sh_Reported sh0) k))))"
  proof -
    obtain sh1 where sh1: "map_of (ms_shadows (the_store s')) d = Some sh1" "mlookup (sh_Reported sh1) = ?Y"
      using rec by (auto simp: recorded_def)
    have "?Y k = (case mlookup v k of Some x \<Rightarrow> Some x | None \<Rightarrow>
        (case st_GetShadow d (sv_backend s) of Inl _ \<Rightarrow> None | Inr sh0 \<Rightarrow> mlookup (sh_Reported sh0) k))" if v: "distinct (map fst (entries v))" for k
      using sh(4) shadows report_lookup [OF tev(1) [OF v], of sh k] tev(2)
      by (simp add: st_read_defs mem_GetShadow_def clone_updates split: option.splits)
    then show ?thesis using sh1 by (simp add: st_read_defs mem_GetShadow_def clone_updates)
  qed
  moreover have "cloneTelemetry te = te" by (simp add: te_def clone_updates)
  ultimately show ?thesis by (auto simp: t_def te_def)
qed

text \<open>C16: a reading that was accepted is the newest entry of the log of its device, the older ones being
  kept up to the retention, and the shadow reports its values over what it reported before; whatever
  the rules it triggered did (commands, configuration, alerts), they changed neither.\<close>
theorem telemetry_recorded:
  assumes "reachable s" "distinct (map fst (entries v))"
    "HandleTelemetry env d ts v s = (Inr (), s')"
    "st_ListTelemetryByDevice d 0 (sv_backend s) = Inr xs"
  shows "\<exists>t. (if time_IsZero ts then t = env_clock env (sv_ticks s) else t = ts) \<and>
    st_ListTelemetryByDevice d 0 (sv_backend s') =
      Inr (take (nat (ms_telemetryRetention (the_store s)))
        (\<lparr>tel_DeviceID = d, tel_Timestamp = t, tel_Values = cloneAnyMap v\<rparr> # xs)) \<and>
    (\<exists>sh. st_GetShadow d (sv_backend s') = Inr sh \<and>
      (\<forall>k. mlookup (sh_Reported sh) k = (case mlookup v k of Some x \<Rightarrow> Some x | None \<Rightarrow>
        (case st_GetShadow d (sv_backend s) of Inl _ \<Rightarrow> None | Inr sh0 \<Rightarrow> mlookup (sh_Reported sh0) k))))"
  using telemetry_effect [OF assms(1,3,4)] assms(2) by auto

theorem telemetry_recorded_witness:
  "\<exists>s'. HandleTelemetry demo_env ''d1'' 7 (Some [(''t'', AInt KInt 21)]) demo_service = (Inr (), s') \<and>
    st_ListTelemetryByDevice ''d1'' 0 (sv_backend s') =
      Inr [\<lparr>tel_DeviceID = ''d1'', tel_Timestamp = 7, tel_Values = Some [(''t'', AInt KInt 21)]\<rparr>]"
proof -
  have "fst (HandleTelemetry demo_env ''d1'' 7 (Some [(''t'', AInt KInt 21)]) demo_service) = Inr ()"
    by (simp add: HandleTelemetry_def run_simps op_simps label_eval st_write_defs st_read_defs mem_GetDevice_def
        loadProduct_def mem_GetProduct_def validate_product_values_def demo_fits time_IsZero_def mem_AppendTelemetry_def
        ensureShadow_eq Let_def mem_SaveShadow_def touch_Inr evaluateRules_def mem_ListRules_def sort_newest_def)
  then obtain s' where h: "HandleTelemetry demo_env ''d1'' 7 (Some [(''t'', AInt KInt 21)]) demo_service = (Inr (), s')"
    by (metis prod.collapse)
  from telemetry_recorded [OF demo_reachable _ h, of "[]"] h show ?thesis
    by (auto simp: st_read_defs mem_ListTelemetryByDevice_def lookup_list_def time_IsZero_def cloneAnyMap_def mlen_def)
qed

section \<open>Commands\<close>

lemma fail_command_Inr:
  assumes "fail_command env c x e s = (Inr (c', err), s')" "service_ok s" "mem_GetCommand (cmd_ID c) (the_store s) = Inr c"
  shows "err = Some e" "sv_sent s' = sv_sent s" "sv_counters s' = sv_counters s"
    "c' = c \<or> (\<exists>t. c' = c\<lparr>cmd_Status := CommandStatusFailed, cmd_Result := x, cmd_UpdatedAt := t\<rparr>) \<and>
      mem_GetCommand (cmd_ID c) (the_store s') = Inr c'"
proof -
  obtain r where u: "UpdateCommandStatus env (cmd_ID c) CommandStatusFailed x s = (r, s')"
    and c': "err = Some e" "c' = (case r of Inl _ \<Rightarrow> c | Inr u \<Rightarrow> u)"
    using assms(1) by (auto simp: fail_command_def tryS_def op_simps split: prod.splits sum.splits)
  show "err = Some e" by fact
  show "sv_sent s' = sv_sent s" "sv_counters s' = sv_counters s"
    using u by (auto simp: UpdateCommandStatus_def nowS_def bindS_def onStore_def split: prod.splits sum.splits)
  show "c' = c \<or> (\<exists>t. c' = c\<lparr>cmd_Status := CommandStatusFailed, cmd_Result := x, cmd_UpdatedAt := t\<rparr>) \<and>
      mem_GetCommand (cmd_ID c) (the_store s') = Inr c'"
  proof (cases r)
    case (Inr u')
    with u have "UpdateCommandStatus env (cmd_ID c) CommandStatusFailed x s = (Inr u', s')" by simp
    from update_command_Inr(1,2) [OF this assms(2)] show ?thesis using assms(3) c'(2) Inr by auto
  qed (use c'(2) in simp)
qed

text \<open>Delivering a stored command: it is sent on the session of the device, and its status is stored.\<close>

lemma deliver_outcome:
  assumes "deliver_command env d now c0 s = (Inr (c, err), s')" "service_ok s"
    "mem_GetCommand (cmd_ID c0) (the_store s) = Inr c0"
  shows "cmd_DeviceID c = cmd_DeviceID c0 \<and> cmd_Name c = cmd_Name c0 \<and> cmd_Params c = cmd_Params c0 \<and>
    (case dst_session (state_of (sv_states s) d) of
       None \<Rightarrow> err = Some ErrDeviceOffline \<and> sv_sent s' = sv_sent s
     | Some ses \<Rightarrow> err = map_option EOther (env_send env (sv_sends s)) \<and>
         sv_sent s' = sv_sent s @ (if err = None then [(ses, command_message c now)] else [])) \<and>
    ct_commandsSent (sv_counters s') = ct_commandsSent (sv_counters s) + (if err = None then 1 else 0) \<and>
    (if err = None then cmd_Status c = CommandStatusSent \<and> st_GetCommand (cmd_ID c) (sv_backend s') = Inr c
     else cmd_Status c = cmd_Status c0 \<or>
       cmd_Status c = CommandStatusFailed \<and> st_GetCommand (cmd_ID c) (sv_backend s') = Inr c)"
proof (cases "dst_session (state_of (sv_states s) d)")
  case None
  then have "fail_command env c0 ''device offline'' ErrDeviceOffline s = (Inr (c, err), s')"
    using assms(1) by (simp add: deliver_command_def op_simps)
  note f = fail_command_Inr [OF this assms(2,3)]
  show ?thesis using f None by (auto simp: st_read_defs)
next
  case (Some ses)
  let ?sent = "if env_send env (sv_sends s) = None then [(ses, command_message c0 now)] else []"
  define s3 where "s3 = s\<lparr>sv_sends := Suc (sv_sends s), sv_sent := sv_sent s @ ?sent\<rparr>"
  have s3: "sendMessage env ses (command_message c0 now) s = (Inr (env_send env (sv_sends s)), s3)"
    by (simp add: send_Inr s3_def)
  have bind: "bindS (sendMessage env ses (command_message c0 now)) f s = f (env_send env (sv_sends s)) s3"
    for f :: "string option \<Rightarrow> (Command \<times> gerr option) sv"
    using s3 by (simp add: bindS_def)
  have ok3: "service_ok s3" "mem_GetCommand (cmd_ID c0) (the_store s3) = Inr c0" "sv_sent s3 = sv_sent s @ ?sent"
      "sv_counters s3 = sv_counters s"
    using assms(2,3) by (simp_all add: s3_def)
  show ?thesis
  proof (cases "env_send env (sv_sends s)")
    case (Some e)
    then have "fail_command env c0 e (EOther e) s3 = (Inr (c, err), s')"
      using assms(1) s3 \<open>dst_session _ = Some ses\<close>
      by (simp add: deliver_command_def op_simps bind error_of_send_def)
    note f = fail_command_Inr [OF this ok3(1,2)]
    show ?thesis using f ok3 Some \<open>dst_session _ = Some ses\<close> by (auto simp: st_read_defs)
  next
    case None
    then obtain s4 s5 where u: "UpdateCommandStatus env (cmd_ID c0) CommandStatusSent ''sent'' s3 = (Inr c, s4)"
      and s5: "s5 = snd (recordCommandPublished (sessionTransportName ses)
        (s4\<lparr>sv_counters := (sv_counters s4)\<lparr>ct_commandsSent := ct_commandsSent (sv_counters s4) + 1\<rparr>\<rparr>))"
      and s': "s' = snd (TouchDevice d now s5)" and err: "err = None"
      using assms(1) \<open>dst_session _ = Some ses\<close>
      by (auto simp: deliver_command_def op_simps bind bindS_Inr prims_Inr touch_Inr record_Inr)
    note up = update_command_Inr [OF u ok3(1)]
    obtain t where c: "c = c0\<lparr>cmd_Status := CommandStatusSent, cmd_Result := ''sent'', cmd_UpdatedAt := t\<rparr>"
      using up(1) ok3(2) by auto
    have "command_message c now = command_message c0 now" by (simp add: c command_message_def)
    then show ?thesis
      using up ok3 c err None \<open>dst_session _ = Some ses\<close> by (simp add: st_read_defs s' s5)
  qed
qed

text \<open>C17: what becomes of a command to a stored device. Without a session it is not sent and the error is
  \<open>ErrDeviceOffline\<close>; with one it is sent once, on that session, with its ID, name and parameters; if the
  send fails nothing counts as sent and the command is failed. Exactly a command that was sent is
  stored as sent and counted.\<close>
theorem command_outcome:
  assumes "reachable s" "SendCommand env d n p s = (Inr (c, err), s')"
  shows "cmd_DeviceID c = d \<and> cmd_Name c = trim_space n \<and> cmd_Name c \<noteq> [] \<and> cmd_Params c = cloneAnyMap p \<and>
    (case dst_session (state_of (sv_states s) d) of
       None \<Rightarrow> err = Some ErrDeviceOffline \<and> sv_sent s' = sv_sent s
     | Some ses \<Rightarrow> err = map_option EOther (env_send env (sv_sends s)) \<and>
         sv_sent s' = sv_sent s @ (if err = None then [(ses, command_message c (env_clock env (sv_ticks s)))] else [])) \<and>
    ct_commandsSent (sv_counters s') = ct_commandsSent (sv_counters s) + (if err = None then 1 else 0) \<and>
    (if err = None then cmd_Status c = CommandStatusSent \<and> st_GetCommand (cmd_ID c) (sv_backend s') = Inr c
     else cmd_Status c = CommandStatusPending \<or>
       cmd_Status c = CommandStatusFailed \<and> st_GetCommand (cmd_ID c) (sv_backend s') = Inr c)"
proof -
  have ok: "service_ok s" using assms(1) by (rule reachable_service_ok)
  let ?s1 = "s\<lparr>sv_ticks := Suc (sv_ticks s), sv_rands := Suc (sv_rands s)\<rparr>"
  let ?now = "env_clock env (sv_ticks s)"
  define c0 where "c0 = new_command (NewID ''cmd'' (env_rand env (sv_rands s)) (env_clock env (Suc (sv_ticks s)))) d [] (trim_space n) p ?now"
  obtain s2 where n: "trim_space n \<noteq> []"
    and w: "onStore (st_write (env_fs env) (mem_SaveCommand c0)) ?s1 = (Inr (), s2)"
    and dl: "deliver_command env d ?now c0 s2 = (Inr (c, err), s')"
    using assms(2)
    by (auto simp: SendCommand_def sendCommandWithCampaign_def bindS_Inr prims_Inr Let_def st_write_defs c0_def)
  have ok2: "service_ok s2" using onStore_service_ok [OF w] ok by (simp add: series_ops_ok)
  note fr = onStore_frame [OF w]
  have "the_store s2 = snd (mem_SaveCommand c0 (the_store s))" using onStore_Inr(1) [OF w] ok by simp
  then have c0: "mem_GetCommand (cmd_ID c0) (the_store s2) = Inr c0"
    by (simp add: get_saved_command c0_def new_command_def clone_updates)
  have base: "cmd_DeviceID c0 = d" "cmd_Name c0 = trim_space n" "cmd_Params c0 = cloneAnyMap p"
      "cmd_Status c0 = CommandStatusPending"
    by (simp_all add: c0_def new_command_def)
  from deliver_outcome [OF dl ok2 c0] show ?thesis using fr(1,2,6,7) base n by (auto split: option.splits)
qed

theorem command_outcome_witness:
  "\<exists>c s'. SendCommand demo_env ''d1'' ''reboot'' None demo_online = (Inr (c, None), s') \<and>
    sv_sent s' = [(demo_session, command_message c 102)] \<and> cmd_Status c = CommandStatusSent"
proof -
  have "\<exists>c. fst (SendCommand demo_env ''d1'' ''reboot'' None demo_online) = Inr (c, None)"
    by (simp add: SendCommand_def sendCommandWithCampaign_def run_simps run_send op_simps label_eval st_write_defs
        st_read_defs mem_GetDevice_def loadProduct_def mem_GetProduct_def validate_command_def validateCommandName_def
        demo_thing_model_def mem_SaveCommand_def deliver_command_def state_of_def UpdateCommandStatus_def
        mem_UpdateCommandStatus_def new_command_def Let_def demo_ids)
  then obtain c s' where c: "SendCommand demo_env ''d1'' ''reboot'' None demo_online = (Inr (c, None), s')"
    by (metis prod.collapse)
  from command_outcome [OF demo_online_reachable c] c show ?thesis by (auto simp: state_of_def)
qed

text \<open>Updating the campaign of a command touches no command and no counter.\<close>

lemma campaign_frame:
  assumes "service_ok s"
  shows "mem_GetCommand j (the_store (snd (updateCampaignFromCommandAck env k st s))) = mem_GetCommand j (the_store s)"
    "sv_counters (snd (updateCampaignFromCommandAck env k st s)) = sv_counters s"
proof -
  let ?s1 = "s\<lparr>sv_ticks := Suc (sv_ticks s)\<rparr>"
  have w: "mem_GetCommand j (the_store (snd (onStore (st_write fs (mem_SaveOTACampaign c)) ?s1))) =
      mem_GetCommand j (the_store s)" for fs c
    by (rule onStore_keeps [where P = "\<lambda>t. mem_GetCommand j t = mem_GetCommand j (the_store s)"])
      (simp_all add: assms sort_members_def mem_GetCommand_def mem_SaveOTACampaign_def split: option.splits)
  then show "mem_GetCommand j (the_store (snd (updateCampaignFromCommandAck env k st s))) = mem_GetCommand j (the_store s)"
    by (auto simp: updateCampaignFromCommandAck_def run_simps st_write_defs split: sum.splits)
  show "sv_counters (snd (updateCampaignFromCommandAck env k st s)) = sv_counters s"
    by (auto simp: updateCampaignFromCommandAck_def run_simps onStore_def split: sum.splits prod.splits)
qed

text \<open>C18: an acknowledgement of a command that is unknown, or was sent to another device, is refused and
  changes nothing; one that is accepted sets the status of that command alone, to failed exactly for
  the three words that say so, and is counted once.\<close>
theorem ack_accepted:
  assumes "reachable s" "HandleCommandAck env d i status r s = (res, s')"
  shows "(\<not> (\<exists>c. st_GetCommand i (sv_backend s) = Inr c \<and> cmd_DeviceID c = d) \<longrightarrow>
      res = Inl ErrCommandNotFound \<and> s' = s) \<and>
    (res = Inr () \<longrightarrow>
      (\<exists>c c'. st_GetCommand i (sv_backend s) = Inr c \<and> cmd_DeviceID c = d \<and>
        st_GetCommand i (sv_backend s') = Inr c' \<and>
        c' = c\<lparr>cmd_Status := (if norm_label status \<in> {''failed'', ''error'', ''timeout''}
            then CommandStatusFailed else CommandStatusAcked), cmd_Result := trim_space r,
          cmd_UpdatedAt := env_clock env (sv_ticks s)\<rparr>) \<and>
      (\<forall>j. j \<noteq> i \<longrightarrow> st_GetCommand j (sv_backend s') = st_GetCommand j (sv_backend s)) \<and>
      ct_commandAcks (sv_counters s') = ct_commandAcks (sv_counters s) + 1)"
proof -
  have ok: "service_ok s" using assms(1) by (rule reachable_service_ok)
  have refused: "res = Inl ErrCommandNotFound \<and> s' = s"
    if none: "\<not> (\<exists>c. st_GetCommand i (sv_backend s) = Inr c \<and> cmd_DeviceID c = d)"
  proof (cases "st_GetCommand i (sv_backend s)")
    case (Inl e)
    then have "e = ErrCommandNotFound" by (auto simp: st_read_defs mem_GetCommand_def split: option.splits)
    then show ?thesis using assms(2) Inl by (auto simp: HandleCommandAck_def run_simps)
  next
    case (Inr c)
    then show ?thesis using assms(2) none by (auto simp: HandleCommandAck_def run_simps)
  qed
  have accepted: "(\<exists>c c'. st_GetCommand i (sv_backend s) = Inr c \<and> cmd_DeviceID c = d \<and>
        st_GetCommand i (sv_backend s') = Inr c' \<and>
        c' = c\<lparr>cmd_Status := (if norm_label status \<in> {''failed'', ''error'', ''timeout''}
            then CommandStatusFailed else CommandStatusAcked), cmd_Result := trim_space r,
          cmd_UpdatedAt := env_clock env (sv_ticks s)\<rparr>) \<and>
      (\<forall>j. j \<noteq> i \<longrightarrow> st_GetCommand j (sv_backend s') = st_GetCommand j (sv_backend s)) \<and>
      ct_commandAcks (sv_counters s') = ct_commandAcks (sv_counters s) + 1"
    if res: "res = Inr ()"
  proof -
    obtain c u s1 s2 where c: "st_GetCommand i (sv_backend s) = Inr c" "cmd_DeviceID c = d"
      and u: "UpdateCommandStatus env i (ack_status status) (trim_space r) s = (Inr u, s1)"
      and b: "(if cmd_CampaignID c \<noteq> []
            then tryS (updateCampaignFromCommandAck env (cmd_CampaignID c) (ack_status status)) (\<lambda>_. retS ())
            else retS ()) s1 = (Inr (), s2)"
      and s': "sv_backend s' = sv_backend s2" "ct_commandAcks (sv_counters s') = ct_commandAcks (sv_counters s2) + 1"
      using assms(2) res by (auto simp: HandleCommandAck_def Let_def bindS_Inr prims_Inr touch_Inr)
    note up = update_command_Inr [OF u ok]
    have camp: "mem_GetCommand j (the_store s2) = mem_GetCommand j (the_store s1)"
        "ct_commandAcks (sv_counters s2) = ct_commandAcks (sv_counters s1)" for j
      using b campaign_frame(1) [OF up(3), of j env "cmd_CampaignID c" "ack_status status"]
        campaign_frame(2) [OF up(3), of env "cmd_CampaignID c" "ack_status status"]
      by (auto simp: tryS_def op_simps split: if_splits prod.splits)
    have st: "ack_status status = (if norm_label status \<in> {''failed'', ''error'', ''timeout''}
        then CommandStatusFailed else CommandStatusAcked)"
      by (simp add: ack_status_def)
    show ?thesis using up(1,2,5) c camp s' st by (auto simp: st_read_defs)
  qed
  show ?thesis using refused accepted by blast
qed

theorem ack_accepted_witness:
  "HandleCommandAck demo_env ''d2'' ''c1'' ''done'' [] demo_service2 = (Inl ErrCommandNotFound, demo_service2)"
proof -
  obtain res s' where "HandleCommandAck demo_env ''d2'' ''c1'' ''done'' [] demo_service2 = (res, s')" by fastforce
  from ack_accepted [OF demo_reachable2 this] this show ?thesis
    by (auto simp: st_read_defs mem_GetCommand_def clone_updates)
qed

text \<open>One acknowledgement on the memory backend, as it moves the campaign of the command.\<close>

lemma run_update_command:
  assumes "sv_backend s = MemoryBackend st" "map_of (ms_commandByID st) i = Some c0"
  shows "bindS (UpdateCommandStatus env i stat r) f s =
    (let c = cloneCommand (c0\<lparr>cmd_Status := stat, cmd_Result := r, cmd_UpdatedAt := env_clock env (sv_ticks s)\<rparr>) in
     f c (s\<lparr>sv_ticks := Suc (sv_ticks s),
       sv_backend := MemoryBackend (st\<lparr>ms_commandByID := AList.update i c (ms_commandByID st)\<rparr>)\<rparr>))"
  using assms by (simp add: UpdateCommandStatus_def st_write_defs run_simps mem_UpdateCommandStatus_def Let_def)

lemma run_campaign:
  assumes "sv_backend s = MemoryBackend st" "mem_GetOTACampaign k st = Inr oc" "ota_ID oc = k"
  shows "updateCampaignFromCommandAck env k stat s = (Inr (), s\<lparr>sv_ticks := Suc (sv_ticks s),
    sv_backend := MemoryBackend (st\<lparr>ms_otaCampaigns :=
      AList.update k (ack_campaign stat (env_clock env (sv_ticks s)) oc) (ms_otaCampaigns st)\<rparr>)\<rparr>)"
proof -
  have "ota_ID (ack_campaign stat t oc) = k" for t using assms(3) by (simp add: ack_campaign_def Let_def)
  moreover obtain oc' where "map_of (ms_otaCampaigns st) k = Some oc'"
    using assms(2) by (auto simp: mem_GetOTACampaign_def split: option.splits)
  ultimately show ?thesis using assms(1,2)
    by (simp add: updateCampaignFromCommandAck_def run_simps st_write_defs st_read_defs onStore_memory
        mem_SaveOTACampaign_def)
qed

lemma ack_memory:
  assumes "sv_backend s = MemoryBackend st" "mem_GetCommand i st = Inr c" "cmd_CampaignID c \<noteq> []"
    "mem_GetOTACampaign (cmd_CampaignID c) st = Inr oc" "ota_ID oc = cmd_CampaignID c"
  shows "\<exists>s' st' c' t. HandleCommandAck env (cmd_DeviceID c) i status r s = (Inr (), s') \<and>
    sv_backend s' = MemoryBackend st' \<and> mem_GetCommand i st' = Inr c' \<and> cmd_DeviceID c' = cmd_DeviceID c \<and>
    cmd_CampaignID c' = cmd_CampaignID c \<and>
    mem_GetOTACampaign (cmd_CampaignID c) st' = Inr (ack_campaign (ack_status status) t oc)"
proof -
  let ?k = "cmd_CampaignID c"
  obtain c0 where c0: "map_of (ms_commandByID st) i = Some c0" "c = cloneCommand c0"
    using assms(2) by (auto simp: mem_GetCommand_def split: option.splits)
  let ?c = "cloneCommand (c0\<lparr>cmd_Status := ack_status status, cmd_Result := trim_space r,
    cmd_UpdatedAt := env_clock env (sv_ticks s)\<rparr>)"
  let ?st1 = "st\<lparr>ms_commandByID := AList.update i ?c (ms_commandByID st)\<rparr>"
  let ?s1 = "s\<lparr>sv_ticks := Suc (sv_ticks s), sv_backend := MemoryBackend ?st1\<rparr>"
  let ?oc = "ack_campaign (ack_status status) (env_clock env (sv_ticks ?s1)) oc"
  let ?st2 = "?st1\<lparr>ms_otaCampaigns := AList.update ?k ?oc (ms_otaCampaigns ?st1)\<rparr>"
  have g1: "mem_GetOTACampaign ?k ?st1 = Inr oc"
    using assms(4) by (simp add: mem_GetOTACampaign_def)
  have b1: "sv_backend ?s1 = MemoryBackend ?st1" by simp
  note camp = run_campaign [OF b1 g1 assms(5), of env "ack_status status"]
  have h: "HandleCommandAck env (cmd_DeviceID c) i status r s =
      bindS (tryS (updateCampaignFromCommandAck env ?k (ack_status status)) (\<lambda>_. retS ())) (\<lambda>_.
      bindS (count (\<lambda>c. c\<lparr>ct_commandAcks := ct_commandAcks c + 1\<rparr>)) (\<lambda>_.
      bindS (nowS env) (\<lambda>now. TouchDevice (cmd_DeviceID c) now))) ?s1"
    using assms(1-3) c0 by (simp add: HandleCommandAck_def run_simps st_read_defs run_update_command Let_def)
  have "fst (HandleCommandAck env (cmd_DeviceID c) i status r s) = Inr () \<and>
      sv_backend (snd (HandleCommandAck env (cmd_DeviceID c) i status r s)) = MemoryBackend ?st2"
    unfolding h by (simp add: bindS_def tryS_def camp retS_def count_def modS_def nowS_def)
  moreover have "mem_GetCommand i ?st2 = Inr ?c" by (simp add: mem_GetCommand_def clone_updates)
  moreover have "mem_GetOTACampaign ?k ?st2 = Inr ?oc" by (simp add: mem_GetOTACampaign_def)
  moreover have "cmd_DeviceID ?c = cmd_DeviceID c \<and> cmd_CampaignID ?c = cmd_CampaignID c"
    by (simp add: c0(2) clone_updates)
  ultimately show ?thesis by (metis prod.collapse)
qed



section \<open>OTA campaigns\<close>

text \<open>C20: the devices a campaign is sent to: the device, when it names one; else the members of its group,
  whatever their product; else the stored devices of its tenant and product, each once.\<close>
theorem campaign_targets:
  assumes "reachable s" "resolveOTATargetDevices c s = Inr ids"
  shows "(ota_DeviceID c \<noteq> [] \<longrightarrow> ids = [ota_DeviceID c]) \<and>
    (ota_DeviceID c = [] \<and> ota_GroupID c \<noteq> [] \<longrightarrow> distinct ids \<and>
      (\<forall>d. d \<in> set ids \<longleftrightarrow> d \<in> set (lookup_list (ms_deviceIDsByGroup (the_store s)) (ota_GroupID c)))) \<and>
    (ota_DeviceID c = [] \<and> ota_GroupID c = [] \<longrightarrow> distinct ids \<and>
      (\<forall>d. d \<in> set ids \<longleftrightarrow> (\<exists>dev. st_GetDevice d (sv_backend s) = Inr dev \<and>
        in_tenant (ota_TenantID c) (dev_TenantID dev) \<and>
        (ota_ProductID c = [] \<or> dev_ProductID dev = ota_ProductID c))))"
proof -
  have st: "store_ok (the_store s)" using assms(1) by (intro service_store_ok reachable_service_ok)
  have grp: "distinct ids \<and> set ids = set (lookup_list (ms_deviceIDsByGroup (the_store s)) (ota_GroupID c))"
    if "ota_DeviceID c = []" "ota_GroupID c \<noteq> []"
    using assms(2) that st
    by (auto simp: resolveOTATargetDevices_def st_read_defs mem_ListDeviceIDsByGroup_def store_ok_def members_ok_def
        members_inv_def cloneStringSliceSorted_def split: if_splits)
  have all: "distinct ids \<and> (\<forall>d. d \<in> set ids \<longleftrightarrow> (\<exists>dev. st_GetDevice d (sv_backend s) = Inr dev \<and>
        in_tenant (ota_TenantID c) (dev_TenantID dev) \<and>
        (ota_ProductID c = [] \<or> dev_ProductID dev = ota_ProductID c)))"
    if none: "ota_DeviceID c = []" "ota_GroupID c = []"
  proof -
    let ?P = "\<lambda>dev. in_tenant (ota_TenantID c) (dev_TenantID dev) \<and>
      (ota_ProductID c = [] \<or> dev_ProductID dev = ota_ProductID c)"
    obtain ds where ds: "mem_ListDevices (the_store s) = Inr ds" "ids = map dev_ID (filter ?P ds)"
      using assms(2) none by (auto simp: resolveOTATargetDevices_def st_read_defs bindE_Inr)
    have tab: "devices.table_ok (the_store s)" using st by (simp add: store_ok_def tables_ok_def)
    have "distinct (map dev_ID ds)" by (rule devices.lst_distinct [OF tab ds(1)])
    moreover have "dev \<in> set ds \<longleftrightarrow> mem_GetDevice (dev_ID dev) (the_store s) = Inr dev" for dev
      by (rule devices.lst_set [OF tab ds(1)])
    ultimately show ?thesis
      using store_keys(3) [OF st] by (auto simp: ds(2) distinct_map_filter st_read_defs)
  qed
  show ?thesis using grp all assms(2) by (auto simp: resolveOTATargetDevices_def)
qed

theorem campaign_targets_witness:
  "\<exists>ids. resolveOTATargetDevices demo_campaign demo_service2 = Inr ids \<and> distinct ids"
proof -
  obtain ids where "resolveOTATargetDevices demo_campaign demo_service2 = Inr ids"
    using devices.lst_total [of demo_store2]
    by (auto simp: resolveOTATargetDevices_def demo_campaign_def st_read_defs bindE_Inr)
  with campaign_targets [OF demo_reachable2 this] show ?thesis by (auto simp: demo_campaign_def)
qed

lemma create_campaign_same:
  "mem_CreateOTACampaign c st = (Inr u, st') \<Longrightarrow> ms_devices st' = ms_devices st \<and> ms_groups st' = ms_groups st \<and>
    ms_deviceIDsByGroup st' = ms_deviceIDsByGroup st"
  by (auto simp: mem_CreateOTACampaign_def split: option.splits)

lemma dispatch_Inr:
  assumes "dispatchOTACampaign env c0 a s = (Inr c, s')" "service_ok s" "ota_AckedCount c0 = 0"
  shows "\<exists>ids k m. resolveOTATargetDevices c0 s = Inr ids \<and>
    c = dispatched (counted (c0\<lparr>ota_TotalDevices := int (length ids), ota_DispatchedCount := 0, ota_FailedCount := 0\<rparr>)
      (int k) (int m)) (env_clock env (sv_ticks s)) \<and> k + m = length ids \<and>
    st_GetOTACampaign (ota_ID c) (sv_backend s') = Inr c"
proof -
  let ?s1 = "s\<lparr>sv_ticks := Suc (sv_ticks s)\<rparr>"
  obtain ids c1 s2 where ids: "resolveOTATargetDevices c0 s = Inr ids"
    and loop: "dispatch_targets env (ota_params c0 a) ids
        (c0\<lparr>ota_TotalDevices := int (length ids), ota_DispatchedCount := 0, ota_FailedCount := 0\<rparr>) ?s1 = (Inr c1, s2)"
    and c: "c = dispatched c1 (env_clock env (sv_ticks s))"
    and w: "onStore (st_write (env_fs env) (mem_SaveOTACampaign c)) s2 = (Inr (), s')"
    using assms(1) by (auto simp: dispatchOTACampaign_def bindS_Inr prims_Inr Let_def st_write_defs)
  have "service_ok s2" using preserves_pair [OF dispatch_ok(2) _ loop] assms(2) by simp
  then have "mem_SaveOTACampaign c (the_store s2) = (Inr (), the_store s')" using onStore_Inr(1) [OF w] by simp
  then have "st_GetOTACampaign (ota_ID c) (sv_backend s') = Inr c"
    using otacampaigns.get_save [of c "the_store s2" "the_store s'" "ota_ID c"] by (simp add: st_read_defs)
  moreover obtain k where "k \<le> length ids"
      "c1 = counted (c0\<lparr>ota_TotalDevices := int (length ids), ota_DispatchedCount := 0, ota_FailedCount := 0\<rparr>)
        (int k) (int (length ids - k))"
    using dispatch_targets_counts [of ids env "ota_params c0 a" "c0\<lparr>ota_TotalDevices := int (length ids),
        ota_DispatchedCount := 0, ota_FailedCount := 0\<rparr>" ?s1] loop by auto
  ultimately show ?thesis using ids c by (metis le_add_diff_inverse)
qed



section \<open>Alerts\<close>

text \<open>The listing of alerts by tenant takes the newest \<open>alert_source_limit\<close> alerts of all tenants and
  only then filters by tenant, product, group, device and rule: what it shows is in order and in
  scope, but with a tenant as the only filter the alerts of a tenant are missing once other tenants
  have raised that many newer ones.\<close>
lemma alert_listing:
  "ListAlertsByTenant t n p g d r s =
    (let recent = take (nat (alert_source_limit n p g d r)) (rev (map cloneAlert (ms_alerts (the_store s))));
         found = filter (alert_matches t (trim_space p) (trim_space g) (trim_space d) (trim_space r)) recent in
     Inr (if n > 0 then take (nat n) found else found)) \<and>
   alert_source_limit n p [] [] [] = (if p = [] then (if n \<le> 0 then 100 else n) else max 200 n)"
proof -
  let ?L = "alert_source_limit n p g d r"
  have L: "?L > 0" by (simp add: alert_source_limit_def Let_def)
  have "st_ListAlerts ?L (sv_backend s) = Inr (take (nat ?L) (rev (map cloneAlert (ms_alerts (the_store s)))))"
    using L by (simp add: st_read_defs mem_ListAlerts_def newest_take take_map rev_map)
  then show ?thesis
    by (simp add: ListAlertsByTenant_def filter_limit_take Let_def max_def alert_source_limit_def)
qed

lemma replace_first_effect:
  "replace_first a as = Some bs \<Longrightarrow> cloneAlert a \<in> set bs \<and> map alt_ID bs = map alt_ID as \<and>
    (\<forall>b \<in> set as. alt_ID b \<noteq> alt_ID a \<longrightarrow> b \<in> set bs)"
  by (induction as arbitrary: bs) (auto split: if_splits)

lemma save_alert_Inr:
  "mem_SaveAlert a st = (Inr u, st') \<Longrightarrow> \<exists>bs. replace_first a (ms_alerts st) = Some bs \<and> ms_alerts st' = bs"
  by (auto simp: mem_SaveAlert_def split: option.splits)

text \<open>An update sets the status and the note of an alert and nothing of another one. Acknowledging
  stamps the acknowledgement, resolving stamps the resolution and an acknowledgement that is missing;
  putting the alert back to new keeps both stamps. A status outside the three is refused and changes
  nothing.\<close>
lemma alert_update:
  assumes "st_GetAlert (trim_space i) (sv_backend s) = Inr a0" "service_ok s"
    "UpdateAlert env i st note s = (res, s')"
  shows "(normalizeAlertStatus st = [] \<longrightarrow> res = Inl (ErrInvalidAlert [''unsupported alert status'']) \<and> s' = s) \<and>
    (\<forall>a. res = Inr a \<longrightarrow>
      a = a0\<lparr>alt_Status := normalizeAlertStatus st, alt_Note := trim_space note,
        alt_AckAt := (if normalizeAlertStatus st = AlertStatusAcknowledged \<or>
            normalizeAlertStatus st = AlertStatusResolved \<and> alt_AckAt a0 = None
          then Some (env_clock env (sv_ticks s)) else alt_AckAt a0),
        alt_ResolvedAt := (if normalizeAlertStatus st = AlertStatusResolved
          then Some (env_clock env (sv_ticks s)) else alt_ResolvedAt a0)\<rparr> \<and>
      normalizeAlertStatus st \<in> {AlertStatusNew, AlertStatusAcknowledged, AlertStatusResolved} \<and>
      cloneAlert a \<in> set (ms_alerts (the_store s')) \<and>
      map alt_ID (ms_alerts (the_store s')) = map alt_ID (ms_alerts (the_store s)) \<and>
      (\<forall>b \<in> set (ms_alerts (the_store s)). alt_ID b \<noteq> alt_ID a \<longrightarrow> b \<in> set (ms_alerts (the_store s'))))"
proof -
  let ?n = "normalizeAlertStatus st"
  have n: "?n \<in> {[], AlertStatusNew, AlertStatusAcknowledged, AlertStatusResolved}"
    by (simp add: normalizeAlertStatus_def)
  have distinct: "AlertStatusNew \<noteq> []" "AlertStatusAcknowledged \<noteq> AlertStatusResolved"
    by (simp_all add: AlertStatusNew_def AlertStatusAcknowledged_def AlertStatusResolved_def)
  let ?now = "env_clock env (sv_ticks s)"
  let ?s1 = "s\<lparr>sv_ticks := Suc (sv_ticks s)\<rparr>"
  show ?thesis
  proof (cases "?n = []")
    case True
    then show ?thesis using assms(1,3) by (auto simp: UpdateAlert_def run_simps Let_def)
  next
    case False
    let ?a = "a0\<lparr>alt_Status := ?n, alt_Note := trim_space note,
        alt_AckAt := (if ?n = AlertStatusAcknowledged \<or> ?n = AlertStatusResolved \<and> alt_AckAt a0 = None
          then Some ?now else alt_AckAt a0),
        alt_ResolvedAt := (if ?n = AlertStatusResolved then Some ?now else alt_ResolvedAt a0)\<rparr>"
    have eq: "(if ?n = AlertStatusAcknowledged then a0\<lparr>alt_Status := ?n, alt_Note := trim_space note, alt_AckAt := Some ?now\<rparr>
        else if ?n = AlertStatusResolved then
          (if alt_AckAt (a0\<lparr>alt_Status := ?n, alt_Note := trim_space note\<rparr>) = None
           then a0\<lparr>alt_Status := ?n, alt_Note := trim_space note, alt_AckAt := Some ?now\<rparr>
           else a0\<lparr>alt_Status := ?n, alt_Note := trim_space note\<rparr>)\<lparr>alt_ResolvedAt := Some ?now\<rparr>
        else a0\<lparr>alt_Status := ?n, alt_Note := trim_space note\<rparr>) = ?a"
      using distinct(2) by (cases a0) auto
    define a' where "a' = ?a"
    have run: "UpdateAlert env i st note s = bindS (onStore (st_write (env_fs env) (mem_SaveAlert a'))) (\<lambda>_. retS a') ?s1"
      using assms(1) False eq unfolding a'_def by (simp add: UpdateAlert_def run_simps Let_def st_write_defs)
    have "a = a' \<and> cloneAlert a \<in> set (ms_alerts (the_store s')) \<and>
        map alt_ID (ms_alerts (the_store s')) = map alt_ID (ms_alerts (the_store s)) \<and>
        (\<forall>b \<in> set (ms_alerts (the_store s)). alt_ID b \<noteq> alt_ID a \<longrightarrow> b \<in> set (ms_alerts (the_store s')))"
      if "res = Inr a" for a
    proof -
      have a: "a = a'" and w: "onStore (st_write (env_fs env) (mem_SaveAlert a')) ?s1 = (Inr (), s')"
        using assms(3) [unfolded run that bindS_Inr] by (auto simp: prims_Inr)
      have ok1: "service_ok ?s1" using assms(2) by simp
      have "mem_SaveAlert a' (the_store s) = (Inr (), the_store s')" using onStore_Inr(1) [OF w ok1] by simp
      then obtain bs where "replace_first a' (ms_alerts (the_store s)) = Some bs" "ms_alerts (the_store s') = bs"
        using save_alert_Inr by blast
      with replace_first_effect [OF this(1)] show ?thesis unfolding a by blast
    qed
    with False n show ?thesis unfolding a'_def by blast
  qed
qed

definition demo_alert :: AlertEvent where
  "demo_alert = \<lparr>alt_ID = ''a1'', alt_RuleID = ''r1'', alt_RuleName = ''hot'', alt_TenantID = [], alt_ProductID = ''p1'',
     alt_GroupID = [], alt_DeviceID = ''d1'', alt_DeviceName = ''probe'', alt_Property = ''t'', alt_Operator = ''gt'',
     alt_Threshold = AInt KInt 30, alt_Value = AInt KInt 31, alt_Severity = ''warning'', alt_Status = AlertStatusNew,
     alt_Message = ''hot'', alt_Note = [], alt_AckAt = None, alt_ResolvedAt = None, alt_TriggeredAt = 9\<rparr>"

definition demo_alert_service :: Service where
  "demo_alert_service = NewService demo_env (MemoryBackend (demo_store\<lparr>ms_alerts := [demo_alert]\<rparr>))"

lemma alert_update_example:
  "\<exists>a s'. UpdateAlert demo_env ''a1'' ''closed'' ''fixed'' demo_alert_service = (Inr a, s') \<and>
    alt_Status a = AlertStatusResolved \<and> alt_AckAt a = Some 101 \<and> alt_ResolvedAt a = Some 101"
proof -
  have "store_ok (demo_store\<lparr>ms_alerts := [demo_alert]\<rparr>)"
    using demo_store_ok
    by (simp add: store_ok_def tables_ok_def table_ok_defs retention_defs members_ok_def commands_ok_def)
  then have ok: "service_ok demo_alert_service"
    by (simp add: demo_alert_service_def NewService_ok backend_ok_def)
  have b: "sv_backend demo_alert_service = MemoryBackend (demo_store\<lparr>ms_alerts := [demo_alert]\<rparr>)"
      "sv_ticks demo_alert_service = 1"
    by (simp_all add: demo_alert_service_def NewService_def)
  have clone: "cloneAlert demo_alert = demo_alert" and id: "alt_ID demo_alert = ''a1''"
    by (simp_all add: demo_alert_def cloneAlert_def)
  have g: "st_GetAlert (trim_space ''a1'') (sv_backend demo_alert_service) = Inr demo_alert"
    by (simp add: st_read_defs b mem_GetAlert_def label_eval clone id)
  have n: "normalizeAlertStatus ''closed'' = AlertStatusResolved" by (simp add: normalizeAlertStatus_def label_eval)
  have d: "AlertStatusResolved \<noteq> []" "AlertStatusResolved \<noteq> AlertStatusAcknowledged"
    by (simp_all add: AlertStatusResolved_def AlertStatusAcknowledged_def)
  have saved: "fst (mem_SaveAlert a (demo_store\<lparr>ms_alerts := [demo_alert]\<rparr>)) = Inr ()" if "alt_ID a = ''a1''" for a
    using that by (simp add: mem_SaveAlert_def id)
  have "\<exists>a. fst (UpdateAlert demo_env ''a1'' ''closed'' ''fixed'' demo_alert_service) = Inr a"
    unfolding UpdateAlert_def run_simps(4) g st_write_defs n
    by (simp add: run_simps(1,5,10) b d saved id op_simps Let_def)
  then obtain a s' where u: "UpdateAlert demo_env ''a1'' ''closed'' ''fixed'' demo_alert_service = (Inr a, s')"
    by (metis prod.collapse)
  with alert_update [OF g ok u] show ?thesis by (simp add: n d b demo_alert_def)
qed

end
