(* ===== verification/Ingest.thy ===== *)
theory Ingest
  imports AccessProfile
begin

text \<open>
  The resolver of uplink payloads (internal/ingest/resolver.go): which part of a payload are the values
  of a reading, the point mappings of the product, and the timestamp.

  \<open>strconv.ParseFloat\<close> and \<open>time.Parse(time.RFC3339, _)\<close> are the two functions of \<open>TextEnv\<close>: the code
  only asks whether they accept a text, and for the value. \<open>strconv.ParseInt\<close> is \<open>parse_int\<close>.
\<close>

record TextEnv =
  te_ParseFloat :: "string \<Rightarrow> f64 option"
  te_ParseRFC3339 :: "string \<Rightarrow> time option"

section \<open>Numbers\<close>

definition f64_val :: "f64 \<Rightarrow> rat" where
  "f64_val x = (case x of Fin q \<Rightarrow> q | _ \<Rightarrow> 0)"

definition f64_neg :: "f64 \<Rightarrow> bool" where
  "f64_neg x \<longleftrightarrow> (case x of NInf \<Rightarrow> True | NegZero \<Rightarrow> True | Fin q \<Rightarrow> q < 0 | _ \<Rightarrow> False)"

definition f64_mul :: "f64 \<Rightarrow> f64 \<Rightarrow> f64" where
  "f64_mul x y =
     (if x = NaN \<or> y = NaN then NaN
      else let inf = (x \<in> {PInf, NInf} \<or> y \<in> {PInf, NInf});
               zero = (x \<in> {Fin 0, NegZero} \<or> y \<in> {Fin 0, NegZero});
               neg = (f64_neg x \<noteq> f64_neg y) in
      if inf then (if zero then NaN else if neg then NInf else PInf)
      else if zero then (if neg then NegZero else Fin 0)
      else round64 (f64_val x * f64_val y))"

definition f64_add :: "f64 \<Rightarrow> f64 \<Rightarrow> f64" where
  "f64_add x y =
     (if x = NaN \<or> y = NaN then NaN
      else if x \<in> {PInf, NInf} then (if y \<in> {PInf, NInf} \<and> y \<noteq> x then NaN else x)
      else if y \<in> {PInf, NInf} then y
      else if x = NegZero \<and> y = NegZero then NegZero
      else if f64_val x + f64_val y = 0 then Fin 0
      else round64 (f64_val x + f64_val y))"

text \<open>\<open>int64(x)\<close>: toward zero. Out of range the result is implementation-specific; on amd64 it is the
  smallest \<open>int64\<close>.\<close>

definition int64_of_f64 :: "f64 \<Rightarrow> int" where
  "int64_of_f64 x =
     (case x of
        Fin q \<Rightarrow> (let n = (if q \<ge> 0 then \<lfloor>q\<rfloor> else \<lceil>q\<rceil>) in if in_int64 n then n else int64_min)
      | NegZero \<Rightarrow> 0
      | _ \<Rightarrow> int64_min)"

text \<open>\<open>strconv.ParseInt(raw, 10, 64)\<close>.\<close>

definition digit_val :: "char \<Rightarrow> int option" where
  "digit_val c = (if CHR ''0'' \<le> c \<and> c \<le> CHR ''9'' then Some (int (of_char c) - 48) else None)"

fun parse_digits :: "int \<Rightarrow> string \<Rightarrow> int option" where
  "parse_digits acc [] = Some acc"
| "parse_digits acc (c # cs) =
     (case digit_val c of None \<Rightarrow> None | Some d \<Rightarrow> parse_digits (10 * acc + d) cs)"

definition parse_int :: "string \<Rightarrow> int option" where
  "parse_int raw =
     (let neg = has_prefix raw ''-''; digits = (if neg \<or> has_prefix raw ''+'' then drop 1 raw else raw) in
      if digits = [] then None
      else (case parse_digits 0 digits of
          None \<Rightarrow> None
        | Some n \<Rightarrow> (let v = (if neg then - n else n) in if in_int64 v then Some v else None)))"

section \<open>Timestamps\<close>

definition timestamp_keys :: "string list" where
  "timestamp_keys = [''ts'', ''timestamp'', ''time'']"

text \<open>What one key of the payload says; \<open>None\<close> is \<open>continue\<close>.\<close>

definition timestamp_of :: "TextEnv \<Rightarrow> goany \<Rightarrow> time option" where
  "timestamp_of env value =
     (case value of
        AF64 typed \<Rightarrow>
          Some (if f64_lt (Fin 1000000000000) typed then time_UnixMilli (int64_of_f64 typed)
            else time_Unix (int64_of_f64 typed))
      | AStr typed \<Rightarrow>
          (let raw = trim_space typed in
           if raw = [] then None
           else (case parse_int raw of
               Some unixValue \<Rightarrow>
                 Some (if unixValue > 1000000000000 then time_UnixMilli unixValue else time_Unix unixValue)
             | None \<Rightarrow> te_ParseRFC3339 env raw))
      | _ \<Rightarrow> None)"

fun first_timestamp :: "TextEnv \<Rightarrow> anymap \<Rightarrow> string list \<Rightarrow> time option" where
  "first_timestamp env payload [] = None"
| "first_timestamp env payload (key # keys) =
     (case mlookup payload key of
        None \<Rightarrow> first_timestamp env payload keys
      | Some value \<Rightarrow>
          (case timestamp_of env value of Some t \<Rightarrow> Some t | None \<Rightarrow> first_timestamp env payload keys))"

definition ExtractTimestamp :: "TextEnv \<Rightarrow> anymap \<Rightarrow> time \<Rightarrow> time" where
  "ExtractTimestamp env payload fallback =
     (case first_timestamp env payload timestamp_keys of Some t \<Rightarrow> t | None \<Rightarrow> fallback)"

section \<open>Values\<close>

fun extractFirstMap :: "anymap \<Rightarrow> string list \<Rightarrow> (string \<times> goany) list option" where
  "extractFirstMap payload [] = None"
| "extractFirstMap payload (key # keys) =
     (case mlookup payload key of
        Some (AMap mapped) \<Rightarrow> Some mapped
      | _ \<Rightarrow> extractFirstMap payload keys)"

definition reserved_keys :: "string list" where
  "reserved_keys = [''token'', ''ts'', ''timestamp'', ''time'', ''protocol'', ''values'', ''telemetry'',
     ''properties'', ''data'', ''registers'', ''nodes'', ''objects'', ''device_id'', ''command_id'',
     ''status'', ''message'', ''type'']"

definition filterReservedPayloadKeys :: "anymap \<Rightarrow> anymap" where
  "filterReservedPayloadKeys payload = Some (filter (\<lambda>(key, _). key \<notin> set reserved_keys) (entries payload))"

definition lookupNestedValue :: "anymap \<Rightarrow> string \<Rightarrow> string \<Rightarrow> goany option" where
  "lookupNestedValue payload containerKey itemKey =
     (case mlookup payload containerKey of
        Some (AMap mapped) \<Rightarrow> map_of mapped itemKey
      | _ \<Rightarrow> None)"

text \<open>\<open>strings.Cut(source, ".")\<close>.\<close>

definition cut_dot :: "string \<Rightarrow> string \<times> string" where
  "cut_dot source = (takeWhile (\<lambda>c. c \<noteq> CHR ''.'') source, drop 1 (dropWhile (\<lambda>c. c \<noteq> CHR ''.'') source))"

fun first_nested :: "anymap \<Rightarrow> string list \<Rightarrow> string \<Rightarrow> goany option" where
  "first_nested payload [] source = None"
| "first_nested payload (containerKey # keys) source =
     (case lookupNestedValue payload containerKey source of
        Some value \<Rightarrow> Some value
      | None \<Rightarrow> first_nested payload keys source)"

definition lookupSourceValue :: "anymap \<Rightarrow> string \<Rightarrow> goany option" where
  "lookupSourceValue payload source =
     (let source = trim_space source in
      if has_prefix source ''register:'' then lookupNestedValue payload ''registers'' (trim_prefix source ''register:'')
      else if has_prefix source ''nodes.'' then lookupNestedValue payload ''nodes'' (trim_prefix source ''nodes.'')
      else if has_prefix source ''objects.'' then lookupNestedValue payload ''objects'' (trim_prefix source ''objects.'')
      else if has_prefix source ''values.'' then lookupNestedValue payload ''values'' (trim_prefix source ''values.'')
      else if CHR ''.'' \<in> set source then
        (case cut_dot source of (prfx, sffx) \<Rightarrow> lookupNestedValue payload prfx sffx)
      else (case mlookup payload source of
          Some value \<Rightarrow> Some value
        | None \<Rightarrow> first_nested payload
            [''registers'', ''nodes'', ''objects'', ''values'', ''properties'', ''data''] source))"

definition float64Value :: "TextEnv \<Rightarrow> goany \<Rightarrow> f64 option" where
  "float64Value env value =
     (case value of
        AF64 typed \<Rightarrow> Some typed
      | AF32 typed \<Rightarrow> Some typed
      | AInt _ typed \<Rightarrow> Some (float64_of_int typed)
      | AStr typed \<Rightarrow> te_ParseFloat env (trim_space typed)
      | _ \<Rightarrow> None)"

definition applyMapping :: "TextEnv \<Rightarrow> goany \<Rightarrow> ProtocolPointMapping \<Rightarrow> goany" where
  "applyMapping env value item =
     (let scale = (if f64_eq (pm_Scale item) (Fin 0) then Fin 1 else pm_Scale item) in
      case float64Value env value of
        Some numeric \<Rightarrow> AF64 (f64_add (f64_mul numeric scale) (pm_Offset item))
      | None \<Rightarrow> value)"

definition map_point :: "TextEnv \<Rightarrow> anymap \<Rightarrow> ProtocolPointMapping \<Rightarrow> (string \<times> goany) list \<Rightarrow> (string \<times> goany) list" where
  "map_point env payload item acc =
     (case lookupSourceValue payload (pm_Source item) of
        None \<Rightarrow> acc
      | Some value \<Rightarrow> AList.update (pm_Property item) (applyMapping env value item) acc)"

definition resolveMappedValues :: "TextEnv \<Rightarrow> anymap \<Rightarrow> ProductAccessProfile \<Rightarrow> anymap" where
  "resolveMappedValues env payload accessProfile =
     (if length (ap_PointMappings accessProfile) = 0 then None
      else Some (fold (map_point env payload) (ap_PointMappings accessProfile) []))"

definition BuildValues :: "TextEnv \<Rightarrow> anymap \<Rightarrow> ProductAccessProfile \<Rightarrow> anymap res" where
  "BuildValues env payload accessProfile =
     (let direct = extractFirstMap payload [''values'', ''telemetry'', ''properties'', ''data''] in
      if direct \<noteq> None \<and> mlen direct > 0 then Inr direct
      else
        let mapped = resolveMappedValues env payload accessProfile in
        if mlen mapped > 0 then Inr mapped
        else
          let flat = filterReservedPayloadKeys payload in
          if (ap_PayloadFormat accessProfile = ''flat_json'' \<or> ap_PayloadFormat accessProfile = [] \<or>
              ap_Protocol accessProfile = ''http_json'' \<or> ap_Protocol accessProfile = ''mqtt_json'') \<and> mlen flat > 0
          then Inr flat
          else Inl (EOther ''unsupported payload shape''))"

section \<open>Where the values come from\<close>

lemma extractFirstMap_Some:
  "extractFirstMap payload keys = Some m \<Longrightarrow> \<exists>k \<in> set keys. mlookup payload k = Some (AMap m)"
  by (induction payload keys rule: extractFirstMap.induct) (auto split: option.splits goany.splits)

text \<open>A mapped value was made by the last mapping of its property whose source is in the payload.\<close>

definition mapped_from :: "TextEnv \<Rightarrow> anymap \<Rightarrow> ProtocolPointMapping list \<Rightarrow> string \<times> goany \<Rightarrow> bool" where
  "mapped_from env payload items kv \<longleftrightarrow>
     (\<exists>item \<in> set items. pm_Property item = fst kv \<and>
       (\<exists>raw. lookupSourceValue payload (pm_Source item) = Some raw \<and> snd kv = applyMapping env raw item))"

lemma fold_map_point:
  assumes "\<forall>kv \<in> set acc. mapped_from env payload all kv" "set items \<subseteq> set all" "distinct (map fst acc)"
  shows "(\<forall>kv \<in> set (fold (map_point env payload) items acc). mapped_from env payload all kv) \<and>
    distinct (map fst (fold (map_point env payload) items acc))"
  using assms
proof (induction items arbitrary: acc)
  case (Cons item items)
  have "\<forall>kv \<in> set (map_point env payload item acc). mapped_from env payload all kv"
  proof (cases "lookupSourceValue payload (pm_Source item)")
    case (Some raw)
    have "mapped_from env payload all (pm_Property item, applyMapping env raw item)"
      using Some Cons.prems(2) by (auto simp: mapped_from_def)
    then show ?thesis using Cons.prems(1) Some by (auto simp: map_point_def dest!: set_update_cases)
  qed (use Cons.prems(1) in \<open>simp add: map_point_def\<close>)
  moreover have "distinct (map fst (map_point env payload item acc))"
    using Cons.prems(3) by (simp add: map_point_def split: option.splits)
  ultimately show ?case using Cons by simp
qed simp

lemma resolved_values:
  "\<forall>kv \<in> set (entries (resolveMappedValues env payload profile)). mapped_from env payload (ap_PointMappings profile) kv"
  "mwf (resolveMappedValues env payload profile)"
  using fold_map_point [of "[]" env payload "ap_PointMappings profile" "ap_PointMappings profile"]
  by (auto simp: resolveMappedValues_def mwf_def)

text \<open>Every mapping whose source is in the payload gives its property a value.\<close>

lemma resolved_complete:
  assumes "item \<in> set (ap_PointMappings profile)" "lookupSourceValue payload (pm_Source item) \<noteq> None"
  shows "mlookup (resolveMappedValues env payload profile) (pm_Property item) \<noteq> None"
proof -
  have keep: "map_of acc k \<noteq> None \<Longrightarrow> map_of (fold (map_point env payload) items acc) k \<noteq> None" for acc items k
    by (induction items arbitrary: acc) (auto simp: map_point_def split: option.splits)
  have "map_of (fold (map_point env payload) items acc) (pm_Property item) \<noteq> None"
    if "item \<in> set items" for acc items
    using that
  proof (induction items arbitrary: acc)
    case (Cons i items)
    show ?case
    proof (cases "i = item")
      case True
      then have "map_of (map_point env payload i acc) (pm_Property item) \<noteq> None"
        using assms(2) by (auto simp: map_point_def)
      then show ?thesis using keep by simp
    qed (use Cons in simp)
  qed simp
  with assms(1) show ?thesis by (auto simp: resolveMappedValues_def mlookup_def)
qed

end
