(* ===== verification/SessionRegistry.thy ===== *)
theory SessionRegistry
  imports ServiceLemmas
begin

text \<open>
  The session registry as the transports use it. The locale \<open>session_registry\<close> states the contract of
  \<open>RegisterSession\<close> and \<open>UnregisterSession\<close> (internal/core/service.go): a registration gives the device
  this session, and a session is only unregistered by its own ID. The transports' lemmas are proved
  from the contract, which the service's own registry is shown to meet.
\<close>

section \<open>Contract\<close>

locale session_registry =
  fixes register :: "string \<Rightarrow> string \<Rightarrow> 's \<Rightarrow> 's"
    and unregister :: "string \<Rightarrow> string \<Rightarrow> 's \<Rightarrow> 's"
    and holder :: "'s \<Rightarrow> string \<Rightarrow> string option"
  assumes holder_register: "holder (register d i s) = (holder s)(d \<mapsto> i)"
    and holder_unregister: "holder (unregister d i s) = (if holder s d = Some i then (holder s)(d := None) else holder s)"
begin

text \<open>The session \<open>i\<close> is registered for devices of \<open>D\<close> only.\<close>

definition only :: "string \<Rightarrow> string set \<Rightarrow> 's \<Rightarrow> bool" where
  "only i D s \<longleftrightarrow> (\<forall>d. holder s d = Some i \<longrightarrow> d \<in> D)"

lemma only_register: "only i D s \<Longrightarrow> only i (insert d D) (register d j s)"
  by (auto simp: only_def holder_register)

lemma only_unregister: "only i (insert d D) s \<Longrightarrow> only i D (unregister d i s)"
  by (auto simp: only_def holder_unregister)

lemma only_unregister_any: "only i D s \<Longrightarrow> only i D (unregister d j s)"
  by (auto simp: only_def holder_unregister)

lemma only_same: "holder s' = holder s \<Longrightarrow> only i D s' = only i D s"
  by (simp add: only_def)

lemma registered: "holder (register d i s) d = Some i"
  by (simp add: holder_register)

lemma unregistered: "holder (unregister d i s) d \<noteq> Some i"
  by (simp add: holder_unregister)

lemma unregister_own: "holder (unregister d i (register d i s)) d = None"
  by (simp add: holder_unregister holder_register)

lemma unregister_replaced: "i \<noteq> j \<Longrightarrow> holder (unregister d i (register d j s)) d = Some j"
  by (simp add: holder_unregister holder_register)

end

section \<open>The registry of the service\<close>

definition session_holder :: "Service \<Rightarrow> string \<Rightarrow> string option" where
  "session_holder s d =
     (let st = state_of (sv_states s) d in if dst_session st = None then None else Some (dst_sessionID st))"

interpretation registry: session_registry
  "\<lambda>d i s. snd (RegisterSession env d \<lparr>ses_ID = i, ses_Transport = transport\<rparr> s)"
  "\<lambda>d i s. snd (UnregisterSession env d i s)" session_holder
  for env transport
  by unfold_locales (auto simp: fun_eq_iff session_holder_def RegisterSession_eq UnregisterSession_eq Let_def)

lemma holder_states: "sv_states s' = sv_states s \<Longrightarrow> session_holder s' = session_holder s"
  by (simp add: fun_eq_iff session_holder_def)

lemma holder_touch [simp]: "session_holder (snd (TouchDevice d t s)) = session_holder s"
  by (auto simp: fun_eq_iff session_holder_def TouchDevice_def Let_def op_simps)

text \<open>Telemetry, acknowledgements, touches and statistics leave the registry alone.\<close>

lemma holder_prims:
  "preserves (\<lambda>s. session_holder s = H) (nowS env)" "preserves (\<lambda>s. session_holder s = H) (newID env p)"
  "preserves (\<lambda>s. session_holder s = H) (fromStore g)" "preserves (\<lambda>s. session_holder s = H) (onStore m)"
  "preserves (\<lambda>s. session_holder s = H) (sendMessage env ses msg)"
  "preserves (\<lambda>s. session_holder s = H) (count f)" "preserves (\<lambda>s. session_holder s = H) (failS c e)"
  "preserves (\<lambda>s. session_holder s = H) (recordRuleTrigger rid d t)"
  "preserves (\<lambda>s. session_holder s = H) (TouchDevice d t)"
  by (auto simp: preserves_def nowS_def newID_def fromStore_def onStore_def sendMessage_def count_def failS_def
      recordRuleTrigger_def Let_def op_simps cong: holder_states split: option.splits prod.splits)

lemmas holder_intros = holder_prims preserves_prim preserves_bindS preserves_tryS preserves_if
  preserves_case_sum preserves_case_option preserves_Let preserves_case_prod preserves_forS

lemma holder_records:
  "preserves (\<lambda>s. session_holder s = H) RecordConnectionAccepted"
  "preserves (\<lambda>s. session_holder s = H) RecordConnectionRejected"
  "preserves (\<lambda>s. session_holder s = H) (RecordTCPTelemetryAccepted p v)"
  "preserves (\<lambda>s. session_holder s = H) (RecordCommandAckTransport t)"
  "preserves (\<lambda>s. session_holder s = H) RecordMQTTConnectionAccepted"
  "preserves (\<lambda>s. session_holder s = H) RecordMQTTConnectionRejected"
  "preserves (\<lambda>s. session_holder s = H) (RecordMQTTMessageReceived p v b)"
  "preserves (\<lambda>s. session_holder s = H) (recordCommandPublished t)"
  unfolding record_defs by (intro holder_intros)+

lemma holder_shadow:
  "preserves (\<lambda>s. session_holder s = H) (ensureShadow env dev)"
  "preserves (\<lambda>s. session_holder s = H) (ApplyConfigProfile env pid did)"
  unfolding ApplyConfigProfile_def UpdateDesiredShadow_def ensureShadow_def by (intro holder_intros)+

lemma holder_update: "preserves (\<lambda>s. session_holder s = H) (UpdateCommandStatus env i st r)"
  unfolding UpdateCommandStatus_def by (intro holder_intros)

lemma holder_send: "preserves (\<lambda>s. session_holder s = H) (sendCommandWithCampaign env did cid n ps)"
  unfolding sendCommandWithCampaign_def deliver_command_def fail_command_def
  by (intro holder_intros holder_records holder_update)

lemma holder_ack: "preserves (\<lambda>s. session_holder s = H) (HandleCommandAck env did i status r)"
  unfolding HandleCommandAck_def updateCampaignFromCommandAck_def
  by (intro holder_intros holder_update)

lemma holder_run_rule: "preserves (\<lambda>s. session_holder s = H) (run_rule env d te rule)"
  unfolding run_rule_def executeRuleActions_def executeRuleAction_def by (intro holder_intros holder_shadow holder_send)

lemma holder_rules: "preserves (\<lambda>s. session_holder s = H) (rules_loop env d te m rules)"
  by (induction env d te m rules rule: rules_loop.induct) (auto intro!: holder_intros holder_run_rule)

lemma holder_telemetry: "preserves (\<lambda>s. session_holder s = H) (HandleTelemetry env did ts v)"
  unfolding HandleTelemetry_def evaluateRules_def by (intro holder_intros holder_shadow holder_rules)

lemma holder_kept: "preserves (\<lambda>s. session_holder s = session_holder t) m \<Longrightarrow> session_holder (snd (m t)) = session_holder t"
  by (simp add: preserves_def)

lemmas holder_ops [simp] =
  holder_kept [OF holder_telemetry] holder_kept [OF holder_ack]
  holder_records [THEN holder_kept] holder_kept [OF holder_prims(1)]

end
