(* ===== verification/Mqtt.thy ===== *)
theory Mqtt
  imports Ingest SessionRegistry
begin

text \<open>
  The MQTT front end (internal/mqtt/server.go): the authentication hook of the broker. Its state is the
  service and the table of bindings, one per client ID: the device the client logged in as, the access
  profile of its product, and the topics it may use. The broker itself is a third-party package; what it
  hands to the hook (client, packet) is an argument.

  \<^item> \<open>WireEnv\<close> holds \<open>json.Unmarshal\<close> into the payload types: \<open>None\<close> is an error, and \<open>Some None\<close> for
    \<open>we_map\<close> is the JSON text \<open>null\<close>, which leaves the map nil.
  \<^item> \<open>mqttTopicMatch\<close> is the loop over the level index; \<open>levels_match\<close> is the recursive reference.
\<close>

section \<open>Strings\<close>

text \<open>\<open>strings.ReplaceAll(s, old, new)\<close> for a non-empty \<open>old\<close>.\<close>

function replace_all :: "string \<Rightarrow> string \<Rightarrow> string \<Rightarrow> string" where
  "replace_all old new [] = []"
| "replace_all old new (c # cs) =
     (if has_prefix (c # cs) old then new @ replace_all old new (drop (length old - 1) cs)
      else c # replace_all old new cs)"
  by pat_completeness auto
termination by (relation "measure (\<lambda>(_, _, s). length s)") auto

text \<open>\<open>strings.Split(s, sep)\<close> for a one byte separator.\<close>

fun split_on :: "char \<Rightarrow> string \<Rightarrow> string list" where
  "split_on sep [] = [[]]"
| "split_on sep (c # cs) =
     (if c = sep then [] # split_on sep cs
      else (case split_on sep cs of [] \<Rightarrow> [[c]] | part # parts \<Rightarrow> (c # part) # parts))"

section \<open>Topics\<close>

record routing =
  rt_UpTopic :: string
  rt_DownTopic :: string
  rt_AckTopic :: string

definition resolveRouting :: "ProductAccessProfile \<Rightarrow> string \<Rightarrow> routing" where
  "resolveRouting profile deviceID =
     (let topic = trim_space (ap_Topic profile);
          topic = (if topic = [] then ''devices/{device_id}/up'' else topic);
          topic = replace_all ''{device_id}'' deviceID topic;
          topic = (if \<exists>c \<in> set topic. c \<in> set ''+#'' then ''devices/'' @ deviceID @ ''/up'' else topic);
          topic = (if \<not> has_suffix topic ''/up'' then trim_right CHR ''/'' topic @ ''/up'' else topic);
          base = trim_suffix topic ''/up'' in
      \<lparr>rt_UpTopic = topic, rt_DownTopic = base @ ''/down'', rt_AckTopic = base @ ''/ack''\<rparr>)"

definition levels :: "string \<Rightarrow> string list" where
  "levels topic = split_on CHR ''/'' (trim CHR ''/'' topic)"

text \<open>The loop from \<open>index\<close> on.\<close>

function match_levels :: "string list \<Rightarrow> string list \<Rightarrow> nat \<Rightarrow> bool" where
  "match_levels filterParts topicParts index =
     (if index < length filterParts then
        if index \<ge> length topicParts then filterParts ! index = ''#''
        else if filterParts ! index = ''#'' then True
        else if filterParts ! index = ''+'' then match_levels filterParts topicParts (index + 1)
        else if filterParts ! index \<noteq> topicParts ! index then False
        else match_levels filterParts topicParts (index + 1)
      else length filterParts = length topicParts)"
  by pat_completeness auto
termination by (relation "measure (\<lambda>(f, _, i). length f - i)") auto

declare match_levels.simps [simp del]

definition mqttTopicMatch :: "string \<Rightarrow> string \<Rightarrow> bool" where
  "mqttTopicMatch fltr topic = match_levels (levels fltr) (levels topic) 0"

text \<open>The reference: level by level.\<close>

fun levels_match :: "string list \<Rightarrow> string list \<Rightarrow> bool" where
  "levels_match [] ts = (ts = [])"
| "levels_match (f # fs) [] = (f = ''#'')"
| "levels_match (f # fs) (t # ts) = (f = ''#'' \<or> (f = ''+'' \<or> f = t) \<and> levels_match fs ts)"

lemma match_levels_drop:
  "i \<le> length fs \<Longrightarrow> i \<le> length ts \<Longrightarrow> match_levels fs ts i = levels_match (drop i fs) (drop i ts)"
proof (induction fs ts i rule: match_levels.induct)
  case (1 fs ts i)
  show ?case
  proof (cases "i < length fs \<and> i < length ts")
    case True
    then have d: "drop i fs = fs ! i # drop (Suc i) fs" "drop i ts = ts ! i # drop (Suc i) ts"
      by (simp_all add: Cons_nth_drop_Suc)
    from True show ?thesis unfolding d using 1 by (subst match_levels.simps) auto
  next
    case False
    show ?thesis
    proof (cases "i < length fs")
      case True
      then have "drop i fs = fs ! i # drop (Suc i) fs" "drop i ts = []"
        using False by (simp_all add: Cons_nth_drop_Suc)
      then show ?thesis using True False by (subst match_levels.simps) auto
    qed (use 1 in \<open>subst match_levels.simps; auto\<close>)
  qed
qed

lemma mqttTopicMatch_levels: "mqttTopicMatch fltr topic = levels_match (levels fltr) (levels topic)"
  by (simp add: mqttTopicMatch_def match_levels_drop)

lemma levels_match_plain: "set fs \<inter> {''+'', ''#''} = {} \<Longrightarrow> levels_match fs ts \<longleftrightarrow> fs = ts"
  by (induction fs ts rule: levels_match.induct) auto

lemma levels_hash: "levels ''#'' = [''#'']"
  by (simp add: levels_def trim_def trim_right_def)

lemma levels_match_hash: "levels_match [''#''] ts"
  by (cases ts) simp_all

text \<open>The three topics of a device differ in their last level only.\<close>

lemma routing_base:
  "\<exists>base. resolveRouting profile d = \<lparr>rt_UpTopic = base @ ''/up'', rt_DownTopic = base @ ''/down'', rt_AckTopic = base @ ''/ack''\<rparr>"
proof -
  define t where "t = (let topic = trim_space (ap_Topic profile);
      topic = (if topic = [] then ''devices/{device_id}/up'' else topic);
      topic = replace_all ''{device_id}'' d topic in
      if \<exists>c \<in> set topic. c \<in> set ''+#'' then ''devices/'' @ d @ ''/up'' else topic)"
  define u where "u = (if \<not> has_suffix t ''/up'' then trim_right CHR ''/'' t @ ''/up'' else t)"
  have "has_suffix u ''/up''" by (simp add: u_def)
  then have "u = trim_suffix u ''/up'' @ ''/up''" by (simp only: trim_suffix_cat)
  moreover have "resolveRouting profile d = \<lparr>rt_UpTopic = u, rt_DownTopic = trim_suffix u ''/up'' @ ''/down'',
      rt_AckTopic = trim_suffix u ''/up'' @ ''/ack''\<rparr>"
    unfolding resolveRouting_def t_def u_def Let_def by simp
  ultimately show ?thesis by metis
qed

section \<open>The hook\<close>

record WireEnv =
  we_text :: TextEnv
  we_map :: "string \<Rightarrow> anymap option"
  we_ack :: "string \<Rightarrow> (string \<times> string \<times> string) option"

record clientBinding =
  cb_DeviceID :: string
  cb_AccessProfile :: ProductAccessProfile
  cb_Routing :: routing

record authHook =
  hk_service :: Service
  hk_bindings :: "(string \<times> clientBinding) list"

record Client =
  cl_ID :: string
  cl_Username :: string

type_synonym 'a hk = "(authHook, gerr, 'a) op"

definition callS :: "'a sv \<Rightarrow> 'a hk" where
  "callS m h = (case m (hk_service h) of (r, s) \<Rightarrow> (r, h\<lparr>hk_service := s\<rparr>))"

definition zero_AccessProfile :: ProductAccessProfile where
  "zero_AccessProfile = \<lparr>ap_Transport = [], ap_Protocol = [], ap_IngestMode = [], ap_PayloadFormat = [],
     ap_AuthMode = [], ap_SensorTemplate = [], ap_Topic = [], ap_Notes = [], ap_Metadata = None,
     ap_PointMappings = []\<rparr>"

definition binding :: "authHook \<Rightarrow> string \<Rightarrow> clientBinding option" where
  "binding h clientID = map_of (hk_bindings h) clientID"

definition reject :: "bool hk" where
  "reject = bindS (callS RecordConnectionAccepted) (\<lambda>_. bindS (callS RecordConnectionRejected) (\<lambda>_.
     bindS (callS RecordMQTTConnectionRejected) (\<lambda>_. retS False)))"

definition login_profile :: "Device \<Rightarrow> Service \<Rightarrow> ProductAccessProfile res" where
  "login_profile device s =
     (if dev_ProductID device \<noteq> [] then
        (case GetProduct (dev_ProductID device) s of
           Inl e \<Rightarrow> if e = ErrProductNotFound then Inr zero_AccessProfile else Inl e
         | Inr product \<Rightarrow> Inr (prd_AccessProfile (prdv_Product product)))
      else Inr zero_AccessProfile)"

definition login_name :: "Client \<Rightarrow> string" where
  "login_name cl = (let deviceID = trim_space (cl_Username cl) in if deviceID = [] then trim_space (cl_ID cl) else deviceID)"

definition OnConnectAuthenticate :: "Client \<Rightarrow> string \<Rightarrow> bool hk" where
  "OnConnectAuthenticate cl password =
     (let deviceID = login_name cl; token = trim_space password in
      if deviceID = [] \<or> token = [] then reject
      else tryS (callS (readS (AuthenticateDevice deviceID token))) (\<lambda>r. case r of
          Inl _ \<Rightarrow> reject
        | Inr device \<Rightarrow> tryS (callS (readS (login_profile device))) (\<lambda>r. case r of
            Inl _ \<Rightarrow> reject
          | Inr accessProfile \<Rightarrow>
              bindS (modS (\<lambda>h. h\<lparr>hk_bindings := AList.update (cl_ID cl)
                \<lparr>cb_DeviceID = dev_ID device, cb_AccessProfile = accessProfile,
                 cb_Routing = resolveRouting accessProfile (dev_ID device)\<rparr> (hk_bindings h)\<rparr>)) (\<lambda>_.
              bindS (callS RecordConnectionAccepted) (\<lambda>_.
              bindS (callS RecordMQTTConnectionAccepted) (\<lambda>_. retS True))))))"

definition OnACLCheck :: "Client \<Rightarrow> string \<Rightarrow> bool \<Rightarrow> authHook \<Rightarrow> bool" where
  "OnACLCheck cl topic isWrite h =
     (case binding h (cl_ID cl) of
        None \<Rightarrow> False
      | Some b \<Rightarrow>
          if isWrite then topic = rt_UpTopic (cb_Routing b) \<or> topic = rt_AckTopic (cb_Routing b)
          else mqttTopicMatch topic (rt_DownTopic (cb_Routing b)))"

definition OnSessionEstablished :: "Env \<Rightarrow> Client \<Rightarrow> unit hk" where
  "OnSessionEstablished env cl =
     bindS (getS (\<lambda>h. binding h (cl_ID cl))) (\<lambda>found. case found of
         None \<Rightarrow> retS ()
       | Some b \<Rightarrow>
           bindS (callS (RegisterSession env (cb_DeviceID b) \<lparr>ses_ID = cl_ID cl, ses_Transport = Some ''mqtt''\<rparr>)) (\<lambda>_.
           bindS (callS (nowS env)) (\<lambda>now. callS (TouchDevice (cb_DeviceID b) now))))"

definition OnDisconnect :: "Env \<Rightarrow> Client \<Rightarrow> unit hk" where
  "OnDisconnect env cl =
     bindS (getS (\<lambda>h. binding h (cl_ID cl))) (\<lambda>found.
     bindS (case found of
         None \<Rightarrow> retS ()
       | Some b \<Rightarrow> callS (UnregisterSession env (cb_DeviceID b) (cl_ID cl))) (\<lambda>_.
     modS (\<lambda>h. h\<lparr>hk_bindings := AList.delete (cl_ID cl) (hk_bindings h)\<rparr>)))"

definition mqtt_handleTelemetry :: "Env \<Rightarrow> WireEnv \<Rightarrow> clientBinding \<Rightarrow> string \<Rightarrow> unit hk" where
  "mqtt_handleTelemetry env wire b payloadText =
     (case we_map wire payloadText of
        None \<Rightarrow> retS ()
      | Some payload \<Rightarrow>
          (case BuildValues (we_text wire) payload (cb_AccessProfile b) of
             Inl _ \<Rightarrow> retS ()
           | Inr vals \<Rightarrow>
               if mlen vals = 0 then retS ()
               else bindS (callS (nowS env)) (\<lambda>now.
                 let ts = ExtractTimestamp (we_text wire) payload now in
                 tryS (callS (HandleTelemetry env (cb_DeviceID b) ts vals)) (\<lambda>r. case r of
                   Inl _ \<Rightarrow> retS ()
                 | Inr _ \<Rightarrow> callS (RecordMQTTMessageReceived (int (length payloadText)) (int (mlen vals)) True)))))"

definition mqtt_handleAck :: "Env \<Rightarrow> WireEnv \<Rightarrow> clientBinding \<Rightarrow> string \<Rightarrow> unit hk" where
  "mqtt_handleAck env wire b payloadText =
     (case we_ack wire payloadText of
        None \<Rightarrow> retS ()
      | Some (commandID, status, message) \<Rightarrow>
          if trim_space commandID = [] then retS ()
          else tryS (callS (HandleCommandAck env (cb_DeviceID b) commandID status message)) (\<lambda>r. case r of
              Inl _ \<Rightarrow> retS ()
            | Inr _ \<Rightarrow> bindS (callS (RecordMQTTMessageReceived (int (length payloadText)) 0 False)) (\<lambda>_.
                callS (RecordCommandAckTransport ''mqtt''))))"

definition handlePublish :: "Env \<Rightarrow> WireEnv \<Rightarrow> Client option \<Rightarrow> string \<Rightarrow> string \<Rightarrow> unit hk" where
  "handlePublish env wire client topicName payloadText =
     (case client of
        None \<Rightarrow> retS ()
      | Some cl \<Rightarrow> bindS (getS (\<lambda>h. binding h (cl_ID cl))) (\<lambda>found. case found of
            None \<Rightarrow> retS ()
          | Some b \<Rightarrow>
              if topicName = rt_UpTopic (cb_Routing b) then mqtt_handleTelemetry env wire b payloadText
              else if topicName = rt_AckTopic (cb_Routing b) then mqtt_handleAck env wire b payloadText
              else retS ()))"

section \<open>Logins and sessions\<close>

lemma reject_False: "fst (reject h) = Inr False"
  by (simp add: reject_def bindS_def callS_def RecordConnectionAccepted_def RecordConnectionRejected_def
      RecordMQTTConnectionRejected_def count_def op_apply)

lemma login_accepted:
  assumes "OnConnectAuthenticate cl password h = (Inr True, h1)"
  shows "\<exists>device profile. AuthenticateDevice (login_name cl) (trim_space password) (hk_service h) = Inr device \<and>
    login_profile device (hk_service h) = Inr profile \<and>
    binding h1 (cl_ID cl) = Some \<lparr>cb_DeviceID = dev_ID device, cb_AccessProfile = profile,
      cb_Routing = resolveRouting profile (dev_ID device)\<rparr> \<and>
    sv_states (hk_service h1) = sv_states (hk_service h)"
proof -
  have rej: "reject x \<noteq> (Inr True, h1)" for x using reject_False [of x] by auto
  have call: "tryS (callS (readS f)) g x = g (f (hk_service x)) x" for f :: "Service \<Rightarrow> 'x res" and g :: "'x res \<Rightarrow> 'y hk" and x
    by (simp add: tryS_def callS_def op_apply)
  have named: "\<not> (login_name cl = [] \<or> trim_space password = [])"
    using assms rej by (auto simp: OnConnectAuthenticate_def Let_def)
  obtain device where d: "AuthenticateDevice (login_name cl) (trim_space password) (hk_service h) = Inr device"
    using assms rej named by (auto simp: OnConnectAuthenticate_def Let_def call split: sum.splits)
  obtain profile where p: "login_profile device (hk_service h) = Inr profile"
    using assms rej named by (auto simp: OnConnectAuthenticate_def Let_def call d split: sum.splits)
  define b where "b = \<lparr>cb_DeviceID = dev_ID device, cb_AccessProfile = profile, cb_Routing = resolveRouting profile (dev_ID device)\<rparr>"
  have "bindS (modS (\<lambda>h. h\<lparr>hk_bindings := AList.update (cl_ID cl) b (hk_bindings h)\<rparr>)) (\<lambda>_.
      bindS (callS RecordConnectionAccepted) (\<lambda>_. bindS (callS RecordMQTTConnectionAccepted) (\<lambda>_. retS True))) h = (Inr True, h1)"
    using assms named by (simp add: OnConnectAuthenticate_def Let_def call d p b_def)
  then have "binding h1 (cl_ID cl) = Some b" "sv_states (hk_service h1) = sv_states (hk_service h)"
    by (auto simp: bindS_def callS_def op_apply RecordConnectionAccepted_def RecordMQTTConnectionAccepted_def
        count_def binding_def)
  with d p show ?thesis by (simp add: b_def)
qed

text \<open>What the two session callbacks do for a bound client.\<close>

lemma established_run:
  assumes "binding h (cl_ID cl) = Some b"
  shows "session_holder (hk_service (snd (OnSessionEstablished env cl h))) = (session_holder (hk_service h))(cb_DeviceID b \<mapsto> cl_ID cl)"
    "binding (snd (OnSessionEstablished env cl h)) = binding h"
proof -
  have call: "callS m h0 = (Inr u, h0\<lparr>hk_service := s'\<rparr>)" if "m (hk_service h0) = (Inr u, s')" for m :: "'x sv" and h0 u s'
    using that by (simp add: callS_def)
  have reg: "RegisterSession env d ses s = (Inr (), snd (RegisterSession env d ses s))" for d ses s
    by (simp add: RegisterSession_eq Let_def)
  have clk: "nowS env s = (Inr (env_clock env (sv_ticks s)), s\<lparr>sv_ticks := Suc (sv_ticks s)\<rparr>)" for s by (simp add: nowS_def)
  have tou: "TouchDevice d t s = (Inr (), snd (TouchDevice d t s))" for d t s by (simp add: TouchDevice_def op_apply)
  have ticked: "session_holder (s\<lparr>sv_ticks := n\<rparr>) = session_holder s" for s n by (rule holder_states) simp
  have get: "bindS (getS f) g h = g (f h) h" for f :: "authHook \<Rightarrow> 'x" and g :: "'x \<Rightarrow> unit hk"
    by (simp add: bindS_def op_apply)
  let ?s = "snd (RegisterSession env (cb_DeviceID b) \<lparr>ses_ID = cl_ID cl, ses_Transport = Some ''mqtt''\<rparr> (hk_service h))"
  have "hk_service (snd (OnSessionEstablished env cl h)) =
      snd (TouchDevice (cb_DeviceID b) (env_clock env (sv_ticks ?s)) (?s\<lparr>sv_ticks := Suc (sv_ticks ?s)\<rparr>)) \<and>
    hk_bindings (snd (OnSessionEstablished env cl h)) = hk_bindings h"
    using assms by (simp add: OnSessionEstablished_def get bindS_apply(2) [OF call [OF reg]]
        bindS_apply(2) [OF call [OF clk]] call [OF tou])
  then show "session_holder (hk_service (snd (OnSessionEstablished env cl h))) = (session_holder (hk_service h))(cb_DeviceID b \<mapsto> cl_ID cl)"
    "binding (snd (OnSessionEstablished env cl h)) = binding h"
    using registry.holder_register [of env "cb_DeviceID b" "cl_ID cl" "Some ''mqtt''" "hk_service h"]
      ticked
    by (simp_all add: binding_def fun_eq_iff)
qed

lemma disconnect_run:
  assumes "binding h (cl_ID cl) = Some b"
  shows "hk_service (snd (OnDisconnect env cl h)) = snd (UnregisterSession env (cb_DeviceID b) (cl_ID cl) (hk_service h))"
    "binding (snd (OnDisconnect env cl h)) (cl_ID cl) = None"
  using assms by (simp_all add: OnDisconnect_def bindS_def callS_def op_apply binding_def UnregisterSession_eq Let_def delete_conv')

lemma unbound_run:
  assumes "binding h (cl_ID cl) = None"
  shows "OnSessionEstablished env cl h = (Inr (), h)"
  using assms by (simp add: OnSessionEstablished_def bindS_def op_apply)

end
