(* ===== verification/Gateway.thy ===== *)
theory Gateway
  imports SessionRegistry
begin

text \<open>
  The TCP gateway (internal/gateway/server.go): one connection of a device, which reads one JSON message
  per line, logs in with the first, and ends at the end of the input or at a protocol error.

  \<^item> \<open>clientSession\<close> is the session the service sends on: a bounded queue in front of a writer goroutine.
  \<^item> \<open>Gate\<close> is the state of \<open>handleConnection\<close>: the service, the session, and the two local variables.
    \<open>handle_line\<close> is one turn of the loop; the \<open>phase\<close> it returns says whether the loop goes on.
  \<^item> \<open>gate_step\<close> interleaves the loop with the writer, with sends of the service on this session and with
    the rest of the program, which never registers a session under this connection's ID (\<open>util.NewID\<close>).

  \<open>json.Unmarshal\<close> into a \<open>DeviceMessage\<close> is the parameter \<open>decode\<close>; the socket is not modelled, \<open>write_ok\<close>
  says whether a write went through.
\<close>

record DeviceMessage =
  dm_Type :: string
  dm_DeviceID :: string
  dm_Token :: string
  dm_TS :: int
  dm_Values :: anymap
  dm_CommandID :: string
  dm_Status :: string
  dm_Message :: string

section \<open>The session\<close>

record clientSession =
  cs_id :: string
  cs_queue :: "ServerMessage list"
  cs_capacity :: int
  cs_closed :: bool
  cs_written :: "ServerMessage list"

definition newClientSession :: "string \<Rightarrow> int \<Rightarrow> clientSession" where
  "newClientSession i queueSize =
     \<lparr>cs_id = i, cs_queue = [], cs_capacity = (if queueSize \<le> 0 then 128 else queueSize),
      cs_closed = False, cs_written = []\<rparr>"

definition session_Send :: "ServerMessage \<Rightarrow> (clientSession, gerr, unit) op" where
  "session_Send message cs =
     (if cs_closed cs then (Inl (EOther ''use of closed network connection''), cs)
      else if int (length (cs_queue cs)) < cs_capacity cs
        then (Inr (), cs\<lparr>cs_queue := cs_queue cs @ [message]\<rparr>)
      else (Inl (EOther ''session queue is full''), cs))"

definition session_Close :: "clientSession \<Rightarrow> clientSession" where
  "session_Close cs = cs\<lparr>cs_closed := True\<rparr>"

text \<open>
  One turn of \<open>runWriter\<close>, when a message is chosen: it leaves the queue, and a failed write closes the
  session.
\<close>

definition writer_turn :: "bool \<Rightarrow> clientSession \<Rightarrow> clientSession" where
  "writer_turn write_ok cs =
     (case cs_queue cs of
        [] \<Rightarrow> cs
      | message # queue \<Rightarrow>
          let cs = cs\<lparr>cs_queue := queue\<rparr> in
          if write_ok then cs\<lparr>cs_written := cs_written cs @ [message]\<rparr> else session_Close cs)"

lemma session_Send_bound:
  "int (length (cs_queue cs)) \<le> cs_capacity cs \<Longrightarrow>
    int (length (cs_queue (snd (session_Send m cs)))) \<le> cs_capacity (snd (session_Send m cs))"
  by (simp add: session_Send_def)

section \<open>The connection\<close>

text \<open>
  \<open>Reading\<close>: the loop goes on; \<open>Refused\<close>, \<open>Abandoned\<close>: it returned, before or after the device had
  logged in; \<open>Finished\<close>: the input ended and the code after the loop has run.
\<close>

datatype phase = Reading | Refused | Abandoned | Finished

record Gate =
  gw_service :: Service
  gw_session :: clientSession
  gw_authenticated :: bool
  gw_deviceID :: string

type_synonym 'a gw = "(Gate, gerr, 'a) op"

definition callG :: "'a sv \<Rightarrow> 'a gw" where
  "callG m g = (case m (gw_service g) of (r, s) \<Rightarrow> (r, g\<lparr>gw_service := s\<rparr>))"

text \<open>\<open>_ = session.Send(message)\<close>.\<close>

definition reply :: "ServerMessage \<Rightarrow> unit gw" where
  "reply message = modS (\<lambda>g. g\<lparr>gw_session := snd (session_Send message (gw_session g))\<rparr>)"

definition server_message :: "string \<Rightarrow> ServerMessage" where
  "server_message type = \<lparr>msg_Type = type, msg_ServerTime = 0, msg_DeviceID = [], msg_CommandID = [],
     msg_Name = [], msg_Params = None, msg_Status = [], msg_Message = [], msg_Error = []\<rparr>"

definition error_message :: "string \<Rightarrow> ServerMessage" where
  "error_message e = (server_message ''error'')\<lparr>msg_Error := e\<rparr>"

definition handle_auth :: "Env \<Rightarrow> time \<Rightarrow> DeviceMessage \<Rightarrow> phase gw" where
  "handle_auth env now message =
     bindS (getS gw_authenticated) (\<lambda>authenticated.
     if authenticated then bindS (reply (error_message ''already authenticated'')) (\<lambda>_. retS Abandoned)
     else tryS (callG (readS (AuthenticateDevice (dm_DeviceID message) (dm_Token message)))) (\<lambda>r. case r of
         Inl _ \<Rightarrow>
           bindS (callG RecordConnectionRejected) (\<lambda>_.
           bindS (reply (error_message ''authentication failed'')) (\<lambda>_. retS Refused))
       | Inr device \<Rightarrow>
           bindS (modS (\<lambda>g. g\<lparr>gw_authenticated := True, gw_deviceID := dev_ID device\<rparr>)) (\<lambda>_.
           bindS (getS (cs_id \<circ> gw_session)) (\<lambda>sessionID.
           bindS (callG (RegisterSession env (dev_ID device) \<lparr>ses_ID = sessionID, ses_Transport = Some ''tcp''\<rparr>)) (\<lambda>_.
           bindS (callG (TouchDevice (dev_ID device) now)) (\<lambda>_.
           bindS (reply ((server_message ''auth_ok'')\<lparr>msg_ServerTime := unix_milli now, msg_DeviceID := dev_ID device\<rparr>))
             (\<lambda>_. retS Reading)))))))"

definition handle_telemetry :: "Env \<Rightarrow> time \<Rightarrow> int \<Rightarrow> DeviceMessage \<Rightarrow> unit gw" where
  "handle_telemetry env now lineLength message =
     bindS (getS gw_deviceID) (\<lambda>deviceID.
     let timestamp = (if dm_TS message > 0 then time_UnixMilli (dm_TS message) else now) in
     tryS (callG (HandleTelemetry env deviceID timestamp (dm_Values message))) (\<lambda>r. case r of
       Inl _ \<Rightarrow> reply (error_message ''telemetry rejected'')
     | Inr _ \<Rightarrow> callG (RecordTCPTelemetryAccepted lineLength (int (mlen (dm_Values message))))))"

definition handle_ack :: "Env \<Rightarrow> DeviceMessage \<Rightarrow> unit gw" where
  "handle_ack env message =
     bindS (getS gw_deviceID) (\<lambda>deviceID.
     tryS (callG (HandleCommandAck env deviceID (dm_CommandID message) (dm_Status message) (dm_Message message))) (\<lambda>r. case r of
       Inl _ \<Rightarrow> reply (error_message ''ack rejected'')
     | Inr _ \<Rightarrow> callG (RecordCommandAckTransport ''tcp'')))"

definition handle_ping :: "time \<Rightarrow> unit gw" where
  "handle_ping now =
     bindS (getS gw_deviceID) (\<lambda>deviceID.
     bindS (callG (TouchDevice deviceID now)) (\<lambda>_.
     reply ((server_message ''pong'')\<lparr>msg_ServerTime := unix_milli now\<rparr>)))"

definition handle_line :: "Env \<Rightarrow> (string \<Rightarrow> DeviceMessage option) \<Rightarrow> string \<Rightarrow> phase gw" where
  "handle_line env decode line =
     bindS (callG (nowS env)) (\<lambda>now.
     case decode line of
       None \<Rightarrow> bindS (reply (error_message ''invalid json'')) (\<lambda>_. retS Reading)
     | Some message \<Rightarrow>
         bindS (getS gw_authenticated) (\<lambda>authenticated.
         if \<not> authenticated \<and> dm_Type message \<noteq> ''auth'' then
           bindS (callG RecordConnectionRejected) (\<lambda>_.
           bindS (reply (error_message ''auth required'')) (\<lambda>_. retS Refused))
         else if dm_Type message = ''auth'' then handle_auth env now message
         else bindS (if dm_Type message = ''ping'' then handle_ping now
             else if dm_Type message = ''telemetry'' then handle_telemetry env now (int (length line)) message
             else if dm_Type message = ''ack'' then handle_ack env message
             else reply (error_message ''unknown message type'')) (\<lambda>_. retS Reading)))"

text \<open>The code after the loop.\<close>

definition end_of_input :: "Env \<Rightarrow> phase gw" where
  "end_of_input env =
     bindS (getS gw_authenticated) (\<lambda>authenticated.
     bindS (if \<not> authenticated then callG RecordConnectionRejected else retS ()) (\<lambda>_.
     bindS (getS gw_deviceID) (\<lambda>deviceID.
     bindS (getS (cs_id \<circ> gw_session)) (\<lambda>sessionID.
     bindS (if deviceID \<noteq> [] then callG (UnregisterSession env deviceID sessionID) else retS ()) (\<lambda>_.
     bindS (modS (\<lambda>g. g\<lparr>gw_session := session_Close (gw_session g)\<rparr>)) (\<lambda>_.
     retS Finished))))))"

definition handleConnection :: "string \<Rightarrow> int \<Rightarrow> Service \<Rightarrow> Gate" where
  "handleConnection connID queueSize s =
     \<lparr>gw_service = s, gw_session = newClientSession connID queueSize, gw_authenticated = False, gw_deviceID = []\<rparr>"

text \<open>\<open>Run\<close> counts the connection and gives it an ID before it starts the loop.\<close>

definition accept_connection :: "Env \<Rightarrow> int \<Rightarrow> Service \<Rightarrow> Gate" where
  "accept_connection env queueSize s =
     (case bindS RecordConnectionAccepted (\<lambda>_. newID env ''conn'') s of
        (r, s') \<Rightarrow> handleConnection (case r of Inr i \<Rightarrow> i | Inl _ \<Rightarrow> []) queueSize s')"

section \<open>Steps\<close>

text \<open>
  The session is closed when the writer is cancelled, when a write fails, or by \<open>RegisterSession\<close> when
  another session takes the device over: \<open>session_closed\<close> allows it at any time.
\<close>

inductive gate_step :: "phase \<times> Gate \<Rightarrow> phase \<times> Gate \<Rightarrow> bool" where
  line: "handle_line env decode text g = (Inr p, g') \<Longrightarrow> gate_step (Reading, g) (p, g')"
| end_input: "end_of_input env g = (Inr p, g') \<Longrightarrow> gate_step (Reading, g) (p, g')"
| writer: "gate_step (p, g) (p, g\<lparr>gw_session := writer_turn write_ok (gw_session g)\<rparr>)"
| session_closed: "gate_step (p, g) (p, g\<lparr>gw_session := session_Close (gw_session g)\<rparr>)"
| service_send: "gate_step (p, g) (p, g\<lparr>gw_session := snd (session_Send m (gw_session g))\<rparr>)"
| other: "service_step (gw_service g) s' \<Longrightarrow>
    \<forall>d. session_holder s' d = Some (cs_id (gw_session g)) \<longrightarrow> session_holder (gw_service g) d = Some (cs_id (gw_session g)) \<Longrightarrow>
    gate_step (p, g) (p, g\<lparr>gw_service := s'\<rparr>)"

inductive gate_reachable :: "phase \<times> Gate \<Rightarrow> bool" where
  start: "reachable s \<Longrightarrow> \<forall>d. session_holder s d \<noteq> Some connID \<Longrightarrow>
    gate_reachable (Reading, handleConnection connID queueSize s)"
| step: "gate_reachable c \<Longrightarrow> gate_step c c' \<Longrightarrow> gate_reachable c'"

section \<open>What a step keeps\<close>

text \<open>The parts of the connection that only the login and the end of the input change.\<close>

definition gate_frame :: "(string \<Rightarrow> string option) \<Rightarrow> bool \<Rightarrow> string \<Rightarrow> string \<Rightarrow> Gate \<Rightarrow> bool" where
  "gate_frame H a d i g \<longleftrightarrow> service_ok (gw_service g) \<and> session_holder (gw_service g) = H \<and>
     gw_authenticated g = a \<and> gw_deviceID g = d \<and> cs_id (gw_session g) = i \<and>
     int (length (cs_queue (gw_session g))) \<le> cs_capacity (gw_session g)"

lemma frame_call:
  assumes "preserves service_ok m" "preserves (\<lambda>s. session_holder s = H) m"
  shows "preserves (gate_frame H a d i) (callG m)"
  using assms by (auto simp: preserves_def callG_def gate_frame_def split: prod.splits)

lemma frame_reply: "preserves (gate_frame H a d i) (reply m)"
  by (auto simp: preserves_def reply_def gate_frame_def session_Send_def op_simps)

lemmas frame_intros = frame_reply preserves_prim preserves_bindS preserves_tryS preserves_if
  preserves_case_sum preserves_case_option preserves_Let

lemma frame_handlers:
  "preserves (gate_frame H a d i) (handle_telemetry env now n m)"
  "preserves (gate_frame H a d i) (handle_ack env m)"
  "preserves (gate_frame H a d i) (handle_ping now)"
  unfolding handle_telemetry_def handle_ack_def handle_ping_def
  by (intro frame_intros frame_call telemetry_ops_ok preserves_intros holder_telemetry holder_ack holder_records holder_prims)+

abbreviation tick :: "Env \<Rightarrow> Gate \<Rightarrow> Gate" where
  "tick env g \<equiv> snd (callG (nowS env) g)"

abbreviation clock_now :: "Env \<Rightarrow> Gate \<Rightarrow> time" where
  "clock_now env g \<equiv> env_clock env (sv_ticks (gw_service g))"

lemma frame_tick: "gate_frame H a d i g \<Longrightarrow> gate_frame H a d i (tick env g)"
  by (rule preservesD [OF frame_call]) (auto intro: preserves_intros holder_prims)

lemma frame_rejected: "gate_frame H a d i g \<Longrightarrow> gate_frame H a d i (snd (callG RecordConnectionRejected g))"
  by (rule preservesD [OF frame_call]) (auto intro: preserves_intros holder_records)

lemma gate_bind: "bindS (getS h) f g = f (h g) g" "bindS (modS k) f' g = f' () (k g)"
  by (simp_all add: bindS_def op_apply)

lemma reply_run: "reply m g = (Inr (), snd (reply m g))"
  by (simp add: reply_def op_simps)

lemma callG_run:
  "callG (nowS env) g = (Inr (clock_now env g), tick env g)"
  "callG RecordConnectionRejected g = (Inr (), snd (callG RecordConnectionRejected g))"
  "callG (readS f) g = (f (gw_service g), g)"
  by (simp_all add: callG_def nowS_def RecordConnectionRejected_def count_def op_simps)

text \<open>The three outcomes of a login message.\<close>

lemma handle_auth_again:
  "gw_authenticated g \<Longrightarrow> handle_auth env now m g = (Inr Abandoned, snd (reply (error_message ''already authenticated'') g))"
  by (simp add: handle_auth_def op_simps reply_run [THEN bindS_apply(2)])

lemma handle_auth_refused:
  assumes "\<not> gw_authenticated g" "AuthenticateDevice (dm_DeviceID m) (dm_Token m) (gw_service g) = Inl e"
  shows "handle_auth env now m g = (Inr Refused,
    snd (reply (error_message ''authentication failed'') (snd (callG RecordConnectionRejected g))))"
  using assms by (simp add: handle_auth_def gate_bind tryS_apply [OF callG_run(3)]
      bindS_apply(2) [OF callG_run(2)] bindS_apply(2) [OF reply_run] op_apply)

lemma handle_auth_accepted:
  assumes "\<not> gw_authenticated g" "AuthenticateDevice (dm_DeviceID m) (dm_Token m) (gw_service g) = Inr device"
  shows "handle_auth env now m g = (Inr Reading,
    \<lparr>gw_service = snd (TouchDevice (dev_ID device) now
        (snd (RegisterSession env (dev_ID device) \<lparr>ses_ID = cs_id (gw_session g), ses_Transport = Some ''tcp''\<rparr> (gw_service g)))),
     gw_session = snd (session_Send ((server_message ''auth_ok'')\<lparr>msg_ServerTime := unix_milli now, msg_DeviceID := dev_ID device\<rparr>)
       (gw_session g)),
     gw_authenticated = True, gw_deviceID = dev_ID device\<rparr>)"
proof -
  have reg: "RegisterSession env d ses s = (Inr (), snd (RegisterSession env d ses s))" for d ses s
    by (simp add: RegisterSession_eq Let_def)
  have tou: "TouchDevice d t s = (Inr (), snd (TouchDevice d t s))" for d t s
    by (simp add: TouchDevice_def op_apply)
  have call: "callG m0 g0 = (Inr u, g0\<lparr>gw_service := s'\<rparr>)" if "m0 (gw_service g0) = (Inr u, s')" for m0 :: "'x sv" and g0 u s'
    using that by (simp add: callG_def)
  show ?thesis
    using assms by (simp add: handle_auth_def gate_bind tryS_apply [OF callG_run(3)] op_apply
        bindS_apply(2) [OF call [OF reg]] bindS_apply(2) [OF call [OF tou]] reply_def)
qed

text \<open>One turn of the loop, by the message.\<close>

definition handle_other :: "Env \<Rightarrow> time \<Rightarrow> int \<Rightarrow> DeviceMessage \<Rightarrow> unit gw" where
  "handle_other env now n message =
     (if dm_Type message = ''ping'' then handle_ping now
      else if dm_Type message = ''telemetry'' then handle_telemetry env now n message
      else if dm_Type message = ''ack'' then handle_ack env message
      else reply (error_message ''unknown message type''))"

lemma handle_line_eq:
  "handle_line env decode text g =
    (case decode text of
       None \<Rightarrow> (Inr Reading, snd (reply (error_message ''invalid json'') (tick env g)))
     | Some m \<Rightarrow>
         if dm_Type m = ''auth'' then handle_auth env (clock_now env g) m (tick env g)
         else if gw_authenticated g then
           bindS (handle_other env (clock_now env g) (int (length text)) m) (\<lambda>_. retS Reading) (tick env g)
         else (Inr Refused, snd (reply (error_message ''auth required'') (snd (callG RecordConnectionRejected (tick env g))))))"
proof -
  have "gw_authenticated (tick env g) = gw_authenticated g" by (simp add: callG_def nowS_def)
  then show ?thesis
    by (simp add: handle_line_def handle_other_def bindS_apply(2) [OF callG_run(1)] bindS_apply(2) [OF callG_run(2)]
        bindS_apply(2) [OF reply_run] gate_bind op_apply split: option.split)
qed

lemma frame_other: "preserves (gate_frame H a d i) (bindS (handle_other env now n m) (\<lambda>_. retS Reading))"
  unfolding handle_other_def by (intro frame_intros frame_handlers)

text \<open>A message after the login leaves the registry alone, whatever the state of the service.\<close>

lemma holder_call:
  "preserves (\<lambda>s. session_holder s = H) m \<Longrightarrow> preserves (\<lambda>g. session_holder (gw_service g) = H) (callG m)"
  by (auto simp: preserves_def callG_def split: prod.splits)

lemma holder_reply: "preserves (\<lambda>g. session_holder (gw_service g) = H) (reply m)"
  by (simp add: preserves_def reply_def op_apply)

lemma handle_other_holder:
  assumes "bindS (handle_other env now n m) (\<lambda>_. retS q) g = (r, g')"
  shows "session_holder (gw_service g') = session_holder (gw_service g)"
proof -
  have "preserves (\<lambda>g. session_holder (gw_service g) = H) (bindS (handle_other env now n m) (\<lambda>_. retS q))" for H
    unfolding handle_other_def handle_telemetry_def handle_ack_def handle_ping_def
    by (intro holder_reply frame_intros holder_call holder_telemetry holder_ack holder_records holder_prims)
  from preservesD [OF this, of g] assms show ?thesis by (metis snd_conv)
qed

section \<open>Who holds the session of the connection\<close>

text \<open>The devices the session may be registered for, by the phase of the connection.\<close>

definition allowed :: "phase \<Rightarrow> Gate \<Rightarrow> string set" where
  "allowed p g =
     (if \<not> gw_authenticated g \<or> p = Refused then {}
      else if p = Finished then {gw_deviceID g} \<inter> {[]} else {gw_deviceID g})"

lemma allowed_simps:
  "allowed Reading g = (if gw_authenticated g then {gw_deviceID g} else {})" "allowed Refused g = {}"
  "allowed Abandoned g = (if gw_authenticated g then {gw_deviceID g} else {})"
  "allowed Finished g = (if gw_authenticated g \<and> gw_deviceID g = [] then {[]} else {})"
  by (auto simp: allowed_def)

abbreviation held_within :: "string \<Rightarrow> string set \<Rightarrow> Service \<Rightarrow> bool" where
  "held_within \<equiv> session_registry.only session_holder"

definition gate_inv :: "phase \<times> Gate \<Rightarrow> bool" where
  "gate_inv c = (case c of (p, g) \<Rightarrow> service_ok (gw_service g) \<and>
     int (length (cs_queue (gw_session g))) \<le> cs_capacity (gw_session g) \<and>
     held_within (cs_id (gw_session g)) (allowed p g) (gw_service g))"

lemma frame_inv:
  assumes "gate_inv (p, g)" "\<And>H a d i. gate_frame H a d i g \<Longrightarrow> gate_frame H a d i g'" "allowed p' g = allowed p g"
  shows "gate_inv (p', g')"
proof -
  have "gate_frame (session_holder (gw_service g)) (gw_authenticated g) (gw_deviceID g) (cs_id (gw_session g)) g'"
    using assms(1) by (intro assms(2)) (simp add: gate_frame_def gate_inv_def)
  then show ?thesis
    using assms(1,3) registry.only_same [of "gw_service g'" "gw_service g"]
    by (auto simp: gate_inv_def gate_frame_def allowed_def)
qed

lemma tick_fields:
  "gw_authenticated (tick env g) = gw_authenticated g" "gw_session (tick env g) = gw_session g"
  "gw_deviceID (tick env g) = gw_deviceID g" "session_holder (gw_service (tick env g)) = session_holder (gw_service g)"
  "sv_backend (gw_service (tick env g)) = sv_backend (gw_service g)"
  "sv_states (gw_service (tick env g)) = sv_states (gw_service g)"
  "sv_counters (gw_service (tick env g)) = sv_counters (gw_service g)"
  by (simp_all add: callG_def nowS_def session_holder_def fun_eq_iff)

lemma login_inv:
  assumes g: "gate_inv (Reading, g)" "\<not> gw_authenticated g"
  shows "gate_inv (Reading, \<lparr>gw_service = snd (TouchDevice d now
      (snd (RegisterSession env d \<lparr>ses_ID = cs_id (gw_session g), ses_Transport = t\<rparr> (gw_service g)))),
    gw_session = snd (session_Send m (gw_session g)), gw_authenticated = True, gw_deviceID = d\<rparr>)"
    (is "gate_inv (_, \<lparr>gw_service = snd (TouchDevice d now ?s), gw_session = ?cs, gw_authenticated = True, gw_deviceID = d\<rparr>)")
proof -
  have "service_ok ?s" using g by (intro preservesD [OF RegisterSession_ok]) (simp add: gate_inv_def)
  then have "service_ok (snd (TouchDevice d now ?s))" by (rule preservesD [OF TouchDevice_ok])
  moreover have "held_within (cs_id (gw_session g)) {d} ?s"
    using g by (intro registry.only_register) (simp add: gate_inv_def allowed_simps)
  ultimately show ?thesis
    using g registry.only_same [OF holder_touch] by (auto simp: gate_inv_def allowed_simps session_Send_def)
qed

lemma line_inv:
  assumes g: "gate_inv (Reading, g)" and h: "handle_line env decode text g = (Inr p, g')"
  shows "gate_inv (p, g')"
proof -
  have t: "gate_inv (Reading, tick env g)" by (rule frame_inv [OF g]) (auto intro: frame_tick)
  have reply: "gate_frame H a d i g0 \<Longrightarrow> gate_frame H a d i (snd (reply m g0))" for H a d i g0 m
    by (rule preservesD [OF frame_reply])
  show ?thesis
  proof (cases "decode text")
    case None
    then have "p = Reading" "g' = snd (reply (error_message ''invalid json'') (tick env g))"
      using h by (simp_all add: handle_line_eq)
    then show ?thesis by (auto intro!: frame_inv [OF t] reply)
  next
    case (Some m)
    consider (login) "dm_Type m = ''auth''" "gw_authenticated g" | (first) "dm_Type m = ''auth''" "\<not> gw_authenticated g"
      | (message) "dm_Type m \<noteq> ''auth''" "gw_authenticated g" | (refused) "dm_Type m \<noteq> ''auth''" "\<not> gw_authenticated g" by blast
    then show ?thesis
    proof cases
      case login
      then have "p = Abandoned" "g' = snd (reply (error_message ''already authenticated'') (tick env g))"
        using h Some by (simp_all add: handle_line_eq handle_auth_again tick_fields)
      then show ?thesis by (auto intro!: frame_inv [OF t] reply simp: allowed_simps)
    next
      case first
      then show ?thesis
      proof (cases "AuthenticateDevice (dm_DeviceID m) (dm_Token m) (gw_service (tick env g))")
        case (Inl e)
        then have "p = Refused" "g' = snd (reply (error_message ''authentication failed'')
            (snd (callG RecordConnectionRejected (tick env g))))"
          using h Some first by (simp_all add: handle_line_eq handle_auth_refused tick_fields)
        then show ?thesis using first by (auto intro!: frame_inv [OF t] reply frame_rejected simp: allowed_simps tick_fields)
      next
        case (Inr device)
        then show ?thesis
          using h Some first login_inv [OF t] by (auto simp: handle_line_eq handle_auth_accepted tick_fields)
      qed
    next
      case message
      then have h: "bindS (handle_other env (clock_now env g) (int (length text)) m) (\<lambda>_. retS Reading) (tick env g) = (Inr p, g')"
        using h Some by (simp add: handle_line_eq)
      then have "p = Reading" by (auto simp: bindS_Inr op_apply)
      moreover have "gate_frame H a d i (tick env g) \<Longrightarrow> gate_frame H a d i g'" for H a d i
        using preservesD [OF frame_other, of H a d i "tick env g"] h by (metis snd_conv)
      ultimately show ?thesis using frame_inv [OF t, of g'] by simp
    next
      case refused
      then have "p = Refused" "g' = snd (reply (error_message ''auth required'') (snd (callG RecordConnectionRejected (tick env g))))"
        using h Some by (simp_all add: handle_line_eq)
      then show ?thesis using refused by (auto intro!: frame_inv [OF t] reply frame_rejected simp: allowed_simps tick_fields)
    qed
  qed
qed

lemma end_of_input_eq:
  "end_of_input env g =
    (let g1 = (if gw_authenticated g then g else snd (callG RecordConnectionRejected g));
         g2 = (if gw_deviceID g \<noteq> [] then g1\<lparr>gw_service := snd (UnregisterSession env (gw_deviceID g) (cs_id (gw_session g)) (gw_service g1))\<rparr>
           else g1) in
     (Inr Finished, g2\<lparr>gw_session := session_Close (gw_session g2)\<rparr>))"
  by (auto simp: end_of_input_def Let_def bindS_def callG_def RecordConnectionRejected_def count_def op_apply
      UnregisterSession_eq)

lemma end_inv:
  assumes g: "gate_inv (Reading, g)" and e: "end_of_input env g = (Inr p, g')"
  shows "gate_inv (p, g')"
proof -
  define g1 where "g1 = (if gw_authenticated g then g else snd (callG RecordConnectionRejected g))"
  have g1: "gate_inv (Reading, g1)"
    unfolding g1_def using g by (auto intro!: frame_inv [OF g] frame_rejected)
  have same: "gw_deviceID g1 = gw_deviceID g" "gw_session g1 = gw_session g" "gw_authenticated g1 = gw_authenticated g"
    by (simp_all add: g1_def callG_def RecordConnectionRejected_def count_def op_apply)
  let ?i = "cs_id (gw_session g)" and ?d = "gw_deviceID g"
  have ok: "service_ok (snd (UnregisterSession env ?d ?i (gw_service g1)))"
    using g1 by (intro preservesD [OF UnregisterSession_ok]) (simp add: gate_inv_def)
  have only: "held_within ?i {} (snd (UnregisterSession env ?d ?i (gw_service g1)))"
  proof (rule registry.only_unregister)
    show "held_within ?i {?d} (gw_service g1)"
      using g1 same by (auto simp: gate_inv_def allowed_simps session_registry.only_def [OF registry.session_registry_axioms] split: if_splits)
  qed
  show ?thesis
  proof (cases "?d = []")
    case True
    then have p: "p = Finished" "g' = g1\<lparr>gw_session := session_Close (gw_session g1)\<rparr>"
      using e by (auto simp: end_of_input_eq g1_def Let_def)
    show ?thesis using g1 same True by (cases "gw_authenticated g") (simp_all add: p gate_inv_def allowed_simps session_Close_def)
  next
    case False
    then have p: "p = Finished" "g' = g1\<lparr>gw_service := snd (UnregisterSession env ?d ?i (gw_service g1)),
        gw_session := session_Close (gw_session g1)\<rparr>"
      using e by (auto simp: end_of_input_eq g1_def Let_def)
    show ?thesis using ok only g1 same False by (simp add: p gate_inv_def allowed_simps session_Close_def)
  qed
qed

lemma allowed_service: "allowed p (g\<lparr>gw_service := s, gw_session := cs\<rparr>) = allowed p g"
  "allowed p (g\<lparr>gw_service := s\<rparr>) = allowed p g" "allowed p (g\<lparr>gw_session := cs\<rparr>) = allowed p g"
  by (simp_all add: allowed_def)

lemma step_inv: "gate_step c c' \<Longrightarrow> gate_inv c \<Longrightarrow> gate_inv c'"
proof (induction rule: gate_step.induct)
  case (line env decode input g p g')
  show ?case by (rule line_inv [OF line.prems line.hyps])
next
  case (end_input env g p g')
  show ?case by (rule end_inv [OF end_input.prems end_input.hyps])
next
  case (writer p g write_ok)
  then show ?case
    by (auto simp: gate_inv_def allowed_service writer_turn_def session_Close_def Let_def split: list.splits)
next
  case (service_send p g m)
  then show ?case by (auto simp: gate_inv_def allowed_service session_Send_def)
next
  case (other g s' p)
  then show ?case
    by (auto simp: gate_inv_def allowed_service service_step_ok session_registry.only_def [OF registry.session_registry_axioms])
next
  case (session_closed p g)
  then show ?case by (simp add: gate_inv_def allowed_service session_Close_def)
qed

lemma gate_reachable_inv: "gate_reachable c \<Longrightarrow> gate_inv c"
proof (induction rule: gate_reachable.induct)
  case (start s connID queueSize)
  then show ?case
    by (simp add: gate_inv_def handleConnection_def newClientSession_def reachable_service_ok
        session_registry.only_def [OF registry.session_registry_axioms])
qed (rule step_inv)

end
