(* ===== verification/ProtocolCatalogue.thy ===== *)
theory ProtocolCatalogue
  imports Ingest RuleEngine
begin

text \<open>
  The protocol catalogue (internal/model/access.go): the templates a product can be made from, entry by
  entry. A floating-point constant is the nearest binary64 number, an untyped integer in a
  \<open>map[string]any\<close> is an \<open>int\<close>.
\<close>

record ProtocolCatalogEntry =
  pce_ID :: string
  pce_Name :: string
  pce_Description :: string
  pce_Transport :: string
  pce_Protocol :: string
  pce_IngestMode :: string
  pce_PayloadFormat :: string
  pce_SensorTemplate :: string
  pce_ExampleTopic :: string
  pce_CommonSensors :: "string list"
  pce_ThingModel :: ThingModel
  pce_AccessProfile :: ProductAccessProfile
  pce_ExamplePayload :: anymap

text \<open>The composite literals of the source, with the fields they leave out at their zero value.\<close>

definition catalogue_property :: "string \<Rightarrow> string \<Rightarrow> string \<Rightarrow> string \<Rightarrow> ThingModelProperty" where
  "catalogue_property identifier name dataType accessMode = \<lparr>prop_Identifier = identifier, prop_Name = name,
     prop_DataType = dataType, prop_AccessMode = accessMode, prop_Required = False, prop_Description = []\<rparr>"

definition catalogue_service :: "string \<Rightarrow> string \<Rightarrow> ThingModelService" where
  "catalogue_service identifier name = \<lparr>srv_Identifier = identifier, srv_Name = name, srv_Input = [],
     srv_Output = [], srv_Description = []\<rparr>"

definition catalogue_point :: "string \<Rightarrow> string \<Rightarrow> f64 \<Rightarrow> ProtocolPointMapping" where
  "catalogue_point source property scale = \<lparr>pm_Source = source, pm_Property = property, pm_Scale = scale,
     pm_Offset = Fin 0, pm_Unit = []\<rparr>"

definition catalogue_model :: "ThingModelProperty list \<Rightarrow> ThingModelService list \<Rightarrow> ThingModel" where
  "catalogue_model properties services = \<lparr>tm_Properties = properties, tm_Events = [], tm_Services = services,
     tm_Version = 0, tm_UpdatedAt = 0\<rparr>"

section \<open>The entries\<close>

definition entry_tcp_json_direct :: ProtocolCatalogEntry where
  "entry_tcp_json_direct =
    \<lparr>pce_ID = ''tcp-json-direct'', pce_Name = ''Direct TCP JSON'',
     pce_Description = ''Directly connected sensors over the built-in TCP gateway with JSON Lines payloads.'',
     pce_Transport = ''tcp'', pce_Protocol = ''tcp_json'', pce_IngestMode = ''gateway_tcp'',
     pce_PayloadFormat = ''json_values'', pce_SensorTemplate = ''generic'', pce_ExampleTopic = [],
     pce_CommonSensors = [''temperature'', ''humidity'', ''pressure'', ''switch''],
     pce_ThingModel = catalogue_model
       [catalogue_property ''temperature'' ''Temperature'' ''float'' ''rw'',
        catalogue_property ''humidity'' ''Humidity'' ''float'' ''r'']
       [catalogue_service ''reboot'' ''Reboot''],
     pce_AccessProfile = \<lparr>ap_Transport = ''tcp'', ap_Protocol = ''tcp_json'',
       ap_IngestMode = ''gateway_tcp'', ap_PayloadFormat = ''json_values'', ap_AuthMode = ''token'',
       ap_SensorTemplate = ''generic'', ap_Topic = [], ap_Notes = [], ap_Metadata = None,
       ap_PointMappings = []\<rparr>,
     pce_ExamplePayload = Some
       [(''type'', AStr ''telemetry''),
        (''values'', AMap [(''temperature'', AF64 (round64 (242 / 10))), (''humidity'', AInt KInt 58)])]\<rparr>"

definition entry_http_json_push :: ProtocolCatalogEntry where
  "entry_http_json_push =
    \<lparr>pce_ID = ''http-json-push'', pce_Name = ''HTTP JSON Push'',
     pce_Description = ''Sensors or edge gateways push telemetry to the built-in HTTP ingest endpoint.'',
     pce_Transport = ''http'', pce_Protocol = ''http_json'', pce_IngestMode = ''http_push'',
     pce_PayloadFormat = ''json_values'', pce_SensorTemplate = ''environment'', pce_ExampleTopic = [],
     pce_CommonSensors = [''temperature'', ''humidity'', ''battery'', ''co2''],
     pce_ThingModel = catalogue_model
       [catalogue_property ''temperature'' ''Temperature'' ''float'' ''rw'',
        catalogue_property ''humidity'' ''Humidity'' ''float'' ''r'',
        catalogue_property ''battery'' ''Battery'' ''float'' ''r'']
       [],
     pce_AccessProfile = \<lparr>ap_Transport = ''http'', ap_Protocol = ''http_json'',
       ap_IngestMode = ''http_push'', ap_PayloadFormat = ''json_values'', ap_AuthMode = ''token'',
       ap_SensorTemplate = ''environment'', ap_Topic = [], ap_Notes = [], ap_Metadata = None,
       ap_PointMappings = []\<rparr>,
     pce_ExamplePayload = Some
       [(''token'', AStr ''device_token''),
        (''values'', AMap [(''temperature'', AF64 (round64 (238 / 10))), (''humidity'', AInt KInt 54), (''battery'', AInt KInt 96)])]\<rparr>"

definition entry_mqtt_json_direct :: ProtocolCatalogEntry where
  "entry_mqtt_json_direct =
    \<lparr>pce_ID = ''mqtt-json-direct'', pce_Name = ''MQTT JSON Direct'',
     pce_Description = ''Devices connect directly to the built-in MQTT broker and publish telemetry as JSON.'',
     pce_Transport = ''mqtt'', pce_Protocol = ''mqtt_json'', pce_IngestMode = ''broker_mqtt'',
     pce_PayloadFormat = ''json_values'', pce_SensorTemplate = ''power-meter'', pce_ExampleTopic = ''devices/{device_id}/up'',
     pce_CommonSensors = [''power_meter'', ''energy_meter'', ''gateway''],
     pce_ThingModel = catalogue_model
       [catalogue_property ''voltage'' ''Voltage'' ''float'' ''r'',
        catalogue_property ''current'' ''Current'' ''float'' ''r'',
        catalogue_property ''power'' ''Power'' ''float'' ''r'',
        catalogue_property ''energy'' ''Energy'' ''float'' ''r'']
       [],
     pce_AccessProfile = \<lparr>ap_Transport = ''mqtt'', ap_Protocol = ''mqtt_json'',
       ap_IngestMode = ''broker_mqtt'', ap_PayloadFormat = ''json_values'', ap_AuthMode = ''token'',
       ap_SensorTemplate = ''power-meter'', ap_Topic = ''devices/{device_id}/up'', ap_Notes = [], ap_Metadata = None,
       ap_PointMappings = []\<rparr>,
     pce_ExamplePayload = Some
       [(''values'', AMap [(''voltage'', AF64 (round64 (2206 / 10))), (''current'', AF64 (round64 (41 / 10))), (''power'', AF64 (round64 (9052 / 10))), (''energy'', AF64 (round64 (102347 / 10)))])]\<rparr>"

definition entry_modbus_register_map :: ProtocolCatalogEntry where
  "entry_modbus_register_map =
    \<lparr>pce_ID = ''modbus-register-map'', pce_Name = ''Modbus Register Map'',
     pce_Description = ''Common RS485 and Modbus TCP sensors mapped from holding/input registers into thing model properties.'',
     pce_Transport = ''rs485'', pce_Protocol = ''modbus_rtu'', pce_IngestMode = ''http_push'',
     pce_PayloadFormat = ''register_map'', pce_SensorTemplate = ''temp-humidity-rs485'', pce_ExampleTopic = [],
     pce_CommonSensors = [''temp_humidity'', ''pressure'', ''level'', ''flow_meter''],
     pce_ThingModel = catalogue_model
       [catalogue_property ''temperature'' ''Temperature'' ''float'' ''r'',
        catalogue_property ''humidity'' ''Humidity'' ''float'' ''r'']
       [],
     pce_AccessProfile = \<lparr>ap_Transport = ''rs485'', ap_Protocol = ''modbus_rtu'',
       ap_IngestMode = ''http_push'', ap_PayloadFormat = ''register_map'', ap_AuthMode = ''token'',
       ap_SensorTemplate = ''temp-humidity-rs485'', ap_Topic = [], ap_Notes = [], ap_Metadata = None,
       ap_PointMappings = [catalogue_point ''register:40001'' ''temperature'' (round64 (1 / 10)),
         catalogue_point ''register:40002'' ''humidity'' (round64 (1 / 10))]\<rparr>,
     pce_ExamplePayload = Some
       [(''token'', AStr ''device_token''),
        (''registers'', AMap [(''40001'', AInt KInt 231), (''40002'', AInt KInt 550)])]\<rparr>"

definition entry_modbus_tcp_register_map :: ProtocolCatalogEntry where
  "entry_modbus_tcp_register_map =
    \<lparr>pce_ID = ''modbus-tcp-register-map'', pce_Name = ''Modbus TCP Register Map'',
     pce_Description = ''Ethernet-connected power meters and industrial sensors mapped from Modbus TCP registers.'',
     pce_Transport = ''ethernet'', pce_Protocol = ''modbus_tcp'', pce_IngestMode = ''http_push'',
     pce_PayloadFormat = ''register_map'', pce_SensorTemplate = ''power-meter'', pce_ExampleTopic = [],
     pce_CommonSensors = [''power_meter'', ''energy_meter'', ''pressure'', ''flow_meter''],
     pce_ThingModel = catalogue_model
       [catalogue_property ''voltage'' ''Voltage'' ''float'' ''r'',
        catalogue_property ''current'' ''Current'' ''float'' ''r'',
        catalogue_property ''power'' ''Power'' ''float'' ''r'',
        catalogue_property ''energy'' ''Energy'' ''float'' ''r'']
       [],
     pce_AccessProfile = \<lparr>ap_Transport = ''ethernet'', ap_Protocol = ''modbus_tcp'',
       ap_IngestMode = ''http_push'', ap_PayloadFormat = ''register_map'', ap_AuthMode = ''token'',
       ap_SensorTemplate = ''power-meter'', ap_Topic = [], ap_Notes = [], ap_Metadata = None,
       ap_PointMappings = [catalogue_point ''register:30001'' ''voltage'' (round64 (1 / 10)),
         catalogue_point ''register:30002'' ''current'' (round64 (1 / 100)),
         catalogue_point ''register:30003'' ''power'' (round64 (1 / 10)),
         catalogue_point ''register:30004'' ''energy'' (round64 (1 / 10))]\<rparr>,
     pce_ExamplePayload = Some
       [(''token'', AStr ''device_token''),
        (''registers'', AMap [(''30001'', AInt KInt 2214), (''30002'', AInt KInt 418), (''30003'', AInt KInt 9231), (''30004'', AInt KInt 120450)])]\<rparr>"

definition entry_opcua_node_map :: ProtocolCatalogEntry where
  "entry_opcua_node_map =
    \<lparr>pce_ID = ''opcua-node-map'', pce_Name = ''OPC UA Node Map'',
     pce_Description = ''Industrial PLC and SCADA values mapped from OPC UA nodes through a bridge.'',
     pce_Transport = ''opcua'', pce_Protocol = ''opcua_json'', pce_IngestMode = ''bridge_http'',
     pce_PayloadFormat = ''mapped_json'', pce_SensorTemplate = ''industrial-plc'', pce_ExampleTopic = [],
     pce_CommonSensors = [''plc'', ''energy_meter'', ''vibration'', ''temperature''],
     pce_ThingModel = catalogue_model
       [catalogue_property ''temperature'' ''Temperature'' ''float'' ''r'',
        catalogue_property ''running'' ''Running'' ''bool'' ''r'']
       [],
     pce_AccessProfile = \<lparr>ap_Transport = ''opcua'', ap_Protocol = ''opcua_json'',
       ap_IngestMode = ''bridge_http'', ap_PayloadFormat = ''mapped_json'', ap_AuthMode = ''token'',
       ap_SensorTemplate = ''industrial-plc'', ap_Topic = [], ap_Notes = [], ap_Metadata = None,
       ap_PointMappings = [catalogue_point ''nodes.ns=2;s=Line1.Temperature'' ''temperature'' (Fin 0),
         catalogue_point ''nodes.ns=2;s=Line1.Running'' ''running'' (Fin 0)]\<rparr>,
     pce_ExamplePayload = Some
       [(''token'', AStr ''device_token''),
        (''nodes'', AMap [(''ns=2;s=Line1.Temperature'', AF64 (round64 (486 / 10))), (''ns=2;s=Line1.Running'', ABool True)])]\<rparr>"

definition entry_bacnet_object_map :: ProtocolCatalogEntry where
  "entry_bacnet_object_map =
    \<lparr>pce_ID = ''bacnet-object-map'', pce_Name = ''BACnet Object Map'',
     pce_Description = ''Building automation values mapped from BACnet objects through a bridge or gateway.'',
     pce_Transport = ''bacnet'', pce_Protocol = ''bacnet_ip'', pce_IngestMode = ''bridge_http'',
     pce_PayloadFormat = ''mapped_json'', pce_SensorTemplate = ''building-hvac'', pce_ExampleTopic = [],
     pce_CommonSensors = [''hvac'', ''temperature'', ''humidity'', ''co2''],
     pce_ThingModel = catalogue_model
       [catalogue_property ''temperature'' ''Temperature'' ''float'' ''r'',
        catalogue_property ''humidity'' ''Humidity'' ''float'' ''r'',
        catalogue_property ''co2'' ''CO2'' ''float'' ''r'']
       [],
     pce_AccessProfile = \<lparr>ap_Transport = ''bacnet'', ap_Protocol = ''bacnet_ip'',
       ap_IngestMode = ''bridge_http'', ap_PayloadFormat = ''mapped_json'', ap_AuthMode = ''token'',
       ap_SensorTemplate = ''building-hvac'', ap_Topic = [], ap_Notes = [], ap_Metadata = None,
       ap_PointMappings = [catalogue_point ''objects.analogInput:1.presentValue'' ''temperature'' (Fin 0),
         catalogue_point ''objects.analogInput:2.presentValue'' ''humidity'' (Fin 0),
         catalogue_point ''objects.analogInput:3.presentValue'' ''co2'' (Fin 0)]\<rparr>,
     pce_ExamplePayload = Some
       [(''token'', AStr ''device_token''),
        (''objects'', AMap [(''analogInput:1.presentValue'', AF64 (round64 (254 / 10))), (''analogInput:2.presentValue'', AF64 (round64 (558 / 10))), (''analogInput:3.presentValue'', AInt KInt 741)])]\<rparr>"

definition entry_lorawan_uplink :: ProtocolCatalogEntry where
  "entry_lorawan_uplink =
    \<lparr>pce_ID = ''lorawan-uplink'', pce_Name = ''LoRaWAN Uplink'',
     pce_Description = ''LoRaWAN sensors forwarded by network server webhook or bridge into the platform.'',
     pce_Transport = ''lorawan'', pce_Protocol = ''lorawan_uplink'', pce_IngestMode = ''bridge_http'',
     pce_PayloadFormat = ''json_values'', pce_SensorTemplate = ''battery-env'', pce_ExampleTopic = [],
     pce_CommonSensors = [''environment'', ''soil'', ''water-level'', ''tracking''],
     pce_ThingModel = catalogue_model
       [catalogue_property ''temperature'' ''Temperature'' ''float'' ''r'',
        catalogue_property ''humidity'' ''Humidity'' ''float'' ''r'',
        catalogue_property ''battery'' ''Battery'' ''float'' ''r'']
       [],
     pce_AccessProfile = \<lparr>ap_Transport = ''lorawan'', ap_Protocol = ''lorawan_uplink'',
       ap_IngestMode = ''bridge_http'', ap_PayloadFormat = ''json_values'', ap_AuthMode = ''token'',
       ap_SensorTemplate = ''battery-env'', ap_Topic = [], ap_Notes = [], ap_Metadata = None,
       ap_PointMappings = []\<rparr>,
     pce_ExamplePayload = Some
       [(''token'', AStr ''device_token''),
        (''values'', AMap [(''temperature'', AF64 (round64 (194 / 10))), (''humidity'', AInt KInt 67), (''battery'', AInt KInt 88)])]\<rparr>"

definition DefaultProtocolCatalog :: "ProtocolCatalogEntry list" where
  "DefaultProtocolCatalog =
     [entry_tcp_json_direct,
      entry_http_json_push,
      entry_mqtt_json_direct,
      entry_modbus_register_map,
      entry_modbus_tcp_register_map,
      entry_opcua_node_map,
      entry_bacnet_object_map,
      entry_lorawan_uplink]"

lemmas entry_defs = entry_tcp_json_direct_def entry_http_json_push_def entry_mqtt_json_direct_def
  entry_modbus_register_map_def entry_modbus_tcp_register_map_def entry_opcua_node_map_def
  entry_bacnet_object_map_def entry_lorawan_uplink_def

section \<open>Evaluating the entries\<close>

text \<open>A text that begins and ends with a visible ASCII character has nothing to trim.\<close>

definition visible :: "char \<Rightarrow> bool" where
  "visible c \<longleftrightarrow> 33 \<le> (of_char c :: nat) \<and> (of_char c :: nat) \<le> 126"

lemma trim_visible:
  assumes "s = [] \<or> visible (hd s) \<and> visible (last s)"
  shows "trim_space s = s"
proof (cases "s = []")
  case False
  have runes: "\<forall>t \<in> set space_runes. t \<noteq> [] \<and> \<not> visible (hd t) \<and> \<not> visible (last t)" by code_simp
  have "\<not> prefix t s" "\<not> prefix (rev t) (rev s)" if t: "t \<in> set space_runes" for t
  proof -
    show "\<not> prefix t s" using runes t assms False by (cases t) (auto simp: prefix_def)
    show "\<not> prefix (rev t) (rev s)"
      using runes t assms False by (cases t rule: rev_cases) (auto simp: prefix_def)
  qed
  then have "trimmed s" by (auto simp: trimmed_def free_def)
  then show ?thesis by (rule trim_space_id)
qed simp

lemma trim_cases: "trim_space [] = []" "visible c \<Longrightarrow> visible (last (c # s)) \<Longrightarrow> trim_space (c # s) = c # s"
  by (simp_all add: trim_visible)

lemma entry_modes:
  "map normalizeTransport [''tcp'', ''http'', ''mqtt'', ''rs485'', ''ethernet'', ''opcua'', ''bacnet'', ''lorawan''] =
    [''tcp'', ''http'', ''mqtt'', ''rs485'', ''ethernet'', ''opcua'', ''bacnet'', ''lorawan'']"
  "map normalizeProtocol [''tcp_json'', ''http_json'', ''mqtt_json'', ''modbus_rtu'', ''modbus_tcp'', ''opcua_json'', ''bacnet_ip'', ''lorawan_uplink''] =
    [''tcp_json'', ''http_json'', ''mqtt_json'', ''modbus_rtu'', ''modbus_tcp'', ''opcua_json'', ''bacnet_ip'', ''lorawan_uplink'']"
  "map normalizeIngestMode [''gateway_tcp'', ''http_push'', ''broker_mqtt'', ''bridge_http''] =
    [''gateway_tcp'', ''http_push'', ''broker_mqtt'', ''bridge_http'']"
  "map normalizePayloadFormat [''json_values'', ''register_map'', ''mapped_json''] = [''json_values'', ''register_map'', ''mapped_json'']"
  "normalizeAuthMode ''token'' = ''token''"
  "map normalizeDataType [''float'', ''bool''] = [''float'', ''bool'']"
  "map normalizeAccessMode [''r'', ''rw''] = [''r'', ''rw'']"
  unfolding mode_defs normalizeDataType_def normalizeAccessMode_def transport_table_def protocol_table_def ingestMode_table_def
    payloadFormat_table_def authMode_table_def dataType_table_def
  by (simp_all add: label_eval)

lemma plain_trim_lower: "plain s \<Longrightarrow> trim_lower s = s"
  by (simp add: trim_lower_def plain_trim plain_lower)

lemma entry_templates:
  "map trim_lower [''generic'', ''environment'', ''power-meter'', ''temp-humidity-rs485'', ''industrial-plc'', ''building-hvac'', ''battery-env''] =
    [''generic'', ''environment'', ''power-meter'', ''temp-humidity-rs485'', ''industrial-plc'', ''building-hvac'', ''battery-env'']"
  by (simp add: plain_trim_lower plain_def plain_chars_def)

lemmas entry_labels = entry_modes [simplified] entry_templates [simplified]

lemmas model_eval = catalogue_property_def catalogue_service_def catalogue_model_def
  normalizeThingModel_def normalizeProperty_def normalizeService_def checkProperty_def checkService_def isSupportedDataType_def
  normalizeParameters_def trim_cases visible_def entry_labels

text \<open>What normalisation makes of an entry: the version and the time are set, and an unset scale is one.\<close>

definition unit_scale :: "f64 \<Rightarrow> f64" where
  "unit_scale x = (if f64_eq x (Fin 0) then Fin 1 else x)"

lemma normal_point:
  "trim_space source = source \<Longrightarrow> trim_space property = property \<Longrightarrow> source \<noteq> [] \<Longrightarrow> property \<noteq> [] \<Longrightarrow>
    normalizePointMapping (catalogue_point source property scale) = Inr (catalogue_point source property (unit_scale scale))"
  by (simp add: normalizePointMapping_def catalogue_point_def unit_scale_def Let_def)

lemma point_fields [simp]: "pm_Property (catalogue_point s p k) = p" "pm_Source (catalogue_point s p k) = s"
  by (simp_all add: catalogue_point_def)

definition normal_model :: "time \<Rightarrow> ThingModel \<Rightarrow> ThingModel" where
  "normal_model now tm = tm\<lparr>tm_Version := 1, tm_UpdatedAt := now\<rparr>"

definition normal_profile :: "ProductAccessProfile \<Rightarrow> ProductAccessProfile" where
  "normal_profile ap = ap\<lparr>ap_PointMappings := map (\<lambda>item. item\<lparr>pm_Scale := unit_scale (pm_Scale item)\<rparr>) (ap_PointMappings ap)\<rparr>"

lemma normal_point_update: "(catalogue_point s p k)\<lparr>pm_Scale := k'\<rparr> = catalogue_point s p k'" "pm_Scale (catalogue_point s p k) = k"
  by (simp_all add: catalogue_point_def)

lemma entries_models:
  "list_all (\<lambda>e. normalizeThingModel (pce_ThingModel e) 1 now = Inr (normal_model now (pce_ThingModel e))) DefaultProtocolCatalog"
  by (simp add: DefaultProtocolCatalog_def entry_defs model_eval normal_model_def)

lemma entries_profiles:
  "list_all (\<lambda>e. normalizeAccessProfile (pce_AccessProfile e) = Inr (normal_profile (pce_AccessProfile e))) DefaultProtocolCatalog"
  by (simp add: DefaultProtocolCatalog_def entry_defs normalizeAccessProfile_def trim_profile_def complete_profile_def
      or_default_def normal_point normal_point_update normal_profile_def cloneStringMap_def mlen_def entry_labels
      trim_cases visible_def)

lemma apply_point:
  "applyMapping env (AF64 x) (catalogue_point s p k) = AF64 (f64_add (f64_mul x (unit_scale k)) (Fin 0))"
  "applyMapping env (AInt kind n) (catalogue_point s p k) = AF64 (f64_add (f64_mul (float64_of_int n) (unit_scale k)) (Fin 0))"
  "applyMapping env (ABool b) (catalogue_point s p k) = ABool b"
  by (simp_all add: applyMapping_def float64Value_def catalogue_point_def unit_scale_def Let_def)

text \<open>A resolved payload is a value for each property, of its type.\<close>

definition values_match :: "ThingModelProperty list \<Rightarrow> anymap res \<Rightarrow> bool" where
  "values_match ps r \<longleftrightarrow> (case r of Inl _ \<Rightarrow> False | Inr vs \<Rightarrow>
     mwf vs \<and> set (map fst (entries vs)) = set (map prop_Identifier ps) \<and> list_all (\<lambda>(key, value). value_fits ps key value) (entries vs))"

lemma entries_values:
  "list_all (\<lambda>e. values_match (tm_Properties (pce_ThingModel e)) (BuildValues env (pce_ExamplePayload e) (normal_profile (pce_AccessProfile e)))) DefaultProtocolCatalog"
  by (simp add: DefaultProtocolCatalog_def entry_defs BuildValues_def mlen_def resolveMappedValues_def map_point_def
      lookupSourceValue_def has_prefix_def normal_profile_def normal_point_update mwf_def insert_commute
      trim_prefix_def lookupNestedValue_def mlookup_def apply_point value_fits_def property_map_def
      catalogue_property_def catalogue_model_def trim_cases visible_def values_match_def matchesThingDataType_def isNumber_def)

text \<open>An entry is usable: a product made of it passes every check, and its example payload is accepted.\<close>

definition catalogue_entry_ok :: "TextEnv \<Rightarrow> time \<Rightarrow> ProtocolCatalogEntry \<Rightarrow> bool" where
  "catalogue_entry_ok env now e \<longleftrightarrow>
     (case normalizeThingModel (pce_ThingModel e) 1 now of Inl _ \<Rightarrow> False | Inr tm \<Rightarrow>
     (case normalizeAccessProfile (pce_AccessProfile e) of Inl _ \<Rightarrow> False | Inr ap \<Rightarrow>
       validateAccessMappings tm ap = Inr () \<and>
       ap_Transport ap = pce_Transport e \<and> ap_Protocol ap = pce_Protocol e \<and>
       ap_IngestMode ap = pce_IngestMode e \<and> ap_PayloadFormat ap = pce_PayloadFormat e \<and>
       ap_SensorTemplate ap = pce_SensorTemplate e \<and>
       values_match (tm_Properties tm) (BuildValues env (pce_ExamplePayload e) ap)))"

lemma entries_labels:
  "list_all (\<lambda>e. validateAccessMappings (normal_model now (pce_ThingModel e)) (normal_profile (pce_AccessProfile e)) = Inr () \<and>
     ap_Transport (pce_AccessProfile e) = pce_Transport e \<and> ap_Protocol (pce_AccessProfile e) = pce_Protocol e \<and>
     ap_IngestMode (pce_AccessProfile e) = pce_IngestMode e \<and> ap_PayloadFormat (pce_AccessProfile e) = pce_PayloadFormat e \<and>
     ap_SensorTemplate (pce_AccessProfile e) = pce_SensorTemplate e) DefaultProtocolCatalog"
  by (simp add: DefaultProtocolCatalog_def entry_defs validateAccessMappings_def normal_profile_def normal_model_def
      normal_point_update catalogue_model_def catalogue_property_def)

lemma normal_fields:
  "tm_Properties (normal_model now tm) = tm_Properties tm" "ap_Transport (normal_profile ap) = ap_Transport ap"
  "ap_Protocol (normal_profile ap) = ap_Protocol ap" "ap_IngestMode (normal_profile ap) = ap_IngestMode ap"
  "ap_PayloadFormat (normal_profile ap) = ap_PayloadFormat ap" "ap_SensorTemplate (normal_profile ap) = ap_SensorTemplate ap"
  by (simp_all add: normal_model_def normal_profile_def)

end
