(* ===== verification/EdgeProperties.thy ===== *)
theory EdgeProperties
  imports Mqtt Gateway ProtocolCatalogue Demo
begin

text \<open>
  Properties of the front ends: the payload resolver, the protocol catalogue, the MQTT hook and the TCP
  gateway.
\<close>

section \<open>Payloads\<close>

text \<open>C22: What \<open>BuildValues\<close> returns is not empty and comes from the payload: it is one of the four
  containers, or every value was computed by a point mapping of the profile from a source in the
  payload, or the profile takes flat JSON and the values are the unreserved entries. It fails only with
  \<open>unsupported payload shape\<close>, and then no point mapping of the profile has its source in the payload.
\<close>

theorem build_values:
  "case BuildValues env payload profile of
     Inl e \<Rightarrow> e = EOther ''unsupported payload shape'' \<and>
       list_all (\<lambda>item. lookupSourceValue payload (pm_Source item) = None) (ap_PointMappings profile)
   | Inr vs \<Rightarrow> mlen vs > 0 \<and>
       ((\<exists>k. k \<in> set [''values'', ''telemetry'', ''properties'', ''data''] \<and> mlookup payload k = Some (AMap (entries vs))) \<or>
        mwf vs \<and> list_all (mapped_from env payload (ap_PointMappings profile)) (entries vs) \<or>
        (ap_PayloadFormat profile \<in> {''flat_json'', []} \<or> ap_Protocol profile \<in> {''http_json'', ''mqtt_json''}) \<and>
          entries vs = filter (\<lambda>(key, _). key \<notin> set reserved_keys) (entries payload))"
proof (cases "BuildValues env payload profile")
  case (Inl e)
  then have e: "e = EOther ''unsupported payload shape''" "mlen (resolveMappedValues env payload profile) = 0"
    by (auto simp: BuildValues_def Let_def split: if_splits)
  have "lookupSourceValue payload (pm_Source item) = None" if "item \<in> set (ap_PointMappings profile)" for item
  proof (rule ccontr)
    assume "lookupSourceValue payload (pm_Source item) \<noteq> None"
    from resolved_complete [OF that this] have "mlookup (resolveMappedValues env payload profile) (pm_Property item) \<noteq> None" .
    then show False using e(2) by (cases "resolveMappedValues env payload profile") (auto simp: mlookup_def mlen_def)
  qed
  with Inl e show ?thesis by (simp add: list_all_iff)
next
  case (Inr vs)
  let ?keys = "[''values'', ''telemetry'', ''properties'', ''data'']"
  consider (direct) "extractFirstMap payload ?keys = vs" "mlen vs > 0"
    | (mapped) "vs = resolveMappedValues env payload profile" "mlen vs > 0"
    | (flat) "vs = filterReservedPayloadKeys payload" "mlen vs > 0"
        "ap_PayloadFormat profile \<in> {''flat_json'', []} \<or> ap_Protocol profile \<in> {''http_json'', ''mqtt_json''}"
    using Inr by (auto simp: BuildValues_def Let_def simp del: extractFirstMap.simps split: if_splits)
  then show ?thesis
  proof cases
    case direct
    then obtain m where "vs = Some m" by (cases vs) (auto simp: mlen_def)
    with direct extractFirstMap_Some [of payload ?keys m] show ?thesis
      by (auto simp: Inr simp del: extractFirstMap.simps)
  next
    case mapped
    with resolved_values [of env payload profile] show ?thesis by (simp add: Inr list_all_iff)
  next
    case flat
    then show ?thesis by (auto simp: Inr filterReservedPayloadKeys_def)
  qed
qed

text \<open>C23: Every entry of \<open>DefaultProtocolCatalog\<close> is usable: its thing model and access profile are
  accepted, the labels of the entry are those of the normalised profile, every point mapping names a
  property, and the example payload resolves to one value per property, each of the property's type.
\<close>

theorem catalogue_usable: "list_all (catalogue_entry_ok env now) DefaultProtocolCatalog"
  using entries_models [of now] entries_profiles entries_values [of env] entries_labels [of now]
  by (simp add: list_all_iff catalogue_entry_ok_def normal_fields)

section \<open>MQTT\<close>

text \<open>Topic access. A client may publish to exactly the up and the ack topic of its binding, and
  subscribe to a filter exactly if the filter matches its down topic level by level; a filter without
  wildcards is then the down topic itself, up to slashes at the ends. The filter \<open>#\<close> matches it too, so
  every bound client may subscribe to the topics of all devices.
\<close>

lemma topic_access:
  "(OnACLCheck cl topic True h \<longleftrightarrow> (\<exists>b. binding h (cl_ID cl) = Some b \<and>
      topic \<in> {rt_UpTopic (cb_Routing b), rt_AckTopic (cb_Routing b)})) \<and>
   (OnACLCheck cl topic False h \<longleftrightarrow> (\<exists>b. binding h (cl_ID cl) = Some b \<and>
      levels_match (levels topic) (levels (rt_DownTopic (cb_Routing b))))) \<and>
   (set (levels topic) \<inter> {''+'', ''#''} = {} \<longrightarrow>
      (OnACLCheck cl topic False h \<longleftrightarrow> (\<exists>b. binding h (cl_ID cl) = Some b \<and>
        levels topic = levels (rt_DownTopic (cb_Routing b))))) \<and>
   (OnACLCheck cl ''#'' False h \<longleftrightarrow> binding h (cl_ID cl) \<noteq> None)"
  by (auto simp: OnACLCheck_def mqttTopicMatch_levels levels_match_plain levels_hash levels_match_hash split: option.splits)

definition demo_client :: Client where
  "demo_client = \<lparr>cl_ID = ''c'', cl_Username = ''d1''\<rparr>"

definition demo_hook :: authHook where
  "demo_hook = \<lparr>hk_service = NewService demo_env (MemoryBackend ((New 3)\<lparr>ms_devices := [(''d1'', demo_device ''d1'' [])]\<rparr>)),
     hk_bindings = []\<rparr>"

definition demo_bound :: authHook where
  "demo_bound = demo_hook\<lparr>hk_bindings := [(''c'', \<lparr>cb_DeviceID = ''d1'', cb_AccessProfile = zero_AccessProfile,
     cb_Routing = \<lparr>rt_UpTopic = ''devices/d1/up'', rt_DownTopic = ''devices/d1/down'', rt_AckTopic = ''devices/d1/ack''\<rparr>\<rparr>)]\<rparr>"

lemma topic_access_witness: "\<not> OnACLCheck demo_client ''devices/d2/down'' False demo_bound"
proof -
  have "set (levels ''devices/d2/down'') \<inter> {''+'', ''#''} = {}" "levels ''devices/d2/down'' \<noteq> levels ''devices/d1/down''"
    by (simp_all add: levels_def trim_def trim_right_def)
  with topic_access [of demo_client "''devices/d2/down''" demo_bound]
  have "OnACLCheck demo_client ''devices/d2/down'' False demo_bound \<longleftrightarrow> (\<exists>b. binding demo_bound (cl_ID demo_client) = Some b \<and>
      levels ''devices/d2/down'' = levels (rt_DownTopic (cb_Routing b)))" by blast
  moreover have "levels ''devices/d2/down'' \<noteq> levels ''devices/d1/down''" by fact
  ultimately show ?thesis by (auto simp: demo_bound_def demo_client_def binding_def)
qed

text \<open>C24: A login binds the client to the device it authenticated as, and the session established next is
  the device's. A second connection with the same client ID shares binding and session ID with the
  first: when the broker reports the end of the first after the login of the second, the device is left
  without a binding and without this session, whether or not the second session was established by then.
\<close>

theorem client_id_takeover:
  assumes "OnConnectAuthenticate cl password h = (Inr True, h1)"
  shows "\<exists>device. AuthenticateDevice (login_name cl) (trim_space password) (hk_service h) = Inr device \<and>
    (\<exists>b. binding h1 (cl_ID cl) = Some b \<and> cb_DeviceID b = dev_ID device \<and>
      cb_Routing b = resolveRouting (cb_AccessProfile b) (dev_ID device)) \<and>
    (let established = snd (OnSessionEstablished env cl h1); after = snd (OnDisconnect env' cl established);
         ended = snd (OnDisconnect env' cl h1); late = snd (OnSessionEstablished env cl ended) in
      session_holder (hk_service established) (dev_ID device) = Some (cl_ID cl) \<and>
      binding after (cl_ID cl) = None \<and> session_holder (hk_service after) (dev_ID device) = None \<and>
      binding late (cl_ID cl) = None \<and> session_holder (hk_service late) (dev_ID device) \<noteq> Some (cl_ID cl))"
proof -
  obtain device profile where d: "AuthenticateDevice (login_name cl) (trim_space password) (hk_service h) = Inr device"
      "binding h1 (cl_ID cl) = Some \<lparr>cb_DeviceID = dev_ID device, cb_AccessProfile = profile,
         cb_Routing = resolveRouting profile (dev_ID device)\<rparr>"
    using login_accepted [OF assms] by blast
  let ?E = "snd (OnSessionEstablished env cl h1)" and ?D = "snd (OnDisconnect env' cl h1)"
  note e = established_run [of h1 cl, OF d(2), of env]
  note e' = disconnect_run [of ?E cl, OF e(2) [THEN fun_cong, THEN trans, OF d(2)], of env']
  note f = disconnect_run [of h1 cl, OF d(2), of env']
  have late: "snd (OnSessionEstablished env cl ?D) = ?D" using unbound_run [OF f(2)] by simp
  have "session_holder (hk_service ?E) (dev_ID device) = Some (cl_ID cl)" by (simp add: e)
  moreover from this have "session_holder (hk_service (snd (OnDisconnect env' cl ?E))) (dev_ID device) = None"
    by (simp add: e' registry.holder_unregister)
  moreover have "session_holder (hk_service ?D) (dev_ID device) \<noteq> Some (cl_ID cl)"
    using registry.unregistered by (simp add: f)
  ultimately show ?thesis using d e'(2) f(2) late by (simp add: Let_def)
qed

theorem client_id_takeover_witness:
  "\<exists>h1. OnConnectAuthenticate demo_client ''secret'' demo_hook = (Inr True, h1) \<and>
    binding (snd (OnDisconnect demo_env demo_client (snd (OnSessionEstablished demo_env demo_client h1)))) ''c'' = None"
proof -
  have "fst (OnConnectAuthenticate demo_client ''secret'' demo_hook) = Inr True"
    by (simp add: OnConnectAuthenticate_def Let_def login_name_def demo_client_def label_eval AuthenticateDevice_def
        tryS_def bindS_def callS_def op_apply demo_hook_def st_GetDevice_def mem_GetDevice_def login_profile_def
        RecordConnectionAccepted_def RecordMQTTConnectionAccepted_def count_def NewService_def)
  then obtain h1 where h: "OnConnectAuthenticate demo_client ''secret'' demo_hook = (Inr True, h1)"
    by (metis prod.collapse)
  from client_id_takeover [OF h, of demo_env demo_env] h show ?thesis by (auto simp: Let_def demo_client_def)
qed

section \<open>TCP gateway\<close>

text \<open>C25: In every reachable state of a connection, however its loop is interleaved with the writer, the
  service and the other connections: the invariant of the service holds, the queue of the session keeps
  its bound, and the session is registered for no device but the one that logged in on this connection.
  It is registered for none when the login was refused, and for none with a non-empty ID once the end of
  the input has been handled.
\<close>

theorem gateway_sessions:
  assumes "gate_reachable (p, g)"
  shows "service_ok (gw_service g) \<and>
    int (length (cs_queue (gw_session g))) \<le> cs_capacity (gw_session g) \<and>
    (session_holder (gw_service g) d = Some (cs_id (gw_session g)) \<longrightarrow>
      gw_authenticated g \<and> d = gw_deviceID g \<and> p \<noteq> Refused \<and> (p = Finished \<longrightarrow> d = []))"
  using gate_reachable_inv [OF assms]
  by (cases p) (auto simp: gate_inv_def allowed_simps session_registry.only_def [OF registry.session_registry_axioms]
      split: if_splits)

definition demo_login :: DeviceMessage where
  "demo_login = \<lparr>dm_Type = ''auth'', dm_DeviceID = ''d1'', dm_Token = ''secret'', dm_TS = 0, dm_Values = None,
     dm_CommandID = [], dm_Status = [], dm_Message = []\<rparr>"

definition demo_gate :: Gate where
  "demo_gate = handleConnection ''conn_1'' 4 demo_service"

lemma demo_gate_reachable: "gate_reachable (Reading, demo_gate)"
  unfolding demo_gate_def
  by (rule gate_reachable.start [OF demo_reachable])
    (simp add: session_holder_def state_of_def zero_deviceState_def)

lemma demo_login_accepted:
  "AuthenticateDevice (dm_DeviceID demo_login) (dm_Token demo_login) (gw_service (tick env demo_gate)) =
    Inr (demo_device ''d1'' ''p1'')"
  by (simp add: AuthenticateDevice_def demo_login_def demo_gate_def handleConnection_def tick_fields st_GetDevice_def
      mem_GetDevice_def label_eval)

lemma demo_logged_in:
  "\<exists>g. handle_line demo_env (\<lambda>_. Some demo_login) [] demo_gate = (Inr Reading, g) \<and> gw_authenticated g \<and>
    gw_deviceID g = ''d1'' \<and> cs_id (gw_session g) = ''conn_1'' \<and> session_holder (gw_service g) ''d1'' = Some ''conn_1''"
proof -
  have id: "cs_id (gw_session (tick demo_env demo_gate)) = ''conn_1''" "\<not> gw_authenticated (tick demo_env demo_gate)"
    by (simp_all add: tick_fields demo_gate_def handleConnection_def newClientSession_def)
  have login: "dm_Type demo_login = ''auth''" by (simp add: demo_login_def)
  show ?thesis
    using registry.registered [of demo_env "''d1''" "''conn_1''" "Some ''tcp''"]
    by (simp add: handle_line_eq login handle_auth_accepted [OF id(2) demo_login_accepted] id(1) session_Send_def)
qed

theorem gateway_sessions_witness:
  "\<exists>g. gate_reachable (Reading, g) \<and> session_holder (gw_service g) ''d1'' = Some ''conn_1'' \<and>
    session_holder (gw_service g) ''d2'' \<noteq> Some ''conn_1''"
proof -
  obtain g where g: "handle_line demo_env (\<lambda>_. Some demo_login) [] demo_gate = (Inr Reading, g)" "gw_deviceID g = ''d1''"
      "cs_id (gw_session g) = ''conn_1''" "session_holder (gw_service g) ''d1'' = Some ''conn_1''"
    using demo_logged_in by blast
  from gate_reachable.step [OF demo_gate_reachable gate_step.line [OF g(1)]]
  have r: "gate_reachable (Reading, g)" .
  from gateway_sessions [OF r, of "''d2''"] g show ?thesis using r by auto
qed



end
