(* ===== verification/Config.thy ===== *)
theory Config
  imports Ingest
begin

text \<open>
  The configuration (internal/config/config.go): the environment variables the program reads, with their
  defaults. \<open>ConfigEnv\<close> is the outside: the environment (an unset variable is the empty text), the host
  name, and \<open>time.ParseDuration\<close>, of which the code takes the value if it is positive.
  \<open>net.SplitHostPort\<close> and \<open>net.JoinHostPort\<close> are written out.
\<close>

section \<open>Strings\<close>

text \<open>\<open>strings.Split(s, ",")\<close>: the pieces between the commas.\<close>

fun split_comma :: "string \<Rightarrow> string list" where
  "split_comma [] = [[]]"
| "split_comma (c # cs) =
     (if c = CHR '','' then [] # split_comma cs
      else (case split_comma cs of [] \<Rightarrow> [[c]] | part # parts \<Rightarrow> (c # part) # parts))"

text \<open>The text before and after the last colon, \<open>None\<close> when there is no colon.\<close>

definition cut_last_colon :: "string \<Rightarrow> (string \<times> string) option" where
  "cut_last_colon s =
     (if CHR '':'' \<notin> set s then None
      else let port = rev (takeWhile (\<lambda>c. c \<noteq> CHR '':'') (rev s)) in
        Some (take (length s - length port - 1) s, port))"

definition SplitHostPort :: "string \<Rightarrow> (string \<times> string) option" where
  "SplitHostPort hostport =
     (case cut_last_colon hostport of
        None \<Rightarrow> None
      | Some (host, port) \<Rightarrow>
          if hd hostport = CHR ''['' then
            (if CHR '']'' \<notin> set hostport then None
             else let close = length (takeWhile (\<lambda>c. c \<noteq> CHR '']'') hostport) in
               if close + 1 \<noteq> length host then None
               else if CHR ''['' \<in> set (drop 1 hostport) \<or> CHR '']'' \<in> set (drop (close + 1) hostport) then None
               else Some (drop 1 (take close hostport), port))
          else if CHR '':'' \<in> set host then None
          else if CHR ''['' \<in> set hostport \<or> CHR '']'' \<in> set hostport then None
          else Some (host, port))"

definition JoinHostPort :: "string \<Rightarrow> string \<Rightarrow> string" where
  "JoinHostPort host port =
     (if CHR '':'' \<in> set host then ''['' @ host @ '']:'' @ port else host @ '':'' @ port)"

section \<open>Reading the environment\<close>

record ConfigEnv =
  ce_Getenv :: "string \<Rightarrow> string"
  ce_Hostname :: "string option"
  ce_ParseDuration :: "string \<Rightarrow> duration option"

definition getEnv :: "ConfigEnv \<Rightarrow> string \<Rightarrow> string \<Rightarrow> string" where
  "getEnv env key fallback = (let value = trim_space (ce_Getenv env key) in if value = [] then fallback else value)"

definition getEnvInt :: "ConfigEnv \<Rightarrow> string \<Rightarrow> int \<Rightarrow> int" where
  "getEnvInt env key fallback =
     (let value = trim_space (ce_Getenv env key) in
      if value = [] then fallback
      else (case parse_int value of
          None \<Rightarrow> fallback
        | Some parsed \<Rightarrow> if parsed \<le> 0 then fallback else parsed))"

definition getEnvDuration :: "ConfigEnv \<Rightarrow> string \<Rightarrow> duration \<Rightarrow> duration" where
  "getEnvDuration env key fallback =
     (let value = trim_space (ce_Getenv env key) in
      if value = [] then fallback
      else (case ce_ParseDuration env value of
          None \<Rightarrow> fallback
        | Some parsed \<Rightarrow> if parsed \<le> 0 then fallback else parsed))"

definition getEnvBool :: "ConfigEnv \<Rightarrow> string \<Rightarrow> bool \<Rightarrow> bool" where
  "getEnvBool env key fallback =
     (let value = trim_space (to_lower (ce_Getenv env key)) in
      if value = [] then fallback
      else switch value [([''1'', ''true'', ''yes'', ''on''], True), ([''0'', ''false'', ''no'', ''off''], False)] fallback)"

definition getEnvList :: "ConfigEnv \<Rightarrow> string \<Rightarrow> string list \<Rightarrow> string list" where
  "getEnvList env key fallback =
     (let value = trim_space (ce_Getenv env key) in
      if value = [] then fallback
      else let result = filter (\<lambda>part. part \<noteq> []) (map trim_space (split_comma value)) in
        if length result = 0 then fallback else result)"

definition defaultGatewayDialAddr :: "string \<Rightarrow> string" where
  "defaultGatewayDialAddr listenAddr =
     (let listenAddr = trim_space listenAddr in
      if listenAddr = [] then ''127.0.0.1:18830''
      else if has_prefix listenAddr '':'' then ''127.0.0.1'' @ listenAddr
      else (case SplitHostPort listenAddr of
          None \<Rightarrow> listenAddr
        | Some (host, port) \<Rightarrow>
            JoinHostPort (if host \<in> set [[], ''0.0.0.0'', ''::'', ''[::]''] then ''127.0.0.1'' else host) port))"

definition defaultNodeID :: "ConfigEnv \<Rightarrow> string" where
  "defaultNodeID env =
     (case ce_Hostname env of
        None \<Rightarrow> ''mvp-node''
      | Some host \<Rightarrow> if trim_space host = [] then ''mvp-node'' else host)"

definition normalizeNodeRole :: "string \<Rightarrow> string" where
  "normalizeNodeRole value =
     switch (to_lower (trim_space value)) [([''backup'', ''secondary'', ''replica'', ''standby''], ''standby'')] ''primary''"

section \<open>The configuration\<close>

record Config =
  cf_NodeID :: string
  cf_NodeRole :: string
  cf_SetupStatePath :: string
  cf_HTTPAddr :: string
  cf_GatewayAddr :: string
  cf_GatewayDialAddr :: string
  cf_MQTTAddr :: string
  cf_LogLevel :: string
  cf_CORSAllowedOrigins :: "string list"
  cf_DisableEmbeddedUI :: bool
  cf_ShutdownTimeout :: duration
  cf_DeviceAuthTimeout :: duration
  cf_DeviceIdleTimeout :: duration
  cf_DeviceWriteTimeout :: duration
  cf_DeviceQueueSize :: int
  cf_TelemetryRetention :: int
  cf_MaxMessageBytes :: int
  cf_StoreBackend :: string
  cf_StorePath :: string
  cf_ReplicaPeers :: "string list"
  cf_ReplicaToken :: string
  cf_ReplicaTimeout :: duration

definition Load :: "ConfigEnv \<Rightarrow> Config" where
  "Load env =
     (let gatewayAddr = getEnv env ''MVP_GATEWAY_ADDR'' '':18830'' in
      \<lparr>cf_NodeID = getEnv env ''MVP_NODE_ID'' (defaultNodeID env),
       cf_NodeRole = normalizeNodeRole (getEnv env ''MVP_NODE_ROLE'' ''primary''),
       cf_SetupStatePath = getEnv env ''MVP_SETUP_STATE_PATH'' ''./data/mvp-platform-instance.json'',
       cf_HTTPAddr = getEnv env ''MVP_HTTP_ADDR'' '':8080'',
       cf_GatewayAddr = gatewayAddr,
       cf_GatewayDialAddr = getEnv env ''MVP_GATEWAY_DIAL_ADDR'' (defaultGatewayDialAddr gatewayAddr),
       cf_MQTTAddr = getEnv env ''MVP_MQTT_ADDR'' '':1883'',
       cf_LogLevel = getEnv env ''MVP_LOG_LEVEL'' ''info'',
       cf_CORSAllowedOrigins = getEnvList env ''MVP_CORS_ALLOWED_ORIGINS'' [''*''],
       cf_DisableEmbeddedUI = getEnvBool env ''MVP_DISABLE_EMBEDDED_UI'' False,
       cf_ShutdownTimeout = getEnvDuration env ''MVP_SHUTDOWN_TIMEOUT'' (10 * 1000000000),
       cf_DeviceAuthTimeout = getEnvDuration env ''MVP_DEVICE_AUTH_TIMEOUT'' (15 * 1000000000),
       cf_DeviceIdleTimeout = getEnvDuration env ''MVP_DEVICE_IDLE_TIMEOUT'' (90 * 1000000000),
       cf_DeviceWriteTimeout = getEnvDuration env ''MVP_DEVICE_WRITE_TIMEOUT'' (5 * 1000000000),
       cf_DeviceQueueSize = getEnvInt env ''MVP_DEVICE_QUEUE_SIZE'' 128,
       cf_TelemetryRetention = getEnvInt env ''MVP_TELEMETRY_RETENTION'' 200,
       cf_MaxMessageBytes = getEnvInt env ''MVP_MAX_MESSAGE_BYTES'' (1024 * 1024),
       cf_StoreBackend = getEnv env ''MVP_STORE_BACKEND'' ''file'',
       cf_StorePath = getEnv env ''MVP_STORE_PATH'' ''./data/mvp-platform-state.json'',
       cf_ReplicaPeers = getEnvList env ''MVP_HA_REPLICA_PEERS'' [],
       cf_ReplicaToken = getEnv env ''MVP_HA_REPLICA_TOKEN'' [],
       cf_ReplicaTimeout = getEnvDuration env ''MVP_HA_REPLICA_TIMEOUT'' (3 * 1000000000)\<rparr>)"

definition IsStandby :: "Config \<Rightarrow> bool" where
  "IsStandby c \<longleftrightarrow> normalizeNodeRole (cf_NodeRole c) = ''standby''"

section \<open>What is read\<close>

lemma parse_int_range: "parse_int s = Some n \<Longrightarrow> in_int64 n"
  by (auto simp: parse_int_def Let_def split: if_splits option.splits)

lemma getEnvInt_range: "0 < d \<Longrightarrow> in_int64 d \<Longrightarrow> 0 < getEnvInt env k d \<and> in_int64 (getEnvInt env k d)"
  by (auto simp: getEnvInt_def Let_def parse_int_range split: option.splits)

lemma getEnvDuration_positive: "0 < d \<Longrightarrow> 0 < getEnvDuration env k d"
  by (simp add: getEnvDuration_def Let_def split: option.splits)

lemma getEnv_value: "getEnv env k d = d \<or> getEnv env k d \<noteq> [] \<and> trimmed (getEnv env k d)"
  by (simp add: getEnv_def Let_def)

lemma getEnvList_items: "x \<in> set (getEnvList env k d) \<Longrightarrow> x \<in> set d \<or> x \<noteq> [] \<and> trimmed x"
  by (auto simp: getEnvList_def Let_def split: if_splits)

lemma getEnvList_nonempty: "d \<noteq> [] \<Longrightarrow> getEnvList env k d \<noteq> []"
  by (auto simp: getEnvList_def Let_def)

lemma normalizeNodeRole_range: "normalizeNodeRole v \<in> {''primary'', ''standby''}"
  using switch_in [of "to_lower (trim_space v)" "[([''backup'', ''secondary'', ''replica'', ''standby''], ''standby'')]" "''primary''"]
  by (auto simp: normalizeNodeRole_def)

lemma normalizeNodeRole_idem: "normalizeNodeRole (normalizeNodeRole v) = normalizeNodeRole v"
proof -
  have "normalizeNodeRole ''primary'' = ''primary''" "normalizeNodeRole ''standby'' = ''standby''"
    by code_simp+
  then show ?thesis using normalizeNodeRole_range [of v] by auto
qed

text \<open>A split address joins to itself, up to brackets the host does not need.\<close>

lemma cut_last_colon_Some: "cut_last_colon s = Some (h, p) \<Longrightarrow> s = h @ '':'' @ p \<and> CHR '':'' \<notin> set p"
proof -
  assume c: "cut_last_colon s = Some (h, p)"
  define q where "q = takeWhile (\<lambda>c. c \<noteq> CHR '':'') (rev s)"
  define r where "r = dropWhile (\<lambda>c. c \<noteq> CHR '':'') (rev s)"
  from c have s: "CHR '':'' \<in> set s" and p: "p = rev q" and h: "h = take (length s - length (rev q) - 1) s"
    by (auto simp: cut_last_colon_def Let_def q_def split: if_splits)
  have "r \<noteq> []" using s by (auto simp: r_def dropWhile_eq_Nil_conv)
  then obtain t where t: "r = CHR '':'' # t" using hd_dropWhile [of "\<lambda>c. c \<noteq> CHR '':''" "rev s"]
    by (cases r) (auto simp: r_def)
  have "rev s = q @ CHR '':'' # t" using t by (metis q_def r_def takeWhile_dropWhile_id)
  then have "s = rev t @ CHR '':'' # rev q" by (metis append_Cons append_assoc append_Nil rev.simps(2) rev_append rev_rev_ident)
  moreover from this have "h = rev t" using h by simp
  ultimately show ?thesis using p by (auto simp: q_def dest: set_takeWhileD)
qed

lemma SplitHostPort_colon: "SplitHostPort s = Some (h, p) \<Longrightarrow> \<exists>pre. s = pre @ '':'' @ p"
  by (auto simp: SplitHostPort_def Let_def dest!: cut_last_colon_Some split: option.splits if_splits)

text \<open>The address simulated devices dial: with no host or a wildcard host it is the loopback address.\<close>

lemma dial_loopback:
  assumes "SplitHostPort (trim_space a) = Some (h, p)" "h \<in> {[], ''0.0.0.0'', ''::''}"
  shows "defaultGatewayDialAddr a = ''127.0.0.1:'' @ p"
proof (cases "has_prefix (trim_space a) '':''")
  case True
  then obtain r where r: "trim_space a = '':'' @ r" by (auto simp: has_prefix_iff prefix_def)
  from SplitHostPort_colon [OF assms(1)] obtain pre where pre: "trim_space a = pre @ '':'' @ p" by blast
  have "pre = []"
  proof (rule ccontr)
    assume "pre \<noteq> []"
    then have "r = tl pre @ '':'' @ p" using r pre by (cases pre) auto
    moreover obtain h' p' where c: "cut_last_colon (trim_space a) = Some (h', p')" and "\<not> (hd (trim_space a) \<noteq> CHR ''['' \<and> CHR '':'' \<in> set h')"
      using assms(1) by (auto simp: SplitHostPort_def Let_def split: option.splits if_splits)
    moreover have "hd (trim_space a) \<noteq> CHR ''[''" using r by simp
    ultimately show False using cut_last_colon_Some [OF c] r assms(1)
      by (cases h') (auto simp: SplitHostPort_def Let_def split: if_splits)
  qed
  then show ?thesis using pre True by (simp add: defaultGatewayDialAddr_def Let_def)
next
  case False
  have "trim_space a \<noteq> []" using assms(1) by (auto simp: SplitHostPort_def cut_last_colon_def)
  with False assms show ?thesis by (auto simp: defaultGatewayDialAddr_def Let_def JoinHostPort_def)
qed

end
