(* ===== verification/Setup.thy ===== *)
theory Setup
  imports FileStore
begin

text \<open>
  The setup manager (internal/setup/manager.go): the installation state of an instance, kept in memory
  and in one file, written once by \<open>Bootstrap\<close> or replaced by the state of a primary. The file is
  written as the store's snapshot is, with the steps and faults of \<open>FileStep\<close>; \<open>encoding/json\<close>, the
  clock and the faults are the fields of \<open>SetupEnv\<close>. The mutex makes an operation one step.
\<close>

section \<open>State\<close>

record SetupState =
  ins_InstallLock :: bool
  ins_AppName :: string
  ins_SiteURL :: string
  ins_AdminUsername :: string
  ins_AdminEmail :: string
  ins_DefaultTenantName :: string
  ins_DefaultTenantSlug :: string
  ins_InstalledAt :: time
  ins_UpdatedAt :: time

definition zero_SetupState :: SetupState where
  "zero_SetupState = \<lparr>ins_InstallLock = False, ins_AppName = [], ins_SiteURL = [], ins_AdminUsername = [],
     ins_AdminEmail = [], ins_DefaultTenantName = [], ins_DefaultTenantSlug = [], ins_InstalledAt = 0, ins_UpdatedAt = 0\<rparr>"

record BootstrapRequest =
  br_AppName :: string
  br_SiteURL :: string
  br_AdminUsername :: string
  br_AdminEmail :: string
  br_DefaultTenantName :: string
  br_DefaultTenantSlug :: string

record SetupEnv =
  se_marshal :: "SetupState \<Rightarrow> string res"
  se_unmarshal :: "string \<Rightarrow> SetupState res"
  se_fault :: "nat \<Rightarrow> FileStep \<Rightarrow> gerr option"
  se_now :: "nat \<Rightarrow> time"

record SetupManager =
  sm_path :: string
  sm_state :: SetupState
  sm_afterPersist :: bool
  sm_disk :: Disk
  sm_writes :: nat
  sm_calls :: nat
  sm_pushed :: "string list"

type_synonym 'a su = "(SetupManager, gerr, 'a) op"

section \<open>The file\<close>

definition setup_step :: "SetupEnv \<Rightarrow> FileStep \<Rightarrow> (Disk \<Rightarrow> Disk) \<Rightarrow> unit su" where
  "setup_step env k cleanup m =
     (case se_fault env (sm_writes m) k of
        None \<Rightarrow> (Inr (), m)
      | Some e \<Rightarrow> (Inl e, m\<lparr>sm_disk := cleanup (sm_disk m)\<rparr>))"

definition setup_disk :: "(Disk \<Rightarrow> Disk) \<Rightarrow> unit su" where
  "setup_disk g = modS (\<lambda>m. m\<lparr>sm_disk := g (sm_disk m)\<rparr>)"

definition drop_tmp :: "Disk \<Rightarrow> Disk" where
  "drop_tmp d = d\<lparr>dk_tmp := None\<rparr>"

definition writeLocked :: "SetupEnv \<Rightarrow> string \<Rightarrow> unit su" where
  "writeLocked env data =
     bindS (modS (\<lambda>m. m\<lparr>sm_writes := Suc (sm_writes m)\<rparr>)) (\<lambda>_.
     bindS (setup_step env MkdirAll id) (\<lambda>_.
     bindS (setup_step env CreateTemp id) (\<lambda>_.
     bindS (setup_disk (\<lambda>d. d\<lparr>dk_tmp := Some []\<rparr>)) (\<lambda>_.
     bindS (setup_step env TmpWrite drop_tmp) (\<lambda>_.
     bindS (setup_disk (\<lambda>d. d\<lparr>dk_tmp := Some data\<rparr>)) (\<lambda>_.
     bindS (setup_step env TmpSync drop_tmp) (\<lambda>_.
     bindS (setup_step env TmpClose drop_tmp) (\<lambda>_.
     bindS (setup_disk (\<lambda>d. d\<lparr>dk_file := None\<rparr>)) (\<lambda>_.
     bindS (setup_step env RenameTmp drop_tmp) (\<lambda>_.
     setup_disk (\<lambda>d. \<lparr>dk_file = dk_tmp d, dk_tmp = None\<rparr>)))))))))))"

section \<open>Operations\<close>

definition normalizeURL :: "string \<Rightarrow> string" where
  "normalizeURL value = (let value = trim_space value in if value = [] then [] else trim_right CHR ''/'' value)"

definition trim_request :: "BootstrapRequest \<Rightarrow> BootstrapRequest" where
  "trim_request r = \<lparr>br_AppName = trim_space (br_AppName r), br_SiteURL = normalizeURL (br_SiteURL r),
     br_AdminUsername = trim_space (br_AdminUsername r), br_AdminEmail = trim_space (br_AdminEmail r),
     br_DefaultTenantName = trim_space (br_DefaultTenantName r), br_DefaultTenantSlug = trim_space (br_DefaultTenantSlug r)\<rparr>"

definition installed_state :: "BootstrapRequest \<Rightarrow> time \<Rightarrow> SetupState" where
  "installed_state r now = \<lparr>ins_InstallLock = True, ins_AppName = br_AppName r, ins_SiteURL = br_SiteURL r,
     ins_AdminUsername = br_AdminUsername r, ins_AdminEmail = br_AdminEmail r,
     ins_DefaultTenantName = br_DefaultTenantName r, ins_DefaultTenantSlug = br_DefaultTenantSlug r,
     ins_InstalledAt = now, ins_UpdatedAt = now\<rparr>"

definition Bootstrap :: "SetupEnv \<Rightarrow> BootstrapRequest \<Rightarrow> SetupState su" where
  "Bootstrap env request =
     (let request = trim_request request in
      if br_AppName request = [] then errS (EOther ''app_name is required'')
      else if br_AdminUsername request = [] then errS (EOther ''admin_username is required'')
      else
        bindS (getS (\<lambda>m. se_now env (sm_calls m))) (\<lambda>now.
        bindS (modS (\<lambda>m. m\<lparr>sm_calls := Suc (sm_calls m)\<rparr>)) (\<lambda>_.
        let state = installed_state request now in
        bindS (getS sm_state) (\<lambda>current.
        if ins_InstallLock current then retS current
        else
          bindS (liftE (se_marshal env state)) (\<lambda>data.
          bindS (writeLocked env data) (\<lambda>_.
          bindS (modS (\<lambda>m. m\<lparr>sm_state := state\<rparr>)) (\<lambda>_.
          bindS (modS (\<lambda>m. if sm_afterPersist m then m\<lparr>sm_pushed := sm_pushed m @ [data]\<rparr> else m)) (\<lambda>_.
          retS state))))))))"

definition ApplyReplicaState :: "SetupEnv \<Rightarrow> string \<Rightarrow> unit su" where
  "ApplyReplicaState env data =
     bindS (liftE (se_unmarshal env data)) (\<lambda>state.
     bindS (writeLocked env data) (\<lambda>_.
     modS (\<lambda>m. m\<lparr>sm_state := state\<rparr>)))"

definition setup_load :: "SetupEnv \<Rightarrow> string option res \<Rightarrow> unit su" where
  "setup_load env read =
     (case read of
        Inl e \<Rightarrow> errS e
      | Inr None \<Rightarrow> retS ()
      | Inr (Some data) \<Rightarrow> bindS (liftE (se_unmarshal env data)) (\<lambda>state. modS (\<lambda>m. m\<lparr>sm_state := state\<rparr>)))"

definition setup_NewManager :: "SetupEnv \<Rightarrow> string \<Rightarrow> string option res \<Rightarrow> SetupManager res" where
  "setup_NewManager env path read =
     (if trim_space path = [] then Inl (EOther ''setup state path is required'')
      else (case setup_load env read \<lparr>sm_path = path, sm_state = zero_SetupState, sm_afterPersist = False,
             sm_disk = \<lparr>dk_file = (case read of Inl _ \<Rightarrow> None | Inr d \<Rightarrow> d), dk_tmp = None\<rparr>,
             sm_writes = 0, sm_calls = 0, sm_pushed = []\<rparr>
            of (Inl e, _) \<Rightarrow> Inl e | (Inr _, m) \<Rightarrow> Inr m))"

definition Status :: "SetupManager \<Rightarrow> SetupState" where
  "Status m = sm_state m"

definition Installed :: "SetupManager \<Rightarrow> bool" where
  "Installed m \<longleftrightarrow> ins_InstallLock (Status m)"

definition setup_SetAfterPersistHook :: "bool \<Rightarrow> unit su" where
  "setup_SetAfterPersistHook hook = modS (\<lambda>m. m\<lparr>sm_afterPersist := hook\<rparr>)"

section \<open>What a write leaves\<close>

text \<open>A write succeeds with the data in the file, or fails; on failure the file is the old one, or missing
  when the rename was what failed. It touches nothing but the disk.\<close>

lemma writeLocked_result:
  "(case writeLocked env data m of (r, m') \<Rightarrow>
     m' = m\<lparr>sm_writes := Suc (sm_writes m), sm_disk := sm_disk m'\<rparr> \<and>
     sm_state m' = sm_state m \<and> sm_pushed m' = sm_pushed m \<and>
     (case r of
        Inr _ \<Rightarrow> sm_disk m' = \<lparr>dk_file = Some data, dk_tmp = None\<rparr>
      | Inl _ \<Rightarrow> dk_file (sm_disk m') = dk_file (sm_disk m) \<or>
          dk_file (sm_disk m') = None \<and> se_fault env (Suc (sm_writes m)) RenameTmp \<noteq> None))"
  by (rule first_fault [of "se_fault env (Suc (sm_writes m))"])
    (auto simp: writeLocked_def setup_step_def setup_disk_def drop_tmp_def bindS_def op_simps)

lemma writeLocked_Inr:
  assumes "writeLocked env data m = (Inr u, m')"
  shows "m' = m\<lparr>sm_writes := Suc (sm_writes m), sm_disk := \<lparr>dk_file = Some data, dk_tmp = None\<rparr>\<rparr>"
  using writeLocked_result [where env = env and data = data and m = m] assms by auto

lemma writeLocked_Inl:
  assumes "writeLocked env data m = (Inl e, m')"
  shows "sm_state m' = sm_state m" "sm_pushed m' = sm_pushed m"
    "dk_file (sm_disk m') = dk_file (sm_disk m) \<or>
      dk_file (sm_disk m') = None \<and> se_fault env (Suc (sm_writes m)) RenameTmp \<noteq> None"
  using writeLocked_result [where env = env and data = data and m = m] assms
  by auto

end
