(* ===== verification/Replication.thy ===== *)
theory Replication
  imports Config Setup "HOL-Library.Word"
begin

text \<open>
  Replication between two nodes (internal/app/replication.go) and its receiving end in the HTTP API
  (internal/api/platform.go, internal/api/install.go): a primary pushes every snapshot it has written to
  its peers, a standby applies what it is sent.

  \<^item> \<open>configureReplication\<close> decides which of the three hooks a node gets; \<open>replica_pushes\<close> are the requests
    a hook makes, one per peer, in order. The HTTP client only logs what becomes of a request.
  \<^item> \<open>Node\<close> is the part of a node the two endpoints see. \<open>serve_replica\<close> is the chain of guards in front of
    the two handlers; its result is the status, \<open>None\<close> when the request goes on to another handler.
    \<open>hr_body\<close> is \<open>None\<close> when the body cannot be read or is longer than the limit.
\<close>

unbundle bit_operations_syntax

section \<open>The sending node\<close>

definition normalizeReplicaPeers :: "string list \<Rightarrow> string list" where
  "normalizeReplicaPeers peers =
     fold (\<lambda>peer result.
       let peer = trim_space peer in
       if peer = [] then result
       else let peer = trim_right CHR ''/'' peer in
         if peer \<in> set result then result else result @ [peer]) peers []"

record ReplicaOptions =
  ro_applier :: bool
  ro_storeHook :: bool
  ro_setupHook :: bool

text \<open>\<open>isFile\<close>: the store is the file store, the one with a persist hook and \<open>ApplyReplicaSnapshot\<close>.\<close>

definition configureReplication :: "Config \<Rightarrow> bool \<Rightarrow> ReplicaOptions" where
  "configureReplication cfg isFile =
     (let none = \<lparr>ro_applier = False, ro_storeHook = False, ro_setupHook = False\<rparr> in
      if IsStandby cfg then
        (if trim_space (cf_ReplicaToken cfg) \<noteq> [] \<and> isFile then none\<lparr>ro_applier := True\<rparr> else none)
      else if length (cf_ReplicaPeers cfg) = 0 \<or> trim_space (cf_ReplicaToken cfg) = [] then none
      else if \<not> isFile then none
      else none\<lparr>ro_storeHook := True, ro_setupHook := True\<rparr>)"

record HttpRequest =
  hr_Method :: string
  hr_Path :: string
  hr_Token :: string
  hr_body :: "string option"

definition replicaRequest :: "Config \<Rightarrow> string \<Rightarrow> string \<Rightarrow> HttpRequest" where
  "replicaRequest cfg endpoint snapshot =
     \<lparr>hr_Method = ''PUT'', hr_Path = endpoint, hr_Token = cf_ReplicaToken cfg, hr_body = Some snapshot\<rparr>"

definition replica_pushes :: "Config \<Rightarrow> string \<Rightarrow> string \<Rightarrow> (string \<times> HttpRequest) list" where
  "replica_pushes cfg endpoint snapshot =
     map (\<lambda>peer. (trim_right CHR ''/'' peer @ endpoint, replicaRequest cfg endpoint snapshot))
       (normalizeReplicaPeers (cf_ReplicaPeers cfg))"

section \<open>Guards\<close>

definition isMutatingMethod :: "string \<Rightarrow> bool" where
  "isMutatingMethod verb \<longleftrightarrow> verb \<in> set [''POST'', ''PUT'', ''PATCH'', ''DELETE'']"

definition allowDuringInstall :: "string \<Rightarrow> bool" where
  "allowDuringInstall path \<longleftrightarrow>
     path \<in> set [''/'', ''/install'', ''/runtime-config.js'', ''/healthz'', ''/readyz'', ''/metrics'',
       ''/api/v1/system/info'', ''/api/v1/install/status'', ''/api/v1/install/bootstrap'', ''/_ha/setup''] \<or>
     has_prefix path ''/assets/''"

definition standbyGuard :: "Config \<Rightarrow> HttpRequest \<Rightarrow> bool" where
  "standbyGuard cfg r \<longleftrightarrow> IsStandby cfg \<and> isMutatingMethod (hr_Method r) \<and>
     hr_Path r \<noteq> ''/_ha/snapshot'' \<and> hr_Path r \<noteq> ''/_ha/setup''"

definition byte_of :: "char \<Rightarrow> 8 word" where
  "byte_of c = word_of_nat (of_char c)"

definition subtleConstantCompare :: "string \<Rightarrow> string \<Rightarrow> bool" where
  "subtleConstantCompare left right =
     (if length left \<noteq> length right then False
      else fold (\<lambda>index diff. diff OR (byte_of (left ! index) XOR byte_of (right ! index))) [0..<length left] 0 = 0)"

section \<open>The receiving node\<close>

record Node =
  nd_cfg :: Config
  nd_replica :: bool
  nd_store :: FileStore
  nd_setup :: SetupManager

type_synonym 'a node = "(Node, gerr, 'a) op"

definition onFile :: "(FileStore, gerr, 'a) op \<Rightarrow> 'a node" where
  "onFile m n = (case m (nd_store n) of (r, f) \<Rightarrow> (r, n\<lparr>nd_store := f\<rparr>))"

definition onSetup :: "'a su \<Rightarrow> 'a node" where
  "onSetup m n = (case m (nd_setup n) of (r, s) \<Rightarrow> (r, n\<lparr>nd_setup := s\<rparr>))"

definition handleReplicaSnapshot :: "FsEnv \<Rightarrow> HttpRequest \<Rightarrow> int node" where
  "handleReplicaSnapshot env r =
     bindS (getS nd_cfg) (\<lambda>cfg.
     bindS (getS nd_replica) (\<lambda>replica.
     if hr_Method r \<noteq> ''PUT'' then retS 405
     else if \<not> replica then retS 503
     else if trim_space (cf_ReplicaToken cfg) = [] then retS 503
     else if \<not> subtleConstantCompare (trim_space (hr_Token r)) (cf_ReplicaToken cfg) then retS 403
     else (case hr_body r of
         None \<Rightarrow> retS 400
       | Some body \<Rightarrow> tryS (onFile (ApplyReplicaSnapshot env body)) (\<lambda>res. case res of
           Inl _ \<Rightarrow> retS 400
         | Inr _ \<Rightarrow> retS 202))))"

definition handleReplicaSetup :: "SetupEnv \<Rightarrow> HttpRequest \<Rightarrow> int node" where
  "handleReplicaSetup env r =
     bindS (getS nd_cfg) (\<lambda>cfg.
     if hr_Method r \<noteq> ''PUT'' then retS 405
     else if trim_space (cf_ReplicaToken cfg) = [] then retS 503
     else if \<not> subtleConstantCompare (trim_space (hr_Token r)) (cf_ReplicaToken cfg) then retS 403
     else (case hr_body r of
         None \<Rightarrow> retS 400
       | Some body \<Rightarrow> tryS (onSetup (ApplyReplicaState env body)) (\<lambda>res. case res of
           Inl _ \<Rightarrow> retS 400
         | Inr _ \<Rightarrow> retS 202)))"

text \<open>
  The chain \<open>withCORS(withStandbyGuard(withInstallGuard(mux)))\<close> in front of the two endpoints; the snapshot
  endpoint is only registered on a node with a replica applier.
\<close>

definition serve_replica :: "FsEnv \<Rightarrow> SetupEnv \<Rightarrow> HttpRequest \<Rightarrow> int option node" where
  "serve_replica env senv r =
     bindS (getS nd_cfg) (\<lambda>cfg.
     bindS (getS (Installed \<circ> nd_setup)) (\<lambda>installed.
     bindS (getS nd_replica) (\<lambda>replica.
     if hr_Method r = ''OPTIONS'' then retS (Some 204)
     else if standbyGuard cfg r then retS (Some 503)
     else if \<not> installed \<and> \<not> allowDuringInstall (hr_Path r) then retS (Some 503)
     else if hr_Path r = ''/_ha/snapshot'' \<and> replica then
       bindS (handleReplicaSnapshot env r) (\<lambda>status. retS (Some status))
     else if hr_Path r = ''/_ha/setup'' then
       bindS (handleReplicaSetup senv r) (\<lambda>status. retS (Some status))
     else retS None)))"

section \<open>Comparing tokens\<close>

lemma byte_of_inj: "byte_of c = byte_of d \<longleftrightarrow> c = d"
proof -
  have lt: "(of_char x :: nat) < 2 ^ LENGTH(8)" for x :: char using nat_of_char_less_256 [of x] by simp
  have "unat (byte_of x) = of_char x" for x
    unfolding byte_of_def using lt by (simp add: unat_of_nat take_bit_nat_eq_self)
  then show ?thesis by (metis of_char_eq_iff)
qed

lemma or_eq_0_iff_word: "(a :: 8 word) OR b = 0 \<longleftrightarrow> a = 0 \<and> b = 0"
  by (auto simp: bit_eq_iff bit_or_iff)

lemma fold_diff: "fold (\<lambda>i d. d OR f i) is a = (0 :: 8 word) \<longleftrightarrow> a = 0 \<and> (\<forall>i \<in> set is. f i = 0)"
  by (induction "is" arbitrary: a) (auto simp: or_eq_0_iff_word)

text \<open>The comparison without early exit is equality.\<close>

lemma constant_compare: "subtleConstantCompare left right \<longleftrightarrow> left = right"
proof (cases "length left = length right")
  case True
  have xor: "u XOR v = 0 \<longleftrightarrow> u = v" for u v :: "8 word"
    by (metis xor.assoc xor_self_eq xor.left_neutral xor.right_neutral)
  have "subtleConstantCompare left right \<longleftrightarrow>
      (\<forall>i \<in> set [0..<length left]. byte_of (left ! i) XOR byte_of (right ! i) = 0)"
    using True by (simp add: subtleConstantCompare_def fold_diff)
  also have "\<dots> \<longleftrightarrow> (\<forall>i < length left. left ! i = right ! i)" by (auto simp: xor byte_of_inj)
  also have "\<dots> \<longleftrightarrow> left = right" using True by (simp add: list_eq_iff_nth_eq)
  finally show ?thesis .
qed (auto simp: subtleConstantCompare_def)

section \<open>Applying a push\<close>

lemma apply_snapshot:
  assumes "ApplyReplicaSnapshot env data f = (r, f')"
  shows "case r of
      Inr _ \<Rightarrow> (\<exists>ps. fe_unmarshal env data = Inr ps \<and> fs_inner f' = mem_Restore (ps_Snapshot ps) (fs_inner f) \<and>
        dk_file (fs_disk f') = Some data)
    | Inl _ \<Rightarrow> fs_inner f' = fs_inner f"
proof (cases "fe_unmarshal env data")
  case (Inl e)
  then show ?thesis using assms by (auto simp: ApplyReplicaSnapshot_def decodeSnapshot_def op_simps)
next
  case (Inr ps)
  obtain w u where wu: "writeSnapshotFile env data (ps_SavedAt ps) f = (w, u)" by fastforce
  have r: "r = (case w of Inl e \<Rightarrow> Inl e | Inr _ \<Rightarrow> Inr ())"
    "f' = (case w of Inl _ \<Rightarrow> u | Inr _ \<Rightarrow> u\<lparr>fs_inner := mem_Restore (ps_Snapshot ps) (fs_inner u)\<rparr>)"
    using assms wu Inr by (auto simp: ApplyReplicaSnapshot_def decodeSnapshot_def op_defs bindS_def split: sum.splits)
  show ?thesis
  proof (cases w)
    case (Inl e)
    then show ?thesis using writeSnapshotFile_frame [OF wu] r by simp
  next
    case w: (Inr v)
    have "dk_file (fs_disk u) = Some data" by (rule writeSnapshotFile_cases [OF wu]; use w in simp)
    then show ?thesis using writeSnapshotFile_frame [OF wu] r w Inr by simp
  qed
qed

text \<open>What serving a snapshot push does: only status 202 changes the store, and then to what was sent.\<close>

lemma serve_snapshot:
  assumes "serve_replica env senv r n = (Inr (Some status), n')" "hr_Path r = ''/_ha/snapshot''"
  shows "nd_setup n' = nd_setup n \<and>
    (status = 202 \<longrightarrow> Installed (nd_setup n) \<and> hr_Method r = ''PUT'' \<and> trim_space (hr_Token r) = cf_ReplicaToken (nd_cfg n) \<and>
      (\<exists>body ps. hr_body r = Some body \<and> fe_unmarshal env body = Inr ps \<and>
        fs_inner (nd_store n') = mem_Restore (ps_Snapshot ps) (fs_inner (nd_store n)) \<and>
        dk_file (fs_disk (nd_store n')) = Some body)) \<and>
    (status \<noteq> 202 \<longrightarrow> fs_inner (nd_store n') = fs_inner (nd_store n)) \<and>
    (\<not> Installed (nd_setup n) \<and> hr_Method r \<noteq> ''OPTIONS'' \<longrightarrow> status = 503)"
proof -
  have blocked: "\<not> allowDuringInstall ''/_ha/snapshot''"
    by (simp add: allowDuringInstall_def has_prefix_def)
  show ?thesis
  proof (cases "hr_body r")
    case None
    then show ?thesis
      using assms blocked
      by (auto simp: serve_replica_def handleReplicaSnapshot_def bindS_def op_simps standbyGuard_def split: if_splits)
  next
    case (Some body)
    obtain x f where a: "ApplyReplicaSnapshot env body (nd_store n) = (x, f)" by fastforce
    show ?thesis
      using assms blocked Some a apply_snapshot [OF a]
      by (auto simp: serve_replica_def handleReplicaSnapshot_def bindS_def tryS_def onFile_def op_simps standbyGuard_def
          constant_compare split: if_splits sum.splits)
  qed
qed

end
