(* ===== verification/NodeProperties.thy ===== *)
theory NodeProperties
  imports Replication Demo
begin

text \<open>
  Properties of a node as a whole: its configuration, its installation, and the replication of a primary
  to a standby.
\<close>

section \<open>Configuration\<close>


definition demo_config_env :: ConfigEnv where
  "demo_config_env = \<lparr>ce_Getenv = (\<lambda>_. []), ce_Hostname = None, ce_ParseDuration = (\<lambda>_. None)\<rparr>"


section \<open>Installation\<close>

text \<open>What a bootstrap does, whether it fails, finds an installed instance, or installs.\<close>

lemma bootstrap_effect:
  assumes "Bootstrap env request m = (r, m')"
  shows "case r of
      Inl _ \<Rightarrow> sm_state m' = sm_state m \<and> sm_pushed m' = sm_pushed m
    | Inr s \<Rightarrow>
        if Installed m then s = sm_state m \<and> sm_state m' = sm_state m \<and> sm_disk m' = sm_disk m \<and> sm_pushed m' = sm_pushed m
        else s = installed_state (trim_request request) (se_now env (sm_calls m)) \<and> Status m' = s \<and> Installed m' \<and>
          ins_AppName s \<noteq> [] \<and> ins_AdminUsername s \<noteq> [] \<and>
          (\<exists>data. se_marshal env s = Inr data \<and> dk_file (sm_disk m') = Some data \<and>
            sm_pushed m' = (if sm_afterPersist m then sm_pushed m @ [data] else sm_pushed m) \<and>
            (se_unmarshal env data = Inr s \<and> trim_space (sm_path m) \<noteq> [] \<longrightarrow>
              (\<exists>n. setup_NewManager env (sm_path m) (Inr (dk_file (sm_disk m'))) = Inr n \<and> Status n = s)))"
proof -
  define q where "q = trim_request request"
  define s where "s = installed_state q (se_now env (sm_calls m))"
  define m1 where "m1 = m\<lparr>sm_calls := Suc (sm_calls m)\<rparr>"
  note run = assms [unfolded Bootstrap_def Let_def, folded q_def]
  consider (empty) "br_AppName q = [] \<or> br_AdminUsername q = []" | (installed) "br_AppName q \<noteq> []" "br_AdminUsername q \<noteq> []" "Installed m"
    | (fresh) "br_AppName q \<noteq> []" "br_AdminUsername q \<noteq> []" "\<not> Installed m" by blast
  then show ?thesis
  proof cases
    case empty
    then show ?thesis using run by (auto simp: op_simps split: if_splits)
  next
    case installed
    then show ?thesis using run by (auto simp: op_defs bindS_def Installed_def Status_def)
  next
    case fresh
    then have run: "bindS (liftE (se_marshal env s)) (\<lambda>data. bindS (writeLocked env data) (\<lambda>_.
        bindS (modS (\<lambda>m. m\<lparr>sm_state := s\<rparr>)) (\<lambda>_.
        bindS (modS (\<lambda>m. if sm_afterPersist m then m\<lparr>sm_pushed := sm_pushed m @ [data]\<rparr> else m)) (\<lambda>_. retS s)))) m1 = (r, m')"
      using run by (simp add: op_defs bindS_def Installed_def Status_def s_def m1_def)
    show ?thesis
    proof (cases "se_marshal env s")
      case (Inl e)
      then show ?thesis using run by (auto simp: op_defs bindS_def m1_def)
    next
      case data: (Inr data)
      obtain w u where w: "writeLocked env data m1 = (w, u)" by fastforce
      show ?thesis
      proof (cases w)
        case (Inl e)
        then show ?thesis using run data w writeLocked_Inl [of env data m1 e u] by (auto simp: op_defs bindS_def m1_def)
      next
        case (Inr x)
        then have u: "u = m1\<lparr>sm_writes := Suc (sm_writes m1), sm_disk := \<lparr>dk_file = Some data, dk_tmp = None\<rparr>\<rparr>"
          using writeLocked_Inr w by simp
        have r: "r = Inr s" and m': "m' = (let v = u\<lparr>sm_state := s\<rparr> in
            if sm_afterPersist v then v\<lparr>sm_pushed := sm_pushed v @ [data]\<rparr> else v)"
          using run data w Inr by (auto simp: op_defs bindS_def Let_def)
        have "\<exists>n. setup_NewManager env (sm_path m) (Inr (Some data)) = Inr n \<and> Status n = s"
          if "se_unmarshal env data = Inr s" "trim_space (sm_path m) \<noteq> []"
          using that by (simp add: setup_NewManager_def setup_load_def op_defs bindS_def Status_def)
        then show ?thesis
          using fresh data by (auto simp: r m' u m1_def Let_def Status_def Installed_def s_def q_def installed_state_def)
      qed
    qed
  qed
qed

text \<open>C28: An instance is installed once. A bootstrap of an installed instance returns the state it has and
  changes neither the state nor the file; a bootstrap that installs stores, in memory and encoded in the
  file, the same locked state with the trimmed request, and a manager opened on that file has that state;
  a bootstrap that fails leaves the state as it was.\<close>

theorem bootstrap_once:
  assumes "Bootstrap env request m = (r, m')"
  shows "case r of
      Inl _ \<Rightarrow> sm_state m' = sm_state m \<and> sm_pushed m' = sm_pushed m
    | Inr s \<Rightarrow>
        if Installed m then s = sm_state m \<and> sm_state m' = sm_state m \<and> sm_disk m' = sm_disk m \<and> sm_pushed m' = sm_pushed m
        else s = installed_state (trim_request request) (se_now env (sm_calls m)) \<and> Status m' = s \<and> Installed m' \<and>
          ins_AppName s \<noteq> [] \<and> ins_AdminUsername s \<noteq> [] \<and>
          (\<exists>data. se_marshal env s = Inr data \<and> dk_file (sm_disk m') = Some data \<and>
            sm_pushed m' = (if sm_afterPersist m then sm_pushed m @ [data] else sm_pushed m) \<and>
            (se_unmarshal env data = Inr s \<and> trim_space (sm_path m) \<noteq> [] \<longrightarrow>
              (\<exists>n. setup_NewManager env (sm_path m) (Inr (dk_file (sm_disk m'))) = Inr n \<and> Status n = s)))"
  by (rule bootstrap_effect [OF assms])

definition demo_setup_env :: SetupEnv where
  "demo_setup_env = \<lparr>se_marshal = (\<lambda>_. Inr ''json''), se_unmarshal = (\<lambda>_. Inl (EOther ''syntax'')),
     se_fault = (\<lambda>_ _. None), se_now = (\<lambda>_. 7)\<rparr>"

definition demo_manager :: SetupManager where
  "demo_manager = \<lparr>sm_path = ''setup.json'', sm_state = zero_SetupState, sm_afterPersist = True,
     sm_disk = \<lparr>dk_file = None, dk_tmp = None\<rparr>, sm_writes = 0, sm_calls = 0, sm_pushed = []\<rparr>"

definition demo_bootstrap :: BootstrapRequest where
  "demo_bootstrap = \<lparr>br_AppName = ''iot'', br_SiteURL = [], br_AdminUsername = ''root'', br_AdminEmail = [],
     br_DefaultTenantName = [], br_DefaultTenantSlug = []\<rparr>"

theorem bootstrap_once_witness:
  "\<exists>s m'. Bootstrap demo_setup_env demo_bootstrap demo_manager = (Inr s, m') \<and> Installed m' \<and>
    dk_file (sm_disk m') = Some ''json''"
proof -
  have "\<exists>s. fst (Bootstrap demo_setup_env demo_bootstrap demo_manager) = Inr s"
    by (simp add: Bootstrap_def trim_request_def demo_bootstrap_def label_eval normalizeURL_def op_defs bindS_def
        demo_manager_def zero_SetupState_def demo_setup_env_def writeLocked_def setup_step_def setup_disk_def Let_def installed_state_def)
  then obtain s m' where b: "Bootstrap demo_setup_env demo_bootstrap demo_manager = (Inr s, m')" by (metis prod.collapse)
  from bootstrap_once [OF b] b show ?thesis
    by (auto simp: demo_manager_def zero_SetupState_def Installed_def Status_def demo_setup_env_def)
qed

section \<open>Replication\<close>


definition demo_primary :: Config where
  "demo_primary = (Load demo_config_env)\<lparr>cf_ReplicaToken := ''k'', cf_ReplicaPeers := [''b'']\<rparr>"

definition demo_standby :: Node where
  "demo_standby = \<lparr>nd_cfg = demo_primary\<lparr>cf_NodeRole := ''standby''\<rparr>, nd_replica = True, nd_store = demo_file None,
     nd_setup = demo_manager\<lparr>sm_state := zero_SetupState\<lparr>ins_InstallLock := True\<rparr>\<rparr>\<rparr>"


end
