(* ===== verification/Simulator.thy ===== *)
theory Simulator
  imports Gateway
begin

text \<open>
  The simulator manager (internal/simulator/manager.go): simulated devices that dial the gateway as a real
  device does.

  \<^item> \<open>instance\<close> (here \<open>Sim\<close>) is one simulated device. \<open>si_running\<close> is \<open>s.cancel != nil\<close>, \<open>si_stopped\<close> that the
    context of the run is done, \<open>si_closed\<close> that \<open>parentCtx\<close> is, \<open>si_run\<close> where the goroutine of \<open>run\<close> is.
    \<open>si_queue\<close> is the buffered channel of manual readings; of the current run, \<open>si_inbox\<close> and \<open>si_readErr\<close>
    are the channels the reader fills, \<open>si_reading\<close> that the reader goes on, and \<open>si_sent\<close> the messages
    written to the socket.
  \<^item> \<open>run_step\<close> is one turn of the two \<open>select\<close> loops of \<open>run\<close>, for the event that was chosen;
    \<open>scanServerMessages\<close> is one turn of the reader. The socket is a parameter: the outcome of the dial, of
    each write (\<open>None\<close>: it went through) and of each read (\<open>json.Unmarshal\<close> has been applied to the line).
  \<^item> Every instance has its own count of clock readings; \<open>json.Marshal\<close>, used for the text of a log
    entry, is the field \<open>sn_json\<close> of the environment.
\<close>

section \<open>State\<close>

record SimulatorLogEntry =
  log_Timestamp :: time
  log_Level :: string
  log_Message :: string

datatype run_phase = Stopped | Dialing | Authenticating | Connected

record Sim =
  si_id :: string
  si_device :: Device
  si_run :: run_phase
  si_running :: bool
  si_stopped :: bool
  si_closed :: bool
  si_connected :: bool
  si_autoAck :: bool
  si_autoPing :: bool
  si_autoTelemetry :: bool
  si_telemetryInterval :: duration
  si_defaultValues :: anymap
  si_lastConnectAt :: time
  si_lastDisconnectAt :: time
  si_lastPingAt :: time
  si_lastTelemetryAt :: time
  si_lastCommandAt :: time
  si_lastError :: string
  si_logs :: "SimulatorLogEntry list"
  si_queue :: "anymap list"
  si_inbox :: "ServerMessage list"
  si_readErr :: "string option"
  si_reading :: bool
  si_sent :: "DeviceMessage list"
  si_ticks :: nat

record SimEnv =
  sn_clock :: "nat \<Rightarrow> time"
  sn_json :: "anymap \<Rightarrow> string"

type_synonym 'a si = "(Sim, string, 'a) op"

definition maxLogEntries :: nat where
  "maxLogEntries = 80"

definition telemetry_capacity :: nat where
  "telemetry_capacity = 8"

definition message_capacity :: nat where
  "message_capacity = 16"

definition defaultTelemetryInterval :: duration where
  "defaultTelemetryInterval = 5 * 1000000000"

definition sanitizeInterval :: "int \<Rightarrow> duration" where
  "sanitizeInterval ms =
     (if ms \<le> 0 then defaultTelemetryInterval
      else let interval = wrap64 (ms * 1000000) in
        if interval < 1000000000 then 1000000000 else interval)"

definition normalizeDefaultValues :: "anymap \<Rightarrow> anymap" where
  "normalizeDefaultValues vals =
     (if mlen vals = 0
      then Some [(''temperature'', AF64 (round64 (235 / 10))), (''humidity'', AInt KInt 60), (''voltage'', AF64 (round64 (33 / 10)))]
      else cloneAnyMap vals)"

text \<open>The simulator's own \<open>cloneDevice\<close>: it leaves the tenant and the tags out.\<close>

definition sim_cloneDevice :: "Device \<Rightarrow> Device" where
  "sim_cloneDevice device = \<lparr>dev_ID = dev_ID device, dev_TenantID = [], dev_Name = dev_Name device,
     dev_ProductID = dev_ProductID device, dev_ProductKey = dev_ProductKey device, dev_Token = dev_Token device,
     dev_Tags = None, dev_Metadata = cloneStringMap (dev_Metadata device), dev_CreatedAt = dev_CreatedAt device\<rparr>"

section \<open>Notes and logs\<close>

definition nowI :: "SimEnv \<Rightarrow> time si" where
  "nowI env i = (Inr (sn_clock env (si_ticks i)), i\<lparr>si_ticks := Suc (si_ticks i)\<rparr>)"

definition addLog :: "SimEnv \<Rightarrow> string \<Rightarrow> string \<Rightarrow> unit si" where
  "addLog env level message =
     bindS (nowI env) (\<lambda>now.
     modS (\<lambda>i.
       let logs = si_logs i @ [\<lparr>log_Timestamp = now, log_Level = level, log_Message = message\<rparr>] in
       i\<lparr>si_logs := (if length logs > maxLogEntries then drop (length logs - maxLogEntries) logs else logs)\<rparr>))"

text \<open>\<open>fail\<close> is only called with an error; \<open>err\<close> is its text.\<close>

definition sim_fail :: "SimEnv \<Rightarrow> string \<Rightarrow> string \<Rightarrow> unit si" where
  "sim_fail env err message =
     bindS (nowI env) (\<lambda>now.
     bindS (modS (\<lambda>i. i\<lparr>si_connected := False, si_lastDisconnectAt := now, si_lastError := err\<rparr>)) (\<lambda>_.
     addLog env ''error'' (message @ '': '' @ err)))"

definition setConnected :: "SimEnv \<Rightarrow> bool \<Rightarrow> unit si" where
  "setConnected env value =
     bindS (nowI env) (\<lambda>now.
     modS (\<lambda>i. let i = i\<lparr>si_connected := value\<rparr> in
       if value then i\<lparr>si_lastConnectAt := now, si_lastError := []\<rparr> else i\<lparr>si_lastDisconnectAt := now\<rparr>))"

definition notePing :: "SimEnv \<Rightarrow> unit si" where
  "notePing env =
     bindS (nowI env) (\<lambda>now. bindS (modS (\<lambda>i. i\<lparr>si_lastPingAt := now\<rparr>)) (\<lambda>_. addLog env ''info'' ''sent ping''))"

definition noteTelemetry :: "SimEnv \<Rightarrow> anymap \<Rightarrow> unit si" where
  "noteTelemetry env vals =
     bindS (nowI env) (\<lambda>now.
     bindS (modS (\<lambda>i. i\<lparr>si_lastTelemetryAt := now\<rparr>)) (\<lambda>_.
     addLog env ''info'' (''published telemetry '' @ sn_json env vals)))"

definition noteCommand :: "SimEnv \<Rightarrow> unit si" where
  "noteCommand env = bindS (nowI env) (\<lambda>now. modS (\<lambda>i. i\<lparr>si_lastCommandAt := now\<rparr>))"

text \<open>\<open>finishRun\<close>, deferred by \<open>run\<close>; the goroutine ends with it.\<close>

definition finishRun :: "SimEnv \<Rightarrow> unit si" where
  "finishRun env =
     bindS (nowI env) (\<lambda>now.
     modS (\<lambda>i. let i = (if si_connected i then i\<lparr>si_connected := False, si_lastDisconnectAt := now\<rparr> else i) in
       i\<lparr>si_running := False, si_stopped := False, si_run := Stopped, si_reading := False\<rparr>))"

section \<open>Commands to an instance\<close>

definition sim_connect :: "SimEnv \<Rightarrow> unit si" where
  "sim_connect env =
     bindS (getS si_running) (\<lambda>running.
     if running then retS ()
     else bindS (modS (\<lambda>i. i\<lparr>si_running := True, si_stopped := si_closed i, si_lastError := [], si_run := Dialing\<rparr>)) (\<lambda>_.
       addLog env ''info'' ''connect requested''))"

definition sim_disconnect :: "SimEnv \<Rightarrow> unit si" where
  "sim_disconnect env =
     bindS (getS si_running) (\<lambda>running.
     if running then
       bindS (addLog env ''info'' ''disconnect requested'') (\<lambda>_. modS (\<lambda>i. i\<lparr>si_stopped := True\<rparr>))
     else retS ())"

definition sim_sendTelemetry :: "anymap \<Rightarrow> unit si" where
  "sim_sendTelemetry vals =
     bindS (getS si_connected) (\<lambda>connected.
     if \<not> connected then errS ''simulator not connected''
     else bindS (getS (length \<circ> si_queue)) (\<lambda>waiting.
       if waiting < telemetry_capacity then modS (\<lambda>i. i\<lparr>si_queue := si_queue i @ [normalizeDefaultValues vals]\<rparr>)
       else errS ''simulator telemetry queue is full''))"

section \<open>The connection\<close>

definition device_message :: "string \<Rightarrow> DeviceMessage" where
  "device_message type = \<lparr>dm_Type = type, dm_DeviceID = [], dm_Token = [], dm_TS = 0, dm_Values = None,
     dm_CommandID = [], dm_Status = [], dm_Message = []\<rparr>"

definition auth_message :: "Device \<Rightarrow> DeviceMessage" where
  "auth_message device = (device_message ''auth'')\<lparr>dm_DeviceID := dev_ID device, dm_Token := dev_Token device\<rparr>"

definition writeDeviceMessage :: "string option \<Rightarrow> DeviceMessage \<Rightarrow> unit si" where
  "writeDeviceMessage outcome message =
     (case outcome of
        Some e \<Rightarrow> errS e
      | None \<Rightarrow> modS (\<lambda>i. i\<lparr>si_sent := si_sent i @ [message]\<rparr>))"

definition publishTelemetry :: "SimEnv \<Rightarrow> string option \<Rightarrow> anymap \<Rightarrow> unit si" where
  "publishTelemetry env outcome vals =
     (let vals = (if mlen vals = 0
        then Some [(''temperature'', AF64 (round64 (235 / 10))), (''humidity'', AInt KInt 60)] else vals) in
      bindS (nowI env) (\<lambda>now.
      bindS (writeDeviceMessage outcome ((device_message ''telemetry'')\<lparr>dm_TS := unix_milli now, dm_Values := vals\<rparr>)) (\<lambda>_.
      noteTelemetry env vals)))"

definition handleServerMessage :: "SimEnv \<Rightarrow> string option \<Rightarrow> ServerMessage \<Rightarrow> unit si" where
  "handleServerMessage env outcome msg =
     (if msg_Type msg = ''pong'' then addLog env ''info'' ''received pong from gateway''
      else if msg_Type msg = ''command'' then
        bindS (noteCommand env) (\<lambda>_.
        bindS (addLog env ''info'' (''received command '' @ msg_Name msg @ '' ('' @ msg_CommandID msg @ '')'')) (\<lambda>_.
        bindS (getS si_autoAck) (\<lambda>autoAck.
        if autoAck then writeDeviceMessage outcome ((device_message ''ack'')\<lparr>dm_CommandID := msg_CommandID msg,
          dm_Status := ''ok'', dm_Message := ''accepted by simulator''\<rparr>)
        else retS ())))
      else if msg_Type msg = ''error'' then addLog env ''warn'' (''gateway error: '' @ msg_Error msg)
      else addLog env ''info'' (''received message type '' @ msg_Type msg))"

text \<open>What \<open>run\<close> waits for: the dial, then the cases of its \<open>select\<close> statements.\<close>

datatype run_event =
    Dialed "string option"
  | CtxDone
  | ReadErr
  | FromServer
  | AuthTimeout
  | PingTick
  | TelemetryTick
  | ManualTelemetry

definition fail_run :: "SimEnv \<Rightarrow> string \<Rightarrow> string \<Rightarrow> unit si" where
  "fail_run env err message = bindS (sim_fail env err message) (\<lambda>_. finishRun env)"

text \<open>\<open>if err := m(); err != nil { s.fail(err, message); return }\<close>\<close>

definition or_fail :: "SimEnv \<Rightarrow> unit si \<Rightarrow> string \<Rightarrow> unit si \<Rightarrow> unit si" where
  "or_fail env m message rest = tryS m (\<lambda>r. case r of Inl e \<Rightarrow> fail_run env e message | Inr _ \<Rightarrow> rest)"

definition dial_step :: "SimEnv \<Rightarrow> string option \<Rightarrow> run_event \<Rightarrow> unit si" where
  "dial_step env outcome event =
     (case event of
        Dialed (Some e) \<Rightarrow> fail_run env e ''dial failed''
      | Dialed None \<Rightarrow>
          bindS (modS (\<lambda>i. i\<lparr>si_inbox := [], si_readErr := None, si_reading := True, si_sent := []\<rparr>)) (\<lambda>_.
          bindS (getS si_device) (\<lambda>device.
          or_fail env (writeDeviceMessage outcome (auth_message device)) ''auth write failed''
            (modS (\<lambda>i. i\<lparr>si_run := Authenticating\<rparr>))))
      | _ \<Rightarrow> retS ())"

text \<open>Receiving from the two channels of the reader; the event was chosen, so there is something.\<close>

definition receive_error :: "(string \<Rightarrow> unit si) \<Rightarrow> unit si" where
  "receive_error k =
     bindS (getS si_readErr) (\<lambda>err. case err of
         None \<Rightarrow> retS ()
       | Some e \<Rightarrow> bindS (modS (\<lambda>i. i\<lparr>si_readErr := None\<rparr>)) (\<lambda>_. k e))"

definition receive_message :: "(ServerMessage \<Rightarrow> unit si) \<Rightarrow> unit si" where
  "receive_message k =
     bindS (getS si_inbox) (\<lambda>inbox. case inbox of
         [] \<Rightarrow> retS ()
       | msg # rest \<Rightarrow> bindS (modS (\<lambda>i. i\<lparr>si_inbox := rest\<rparr>)) (\<lambda>_. k msg))"

definition auth_reply :: "SimEnv \<Rightarrow> ServerMessage \<Rightarrow> unit si" where
  "auth_reply env msg =
     (if msg_Type msg = ''auth_ok'' then
        bindS (setConnected env True) (\<lambda>_.
        bindS (addLog env ''info'' ''device authenticated to gateway'') (\<lambda>_.
        modS (\<lambda>i. i\<lparr>si_run := Connected\<rparr>)))
      else if msg_Type msg = ''error'' then fail_run env (msg_Error msg) ''gateway rejected auth''
      else addLog env ''warn'' (''unexpected auth response: '' @ msg_Type msg))"

definition auth_step :: "SimEnv \<Rightarrow> run_event \<Rightarrow> unit si" where
  "auth_step env event =
     (case event of
        CtxDone \<Rightarrow> finishRun env
      | ReadErr \<Rightarrow> receive_error (\<lambda>e. fail_run env e ''auth read failed'')
      | FromServer \<Rightarrow> receive_message (auth_reply env)
      | AuthTimeout \<Rightarrow> fail_run env ''auth timeout'' ''gateway auth timeout''
      | _ \<Rightarrow> retS ())"

definition online_step :: "SimEnv \<Rightarrow> string option \<Rightarrow> run_event \<Rightarrow> unit si" where
  "online_step env outcome event =
     (case event of
        CtxDone \<Rightarrow> finishRun env
      | ReadErr \<Rightarrow> receive_error (\<lambda>e. fail_run env e ''gateway read failed'')
      | FromServer \<Rightarrow> receive_message (\<lambda>msg.
          or_fail env (handleServerMessage env outcome msg) ''server message handling failed'' (retS ()))
      | PingTick \<Rightarrow>
          bindS (getS si_autoPing) (\<lambda>autoPing.
          if autoPing then or_fail env (writeDeviceMessage outcome (device_message ''ping'')) ''ping failed'' (notePing env)
          else retS ())
      | TelemetryTick \<Rightarrow>
          bindS (getS (\<lambda>i. (si_autoTelemetry i, cloneAnyMap (si_defaultValues i)))) (\<lambda>(autoTelemetry, vals).
          if autoTelemetry then or_fail env (publishTelemetry env outcome vals) ''auto telemetry failed'' (retS ())
          else retS ())
      | ManualTelemetry \<Rightarrow>
          bindS (getS si_queue) (\<lambda>queue. case queue of
              [] \<Rightarrow> retS ()
            | vals # rest \<Rightarrow>
                bindS (modS (\<lambda>i. i\<lparr>si_queue := rest\<rparr>)) (\<lambda>_.
                or_fail env (publishTelemetry env outcome vals) ''manual telemetry failed'' (retS ())))
      | _ \<Rightarrow> retS ())"

text \<open>One event of the goroutine; an event that cannot occur in the phase does nothing.\<close>

definition run_step :: "SimEnv \<Rightarrow> string option \<Rightarrow> run_event \<Rightarrow> unit si" where
  "run_step env outcome event =
     bindS (getS si_run) (\<lambda>at_phase. case at_phase of
         Stopped \<Rightarrow> retS ()
       | Dialing \<Rightarrow> dial_step env outcome event
       | Authenticating \<Rightarrow> auth_step env event
       | Connected \<Rightarrow> online_step env outcome event)"

text \<open>
  One turn of the reader: a line with what \<open>json.Unmarshal\<close> makes of it, or the end of the input with the
  error of the scanner (\<open>io.EOF\<close> counts as the end). The reader ends at the first error; an error is dropped
  when the channel, which has room for one, is full.
\<close>

datatype scan_event = ScanLine "string + ServerMessage" | ScanEnd "string option"

definition scan_fails :: "string \<Rightarrow> Sim \<Rightarrow> Sim" where
  "scan_fails e i = i\<lparr>si_reading := False, si_readErr := (case si_readErr i of None \<Rightarrow> Some e | Some old \<Rightarrow> Some old)\<rparr>"

definition scanServerMessages :: "scan_event \<Rightarrow> Sim \<Rightarrow> Sim" where
  "scanServerMessages event i =
     (if \<not> si_reading i then i else
        case event of
          ScanLine (Inl e) \<Rightarrow> scan_fails e i
        | ScanLine (Inr msg) \<Rightarrow>
            if length (si_inbox i) < message_capacity then i\<lparr>si_inbox := si_inbox i @ [msg]\<rparr>
            else scan_fails ''server message queue overflow'' i
        | ScanEnd (Some e) \<Rightarrow> scan_fails e i
        | ScanEnd None \<Rightarrow> scan_fails ''EOF'' i)"

text \<open>What \<open>select\<close> may choose: a channel that holds something, a timer of the phase.\<close>

fun enabled :: "Sim \<Rightarrow> run_event \<Rightarrow> bool" where
  "enabled i (Dialed r) = (si_run i = Dialing)"
| "enabled i CtxDone = (si_run i \<in> {Authenticating, Connected} \<and> si_stopped i)"
| "enabled i ReadErr = (si_run i \<in> {Authenticating, Connected} \<and> si_readErr i \<noteq> None)"
| "enabled i FromServer = (si_run i \<in> {Authenticating, Connected} \<and> si_inbox i \<noteq> [])"
| "enabled i AuthTimeout = (si_run i = Authenticating)"
| "enabled i PingTick = (si_run i = Connected \<and> si_autoPing i)"
| "enabled i TelemetryTick = (si_run i = Connected \<and> si_autoTelemetry i)"
| "enabled i ManualTelemetry = (si_run i = Connected \<and> si_queue i \<noteq> [])"

section \<open>The manager\<close>

record SimulatorView =
  sv_ID :: string
  sv_Device :: Device
  sv_Connected :: bool
  sv_AutoAck :: bool
  sv_AutoPing :: bool
  sv_AutoTelemetry :: bool
  sv_TelemetryIntervalMS :: int
  sv_DefaultValues :: anymap
  sv_LastConnectAt :: "time option"
  sv_LastDisconnectAt :: "time option"
  sv_LastPingAt :: "time option"
  sv_LastTelemetryAt :: "time option"
  sv_LastCommandAt :: "time option"
  sv_LastError :: string
  sv_Logs :: "SimulatorLogEntry list"

definition some_time :: "time \<Rightarrow> time option" where
  "some_time t = (if \<not> time_IsZero t then Some t else None)"

text \<open>\<open>int(s.telemetryInterval / time.Millisecond)\<close>: the interval is positive.\<close>

definition sim_snapshot :: "Sim \<Rightarrow> SimulatorView" where
  "sim_snapshot i = \<lparr>sv_ID = si_id i, sv_Device = sim_cloneDevice (si_device i), sv_Connected = si_connected i,
     sv_AutoAck = si_autoAck i, sv_AutoPing = si_autoPing i, sv_AutoTelemetry = si_autoTelemetry i,
     sv_TelemetryIntervalMS = si_telemetryInterval i div 1000000, sv_DefaultValues = cloneAnyMap (si_defaultValues i),
     sv_LastConnectAt = some_time (si_lastConnectAt i), sv_LastDisconnectAt = some_time (si_lastDisconnectAt i),
     sv_LastPingAt = some_time (si_lastPingAt i), sv_LastTelemetryAt = some_time (si_lastTelemetryAt i),
     sv_LastCommandAt = some_time (si_lastCommandAt i), sv_LastError = si_lastError i, sv_Logs = si_logs i\<rparr>"

record CreateRequest =
  cr_Name :: string
  cr_ProductID :: string
  cr_Metadata :: strmap
  cr_AutoConnect :: bool
  cr_AutoAck :: bool
  cr_AutoPing :: bool
  cr_AutoTelemetry :: bool
  cr_TelemetryIntervalMS :: int
  cr_DefaultValues :: anymap

record SimManager =
  mg_service :: Service
  mg_simulators :: "(string \<times> Sim) list"
  mg_removed :: "Sim list"
  mg_closed :: bool

type_synonym 'a mg = "(SimManager, gerr, 'a) op"

definition callM :: "'a sv \<Rightarrow> 'a mg" where
  "callM m g = (case m (mg_service g) of (r, s) \<Rightarrow> (r, g\<lparr>mg_service := s\<rparr>))"

definition sim_NewManager :: "Service \<Rightarrow> SimManager" where
  "sim_NewManager s = \<lparr>mg_service = s, mg_simulators = [], mg_removed = [], mg_closed = False\<rparr>"

text \<open>The instance \<open>Create\<close> makes; \<open>rootDone\<close> says whether the manager was closed.\<close>

definition new_instance :: "CreateRequest \<Rightarrow> string \<Rightarrow> Device \<Rightarrow> bool \<Rightarrow> Sim" where
  "new_instance req i device rootDone = \<lparr>si_id = i, si_device = device, si_run = Stopped, si_running = False, si_stopped = False, si_closed = rootDone,
     si_connected = False, si_autoAck = cr_AutoAck req, si_autoPing = cr_AutoPing req,
     si_autoTelemetry = cr_AutoTelemetry req, si_telemetryInterval = sanitizeInterval (cr_TelemetryIntervalMS req),
     si_defaultValues = normalizeDefaultValues (cr_DefaultValues req), si_lastConnectAt = 0, si_lastDisconnectAt = 0,
     si_lastPingAt = 0, si_lastTelemetryAt = 0, si_lastCommandAt = 0, si_lastError = [], si_logs = [], si_queue = [],
     si_inbox = [], si_readErr = None, si_reading = False, si_sent = [], si_ticks = 0\<rparr>"

definition mg_Create :: "Env \<Rightarrow> SimEnv \<Rightarrow> CreateRequest \<Rightarrow> SimulatorView mg" where
  "mg_Create env senv req =
     (let deviceName = trim_space (cr_Name req);
          deviceName = (if deviceName = [] then ''simulated-device'' else deviceName) in
      bindS (callM (CreateDevice env deviceName (cr_ProductID req) None (cr_Metadata req))) (\<lambda>device.
      bindS (callM (newID env ''sim'')) (\<lambda>newid.
      bindS (getS mg_closed) (\<lambda>rootDone.
      let sim = snd (addLog senv ''info'' ''simulator created'' (new_instance req newid device rootDone));
          sim = (if cr_AutoConnect req then snd (sim_connect senv sim) else sim) in
      bindS (modS (\<lambda>g. g\<lparr>mg_simulators := AList.update newid sim (mg_simulators g)\<rparr>)) (\<lambda>_.
      retS (sim_snapshot sim))))))"

definition lookup_sim :: "string \<Rightarrow> SimManager \<Rightarrow> Sim res" where
  "lookup_sim i g =
     (case map_of (mg_simulators g) (trim_space i) of
        None \<Rightarrow> Inl (EOther ''simulator not found'')
      | Some sim \<Rightarrow> Inr sim)"

text \<open>A method of the instance behind an ID: the view after it, or its error.\<close>

definition on_sim :: "string \<Rightarrow> unit si \<Rightarrow> SimulatorView mg" where
  "on_sim i m =
     bindS (readS (lookup_sim i)) (\<lambda>sim.
     case m sim of (r, sim') \<Rightarrow>
       bindS (modS (\<lambda>g. g\<lparr>mg_simulators := AList.update (trim_space i) sim' (mg_simulators g)\<rparr>)) (\<lambda>_.
       case r of Inl e \<Rightarrow> errS (EOther e) | Inr _ \<Rightarrow> retS (sim_snapshot sim')))"

definition mg_Get :: "string \<Rightarrow> SimManager \<Rightarrow> SimulatorView res" where
  "mg_Get i g = bindE (lookup_sim i g) (\<lambda>sim. Inr (sim_snapshot sim))"

definition mg_List :: "SimManager \<Rightarrow> SimulatorView list" where
  "mg_List g = map sim_snapshot (sort_newest (dev_CreatedAt \<circ> si_device) (map snd (mg_simulators g)))"

definition mg_Connect :: "SimEnv \<Rightarrow> string \<Rightarrow> SimulatorView mg" where
  "mg_Connect senv i = on_sim i (sim_connect senv)"

definition mg_Disconnect :: "SimEnv \<Rightarrow> string \<Rightarrow> SimulatorView mg" where
  "mg_Disconnect senv i = on_sim i (sim_disconnect senv)"

definition mg_SendTelemetry :: "string \<Rightarrow> anymap \<Rightarrow> SimulatorView mg" where
  "mg_SendTelemetry i vals = on_sim i (sim_sendTelemetry vals)"

text \<open>\<open>Remove\<close> deletes the entry and disconnects the instance, which lives on until its run ends.\<close>

definition mg_Remove :: "SimEnv \<Rightarrow> string \<Rightarrow> unit mg" where
  "mg_Remove senv i =
     bindS (getS (\<lambda>g. map_of (mg_simulators g) i)) (\<lambda>found. case found of
         None \<Rightarrow> errS (EOther ''simulator not found'')
       | Some sim \<Rightarrow> modS (\<lambda>g. g\<lparr>mg_simulators := AList.delete i (mg_simulators g),
           mg_removed := snd (sim_disconnect senv sim) # mg_removed g\<rparr>))"

text \<open>\<open>Close\<close> cancels \<open>rootCtx\<close>, and with it the context of every run, and disconnects the listed instances.\<close>

definition sim_parent_done :: "Sim \<Rightarrow> Sim" where
  "sim_parent_done i = i\<lparr>si_closed := True, si_stopped := si_running i\<rparr>"

definition mg_Close :: "SimEnv \<Rightarrow> SimManager \<Rightarrow> SimManager" where
  "mg_Close senv g = g\<lparr>mg_closed := True,
     mg_simulators := map (apsnd (snd \<circ> sim_disconnect senv \<circ> sim_parent_done)) (mg_simulators g),
     mg_removed := map sim_parent_done (mg_removed g)\<rparr>"

section \<open>Steps of an instance and of the manager\<close>

inductive instance_step :: "SimEnv \<Rightarrow> Sim \<Rightarrow> Sim \<Rightarrow> bool" for env where
  connecting: "instance_step env i (snd (sim_connect env i))"
| disconnecting: "instance_step env i (snd (sim_disconnect env i))"
| queueing: "instance_step env i (snd (sim_sendTelemetry vals i))"
| running: "enabled i event \<Longrightarrow> instance_step env i (snd (run_step env outcome event i))"
| reading: "instance_step env i (scanServerMessages event i)"
| closing: "instance_step env i (sim_parent_done i)"

text \<open>
  The calls of the API, a step of any instance on its own (also of a removed one), and the rest of the
  program, which changes the service.
\<close>

inductive manager_step :: "SimEnv \<Rightarrow> SimManager \<Rightarrow> SimManager \<Rightarrow> bool" for senv where
  create: "manager_step senv g (snd (mg_Create env senv req g))"
| connect: "manager_step senv g (snd (mg_Connect senv i g))"
| disconnect: "manager_step senv g (snd (mg_Disconnect senv i g))"
| telemetry: "manager_step senv g (snd (mg_SendTelemetry i vals g))"
| remove: "manager_step senv g (snd (mg_Remove senv i g))"
| close: "manager_step senv g (mg_Close senv g)"
| listed_step: "map_of (mg_simulators g) i = Some sim \<Longrightarrow> instance_step senv sim sim' \<Longrightarrow>
    manager_step senv g (g\<lparr>mg_simulators := AList.update i sim' (mg_simulators g)\<rparr>)"
| removed_step: "mg_removed g = before @ sim # after \<Longrightarrow> instance_step senv sim sim' \<Longrightarrow>
    manager_step senv g (g\<lparr>mg_removed := before @ sim' # after\<rparr>)"
| service: "service_step (mg_service g) s \<Longrightarrow> manager_step senv g (g\<lparr>mg_service := s\<rparr>)"

inductive manager_reachable :: "SimEnv \<Rightarrow> SimManager \<Rightarrow> bool" for senv where
  start: "reachable s \<Longrightarrow> manager_reachable senv (sim_NewManager s)"
| step: "manager_reachable senv g \<Longrightarrow> manager_step senv g g' \<Longrightarrow> manager_reachable senv g'"

end
