(* ===== verification/SimulatorFacts.thy ===== *)
theory SimulatorFacts
  imports Simulator Credentials
begin

text \<open>
  What holds of every simulated device in every state of the manager, and what its login writes. The proofs
  go event by event: \<open>run_simps\<close> evaluates the operations of an instance on a known phase.
\<close>

section \<open>The invariant of an instance\<close>

text \<open>The messages a run has written: nothing before the login message, no second login after it.\<close>

definition sent_ok :: "Sim \<Rightarrow> bool" where
  "sent_ok i \<longleftrightarrow>
     (si_run i = Authenticating \<longrightarrow> si_sent i = [auth_message (si_device i)]) \<and>
     (si_run i = Connected \<longrightarrow> (\<exists>rest. si_sent i = auth_message (si_device i) # rest \<and>
        list_all (\<lambda>m. dm_Type m \<in> {''ping'', ''telemetry'', ''ack''}) rest))"

definition sim_ok :: "Sim \<Rightarrow> bool" where
  "sim_ok i \<longleftrightarrow>
     (si_connected i \<longleftrightarrow> si_run i = Connected) \<and>
     (si_running i \<longleftrightarrow> si_run i \<noteq> Stopped) \<and>
     (si_stopped i \<longrightarrow> si_running i) \<and> (si_closed i \<and> si_running i \<longrightarrow> si_stopped i) \<and>
     (si_reading i \<longrightarrow> si_run i \<in> {Authenticating, Connected}) \<and>
     length (si_logs i) \<le> maxLogEntries \<and> length (si_queue i) \<le> telemetry_capacity \<and>
     length (si_inbox i) \<le> message_capacity \<and>
     1000000000 \<le> si_telemetryInterval i \<and> in_int64 (si_telemetryInterval i) \<and> sent_ok i"

named_theorems sim_simps \<open>evaluation of the operations of an instance\<close>

lemmas sim_prims [sim_simps] = bindS_def tryS_def op_apply nowI_def

lemmas sim_notes [sim_simps] = addLog_def sim_fail_def setConnected_def notePing_def noteTelemetry_def noteCommand_def
  finishRun_def fail_run_def or_fail_def writeDeviceMessage_def device_message_def Let_def

lemma addLog_bound: "length (if length xs > n then drop (length xs - n) xs else xs) \<le> n"
  by simp

lemma sanitizeInterval_bounds: "1000000000 \<le> sanitizeInterval ms \<and> in_int64 (sanitizeInterval ms)"
  using wrap64_in [of "ms * 1000000"]
  by (auto simp: sanitizeInterval_def defaultTelemetryInterval_def Let_def in_int64_def int64_min_def int64_max_def)

lemma connect_ok: "sim_ok i \<Longrightarrow> sim_ok (snd (sim_connect env i))"
  by (auto simp: sim_ok_def sent_ok_def sim_connect_def sim_simps)

lemma disconnect_ok: "sim_ok i \<Longrightarrow> sim_ok (snd (sim_disconnect env i))"
  by (auto simp: sim_ok_def sent_ok_def sim_disconnect_def sim_simps)

lemma sendTelemetry_ok: "sim_ok i \<Longrightarrow> sim_ok (snd (sim_sendTelemetry vals i))"
  by (auto simp: sim_ok_def sent_ok_def sim_sendTelemetry_def sim_simps)

lemma parent_done_ok: "sim_ok i \<Longrightarrow> sim_ok (sim_parent_done i)"
  by (auto simp: sim_ok_def sent_ok_def sim_parent_done_def)

lemma scan_ok: "sim_ok i \<Longrightarrow> sim_ok (scanServerMessages event i)"
  by (auto simp: sim_ok_def sent_ok_def scanServerMessages_def scan_fails_def split: scan_event.splits sum.splits option.splits)

section \<open>The events of a run\<close>

lemma dial_ok:
  assumes "sim_ok i" "si_run i = Dialing"
  shows "sim_ok (snd (dial_step env outcome event i))"
  using assms by (auto simp: sim_ok_def sent_ok_def dial_step_def sim_simps split: run_event.splits option.splits)

lemma auth_ok:
  assumes "sim_ok i" "si_run i = Authenticating"
  shows "sim_ok (snd (auth_step env event i))"
  using assms by (auto simp: sim_ok_def sent_ok_def auth_step_def receive_error_def receive_message_def auth_reply_def
      sim_simps split: run_event.splits option.splits list.splits)

text \<open>On line: the notes and the writes keep the run on line, and any failure ends it.\<close>

definition on_line :: "Sim \<Rightarrow> bool" where
  "on_line i \<longleftrightarrow> sim_ok i \<and> si_run i = Connected"

lemma on_line_addLog: "preserves on_line (addLog env l m)"
  by (auto simp: preserves_def on_line_def sim_ok_def sent_ok_def sim_simps)

lemma on_line_write:
  assumes "dm_Type m \<in> {''ping'', ''telemetry'', ''ack''}"
  shows "preserves on_line (writeDeviceMessage outcome m)"
  using assms by (cases outcome) (auto simp: preserves_def on_line_def sim_ok_def sent_ok_def writeDeviceMessage_def op_apply)

lemma on_line_stamps:
  "preserves on_line (nowI env)"
  "preserves on_line (modS (\<lambda>i. i\<lparr>si_lastPingAt := now\<rparr>))"
  "preserves on_line (modS (\<lambda>i. i\<lparr>si_lastTelemetryAt := now\<rparr>))"
  "preserves on_line (modS (\<lambda>i. i\<lparr>si_lastCommandAt := now\<rparr>))"
  by (auto simp: preserves_def on_line_def sim_ok_def sent_ok_def nowI_def op_apply)

lemmas on_line_intros = preserves_prim preserves_bindS preserves_if preserves_Let on_line_addLog on_line_write on_line_stamps

lemma on_line_ops:
  "preserves on_line (notePing env)"
  "preserves on_line (writeDeviceMessage outcome (device_message ''ping''))"
  "preserves on_line (publishTelemetry env outcome vals)"
  "preserves on_line (handleServerMessage env outcome msg)"
  unfolding notePing_def publishTelemetry_def handleServerMessage_def noteTelemetry_def noteCommand_def
  by (intro on_line_intros; simp add: device_message_def)+

lemma fail_run_ok: "sim_ok i \<Longrightarrow> sim_ok (snd (fail_run env e m i))"
  by (auto simp: sim_ok_def sent_ok_def sim_simps)

lemma finishRun_ok: "sim_ok i \<Longrightarrow> sim_ok (snd (finishRun env i))"
  by (auto simp: sim_ok_def sent_ok_def sim_simps)

lemma or_fail_ok:
  assumes "preserves on_line m" "preserves on_line rest" "on_line i"
  shows "sim_ok (snd (or_fail env m message rest i))"
proof (cases "m i")
  case (Pair r i')
  with assms(1,3) have "on_line i'" by (rule preserves_pair)
  with assms(2) have "on_line (snd (rest i'))" by (rule preservesD)
  with \<open>on_line i'\<close> show ?thesis
    by (cases r) (simp_all add: or_fail_def tryS_def Pair fail_run_ok on_line_def)
qed

lemma queue_taken: "on_line i \<Longrightarrow> si_queue i = v # rest \<Longrightarrow> on_line (i\<lparr>si_queue := rest\<rparr>)"
  "on_line i \<Longrightarrow> si_inbox i = msg # ms \<Longrightarrow> on_line (i\<lparr>si_inbox := ms\<rparr>)"
  "on_line i \<Longrightarrow> sim_ok (i\<lparr>si_readErr := None\<rparr>)"
  by (auto simp: on_line_def sim_ok_def sent_ok_def)

lemma online_ok:
  assumes "on_line i"
  shows "sim_ok (snd (online_step env outcome event i))"
proof -
  have "sim_ok i" using assms by (simp add: on_line_def)
  then show ?thesis
    using assms queue_taken [OF assms]
    by (cases event) (auto simp: online_step_def receive_error_def receive_message_def bindS_def op_apply finishRun_ok
        fail_run_ok intro!: or_fail_ok on_line_ops preserves_prim split: option.splits list.splits)
qed

lemma run_step_ok:
  assumes "sim_ok i"
  shows "sim_ok (snd (run_step env outcome event i))"
  using assms dial_ok auth_ok online_ok
  by (cases "si_run i") (simp_all add: run_step_def bindS_def op_apply on_line_def)

lemma instance_step_ok: "instance_step env i i' \<Longrightarrow> sim_ok i \<Longrightarrow> sim_ok i'"
  by (induction rule: instance_step.induct) (simp_all add: connect_ok disconnect_ok sendTelemetry_ok run_step_ok scan_ok parent_done_ok)

text \<open>Who an instance is, and whether its parent context is done, only changes when the manager closes.\<close>

abbreviation same_sim :: "string \<times> Device \<times> bool \<Rightarrow> Sim \<Rightarrow> bool" where
  "same_sim x i \<equiv> (si_id i, si_device i, si_closed i) = x"

lemma same_notes:
  "preserves (same_sim x) (addLog env l m)"
  "preserves (same_sim x) (writeDeviceMessage outcome msg)"
  "preserves (same_sim x) (finishRun env)"
  "preserves (same_sim x) (fail_run env e m)"
  "preserves (same_sim x) (setConnected env v)"
  "preserves (same_sim x) (notePing env)"
  "preserves (same_sim x) (noteTelemetry env vals)"
  "preserves (same_sim x) (noteCommand env)"
  "preserves (same_sim x) (nowI env)"
  by (auto simp: preserves_def sim_simps split: option.splits)

lemmas same_intros = same_notes preserves_prim preserves_bindS preserves_tryS preserves_if preserves_Let
  preserves_case_sum preserves_case_option

lemma same_or_fail: "preserves (same_sim x) m \<Longrightarrow> preserves (same_sim x) rest \<Longrightarrow> preserves (same_sim x) (or_fail env m t rest)"
  unfolding or_fail_def by (intro same_intros)

lemma same_ops:
  "preserves (same_sim x) (publishTelemetry env outcome vals)"
  "preserves (same_sim x) (handleServerMessage env outcome msg)"
  "preserves (same_sim x) (auth_reply env msg)"
  unfolding publishTelemetry_def handleServerMessage_def auth_reply_def
  by (intro same_intros preserves_modS; simp)+

lemma same_receive:
  "(\<And>e. preserves (same_sim x) (k e)) \<Longrightarrow> preserves (same_sim x) (receive_error k)"
  "(\<And>m. preserves (same_sim x) (k' m)) \<Longrightarrow> preserves (same_sim x) (receive_message k')"
  by (auto simp: preserves_def receive_error_def receive_message_def bindS_def op_apply split: option.splits list.splits)

lemma same_run: "preserves (same_sim x) (run_step env outcome event)"
proof -
  have queue: "preserves (same_sim x) (case queue of [] \<Rightarrow> retS () | vals # rest \<Rightarrow>
      bindS (modS (\<lambda>i. i\<lparr>si_queue := rest\<rparr>)) (\<lambda>_. or_fail env (publishTelemetry env outcome vals) t (retS ())))" for queue t
    by (cases queue) (auto intro!: same_intros same_or_fail same_ops preserves_modS)
  have "preserves (same_sim x) (dial_step env outcome event)"
    by (cases event) (auto simp: dial_step_def split: option.split intro!: same_intros same_or_fail preserves_modS)
  moreover have "preserves (same_sim x) (auth_step env event)"
    by (cases event) (auto simp: auth_step_def intro!: same_intros same_receive same_ops)
  moreover have "preserves (same_sim x) (online_step env outcome event)"
    using queue by (cases event) (auto simp: online_step_def split: prod.split intro!: same_intros same_receive same_or_fail same_ops)
  ultimately show ?thesis
    unfolding run_step_def by (intro preserves_bindS preserves_prim) (simp split: run_phase.split add: preserves_prim)
qed

lemma instance_step_same:
  "instance_step env i i' \<Longrightarrow> si_id i' = si_id i \<and> si_device i' = si_device i \<and> (si_closed i \<longrightarrow> si_closed i')"
proof (induction rule: instance_step.induct)
  case (running i event outcome)
  show ?case using preservesD [OF same_run, where s = i, OF refl] by simp
qed (auto simp: sim_connect_def sim_disconnect_def sim_sendTelemetry_def scanServerMessages_def scan_fails_def
      sim_parent_done_def sim_simps split: scan_event.splits sum.splits option.splits)

section \<open>The invariant of the manager\<close>

definition can_login :: "Service \<Rightarrow> Device \<Rightarrow> bool" where
  "can_login s device \<longleftrightarrow>
     (\<exists>d. AuthenticateDevice (dev_ID device) (dev_Token device) s = Inr d \<and> dev_ID d = dev_ID device)"

definition instance_ok :: "SimManager \<Rightarrow> Sim \<Rightarrow> bool" where
  "instance_ok g sim \<longleftrightarrow> sim_ok sim \<and> (mg_closed g \<longrightarrow> si_closed sim) \<and> can_login (mg_service g) (si_device sim)"

definition manager_ok :: "SimManager \<Rightarrow> bool" where
  "manager_ok g \<longleftrightarrow> service_ok (mg_service g) \<and> distinct (map fst (mg_simulators g)) \<and>
     (\<forall>(i, sim) \<in> set (mg_simulators g). si_id sim = i \<and> instance_ok g sim) \<and>
     (\<forall>sim \<in> set (mg_removed g). instance_ok g sim)"

lemma instance_ok_step: "instance_ok g sim \<Longrightarrow> instance_step env sim sim' \<Longrightarrow> instance_ok g sim'"
  using instance_step_ok instance_step_same by (auto simp: instance_ok_def)

lemma can_login_step: "service_step s s' \<Longrightarrow> service_ok s \<Longrightarrow> can_login s d \<Longrightarrow> can_login s' d"
  using login_permanent unfolding can_login_def by metis

lemma manager_service:
  assumes "manager_ok g" "service_ok s" "\<And>d. can_login (mg_service g) d \<Longrightarrow> can_login s d"
  shows "manager_ok (g\<lparr>mg_service := s\<rparr>)"
  using assms by (fastforce simp: manager_ok_def instance_ok_def)

lemma manager_put:
  assumes "manager_ok g" "si_id sim = i" "instance_ok g sim"
  shows "manager_ok (g\<lparr>mg_simulators := AList.update i sim (mg_simulators g)\<rparr>)"
  using assms by (auto simp: manager_ok_def instance_ok_def dest!: set_update_cases)

lemma manager_listed: "manager_ok g \<Longrightarrow> map_of (mg_simulators g) i = Some sim \<Longrightarrow> si_id sim = i \<and> instance_ok g sim"
  by (auto simp: manager_ok_def dest!: map_of_SomeD)

lemma manager_on_sim:
  assumes "manager_ok g" "\<And>sim. instance_step env sim (snd (m sim))"
  shows "manager_ok (snd (on_sim i m g))"
proof (cases "map_of (mg_simulators g) (trim_space i)")
  case None
  then show ?thesis using assms(1) by (simp add: on_sim_def lookup_sim_def bindS_def op_apply)
next
  case (Some sim)
  note sim = manager_listed [OF assms(1) Some]
  have "snd (on_sim i m g) = g\<lparr>mg_simulators := AList.update (trim_space i) (snd (m sim)) (mg_simulators g)\<rparr>"
    by (auto simp: on_sim_def lookup_sim_def Some bindS_def op_apply split: prod.split sum.split)
  moreover have "si_id (snd (m sim)) = trim_space i" using instance_step_same [OF assms(2)] sim by simp
  ultimately show ?thesis
    using manager_put [OF assms(1) _ instance_ok_step [OF conjunct2 [OF sim] assms(2)]] by simp
qed

lemma new_instance_ok: "sim_ok (new_instance req i device rootDone)"
  using sanitizeInterval_bounds by (simp add: sim_ok_def sent_ok_def new_instance_def)

lemma addLog_ok: "sim_ok i \<Longrightarrow> sim_ok (snd (addLog env l m i))"
  by (auto simp: sim_ok_def sent_ok_def sim_simps)

text \<open>The instance \<open>Create\<close> puts in the table.\<close>

definition created_sim :: "SimEnv \<Rightarrow> CreateRequest \<Rightarrow> string \<Rightarrow> Device \<Rightarrow> bool \<Rightarrow> Sim" where
  "created_sim senv req i device rootDone =
     (let sim = snd (addLog senv ''info'' ''simulator created'' (new_instance req i device rootDone)) in
      if cr_AutoConnect req then snd (sim_connect senv sim) else sim)"

lemma created_sim_ok:
  "sim_ok (created_sim senv req i device rootDone)"
  "si_id (created_sim senv req i device rootDone) = i"
  "si_device (created_sim senv req i device rootDone) = device"
  "si_closed (created_sim senv req i device rootDone) = rootDone"
  by (simp_all add: created_sim_def Let_def new_instance_ok addLog_ok connect_ok)
    (simp_all add: sim_connect_def new_instance_def sim_simps)

text \<open>\<open>Create\<close>, when the device was created and when it was not.\<close>

abbreviation sim_name :: "CreateRequest \<Rightarrow> string" where
  "sim_name req \<equiv> (if trim_space (cr_Name req) = [] then ''simulated-device'' else trim_space (cr_Name req))"

lemma Create_run:
  "mg_Create env senv req g =
    (case CreateDeviceWithTenant env [] (sim_name req) (cr_ProductID req) None (cr_Metadata req) (mg_service g) of
       (Inl e, s) \<Rightarrow> (Inl e, g\<lparr>mg_service := s\<rparr>)
     | (Inr device, s) \<Rightarrow>
         let i = NewID ''sim'' (env_rand env (sv_rands s)) (env_clock env (sv_ticks s));
             sim = created_sim senv req i device (mg_closed g) in
         (Inr (sim_snapshot sim), g\<lparr>mg_service := s\<lparr>sv_rands := Suc (sv_rands s)\<rparr>,
            mg_simulators := AList.update i sim (mg_simulators g)\<rparr>))"
  by (simp add: mg_Create_def CreateDevice_def callM_def newID_def created_sim_def Let_def bindS_def op_apply
      split: prod.split sum.split)

lemma sim_create_ok:
  assumes "manager_ok g"
  shows "manager_ok (snd (mg_Create env senv req g))"
proof -
  let ?s = "mg_service g" and ?create = "CreateDeviceWithTenant env [] (sim_name req) (cr_ProductID req) None (cr_Metadata req)"
  have ok: "service_ok ?s" using assms by (simp add: manager_ok_def)
  obtain r s where c: "?create ?s = (r, s)" by fastforce
  have step: "service_step ?s s" using service_step.create_device [of ?s env] c by (metis changed_def snd_conv)
  have ok': "service_ok s" by (rule service_step_ok [OF step ok])
  have g1: "manager_ok (g\<lparr>mg_service := s\<rparr>)" using assms ok' by (rule manager_service) (rule can_login_step [OF step ok])
  show ?thesis
  proof (cases r)
    case (Inl e)
    then show ?thesis using g1 by (simp add: Create_run c)
  next
    case (Inr device)
    let ?s' = "s\<lparr>sv_rands := Suc (sv_rands s)\<rparr>"
    note d = created_device_facts [OF ok c [unfolded Inr]]
    have login: "can_login s device" using d(2) d(3) [of "dev_Token device"] by (simp add: can_login_def clone_updates)
    have same: "can_login ?s' = can_login s" by (simp add: fun_eq_iff can_login_def AuthenticateDevice_def)
    have g2: "manager_ok (g\<lparr>mg_service := ?s'\<rparr>)"
      using manager_service [OF g1, of ?s'] ok' same by simp
    show ?thesis
      using manager_put [OF g2 created_sim_ok(2)] created_sim_ok login same
      by (simp add: Create_run c Inr Let_def instance_ok_def)
  qed
qed

lemma remove_ok:
  assumes "manager_ok g"
  shows "manager_ok (snd (mg_Remove senv i g))"
proof (cases "map_of (mg_simulators g) i")
  case None
  then show ?thesis using assms by (simp add: mg_Remove_def bindS_def op_apply)
next
  case (Some sim)
  have "instance_ok g (snd (sim_disconnect senv sim))"
    using manager_listed [OF assms Some] instance_ok_step instance_step.disconnecting by blast
  then show ?thesis
    using assms Some filter_is_subset [of _ "mg_simulators g"]
    by (auto simp: mg_Remove_def bindS_def op_apply manager_ok_def instance_ok_def distinct_map_filter AList.delete_eq)
qed

lemma close_ok:
  assumes "manager_ok g"
  shows "manager_ok (mg_Close senv g)"
proof -
  have done1: "instance_ok (mg_Close senv g) (sim_parent_done sim)" "si_id (sim_parent_done sim) = si_id sim"
    if "instance_ok g sim" for sim
    using that instance_ok_step [OF that instance_step.closing] by (auto simp: instance_ok_def mg_Close_def sim_parent_done_def)
  have done2: "instance_ok (mg_Close senv g) (snd (sim_disconnect senv (sim_parent_done sim)))"
    "si_id (snd (sim_disconnect senv (sim_parent_done sim))) = si_id sim" if "instance_ok g sim" for sim
    using done1 [OF that] instance_ok_step [OF done1(1) [OF that] instance_step.disconnecting]
      instance_step_same [OF instance_step.disconnecting] by simp_all
  have "distinct (map fst (mg_simulators (mg_Close senv g)))"
    using assms by (simp add: mg_Close_def manager_ok_def o_def case_prod_unfold)
  then show ?thesis
    using assms done1 done2
    by (auto simp: manager_ok_def mg_Close_def [of senv g, THEN arg_cong, of mg_simulators]
        mg_Close_def [of senv g, THEN arg_cong, of mg_removed] mg_Close_def [of senv g, THEN arg_cong, of mg_service] o_def)
qed

lemma manager_step_ok: "manager_step senv g g' \<Longrightarrow> manager_ok g \<Longrightarrow> manager_ok g'"
proof (induction rule: manager_step.induct)
  case (listed_step g i sim sim')
  note sim = manager_listed [OF listed_step(3,1)]
  show ?case
    using listed_step(3) _ instance_ok_step [OF conjunct2 [OF sim] listed_step(2)]
    by (rule manager_put) (use sim instance_step_same [OF listed_step(2)] in simp)
next
  case (removed_step g before sim after sim')
  then have "instance_ok g sim'" using instance_ok_step by (auto simp: manager_ok_def)
  with removed_step show ?case by (auto simp: manager_ok_def instance_ok_def)
next
  case (service g s)
  then have ok: "service_ok (mg_service g)" by (simp add: manager_ok_def)
  show ?case
    using service(2) service_step_ok [OF service(1) ok] can_login_step [OF service(1) ok] by (rule manager_service)
qed (simp_all add: mg_Connect_def mg_Disconnect_def mg_SendTelemetry_def sim_create_ok remove_ok close_ok
      manager_on_sim [OF _ instance_step.connecting] manager_on_sim [OF _ instance_step.disconnecting]
      manager_on_sim [OF _ instance_step.queueing])

lemma manager_reachable_ok: "manager_reachable senv g \<Longrightarrow> manager_ok g"
proof (induction rule: manager_reachable.induct)
  case (start s)
  then show ?case using reachable_service_ok by (simp add: sim_NewManager_def manager_ok_def)
qed (rule manager_step_ok)

end
