(* ===== verification/GatewayLoop.thy ===== *)
theory GatewayLoop
  imports Gateway
begin

text \<open>
  The loops of the TCP gateway, with the bytes they read and write, and the table of open connections.

  \<^item> \<open>scan\<close> is one call of \<open>scanner.Scan\<close> with \<open>bufio.ScanLines\<close>: the next line and the bytes after it. A
    line of \<open>M\<close> bytes or more, \<open>M\<close> the size of the buffer, makes it fail like the end of the input.
  \<^item> \<open>connection_loop\<close> is the body of \<open>handleConnection\<close> for the bytes a peer sends before it closes; its
    first argument is fuel, one unit per turn of the \<open>for\<close> loop.
  \<^item> \<open>write_loop\<close> is the loop of \<open>writeMessage\<close>: \<open>conn.Write\<close> is a parameter, it gets the number of earlier
    calls and the bytes, and returns how many it took; one unit of fuel per call.
\<close>

section \<open>Reading lines\<close>

definition newline :: char where
  "newline = CHR 0x0A"

definition drop_cr :: "string \<Rightarrow> string" where
  "drop_cr l = (if l \<noteq> [] \<and> last l = CHR 0x0D then butlast l else l)"

definition scanner_buffer :: "int \<Rightarrow> nat" where
  "scanner_buffer maxMessageBytes = max 4096 (nat maxMessageBytes)"

definition scan :: "nat \<Rightarrow> string \<Rightarrow> (string \<times> string) option" where
  "scan M data =
     (let l = takeWhile (\<lambda>c. c \<noteq> newline) data; rest = dropWhile (\<lambda>c. c \<noteq> newline) data in
      if data = [] \<or> M \<le> length l then None else Some (drop_cr l, tl rest))"

lemma scan_shorter: "scan M data = Some (l, rest) \<Longrightarrow> length rest < length data"
  using length_dropWhile_le [of "\<lambda>c. c \<noteq> newline" data]
  by (cases "dropWhile (\<lambda>c. c \<noteq> newline) data") (auto simp: scan_def Let_def split: if_splits)

text \<open>A line that was written comes back.\<close>

lemma scan_line:
  assumes "newline \<notin> set l" "drop_cr l = l" "length l < M"
  shows "scan M (l @ newline # rest) = Some (l, rest)"
  using assms by (auto simp: scan_def Let_def takeWhile_append dropWhile_append)

section \<open>The loop of a connection\<close>

fun connection_loop :: "nat \<Rightarrow> Env \<Rightarrow> (string \<Rightarrow> DeviceMessage option) \<Rightarrow> nat \<Rightarrow> string \<Rightarrow> Gate \<Rightarrow> (phase \<times> Gate) option" where
  "connection_loop 0 env decode M input g = None"
| "connection_loop (Suc n) env decode M input g =
     (case scan M input of
        None \<Rightarrow>
          (case end_of_input env g of (Inl _, _) \<Rightarrow> None | (Inr p, g') \<Rightarrow> Some (p, g'))
      | Some (line, rest) \<Rightarrow>
          (case handle_line env decode line g of
             (Inl _, _) \<Rightarrow> None
           | (Inr p, g') \<Rightarrow> if p = Reading then connection_loop n env decode M rest g' else Some (p, g')))"

lemma handle_auth_total: "\<exists>p g'. handle_auth env now m g = (Inr p, g') \<and> p \<noteq> Finished"
proof (cases "gw_authenticated g")
  case False
  then show ?thesis
    by (cases "AuthenticateDevice (dm_DeviceID m) (dm_Token m) (gw_service g)")
      (simp_all add: handle_auth_refused handle_auth_accepted)
qed (simp add: handle_auth_again)

lemma call_total:
  "\<exists>g'. callG (RecordTCPTelemetryAccepted a b) g = (Inr (), g')" "\<exists>g'. callG (RecordCommandAckTransport t) g = (Inr (), g')"
  "\<exists>g'. callG (TouchDevice d now) g = (Inr (), g')" "\<exists>g'. reply m g = (Inr (), g')"
  by (auto simp: callG_def RecordTCPTelemetryAccepted_def RecordCommandAckTransport_def recordIngressVolume_def
      TouchDevice_def count_def bindS_def op_apply Let_def reply_def)

lemma handle_other_total: "\<exists>g'. handle_other env now n m g = (Inr (), g')"
proof -
  have "\<exists>g'. handle_telemetry env now n m g = (Inr (), g')" "\<exists>g'. handle_ack env m g = (Inr (), g')"
    using call_total by (simp_all add: handle_telemetry_def handle_ack_def gate_bind tryS_def Let_def split: prod.split sum.split)
  moreover have "\<exists>g'. handle_ping now g = (Inr (), g')"
  proof -
    obtain g1 where "callG (TouchDevice (gw_deviceID g) now) g = (Inr (), g1)" using call_total(3) by blast
    then show ?thesis using call_total(4) by (simp add: handle_ping_def gate_bind bindS_apply)
  qed
  ultimately show ?thesis using call_total(4) by (simp add: handle_other_def)
qed

text \<open>One turn of the loop never returns an error, and the phase it returns is not \<open>Finished\<close>.\<close>

lemma handle_line_total: "\<exists>p g'. handle_line env decode l g = (Inr p, g') \<and> p \<noteq> Finished"
proof (cases "decode l")
  case (Some m)
  obtain g' where "handle_other env (clock_now env g) (int (length l)) m (tick env g) = (Inr (), g')"
    using handle_other_total by blast
  with Some show ?thesis
    using handle_auth_total [of env "clock_now env g" m "tick env g"] by (simp add: handle_line_eq bindS_apply op_apply)
qed (simp add: handle_line_eq)

lemma end_of_input_total: "\<exists>g'. end_of_input env g = (Inr Finished, g')"
  by (simp add: end_of_input_eq Let_def)

lemma connection_loop_ends:
  assumes "length input < n"
  shows "\<exists>p g'. connection_loop n env decode M input g = Some (p, g') \<and> p \<noteq> Reading"
  using assms
proof (induction n arbitrary: input g)
  case (Suc n)
  show ?case
  proof (cases "scan M input")
    case None
    then show ?thesis using end_of_input_total [of env g] by auto
  next
    case (Some lr)
    obtain l rest where lr: "lr = (l, rest)" by fastforce
    obtain p g' where h: "handle_line env decode l g = (Inr p, g')" using handle_line_total by blast
    have "length rest < n" using scan_shorter Some lr Suc.prems by fastforce
    then show ?thesis using Suc.IH [of rest g'] Some lr h by auto
  qed
qed simp

text \<open>What the loop does is a path of the step relation, so the invariants of the connection hold of it.\<close>

lemma connection_loop_steps:
  "connection_loop n env decode M input g = Some c \<Longrightarrow> gate_reachable (Reading, g) \<Longrightarrow> gate_reachable c"
proof (induction n arbitrary: input g)
  case (Suc n)
  show ?case
  proof (cases "scan M input")
    case None
    obtain g' where e: "end_of_input env g = (Inr Finished, g')" using end_of_input_total by blast
    from gate_reachable.step [OF Suc.prems(2) gate_step.end_input [OF e]] show ?thesis
      using Suc.prems(1) None e by simp
  next
    case (Some lr)
    obtain l rest where lr: "lr = (l, rest)" by fastforce
    obtain p g' where h: "handle_line env decode l g = (Inr p, g')" using handle_line_total by blast
    note step = gate_reachable.step [OF Suc.prems(2) gate_step.line [OF h]]
    show ?thesis
      using Suc.prems(1) Suc.IH [of rest g'] Some lr h step by (cases "p = Reading") auto
  qed
qed simp

section \<open>Writing a message\<close>

text \<open>Bytes written so far, in order, and the error of the write that failed.\<close>

fun write_loop :: "nat \<Rightarrow> (nat \<Rightarrow> string \<Rightarrow> string + nat) \<Rightarrow> nat \<Rightarrow> string \<Rightarrow> string \<Rightarrow> (string option \<times> string) option" where
  "write_loop 0 write k payload out = None"
| "write_loop (Suc n) write k payload out =
     (if payload = [] then Some (None, out) else
        case write k payload of
          Inl e \<Rightarrow> Some (Some e, out)
        | Inr written \<Rightarrow> write_loop n write (Suc k) (drop written payload) (out @ take written payload))"

text \<open>\<open>marshal\<close> is \<open>json.Marshal\<close>; setting the deadline may fail before anything is written.\<close>

definition writeMessage :: "nat \<Rightarrow> (ServerMessage \<Rightarrow> string + string) \<Rightarrow> string option \<Rightarrow> (nat \<Rightarrow> string \<Rightarrow> string + nat) \<Rightarrow>
    ServerMessage \<Rightarrow> (string option \<times> string) option" where
  "writeMessage n marshal deadline write message =
     (case marshal message of
        Inl e \<Rightarrow> Some (Some e, [])
      | Inr payload \<Rightarrow>
          (case deadline of
             Some e \<Rightarrow> Some (Some e, [])
           | None \<Rightarrow> write_loop n write 0 (payload @ [newline]) []))"

lemma write_loop_ends:
  assumes "length payload < n" "\<And>k p w. p \<noteq> [] \<Longrightarrow> write k p = Inr w \<Longrightarrow> 0 < w \<and> w \<le> length p"
  shows "\<exists>e sent. write_loop n write k payload out = Some (e, out @ sent) \<and> prefix sent payload \<and> (e = None \<longrightarrow> sent = payload)"
  using assms(1)
proof (induction n arbitrary: k payload out)
  case (Suc n)
  show ?case
  proof (cases "payload = [] \<or> (\<exists>e. write k payload = Inl e)")
    case True
    then show ?thesis by auto
  next
    case False
    then obtain w where w: "write k payload = Inr w" by (meson sumE)
    from False assms(2) [OF _ w] have "0 < w" "w \<le> length payload" by auto
    moreover from this have "length (drop w payload) < n" using Suc.prems by simp
    from Suc.IH [OF this, of "Suc k" "out @ take w payload"] obtain e sent where
      "write_loop n write (Suc k) (drop w payload) (out @ take w payload) = Some (e, out @ take w payload @ sent)"
      "prefix sent (drop w payload)" "e = None \<longrightarrow> sent = drop w payload" by auto
    moreover from this(2) have "prefix (take w payload @ sent) payload"
      by (metis append_take_drop_id same_prefix_prefix)
    ultimately show ?thesis using w False by (intro exI [of _ e] exI [of _ "take w payload @ sent"]) auto
  qed
qed simp

section \<open>Open connections\<close>

text \<open>\<open>Server.connections\<close>, with for every connection whether the socket is closed.\<close>

type_synonym connections = "(string \<times> bool) list"

definition trackConnection :: "string \<Rightarrow> connections \<Rightarrow> connections" where
  "trackConnection connID cs = AList.update connID False cs"

definition untrackConnection :: "string \<Rightarrow> connections \<Rightarrow> connections" where
  "untrackConnection connID cs = AList.delete connID cs"

definition closeAllConnections :: "connections \<Rightarrow> connections" where
  "closeAllConnections cs = map (\<lambda>(i, _). (i, True)) cs"

text \<open>After a shutdown no tracked socket is open; a connection that was accepted after it is not closed.\<close>

lemma closeAll_closed: "map_of (closeAllConnections cs) i \<in> {None, Some True}"
  by (induction cs) (auto simp: closeAllConnections_def)

lemma untrack_track: "map_of (untrackConnection i (trackConnection i cs)) = (map_of cs)(i := None)"
  by (simp add: untrackConnection_def trackConnection_def delete_conv')

end
