(* ===== verification/SimulatorProperties.thy ===== *)
theory SimulatorProperties
  imports SimulatorFacts GatewayLoop Demo
begin

text \<open>
  Properties of the simulator manager, and of a simulated device and the gateway together. The witnesses
  run a simulated device of the demo service.
\<close>

section \<open>A simulated device of the demo service\<close>

definition demo_senv :: SimEnv where
  "demo_senv = \<lparr>sn_clock = (\<lambda>n. 500 + int n), sn_json = (\<lambda>_. ''{}'')\<rparr>"

definition demo_create :: CreateRequest where
  "demo_create = \<lparr>cr_Name = ''probe'', cr_ProductID = ''p1'', cr_Metadata = None, cr_AutoConnect = True,
     cr_AutoAck = True, cr_AutoPing = True, cr_AutoTelemetry = False, cr_TelemetryIntervalMS = 0, cr_DefaultValues = None\<rparr>"

lemma demo_dialing:
  "\<exists>g i sim. manager_reachable demo_senv g \<and> map_of (mg_simulators g) i = Some sim \<and> si_run sim = Dialing"
proof -
  let ?g = "sim_NewManager demo_service"
  have "\<exists>d. fst (CreateDeviceWithTenant demo_env [] ''probe'' ''p1'' None None demo_service) = Inr d"
    by (simp add: CreateDeviceWithTenant_def run_simps op_simps assertTenantExists_def label_eval st_write_defs
        st_GetProduct_def mem_GetProduct_def mem_CreateDevice_def mem_SaveShadow_def Let_def demo_ids demo_token)
  then obtain d s where c: "CreateDeviceWithTenant demo_env [] ''probe'' ''p1'' None None demo_service = (Inr d, s)"
    by (metis prod.collapse)
  let ?i = "NewID ''sim'' (env_rand demo_env (sv_rands s)) (env_clock demo_env (sv_ticks s))"
  let ?sim = "created_sim demo_senv demo_create ?i d False"
  have create: "mg_Create demo_env demo_senv demo_create ?g = (Inr (sim_snapshot ?sim),
      ?g\<lparr>mg_service := s\<lparr>sv_rands := Suc (sv_rands s)\<rparr>, mg_simulators := [(?i, ?sim)]\<rparr>)"
    using c by (simp add: Create_run demo_create_def label_eval sim_NewManager_def Let_def)
  have "manager_reachable demo_senv (snd (mg_Create demo_env demo_senv demo_create ?g))"
    by (intro manager_reachable.step [OF manager_reachable.start manager_step.create] demo_reachable)
  moreover have "si_run ?sim = Dialing"
    by (simp add: created_sim_def sim_connect_def new_instance_def demo_create_def sim_simps)
  ultimately show ?thesis unfolding create by (intro exI [of _ ?i] exI) (auto split: if_splits)
qed

lemma demo_run:
  assumes "manager_reachable demo_senv g" "map_of (mg_simulators g) i = Some sim" "instance_step demo_senv sim sim'"
  shows "\<exists>g'. manager_reachable demo_senv g' \<and> map_of (mg_simulators g') i = Some sim' \<and> mg_service g' = mg_service g"
  using manager_reachable.step [OF assms(1) manager_step.listed_step [OF assms(2,3)]] by force

lemma demo_authenticating:
  "\<exists>g i sim. manager_reachable demo_senv g \<and> map_of (mg_simulators g) i = Some sim \<and> si_run sim = Authenticating \<and>
    si_reading sim \<and> si_inbox sim = []"
proof -
  obtain g i sim where g: "manager_reachable demo_senv g" "map_of (mg_simulators g) i = Some sim" "si_run sim = Dialing"
    using demo_dialing by blast
  let ?sim' = "snd (run_step demo_senv None (Dialed None) sim)"
  have "instance_step demo_senv sim ?sim'" using g(3) by (intro instance_step.running) simp
  moreover have "si_run ?sim' = Authenticating" "si_reading ?sim'" "si_inbox ?sim' = []"
    using g(3) by (simp_all add: run_step_def dial_step_def sim_simps)
  ultimately show ?thesis using demo_run [OF g(1,2)] by blast
qed

section \<open>The instances\<close>

abbreviation instances :: "SimManager \<Rightarrow> Sim set" where
  "instances g \<equiv> snd ` set (mg_simulators g) \<union> set (mg_removed g)"

lemma instances_ok: "manager_reachable senv g \<Longrightarrow> sim \<in> instances g \<Longrightarrow> instance_ok g sim"
  using manager_reachable_ok by (fastforce simp: manager_ok_def)

text \<open>C30: Whatever the calls of the API, the events of the runs and the rest of the program do, in every
  state of the manager each simulated device shows connected exactly while its run is on line, and has a
  run exactly when a connect would be ignored; its log, its queue of manual readings and its queue of
  received messages keep their bounds; its interval is at least a second and did not overflow, so the
  ticker cannot panic; the first message of a run is the login and no later one is, and after the manager was
  closed every run that is left has its context cancelled.
\<close>

theorem simulators_ok:
  assumes "manager_reachable senv g" "sim \<in> instances g"
  shows "(si_connected sim \<longleftrightarrow> si_run sim = Connected) \<and> (si_run sim = Stopped \<longleftrightarrow> \<not> si_running sim) \<and>
    length (si_logs sim) \<le> 80 \<and> length (si_queue sim) \<le> 8 \<and> length (si_inbox sim) \<le> 16 \<and>
    1000000000 \<le> si_telemetryInterval sim \<and> si_telemetryInterval sim \<le> int64_max \<and>
    (si_run sim = Connected \<longrightarrow> (\<exists>rest. si_sent sim = auth_message (si_device sim) # rest \<and>
       list_all (\<lambda>m. dm_Type m \<noteq> ''auth'') rest)) \<and>
    (mg_closed g \<and> si_running sim \<longrightarrow> si_stopped sim)"
proof -
  have ok: "sim_ok sim" "mg_closed g \<longrightarrow> si_closed sim" using instances_ok [OF assms] by (simp_all add: instance_ok_def)
  then have sent: "si_run sim = Connected \<longrightarrow> (\<exists>rest. si_sent sim = auth_message (si_device sim) # rest \<and>
      list_all (\<lambda>m. dm_Type m \<noteq> ''auth'') rest)"
    by (fastforce simp: sim_ok_def sent_ok_def list_all_iff)
  show ?thesis
    using ok sent by (auto simp: sim_ok_def maxLogEntries_def telemetry_capacity_def message_capacity_def in_int64_def)
qed

theorem simulators_ok_witness:
  "\<exists>g sim. manager_reachable demo_senv g \<and> sim \<in> instances g \<and> si_running sim \<and> \<not> si_connected sim"
proof -
  obtain g i sim where g: "manager_reachable demo_senv g" "map_of (mg_simulators g) i = Some sim" "si_run sim = Authenticating"
    using demo_authenticating by blast
  have sim: "sim \<in> instances g" using g(2) by (force dest: map_of_SomeD)
  from simulators_ok [OF g(1) sim] g(1,3) sim show ?thesis by auto
qed

text \<open>C31: A simulated device and the gateway fit together. In every reachable state of the manager, also
  long after the device was created, the login message of a simulated device is accepted on a connection
  that has not logged in: the session of the connection is registered for the device, and the reply,
  unless the queue of the session is full or closed, is \<open>auth_ok\<close>; when the reader of a run that waits for
  it delivers it, the device is connected.
\<close>

theorem simulator_login:
  assumes "manager_reachable senv g" "sim \<in> instances g"
    and "decode input = Some (auth_message (si_device sim))" "gw_service c = mg_service g" "\<not> gw_authenticated c"
  shows "\<exists>c' reply. handle_line env decode input c = (Inr Reading, c') \<and> gw_deviceID c' = dev_ID (si_device sim) \<and>
    session_holder (gw_service c') (dev_ID (si_device sim)) = Some (cs_id (gw_session c)) \<and>
    (\<not> cs_closed (gw_session c) \<and> int (length (cs_queue (gw_session c))) < cs_capacity (gw_session c) \<longrightarrow>
       cs_queue (gw_session c') = cs_queue (gw_session c) @ [reply]) \<and>
    (si_run sim = Authenticating \<and> si_reading sim \<and> si_inbox sim = [] \<longrightarrow>
      (let received = scanServerMessages (ScanLine (Inr reply)) sim; on_line = snd (run_step senv outcome FromServer received) in
        enabled received FromServer \<and> si_connected on_line \<and> si_run on_line = Connected \<and> si_lastError on_line = []))"
proof -
  obtain d where d: "AuthenticateDevice (dev_ID (si_device sim)) (dev_Token (si_device sim)) (gw_service c) = Inr d"
      "dev_ID d = dev_ID (si_device sim)"
    using instances_ok [OF assms(1,2)] assms(4) by (auto simp: instance_ok_def can_login_def)
  have auth: "AuthenticateDevice (dev_ID (si_device sim)) (dev_Token (si_device sim)) (gw_service (tick env c)) = Inr d"
    using d(1) by (simp add: AuthenticateDevice_def tick_fields)
  have m: "dm_Type (auth_message x) = ''auth''" "dm_DeviceID (auth_message x) = dev_ID x" "dm_Token (auth_message x) = dev_Token x" for x
    by (simp_all add: auth_message_def device_message_def)
  let ?reply = "(server_message ''auth_ok'')\<lparr>msg_ServerTime := unix_milli (clock_now env c), msg_DeviceID := dev_ID d\<rparr>"
  have na: "\<not> gw_authenticated (tick env c)" using assms(5) by (simp add: tick_fields)
  have accepted: "si_run sim = Authenticating \<and> si_reading sim \<and> si_inbox sim = [] \<longrightarrow>
      (let received = scanServerMessages (ScanLine (Inr ?reply)) sim; on_line = snd (run_step senv outcome FromServer received) in
        enabled received FromServer \<and> si_connected on_line \<and> si_run on_line = Connected \<and> si_lastError on_line = [])"
    by (simp add: scanServerMessages_def message_capacity_def run_step_def auth_step_def receive_message_def auth_reply_def
        server_message_def sim_simps)
  define c' where "c' = snd (handle_line env decode input c)"
  have run: "handle_line env decode input c = (Inr Reading, c')"
    and c': "c' = \<lparr>gw_service = snd (TouchDevice (dev_ID d) (clock_now env c)
        (snd (RegisterSession env (dev_ID d) \<lparr>ses_ID = cs_id (gw_session (tick env c)), ses_Transport = Some ''tcp''\<rparr>
          (gw_service (tick env c))))),
      gw_session = snd (session_Send ?reply (gw_session (tick env c))), gw_authenticated = True, gw_deviceID = dev_ID d\<rparr>"
    unfolding c'_def handle_line_eq assms(3) option.case m if_True handle_auth_accepted [OF na auth [folded m(2,3)]]
    by simp_all
  have "session_holder (gw_service c') (dev_ID (si_device sim)) = Some (cs_id (gw_session c))"
    using registry.registered d(2) by (simp add: c' tick_fields)
  then show ?thesis
    using run accepted d(2) by (intro exI [of _ c'] exI [of _ ?reply]) (simp add: c' tick_fields session_Send_def)
qed

theorem simulator_login_witness:
  "\<exists>g sim reply. sim \<in> instances g \<and> \<not> si_connected sim \<and>
    si_connected (snd (run_step demo_senv None FromServer (scanServerMessages (ScanLine (Inr reply)) sim)))"
proof -
  obtain g i sim where g: "manager_reachable demo_senv g" "map_of (mg_simulators g) i = Some sim" "si_run sim = Authenticating"
      "si_reading sim" "si_inbox sim = []"
    using demo_authenticating by blast
  have sim: "sim \<in> instances g" using g(2) by (force dest: map_of_SomeD)
  have "\<not> si_connected sim" using instances_ok [OF g(1) sim] g(3) by (simp add: instance_ok_def sim_ok_def)
  with simulator_login [OF g(1) sim, of "\<lambda>_. Some (auth_message (si_device sim))" "[]"
      "handleConnection ''conn_1'' 4 (mg_service g)" demo_env None] g sim
  show ?thesis by (auto simp: handleConnection_def Let_def)
qed

text \<open>A run that waits for its login or is on line can always be ended, and the device connected
  again. Until the goroutine has seen the cancelled context, a connect does nothing and still reports
  success; manual readings that were queued survive the end of the run and are sent by the next one.
\<close>

lemma simulator_restart:
  assumes "manager_reachable senv g" "sim \<in> instances g" "si_run sim = Authenticating \<or> si_run sim = Connected"
  shows "let stopping = snd (sim_disconnect senv sim); ended = snd (run_step senv outcome CtxDone stopping);
      again = snd (sim_connect senv ended) in
    sim_connect senv stopping = (Inr (), stopping) \<and>
    enabled stopping CtxDone \<and> si_run ended = Stopped \<and> \<not> si_connected ended \<and> \<not> si_running ended \<and>
    si_run again = Dialing \<and> si_queue again = si_queue sim \<and> (si_stopped again \<longleftrightarrow> si_closed sim)"
proof -
  have ok: "si_running sim" using instances_ok [OF assms(1,2)] assms(3) by (auto simp: instance_ok_def sim_ok_def)
  show ?thesis
    using ok assms(3)
    by (cases "si_connected sim")
      (auto simp: sim_disconnect_def run_step_def auth_step_def online_step_def sim_connect_def sim_simps)
qed

lemma simulator_restart_witness:
  "\<exists>g sim. sim \<in> instances g \<and> si_run sim = Authenticating \<and>
    sim_connect demo_senv (snd (sim_disconnect demo_senv sim)) = (Inr (), snd (sim_disconnect demo_senv sim))"
proof -
  obtain g i sim where g: "manager_reachable demo_senv g" "map_of (mg_simulators g) i = Some sim" "si_run sim = Authenticating"
    using demo_authenticating by blast
  have sim: "sim \<in> instances g" using g(2) by (force dest: map_of_SomeD)
  from simulator_restart [OF g(1) sim] g(3) sim show ?thesis by (auto simp: Let_def)
qed

section \<open>The loops of the gateway\<close>

text \<open>C32: The loop of a connection ends. However the messages look, when the peer has sent \<open>n\<close> bytes and
  closed, the loop returns after at most \<open>n + 1\<close> turns, in a state of the connection that is reachable; the
  session is then registered for no device, unless it ended with a second login or the device has the
  empty ID. A message that is written while every \<open>conn.Write\<close> takes at least one byte is written
  after at most one call per byte: all of it, or a part of it and an error.
\<close>

theorem connection_terminates:
  assumes "gate_reachable (Reading, g)" "length input < n"
    and "\<And>k p w. p \<noteq> [] \<Longrightarrow> conn_write k p = Inr w \<Longrightarrow> 0 < w \<and> w \<le> length p"
    and "marshal msg = Inr payload" "Suc (length payload) < m"
  shows "(\<exists>p g'. connection_loop n env decode M input g = Some (p, g') \<and> p \<noteq> Reading \<and> gate_reachable (p, g') \<and>
      (p \<noteq> Abandoned \<and> d \<noteq> [] \<longrightarrow> session_holder (gw_service g') d \<noteq> Some (cs_id (gw_session g')))) \<and>
    (\<exists>e out. writeMessage m marshal deadline conn_write msg = Some (e, out) \<and> prefix out (payload @ [newline]) \<and>
      (e = None \<longrightarrow> out = payload @ [newline]))"
proof -
  obtain p g' where l: "connection_loop n env decode M input g = Some (p, g')" "p \<noteq> Reading"
    using connection_loop_ends [OF assms(2)] by blast
  have r: "gate_reachable (p, g')" by (rule connection_loop_steps [OF l(1) assms(1)])
  have "p \<noteq> Abandoned \<and> d \<noteq> [] \<longrightarrow> session_holder (gw_service g') d \<noteq> Some (cs_id (gw_session g'))"
    using gate_reachable_inv [OF r] l(2)
    by (cases p) (auto simp: gate_inv_def allowed_simps session_registry.only_def [OF registry.session_registry_axioms] split: if_splits)
  moreover have "\<exists>e out. writeMessage m marshal deadline conn_write msg = Some (e, out) \<and> prefix out (payload @ [newline]) \<and>
      (e = None \<longrightarrow> out = payload @ [newline])"
    using write_loop_ends [of "payload @ [newline]" m conn_write 0 "[]"] assms(3-5)
    by (cases deadline) (auto simp: writeMessage_def)
  ultimately show ?thesis using l r by blast
qed

theorem connection_terminates_witness:
  "\<exists>p g'. connection_loop 3 demo_env (\<lambda>_. None) 4096 ''{}'' (handleConnection ''conn_1'' 4 demo_service) = Some (p, g') \<and>
    p \<noteq> Reading"
proof -
  have g: "gate_reachable (Reading, handleConnection ''conn_1'' 4 demo_service)"
    by (rule gate_reachable.start [OF demo_reachable]) (simp add: session_holder_def state_of_def zero_deviceState_def)
  from connection_terminates [OF g, of "''{}''" 3 "\<lambda>_ p. Inr (length p)" "\<lambda>_. Inr []" "server_message ''pong''" "[]" 2
      demo_env "\<lambda>_. None" 4096 "''d1''" None]
  show ?thesis by auto
qed

end
