(* ===== verification/Http.thy ===== *)
theory Http
  imports SimulatorFacts Replication Mqtt Ingest ProtocolCatalogue
begin

text \<open>
  The HTTP server of a node (internal/api): requests, responses and what every handler uses.

  \<^item> \<open>Request\<close> is what the handlers read of \<open>http.Request\<close>: \<open>rq_Query\<close> and \<open>rq_Header\<close> are the \<open>Get\<close> methods
    (the empty text when there is none). \<open>rq_Body\<close> is the body, \<open>None\<close> when reading it fails or goes over
    the limit of the handler.
  \<^item> \<open>Response\<close> is the status and what \<open>writeJSON\<close> encodes: \<open>PError\<close> and \<open>PErr\<close> are \<open>writeError\<close> with a
    literal text and with \<open>err.Error()\<close>. \<open>PNode\<close> stands for the small objects of the status endpoints.
  \<^item> \<open>Api\<close> is \<open>api.Server\<close>: \<open>ap_setup\<close> is \<open>None\<close> without an installer. The service is the one of the
    simulator manager; \<open>ap_replica\<close> says whether a replica applier was given, which is the file store of
    the service. A \<open>handler\<close> maps the state to the response and the next state.
  \<^item> \<open>decodeJSON\<close>: \<open>json.Decoder.Decode\<close> is a parameter per request type, the field of \<open>Decoders\<close> with the
    name of the handler; it gives the value and the bytes it has not read.
\<close>

section \<open>Requests and responses\<close>

record Request =
  rq_Method :: string
  rq_Path :: string
  rq_Query :: "string \<Rightarrow> string"
  rq_Header :: "string \<Rightarrow> string"
  rq_RemoteAddr :: string
  rq_Body :: "string option"

record SystemInfo =
  sys_NodeID :: string
  sys_Role :: string
  sys_Standby :: bool
  sys_Installed :: bool
  sys_SetupPath :: string
  sys_Setup :: "SetupState option"
  sys_EmbeddedUI :: bool
  sys_CORSAllowedOrigins :: "string list"
  sys_ReplicaEndpoint :: bool
  sys_StoreBackend :: string
  sys_StorePersistencePath :: string
  sys_MetricsStartedAt :: time
  sys_GatewayEnabled :: bool
  sys_MQTTEnabled :: bool

datatype Payload =
    PNone
  | PError string
  | PErr gerr
  | PNode string string
  | PInstall "SetupState option" string
  | PSystemInfo SystemInfo
  | PStats Stats
  | PMetrics "(string \<times> int) list"
  | PPage string
  | PRuntimeConfig string bool "SetupState option"
  | PTenants "TenantView list" | PTenant Tenant
  | PProducts "ProductView list" | PProductView ProductView | PProduct Product
  | PGroups "GroupView list" | PGroupView GroupView | PGroup DeviceGroup
  | PDevices "DeviceView list" | PDeviceView DeviceView | PDevice Device
  | PTelemetry "Telemetry list" | PCommands "Command list" | PCommand Command
  | PShadow DeviceShadow
  | PConfigs "ConfigProfileView list" | PConfig ConfigProfile
  | PRules "RuleView list" | PRule Rule | PAlerts "AlertEvent list" | PAlert AlertEvent
  | PFirmwares "FirmwareArtifactView list" | PFirmware FirmwareArtifact
  | PCampaigns "OTACampaignView list" | PCampaign OTACampaign
  | PSimulators "SimulatorView list" | PSimulator SimulatorView
  | PCatalog "ProtocolCatalogEntry list"
  | PIngest string string string anymap DeviceShadow

record Response =
  rs_Status :: int
  rs_Body :: Payload

record Api =
  ap_cfg :: Config
  ap_manager :: SimManager
  ap_simulators :: bool
  ap_setup :: "SetupManager option"
  ap_replica :: bool

type_synonym handler = "Api \<Rightarrow> Response \<times> Api"

definition reply_json :: "int \<Rightarrow> Payload \<Rightarrow> handler" where
  "reply_json status payload a = (\<lparr>rs_Status = status, rs_Body = payload\<rparr>, a)"

definition reply_error :: "int \<Rightarrow> string \<Rightarrow> handler" where
  "reply_error status message = reply_json status (PError message)"

definition method_not_allowed :: handler where
  "method_not_allowed = reply_error 405 ''method not allowed''"

definition not_found :: handler where
  "not_found = reply_error 404 ''not found''"

abbreviation the_service :: "Api \<Rightarrow> Service" where
  "the_service a \<equiv> mg_service (ap_manager a)"

definition with_service :: "(Service \<Rightarrow> Service) \<Rightarrow> Api \<Rightarrow> Api" where
  "with_service f a = a\<lparr>ap_manager := (ap_manager a)\<lparr>mg_service := f (the_service a)\<rparr>\<rparr>"

text \<open>A call of the service, of the simulator manager, and a query; the handler goes on with the result.\<close>

definition on_service :: "'a sv \<Rightarrow> ('a res \<Rightarrow> handler) \<Rightarrow> handler" where
  "on_service m k a = (case m (the_service a) of (r, s) \<Rightarrow> k r (with_service (\<lambda>_. s) a))"

definition on_manager :: "'a mg \<Rightarrow> ('a res \<Rightarrow> handler) \<Rightarrow> handler" where
  "on_manager m k a = (case m (ap_manager a) of (r, g) \<Rightarrow> k r (a\<lparr>ap_manager := g\<rparr>))"

definition ask_service :: "(Service \<Rightarrow> 'a) \<Rightarrow> ('a \<Rightarrow> handler) \<Rightarrow> handler" where
  "ask_service q k a = k (q (the_service a)) a"

text \<open>The usual end of a handler: the error with the status of its kind, or the value.\<close>

definition answer :: "(gerr \<Rightarrow> int) \<Rightarrow> int \<Rightarrow> ('a \<Rightarrow> Payload) \<Rightarrow> 'a res \<Rightarrow> handler" where
  "answer status_of ok payload r =
     (case r of Inl e \<Rightarrow> reply_json (status_of e) (PErr e) | Inr v \<Rightarrow> reply_json ok (payload v))"

definition status_or :: "gerr set \<Rightarrow> int \<Rightarrow> gerr \<Rightarrow> int" where
  "status_or missing other e = (if e \<in> missing then 404 else other)"

section \<open>Reading a request\<close>

definition decodeJSON :: "(string \<Rightarrow> string + ('a \<times> string)) \<Rightarrow> Request \<Rightarrow> string + 'a" where
  "decodeJSON decode r =
     (case rq_Body r of
        None \<Rightarrow> Inl ''http: request body error''
      | Some body \<Rightarrow>
          (case decode body of
             Inl e \<Rightarrow> Inl e
           | Inr (v, rest) \<Rightarrow>
               if list_all (\<lambda>c. c \<in> set [CHR '' '', CHR 0x09, CHR 0x0A, CHR 0x0D]) rest then Inr v
               else Inl ''request body must contain a single JSON object''))"

definition with_json :: "(string \<Rightarrow> string + ('a \<times> string)) \<Rightarrow> Request \<Rightarrow> ('a \<Rightarrow> handler) \<Rightarrow> handler" where
  "with_json decode r k =
     (case decodeJSON decode r of Inl e \<Rightarrow> reply_error 400 e | Inr request \<Rightarrow> k request)"

definition query :: "Request \<Rightarrow> string \<Rightarrow> string" where
  "query r name = trim_space (rq_Query r name)"

definition parseLimit :: "Request \<Rightarrow> int \<Rightarrow> int \<Rightarrow> int" where
  "parseLimit r fallback maximum =
     (if query r ''limit'' = [] then fallback
      else (case parse_int (query r ''limit'') of
          None \<Rightarrow> fallback
        | Some value \<Rightarrow> if value \<le> 0 then fallback else if value > maximum then maximum else value))"

text \<open>The parts of the path after the prefix of the route.\<close>

definition path_after :: "string \<Rightarrow> Request \<Rightarrow> string" where
  "path_after route r = trim CHR ''/'' (trim_prefix (rq_Path r) route)"

definition path_parts :: "string \<Rightarrow> Request \<Rightarrow> string list" where
  "path_parts route r = split_on CHR ''/'' (path_after route r)"

text \<open>
  \<open>strings.EqualFold\<close>, exact when one side is ASCII: the two other code points that fold to an ASCII
  letter are U+017F and U+212A. Other letters are compared byte by byte.
\<close>

fun fold_case :: "string \<Rightarrow> string" where
  "fold_case [] = []"
| "fold_case (c # s) =
     (if c = CHR 0xC5 \<and> take 1 s = [CHR 0xBF] then CHR ''s'' # fold_case (drop 1 s)
      else if c = CHR 0xE2 \<and> take 2 s = [CHR 0x84, CHR 0xAA] then CHR ''k'' # fold_case (drop 2 s)
      else lower_char c # fold_case s)"

definition EqualFold :: "string \<Rightarrow> string \<Rightarrow> bool" where
  "EqualFold s t \<longleftrightarrow> fold_case s = fold_case t"

definition normalizedNodeRole :: "string \<Rightarrow> string" where
  "normalizedNodeRole value = (if EqualFold (trim_space value) ''standby'' then ''standby'' else ''primary'')"

definition resolveAllowedOrigin :: "string list \<Rightarrow> string \<Rightarrow> string" where
  "resolveAllowedOrigin permitted origin =
     (if origin = [] \<or> permitted = [] then []
      else (case List.find (\<lambda>item. trim_space item = ''*'' \<or> EqualFold (trim_space item) origin) permitted of
          None \<Rightarrow> []
        | Some item \<Rightarrow> if trim_space item = ''*'' then ''*'' else origin))"

definition clientIP :: "Request \<Rightarrow> string" where
  "clientIP r =
     (let forwarded = trim_space (rq_Header r ''X-Forwarded-For'');
          forwarded = (if CHR '','' \<in> set forwarded then trim_space (hd (split_comma forwarded)) else forwarded);
          real = trim_space (rq_Header r ''X-Real-IP'') in
      if forwarded \<noteq> [] then forwarded
      else if real \<noteq> [] then real
      else (case SplitHostPort (trim_space (rq_RemoteAddr r)) of
          None \<Rightarrow> trim_space (rq_RemoteAddr r)
        | Some (host, _) \<Rightarrow> host))"

definition extractIngressToken :: "Request \<Rightarrow> anymap \<Rightarrow> string" where
  "extractIngressToken r payload =
     (let authorization = trim_space (rq_Header r ''Authorization'') in
      if query r ''token'' \<noteq> [] then query r ''token''
      else if trim_space (rq_Header r ''X-Device-Token'') \<noteq> [] then trim_space (rq_Header r ''X-Device-Token'')
      else if authorization \<noteq> [] then
        (if has_prefix (to_lower authorization) ''bearer '' then trim_space (drop 7 authorization) else authorization)
      else (case mlookup payload ''token'' of Some (AStr value) \<Rightarrow> trim_space value | _ \<Rightarrow> []))"

definition has_substring :: "string \<Rightarrow> string \<Rightarrow> bool" where
  "has_substring s t \<longleftrightarrow> (\<exists>i \<in> set [0..<Suc (length s)]. has_prefix (drop i s) t)"

definition wantsPrometheus :: "Request \<Rightarrow> bool" where
  "wantsPrometheus r \<longleftrightarrow> EqualFold (query r ''format'') ''prometheus'' \<or> has_substring (to_lower (rq_Header r ''Accept'')) ''text/plain''"

lemma parseLimit_range: "0 < d \<Longrightarrow> d \<le> m \<Longrightarrow> 0 < parseLimit r d m \<and> parseLimit r d m \<le> m"
  by (auto simp: parseLimit_def split: option.splits)

end
