(* ===== verification/ApiHandlers.thy ===== *)
theory ApiHandlers
  imports Http
begin

text \<open>
  The handlers of the HTTP API that call one operation of the service: devices, products, groups,
  configuration profiles, rules, alerts, firmware, campaigns and tenants (internal/api/server.go,
  products.go, groups.go, config_profiles.go, rules.go, ota.go, tenants.go). A route function dispatches
  on the method and the parts of the path; a handler decodes the body, makes its call and maps the error
  to a status with \<open>status_or\<close>: the errors that become 404, and the status of the others.
\<close>

section \<open>Bodies of requests\<close>

record CreateDeviceBody =
  cd_TenantID :: string
  cd_Name :: string
  cd_ProductID :: string
  cd_Tags :: strmap
  cd_Metadata :: strmap

record CreateProductBody =
  cp_TenantID :: string
  cp_Name :: string
  cp_Description :: string
  cp_Metadata :: strmap
  cp_AccessProfile :: ProductAccessProfile
  cp_ThingModel :: ThingModel

record CreateGroupBody =
  cg_TenantID :: string
  cg_Name :: string
  cg_Description :: string
  cg_ProductID :: string
  cg_Tags :: strmap

record CreateConfigBody =
  cc_TenantID :: string
  cc_Name :: string
  cc_Description :: string
  cc_ProductID :: string
  cc_Values :: anymap

record CreateRuleBody =
  cru_TenantID :: string
  cru_Name :: string
  cru_Description :: string
  cru_ProductID :: string
  cru_GroupID :: string
  cru_DeviceID :: string
  cru_Enabled :: bool
  cru_Severity :: string
  cru_CooldownSeconds :: int
  cru_Condition :: RuleCondition
  cru_Actions :: "RuleAction list"

record FirmwareBody =
  fb_TenantID :: string
  fb_ProductID :: string
  fb_Name :: string
  fb_Version :: string
  fb_FileName :: string
  fb_URL :: string
  fb_Checksum :: string
  fb_ChecksumType :: string
  fb_SizeBytes :: int
  fb_Metadata :: strmap
  fb_Notes :: string

record CampaignBody =
  ob_TenantID :: string
  ob_Name :: string
  ob_FirmwareID :: string
  ob_ProductID :: string
  ob_GroupID :: string
  ob_DeviceID :: string

record TenantBody =
  tb_Name :: string
  tb_Slug :: string
  tb_Description :: string
  tb_Metadata :: strmap

record CommandBody =
  kb_Name :: string
  kb_Params :: anymap

record AlertBody =
  ab_Status :: string
  ab_Note :: string

text \<open>\<open>json.Decoder.Decode\<close> for the target of each handler, with the defaults the handler put there.\<close>

type_synonym 'a decoder = "string \<Rightarrow> string + ('a \<times> string)"

record Decoders =
  jd_CreateDevice :: "CreateDeviceBody decoder"
  jd_UpdateDeviceTags :: "strmap decoder"
  jd_SendCommand :: "CommandBody decoder"
  jd_UpdateShadow :: "anymap decoder"
  jd_CreateProduct :: "CreateProductBody decoder"
  jd_UpdateThingModel :: "ThingModel decoder"
  jd_UpdateAccessProfile :: "ProductAccessProfile decoder"
  jd_CreateGroup :: "CreateGroupBody decoder"
  jd_DeviceID :: "string decoder"
  jd_CreateConfigProfile :: "CreateConfigBody decoder"
  jd_CreateRule :: "CreateRuleBody decoder"
  jd_UpdateAlert :: "AlertBody decoder"
  jd_Firmware :: "FirmwareBody decoder"
  jd_Campaign :: "CampaignBody decoder"
  jd_Tenant :: "TenantBody decoder"
  jd_CreateSimulator :: "CreateRequest decoder"
  jd_Values :: "anymap decoder"
  jd_Bootstrap :: "BootstrapRequest decoder"
  jd_Ingest :: "anymap decoder"

section \<open>Devices\<close>

definition handleCreateDevice :: "Env \<Rightarrow> Decoders \<Rightarrow> Request \<Rightarrow> handler" where
  "handleCreateDevice env dec r =
     with_json (jd_CreateDevice dec) r (\<lambda>b.
     on_service (CreateDeviceWithTenant env (cd_TenantID b) (cd_Name b) (cd_ProductID b) (cd_Tags b) (cd_Metadata b))
       (answer (status_or {ErrTenantNotFound, ErrProductNotFound} 500) 201 PDevice))"

definition handleUpdateDeviceTags :: "Env \<Rightarrow> Decoders \<Rightarrow> string \<Rightarrow> Request \<Rightarrow> handler" where
  "handleUpdateDeviceTags env dec deviceID r =
     with_json (jd_UpdateDeviceTags dec) r (\<lambda>tags.
     on_service (UpdateDeviceTags env deviceID tags) (answer (status_or {ErrDeviceNotFound} 500) 200 PDevice))"

definition handleListDevices :: "Request \<Rightarrow> handler" where
  "handleListDevices r =
     ask_service (ListDevicesByTenant (query r ''tenant_id'') (query r ''product_id'')) (answer (\<lambda>_. 500) 200 PDevices)"

definition handleGetDevice :: "string \<Rightarrow> handler" where
  "handleGetDevice deviceID = ask_service (GetDevice deviceID) (answer (status_or {ErrDeviceNotFound} 500) 200 PDeviceView)"

definition handleListTelemetry :: "string \<Rightarrow> Request \<Rightarrow> handler" where
  "handleListTelemetry deviceID r =
     ask_service (ListTelemetry deviceID (parseLimit r 50 500)) (answer (status_or {ErrDeviceNotFound} 500) 200 PTelemetry)"

definition handleListCommands :: "string \<Rightarrow> Request \<Rightarrow> handler" where
  "handleListCommands deviceID r =
     ask_service (ListCommands deviceID (parseLimit r 50 500)) (answer (status_or {ErrDeviceNotFound} 500) 200 PCommands)"

text \<open>\<open>SendCommand\<close> returns a command also with an error; only with \<open>ErrDeviceOffline\<close> it is shown.\<close>

definition handleSendCommand :: "Env \<Rightarrow> Decoders \<Rightarrow> string \<Rightarrow> Request \<Rightarrow> handler" where
  "handleSendCommand env dec deviceID r =
     with_json (jd_SendCommand dec) r (\<lambda>b.
     on_service (SendCommand env deviceID (kb_Name b) (kb_Params b)) (\<lambda>res.
       let (command, err) = (case res of Inl e \<Rightarrow> (zero_Command, Some e) | Inr ce \<Rightarrow> ce) in
       (case err of
          None \<Rightarrow> reply_json 202 (PCommand command)
        | Some e \<Rightarrow>
            if e = ErrDeviceNotFound then reply_json 404 (PErr e)
            else if e = ErrDeviceOffline then reply_json 409 (PCommand command)
            else reply_json 502 (PErr e))))"

definition handleGetShadow :: "Env \<Rightarrow> string \<Rightarrow> handler" where
  "handleGetShadow env deviceID =
     on_service (GetShadow env deviceID) (answer (status_or {ErrDeviceNotFound} 500) 200 PShadow)"

definition handleUpdateShadow :: "Env \<Rightarrow> Decoders \<Rightarrow> string \<Rightarrow> Request \<Rightarrow> handler" where
  "handleUpdateShadow env dec deviceID r =
     with_json (jd_UpdateShadow dec) r (\<lambda>desired.
     on_service (UpdateDesiredShadow env deviceID desired) (answer (status_or {ErrDeviceNotFound} 400) 200 PShadow))"

definition handleDevices :: "Env \<Rightarrow> Decoders \<Rightarrow> Request \<Rightarrow> handler" where
  "handleDevices env dec r =
     (if rq_Path r \<noteq> ''/api/v1/devices'' then not_found
      else if rq_Method r = ''GET'' then handleListDevices r
      else if rq_Method r = ''POST'' then handleCreateDevice env dec r
      else method_not_allowed)"

definition handleDeviceRoutes :: "Env \<Rightarrow> Decoders \<Rightarrow> Request \<Rightarrow> handler" where
  "handleDeviceRoutes env dec r =
     (let route = ''/api/v1/devices/''; parts = path_parts route r; deviceID = hd parts; verb = rq_Method r in
      if path_after route r = [] then not_found
      else if length parts = 1 then (if verb \<noteq> ''GET'' then method_not_allowed else handleGetDevice deviceID)
      else if parts ! 1 = ''tags'' then
        (if verb \<noteq> ''PUT'' then method_not_allowed else handleUpdateDeviceTags env dec deviceID r)
      else if parts ! 1 = ''shadow'' then
        (if verb = ''GET'' then handleGetShadow env deviceID
         else if verb = ''PUT'' then handleUpdateShadow env dec deviceID r else method_not_allowed)
      else if parts ! 1 = ''telemetry'' then
        (if verb \<noteq> ''GET'' then method_not_allowed else handleListTelemetry deviceID r)
      else if parts ! 1 = ''commands'' then
        (if verb = ''GET'' then handleListCommands deviceID r
         else if verb = ''POST'' then handleSendCommand env dec deviceID r else method_not_allowed)
      else not_found)"

section \<open>Products\<close>

definition handleCreateProduct :: "Env \<Rightarrow> Decoders \<Rightarrow> Request \<Rightarrow> handler" where
  "handleCreateProduct env dec r =
     with_json (jd_CreateProduct dec) r (\<lambda>b.
     on_service (CreateProductWithTenant env (cp_TenantID b) (cp_Name b) (cp_Description b) (cp_Metadata b)
         (cp_AccessProfile b) (cp_ThingModel b))
       (answer (status_or {ErrTenantNotFound} 400) 201 PProduct))"

definition handleListProducts :: "Request \<Rightarrow> handler" where
  "handleListProducts r = ask_service (ListProductsByTenant (query r ''tenant_id'')) (answer (\<lambda>_. 500) 200 PProducts)"

definition handleGetProduct :: "string \<Rightarrow> handler" where
  "handleGetProduct productID = ask_service (GetProduct productID) (answer (status_or {ErrProductNotFound} 500) 200 PProductView)"

definition handleUpdateThingModel :: "Env \<Rightarrow> Decoders \<Rightarrow> string \<Rightarrow> Request \<Rightarrow> handler" where
  "handleUpdateThingModel env dec productID r =
     with_json (jd_UpdateThingModel dec) r (\<lambda>m.
     on_service (UpdateProductThingModel env productID m) (answer (status_or {ErrProductNotFound} 400) 200 PProduct))"

definition handleUpdateAccessProfile :: "Env \<Rightarrow> Decoders \<Rightarrow> string \<Rightarrow> Request \<Rightarrow> handler" where
  "handleUpdateAccessProfile env dec productID r =
     with_json (jd_UpdateAccessProfile dec) r (\<lambda>p.
     on_service (UpdateProductAccessProfile env productID p) (answer (status_or {ErrProductNotFound} 400) 200 PProduct))"

definition handleProducts :: "Env \<Rightarrow> Decoders \<Rightarrow> Request \<Rightarrow> handler" where
  "handleProducts env dec r =
     (if rq_Path r \<noteq> ''/api/v1/products'' then not_found
      else if rq_Method r = ''GET'' then handleListProducts r
      else if rq_Method r = ''POST'' then handleCreateProduct env dec r
      else method_not_allowed)"

definition handleProductRoutes :: "Env \<Rightarrow> Decoders \<Rightarrow> Request \<Rightarrow> handler" where
  "handleProductRoutes env dec r =
     (let route = ''/api/v1/products/''; parts = path_parts route r; productID = hd parts; verb = rq_Method r in
      if path_after route r = [] then not_found
      else if length parts = 1 then (if verb \<noteq> ''GET'' then method_not_allowed else handleGetProduct productID)
      else if parts ! 1 = ''thing-model'' then
        (if verb \<noteq> ''PUT'' then method_not_allowed else handleUpdateThingModel env dec productID r)
      else if parts ! 1 = ''access-profile'' then
        (if verb \<noteq> ''PUT'' then method_not_allowed else handleUpdateAccessProfile env dec productID r)
      else not_found)"

section \<open>Groups\<close>

definition handleCreateGroup :: "Env \<Rightarrow> Decoders \<Rightarrow> Request \<Rightarrow> handler" where
  "handleCreateGroup env dec r =
     with_json (jd_CreateGroup dec) r (\<lambda>b.
     on_service (CreateGroupWithTenant env (cg_TenantID b) (cg_Name b) (cg_Description b) (cg_ProductID b) (cg_Tags b))
       (answer (status_or {ErrTenantNotFound, ErrProductNotFound} 400) 201 PGroup))"

definition handleListGroups :: "Request \<Rightarrow> handler" where
  "handleListGroups r = ask_service (ListGroupsByTenant (query r ''tenant_id'')) (answer (\<lambda>_. 500) 200 PGroups)"

definition handleGetGroup :: "string \<Rightarrow> handler" where
  "handleGetGroup groupID = ask_service (GetGroup groupID) (answer (status_or {ErrGroupNotFound} 500) 200 PGroupView)"

definition assign_status :: "gerr \<Rightarrow> int" where
  "assign_status e =
     (case e of ErrGroupNotFound \<Rightarrow> 404 | ErrDeviceNotFound \<Rightarrow> 404 | ErrInvalidGroup _ \<Rightarrow> 400 | _ \<Rightarrow> 500)"

definition handleAssignGroupDevice :: "Env \<Rightarrow> Decoders \<Rightarrow> string \<Rightarrow> Request \<Rightarrow> handler" where
  "handleAssignGroupDevice env dec groupID r =
     with_json (jd_DeviceID dec) r (\<lambda>deviceID.
     on_service (AssignDeviceToGroup env groupID deviceID) (answer assign_status 200 PGroupView))"

definition handleRemoveGroupDevice :: "Env \<Rightarrow> string \<Rightarrow> string \<Rightarrow> handler" where
  "handleRemoveGroupDevice env groupID deviceID =
     on_service (RemoveDeviceFromGroup env groupID deviceID)
       (answer (status_or {ErrGroupNotFound, ErrDeviceNotFound} 500) 200 PGroupView)"

definition handleGroups :: "Env \<Rightarrow> Decoders \<Rightarrow> Request \<Rightarrow> handler" where
  "handleGroups env dec r =
     (if rq_Path r \<noteq> ''/api/v1/groups'' then not_found
      else if rq_Method r = ''GET'' then handleListGroups r
      else if rq_Method r = ''POST'' then handleCreateGroup env dec r
      else method_not_allowed)"

definition handleGroupRoutes :: "Env \<Rightarrow> Decoders \<Rightarrow> Request \<Rightarrow> handler" where
  "handleGroupRoutes env dec r =
     (let route = ''/api/v1/groups/''; parts = path_parts route r; groupID = hd parts; verb = rq_Method r in
      if path_after route r = [] then not_found
      else if length parts = 1 then (if verb \<noteq> ''GET'' then method_not_allowed else handleGetGroup groupID)
      else if parts ! 1 \<noteq> ''devices'' then not_found
      else if length parts = 2 \<and> verb = ''POST'' then handleAssignGroupDevice env dec groupID r
      else if length parts = 3 \<and> verb = ''DELETE'' then handleRemoveGroupDevice env groupID (parts ! 2)
      else method_not_allowed)"

section \<open>Configuration profiles\<close>

definition handleCreateConfigProfile :: "Env \<Rightarrow> Decoders \<Rightarrow> Request \<Rightarrow> handler" where
  "handleCreateConfigProfile env dec r =
     with_json (jd_CreateConfigProfile dec) r (\<lambda>b.
     on_service (CreateConfigProfileWithTenant env (cc_TenantID b) (cc_Name b) (cc_Description b) (cc_ProductID b) (cc_Values b))
       (answer (status_or {ErrTenantNotFound, ErrProductNotFound} 400) 201 PConfig))"

definition handleListConfigProfiles :: "Request \<Rightarrow> handler" where
  "handleListConfigProfiles r =
     ask_service (ListConfigProfilesByTenant (query r ''tenant_id'')) (answer (\<lambda>_. 500) 200 PConfigs)"

definition handleApplyConfigProfile :: "Env \<Rightarrow> Decoders \<Rightarrow> string \<Rightarrow> Request \<Rightarrow> handler" where
  "handleApplyConfigProfile env dec profileID r =
     with_json (jd_DeviceID dec) r (\<lambda>deviceID.
     on_service (ApplyConfigProfile env profileID deviceID)
       (answer (status_or {ErrConfigNotFound, ErrDeviceNotFound, ErrProductNotFound} 400) 200 PShadow))"

definition handleConfigProfiles :: "Env \<Rightarrow> Decoders \<Rightarrow> Request \<Rightarrow> handler" where
  "handleConfigProfiles env dec r =
     (if rq_Path r \<noteq> ''/api/v1/config-profiles'' then not_found
      else if rq_Method r = ''GET'' then handleListConfigProfiles r
      else if rq_Method r = ''POST'' then handleCreateConfigProfile env dec r
      else method_not_allowed)"

definition handleConfigProfileRoutes :: "Env \<Rightarrow> Decoders \<Rightarrow> Request \<Rightarrow> handler" where
  "handleConfigProfileRoutes env dec r =
     (let route = ''/api/v1/config-profiles/''; parts = path_parts route r in
      if path_after route r = [] then not_found
      else if length parts \<noteq> 2 \<or> parts ! 1 \<noteq> ''apply'' \<or> rq_Method r \<noteq> ''POST'' then method_not_allowed
      else handleApplyConfigProfile env dec (hd parts) r)"

section \<open>Rules and alerts\<close>

definition handleCreateRule :: "Env \<Rightarrow> Decoders \<Rightarrow> Request \<Rightarrow> handler" where
  "handleCreateRule env dec r =
     with_json (jd_CreateRule dec) r (\<lambda>b.
     on_service (CreateRuleWithTenant env (cru_TenantID b) (cru_Name b) (cru_Description b) (cru_ProductID b)
         (cru_GroupID b) (cru_DeviceID b) (cru_Enabled b) (cru_Severity b) (cru_CooldownSeconds b) (cru_Condition b)
         (cru_Actions b))
       (answer (status_or {ErrProductNotFound, ErrGroupNotFound, ErrDeviceNotFound} 400) 201 PRule))"

definition handleListRules :: "Request \<Rightarrow> handler" where
  "handleListRules r = ask_service (ListRulesByTenant (query r ''tenant_id'')) (answer (\<lambda>_. 500) 200 PRules)"

definition handleRules :: "Env \<Rightarrow> Decoders \<Rightarrow> Request \<Rightarrow> handler" where
  "handleRules env dec r =
     (if rq_Path r \<noteq> ''/api/v1/rules'' then not_found
      else if rq_Method r = ''GET'' then handleListRules r
      else if rq_Method r = ''POST'' then handleCreateRule env dec r
      else method_not_allowed)"

definition handleAlerts :: "Request \<Rightarrow> handler" where
  "handleAlerts r =
     (if rq_Path r \<noteq> ''/api/v1/alerts'' then not_found
      else if rq_Method r \<noteq> ''GET'' then method_not_allowed
      else ask_service (ListAlertsByTenant (query r ''tenant_id'') (parseLimit r 50 500) (query r ''product_id'')
          (query r ''group_id'') (query r ''device_id'') (query r ''rule_id''))
        (answer (\<lambda>_. 500) 200 PAlerts))"

definition handleUpdateAlert :: "Env \<Rightarrow> Decoders \<Rightarrow> string \<Rightarrow> Request \<Rightarrow> handler" where
  "handleUpdateAlert env dec alertID r =
     with_json (jd_UpdateAlert dec) r (\<lambda>b.
     on_service (UpdateAlert env alertID (ab_Status b) (ab_Note b)) (answer (status_or {ErrAlertNotFound} 400) 200 PAlert))"

definition handleAlertRoutes :: "Env \<Rightarrow> Decoders \<Rightarrow> Request \<Rightarrow> handler" where
  "handleAlertRoutes env dec r =
     (let path = path_after ''/api/v1/alerts/'' r in
      if path = [] then not_found
      else if rq_Method r \<noteq> ''PUT'' then method_not_allowed
      else handleUpdateAlert env dec path r)"

section \<open>Firmware, campaigns, tenants\<close>

definition handleFirmwareArtifacts :: "Env \<Rightarrow> Decoders \<Rightarrow> Request \<Rightarrow> handler" where
  "handleFirmwareArtifacts env dec r =
     (if rq_Path r \<noteq> ''/api/v1/firmware'' then not_found
      else if rq_Method r = ''GET'' then
        ask_service (ListFirmwareArtifacts (query r ''tenant_id'') (query r ''product_id'')) (answer (\<lambda>_. 500) 200 PFirmwares)
      else if rq_Method r = ''POST'' then
        with_json (jd_Firmware dec) r (\<lambda>b.
        on_service (CreateFirmwareArtifact env (fb_TenantID b) (fb_ProductID b) (fb_Name b) (fb_Version b) (fb_FileName b)
            (fb_URL b) (fb_Checksum b) (fb_ChecksumType b) (fb_SizeBytes b) (fb_Metadata b) (fb_Notes b))
          (answer (status_or {ErrTenantNotFound, ErrProductNotFound} 400) 201 PFirmware))
      else method_not_allowed)"

definition handleOTACampaigns :: "Env \<Rightarrow> Decoders \<Rightarrow> Request \<Rightarrow> handler" where
  "handleOTACampaigns env dec r =
     (if rq_Path r \<noteq> ''/api/v1/ota-campaigns'' then not_found
      else if rq_Method r = ''GET'' then
        ask_service (ListOTACampaigns (query r ''tenant_id'')) (answer (\<lambda>_. 500) 200 PCampaigns)
      else if rq_Method r = ''POST'' then
        with_json (jd_Campaign dec) r (\<lambda>b.
        on_service (CreateOTACampaign env (ob_TenantID b) (ob_Name b) (ob_FirmwareID b) (ob_ProductID b) (ob_GroupID b)
            (ob_DeviceID b))
          (answer (status_or {ErrTenantNotFound, ErrProductNotFound, ErrGroupNotFound, ErrDeviceNotFound, ErrFirmwareNotFound} 400)
            201 PCampaign))
      else method_not_allowed)"

definition handleTenants :: "Env \<Rightarrow> Decoders \<Rightarrow> Request \<Rightarrow> handler" where
  "handleTenants env dec r =
     (if rq_Path r \<noteq> ''/api/v1/tenants'' then not_found
      else if rq_Method r = ''GET'' then ask_service ListTenants (answer (\<lambda>_. 500) 200 PTenants)
      else if rq_Method r = ''POST'' then
        with_json (jd_Tenant dec) r (\<lambda>b.
        on_service (CreateTenant env (tb_Name b) (tb_Slug b) (tb_Description b) (tb_Metadata b))
          (answer (\<lambda>_. 400) 201 PTenant))
      else method_not_allowed)"

end
