(* ===== verification/Api.thy ===== *)
theory Api
  imports ApiHandlers
begin

text \<open>
  The rest of the HTTP API (internal/api): simulators, the HTTP ingest, installation, status endpoints,
  the embedded console, and the chain of guards in front of the routes.

  \<^item> \<open>ApiEnv\<close> gathers the parameters of the parts; \<open>ae_size\<close> is the length of \<open>json.Marshal\<close> of a payload.
  \<^item> \<open>mux\<close> is \<open>http.ServeMux\<close> for the routes of \<open>Handler\<close>: an exact pattern, else the longest pattern that
    ends with a slash. A path with an empty, \<open>.\<close> or \<open>..\<close> segment, and a subtree without its slash, is answered
    with a redirect.
  \<^item> \<open>serve\<close> is one request through \<open>instrument\<close>, \<open>withCORS\<close>, \<open>withStandbyGuard\<close> and \<open>withInstallGuard\<close>.
    The state it starts from is the one between requests: requests run one after the other here.
\<close>

record ApiEnv =
  ae_env :: Env
  ae_senv :: SimEnv
  ae_setup :: SetupEnv
  ae_text :: TextEnv
  ae_dec :: Decoders
  ae_size :: "anymap \<Rightarrow> int"

section \<open>Simulators\<close>

definition simulator_status :: "gerr \<Rightarrow> int" where
  "simulator_status e =
     (case e of EOther m \<Rightarrow>
          if m = ''simulator not found'' then 404
          else if m = ''simulator not connected'' then 409
          else if m = ''simulator telemetry queue is full'' then 429 else 500
      | _ \<Rightarrow> 500)"

definition handleCreateSimulator :: "ApiEnv \<Rightarrow> Request \<Rightarrow> handler" where
  "handleCreateSimulator env r =
     with_json (jd_CreateSimulator (ae_dec env)) r (\<lambda>request.
     on_manager (mg_Create (ae_env env) (ae_senv env) request) (answer (\<lambda>_. 500) 201 PSimulator))"

definition handleGetSimulator :: "string \<Rightarrow> handler" where
  "handleGetSimulator i = on_manager (readS (mg_Get i)) (answer simulator_status 200 PSimulator)"

definition handleDeleteSimulator :: "ApiEnv \<Rightarrow> string \<Rightarrow> handler" where
  "handleDeleteSimulator env i = on_manager (mg_Remove (ae_senv env) i) (answer simulator_status 204 (\<lambda>_. PNone))"

definition handleConnectSimulator :: "ApiEnv \<Rightarrow> string \<Rightarrow> handler" where
  "handleConnectSimulator env i = on_manager (mg_Connect (ae_senv env) i) (answer simulator_status 200 PSimulator)"

definition handleDisconnectSimulator :: "ApiEnv \<Rightarrow> string \<Rightarrow> handler" where
  "handleDisconnectSimulator env i = on_manager (mg_Disconnect (ae_senv env) i) (answer simulator_status 200 PSimulator)"

definition handleSendSimulatorTelemetry :: "ApiEnv \<Rightarrow> string \<Rightarrow> Request \<Rightarrow> handler" where
  "handleSendSimulatorTelemetry env i r =
     with_json (jd_Values (ae_dec env)) r (\<lambda>vals.
     on_manager (mg_SendTelemetry i vals) (answer simulator_status 202 PSimulator))"

definition handleSimulators :: "ApiEnv \<Rightarrow> Request \<Rightarrow> handler" where
  "handleSimulators env r a =
     (if \<not> ap_simulators a then reply_error 503 ''simulator manager unavailable'' a
      else if rq_Path r \<noteq> ''/api/v1/simulators'' then not_found a
      else if rq_Method r = ''GET'' then reply_json 200 (PSimulators (mg_List (ap_manager a))) a
      else if rq_Method r = ''POST'' then handleCreateSimulator env r a
      else method_not_allowed a)"

definition handleSimulatorRoutes :: "ApiEnv \<Rightarrow> Request \<Rightarrow> handler" where
  "handleSimulatorRoutes env r a =
     (let route = ''/api/v1/simulators/''; parts = path_parts route r; i = hd parts; verb = rq_Method r in
      if \<not> ap_simulators a then reply_error 503 ''simulator manager unavailable'' a
      else if path_after route r = [] then not_found a
      else if length parts = 1 then
        (if verb = ''GET'' then handleGetSimulator i a
         else if verb = ''DELETE'' then handleDeleteSimulator env i a else method_not_allowed a)
      else if parts ! 1 = ''connect'' then
        (if verb \<noteq> ''POST'' then method_not_allowed a else handleConnectSimulator env i a)
      else if parts ! 1 = ''disconnect'' then
        (if verb \<noteq> ''POST'' then method_not_allowed a else handleDisconnectSimulator env i a)
      else if parts ! 1 = ''telemetry'' then
        (if verb \<noteq> ''POST'' then method_not_allowed a else handleSendSimulatorTelemetry env i r a)
      else not_found a)"

section \<open>Ingest\<close>

definition handleProtocolCatalog :: "Request \<Rightarrow> handler" where
  "handleProtocolCatalog r =
     (if rq_Path r \<noteq> ''/api/v1/protocol-catalog'' then not_found
      else if rq_Method r \<noteq> ''GET'' then method_not_allowed
      else reply_json 200 (PCatalog DefaultProtocolCatalog))"

definition ingest_rejected :: "int \<Rightarrow> int \<Rightarrow> Payload \<Rightarrow> handler" where
  "ingest_rejected n status payload = on_service (RecordHTTPIngestResult False 0 n) (\<lambda>_. reply_json status payload)"

definition ingest_auth_status :: "gerr \<Rightarrow> int" where
  "ingest_auth_status e = (case e of ErrDeviceNotFound \<Rightarrow> 404 | ErrInvalidCredential \<Rightarrow> 401 | _ \<Rightarrow> 400)"

text \<open>The access profile of the product of the device; an unknown product gives the zero profile.\<close>

definition ingest_profile :: "Device \<Rightarrow> Service \<Rightarrow> ProductAccessProfile res" where
  "ingest_profile device s =
     (if dev_ProductID device = [] then Inr zero_AccessProfile
      else (case GetProduct (dev_ProductID device) s of
          Inl e \<Rightarrow> if e = ErrProductNotFound then Inr zero_AccessProfile else Inl e
        | Inr product \<Rightarrow> Inr (prd_AccessProfile (prdv_Product product))))"

definition ingest_values :: "ApiEnv \<Rightarrow> Device \<Rightarrow> anymap \<Rightarrow> ProductAccessProfile \<Rightarrow> anymap \<Rightarrow> handler" where
  "ingest_values env device payload profile vals =
     on_service (nowS (ae_env env)) (\<lambda>now.
     let arrived = (case now of Inr t \<Rightarrow> t | Inl _ \<Rightarrow> 0) in
     on_service (HandleTelemetry (ae_env env) (dev_ID device) (ExtractTimestamp (ae_text env) payload arrived) vals) (\<lambda>res.
       case res of
         Inl e \<Rightarrow> ingest_rejected (int (mlen vals)) 400 (PErr e)
       | Inr _ \<Rightarrow>
           on_service (RecordHTTPIngestResult True (ae_size env payload) (int (mlen vals))) (\<lambda>_.
           on_service (GetShadow (ae_env env) (dev_ID device))
             (answer (\<lambda>_. 500) 202 (PIngest (dev_ID device) (ap_Protocol profile) (ap_IngestMode profile) vals)))))"

definition handleHTTPIngest :: "ApiEnv \<Rightarrow> string \<Rightarrow> Request \<Rightarrow> handler" where
  "handleHTTPIngest env deviceID r =
     (case decodeJSON (jd_Ingest (ae_dec env)) r of
        Inl e \<Rightarrow> ingest_rejected 0 400 (PError e)
      | Inr payload \<Rightarrow>
          let token = extractIngressToken r payload in
          if trim_space token = [] then ingest_rejected 0 401 (PError ''device token is required'')
          else ask_service (AuthenticateDevice deviceID token) (\<lambda>auth. case auth of
              Inl e \<Rightarrow> ingest_rejected 0 (ingest_auth_status e) (PErr e)
            | Inr device \<Rightarrow> ask_service (ingest_profile device) (\<lambda>prof. case prof of
                Inl e \<Rightarrow> ingest_rejected 0 500 (PErr e)
              | Inr profile \<Rightarrow>
                  (case BuildValues (ae_text env) payload profile of
                     Inl e \<Rightarrow> ingest_rejected 0 400 (PErr e)
                   | Inr vals \<Rightarrow>
                       if mlen vals = 0 then ingest_rejected 0 400 (PError ''no telemetry values resolved from payload'')
                       else ingest_values env device payload profile vals))))"

definition handleHTTPIngestRoutes :: "ApiEnv \<Rightarrow> Request \<Rightarrow> handler" where
  "handleHTTPIngestRoutes env r =
     (let path = path_after ''/api/v1/ingest/http/'' r in
      if path = [] then not_found
      else if rq_Method r \<noteq> ''POST'' then method_not_allowed
      else handleHTTPIngest env path r)"

section \<open>Installation\<close>

definition node_role :: "Api \<Rightarrow> string" where
  "node_role a = normalizedNodeRole (cf_NodeRole (ap_cfg a))"

definition installed :: "Api \<Rightarrow> bool" where
  "installed a = (case ap_setup a of None \<Rightarrow> True | Some m \<Rightarrow> Installed m)"

definition handleInstallStatus :: "Request \<Rightarrow> handler" where
  "handleInstallStatus r a =
     (if rq_Method r \<noteq> ''GET'' then method_not_allowed a
      else reply_json 200 (PInstall (map_option Status (ap_setup a)) (node_role a)) a)"

text \<open>\<open>seedInstallTenant\<close>: the first tenant; its error is only logged.\<close>

definition seedInstallTenant :: "Env \<Rightarrow> SetupState \<Rightarrow> unit sv" where
  "seedInstallTenant env state =
     (let name = trim_space (ins_DefaultTenantName state) in
      if name = [] then retS ()
      else bindS (readS ListTenants) (\<lambda>tenants.
        if length tenants > 0 then retS ()
        else tryS (CreateTenant env name (ins_DefaultTenantSlug state) ''created by install wizard''
            (Some [(''source'', ''install-wizard''), (''admin_username'', ins_AdminUsername state),
              (''admin_email'', ins_AdminEmail state)])) (\<lambda>res.
          case res of Inr _ \<Rightarrow> retS () | Inl e \<Rightarrow> if e = ErrTenantExists then retS () else errS e)))"

definition handleInstallBootstrap :: "ApiEnv \<Rightarrow> Request \<Rightarrow> handler" where
  "handleInstallBootstrap env r a =
     (if rq_Method r \<noteq> ''POST'' then method_not_allowed a
      else (case ap_setup a of
          None \<Rightarrow> reply_error 503 ''install manager unavailable'' a
        | Some m \<Rightarrow>
            if Installed m then reply_error 409 ''instance already installed'' a
            else with_json (jd_Bootstrap (ae_dec env)) r (\<lambda>request a.
              (case Bootstrap (ae_setup env) request m of (res, m') \<Rightarrow>
                 let a' = a\<lparr>ap_setup := Some m'\<rparr> in
                 case res of
                   Inl e \<Rightarrow> reply_json 400 (PErr e) a'
                 | Inr state \<Rightarrow> on_service (seedInstallTenant (ae_env env) state) (\<lambda>_.
                     reply_json 201 (PInstall (Some state) [])) a')) a))"

section \<open>Replica endpoints\<close>

text \<open>
  The two endpoints of \<open>Replication\<close> on the state of the API. The replica applier is the file store of the
  service; \<open>app.New\<close> gives none to a node on another backend.
\<close>

definition replica_http :: "Request \<Rightarrow> HttpRequest" where
  "replica_http r = \<lparr>hr_Method = rq_Method r, hr_Path = rq_Path r, hr_Token = rq_Header r ''X-Replica-Token'', hr_body = rq_Body r\<rparr>"

definition api_ReplicaSnapshot :: "ApiEnv \<Rightarrow> Request \<Rightarrow> FileStore \<Rightarrow> SetupManager \<Rightarrow> handler" where
  "api_ReplicaSnapshot env r f m a =
     (case handleReplicaSnapshot (env_fs (ae_env env)) (replica_http r)
         \<lparr>nd_cfg = ap_cfg a, nd_replica = ap_replica a, nd_store = f, nd_setup = m\<rparr> of
        (res, n) \<Rightarrow> reply_json (case res of Inr status \<Rightarrow> status | Inl _ \<Rightarrow> 500) (PNode ''replicated'' (node_role a))
          (with_service (\<lambda>s. s\<lparr>sv_backend := FileBackend (nd_store n)\<rparr>) a))"

definition api_ReplicaSetup :: "ApiEnv \<Rightarrow> Request \<Rightarrow> handler" where
  "api_ReplicaSetup env r a =
     (case ap_setup a of
        None \<Rightarrow> reply_error 503 ''replica setup endpoint unavailable'' a
      | Some m \<Rightarrow>
          let cfg = ap_cfg a in
          if rq_Method r \<noteq> ''PUT'' then method_not_allowed a
          else if trim_space (cf_ReplicaToken cfg) = [] then reply_error 503 ''replica token not configured'' a
          else if \<not> subtleConstantCompare (trim_space (rq_Header r ''X-Replica-Token'')) (cf_ReplicaToken cfg)
          then reply_error 403 ''replica token rejected'' a
          else (case rq_Body r of
              None \<Rightarrow> reply_error 400 ''unable to read setup payload'' a
            | Some body \<Rightarrow>
                (case ApplyReplicaState (ae_setup env) body m of (res, m') \<Rightarrow>
                   (case res of
                      Inl e \<Rightarrow> reply_json 400 (PErr e)
                    | Inr _ \<Rightarrow> reply_json 202 (PNode ''setup replicated'' (node_role a))) (a\<lparr>ap_setup := Some m'\<rparr>))))"

section \<open>Status endpoints\<close>

definition handleHealth :: "Request \<Rightarrow> handler" where
  "handleHealth r a =
     (if rq_Method r \<noteq> ''GET'' then method_not_allowed a else reply_json 200 (PNode ''ok'' (node_role a)) a)"

definition handleReady :: "Request \<Rightarrow> handler" where
  "handleReady r a =
     (if rq_Method r \<noteq> ''GET'' then method_not_allowed a
      else if IsStandby (ap_cfg a) then reply_json 503 (PNode ''standby'' (node_role a)) a
      else reply_json 200 (PNode ''ready'' (node_role a)) a)"

text \<open>The lines of the text format, without the figures of the Go runtime and the uptime.\<close>

definition writePrometheusMetrics :: "Stats \<Rightarrow> (string \<times> int) list" where
  "writePrometheusMetrics stats =
     (let c = sta_Counters stats; st = sta_Storage stats in
      [(''mvp_registered_devices'', ct_registeredDevices c), (''mvp_online_devices'', ct_onlineDevices c),
       (''mvp_total_connections'', ct_totalConnections c), (''mvp_rejected_connections'', ct_rejectedConnections c),
       (''mvp_telemetry_received_total'', ct_telemetryReceived c), (''mvp_commands_sent_total'', ct_commandsSent c),
       (''mvp_command_acks_total'', ct_commandAcks c),
       (''mvp_http_requests_total'', ct_httpRequests c), (''mvp_http_errors_total'', ct_httpErrors c),
       (''mvp_http_ingest_accepted_total'', ct_httpIngestAccepted c),
       (''mvp_http_ingest_rejected_total'', ct_httpIngestRejected c),
       (''mvp_tcp_telemetry_accepted_total'', ct_tcpTelemetryAccepted c),
       (''mvp_tcp_command_acks_total'', ct_tcpCommandAcks c),
       (''mvp_mqtt_messages_received_total'', ct_mqttMessagesReceived c),
       (''mvp_mqtt_telemetry_accepted_total'', ct_mqttTelemetryAccepted c),
       (''mvp_mqtt_command_acks_total'', ct_mqttCommandAcks c), (''mvp_bytes_ingested_total'', ct_bytesIngested c),
       (''mvp_telemetry_values_total'', ct_telemetryValues c),
       (''mvp_storage_tenants'', int (ss_Tenants st)), (''mvp_storage_products'', int (ss_Products st)),
       (''mvp_storage_devices'', int (ss_Devices st)), (''mvp_storage_groups'', int (ss_Groups st)),
       (''mvp_storage_rules'', int (ss_Rules st)), (''mvp_storage_config_profiles'', int (ss_ConfigProfiles st)),
       (''mvp_storage_firmware_artifacts'', int (ss_FirmwareArtifacts st)),
       (''mvp_storage_ota_campaigns'', int (ss_OTACampaigns st)), (''mvp_storage_shadows'', int (ss_Shadows st)),
       (''mvp_storage_commands'', int (ss_Commands st)), (''mvp_storage_alerts'', int (ss_Alerts st)),
       (''mvp_storage_telemetry_series'', int (ss_TelemetrySeries st)),
       (''mvp_storage_telemetry_samples'', int (ss_TelemetrySamples st)),
       (''mvp_storage_persist_errors_total'', int (ss_PersistErrors st)),
       (''mvp_transport_tcp_online_devices'', int (sta_TCPOnlineDevices stats)),
       (''mvp_transport_mqtt_online_devices'', int (sta_MQTTOnlineDevices stats)),
       (''mvp_transport_tcp_commands_published_total'', ct_tcpCommandsPublished c),
       (''mvp_transport_mqtt_commands_published_total'', ct_mqttCommandsPublished c),
       (''mvp_transport_mqtt_connections_accepted_total'', ct_mqttConnectionsAccepted c),
       (''mvp_transport_mqtt_connections_rejected_total'', ct_mqttConnectionsRejected c)] @
      (case ss_LastPersistedAt st of None \<Rightarrow> [] | Some t \<Rightarrow>
         [(''mvp_storage_last_persisted_unix'', t div 1000000000 - unix_epoch)]))"

definition handleMetrics :: "Request \<Rightarrow> handler" where
  "handleMetrics r =
     (if rq_Method r \<noteq> ''GET'' then method_not_allowed
      else ask_service Stats (\<lambda>stats.
        if wantsPrometheus r then reply_json 200 (PMetrics (writePrometheusMetrics stats))
        else reply_json 200 (PStats stats)))"

text \<open>Without the uptime.\<close>

definition handleSystemInfo :: "Request \<Rightarrow> handler" where
  "handleSystemInfo r a =
     (if rq_Method r \<noteq> ''GET'' then method_not_allowed a
      else ask_service Stats (\<lambda>stats.
        let cfg = ap_cfg a; state = map_option Status (ap_setup a) in
        reply_json 200 (PSystemInfo \<lparr>sys_NodeID = cf_NodeID cfg, sys_Role = node_role a, sys_Standby = IsStandby cfg,
          sys_Installed = installed a, sys_SetupPath = (case ap_setup a of None \<Rightarrow> [] | Some m \<Rightarrow> sm_path m), sys_Setup = state,
          sys_EmbeddedUI = (\<not> cf_DisableEmbeddedUI cfg), sys_CORSAllowedOrigins = cf_CORSAllowedOrigins cfg,
          sys_ReplicaEndpoint = ap_replica a, sys_StoreBackend = ss_Backend (sta_Storage stats),
          sys_StorePersistencePath = ss_PersistencePath (sta_Storage stats), sys_MetricsStartedAt = sta_StartedAt stats,
          sys_GatewayEnabled = (\<not> IsStandby cfg), sys_MQTTEnabled = (\<not> IsStandby cfg)\<rparr>)) a)"

section \<open>The console\<close>

definition console_enabled :: "Api \<Rightarrow> bool" where
  "console_enabled a \<longleftrightarrow> \<not> cf_DisableEmbeddedUI (ap_cfg a) \<or> ap_setup a \<noteq> None"

text \<open>\<open>asset\<close> says whether the embedded file system has a file; the pages are embedded with the binary.\<close>

definition ui_ServeHTTP :: "(string \<Rightarrow> bool) \<Rightarrow> Request \<Rightarrow> handler" where
  "ui_ServeHTTP asset r a =
     (let path = rq_Path r in
      if path = ''/'' \<or> path = ''/index.html'' then
        (if \<not> installed a then reply_json 200 (PPage ''install.html'') a
         else if cf_DisableEmbeddedUI (ap_cfg a) then not_found a
         else reply_json 200 (PPage ''index.html'') a)
      else if path = ''/install'' then reply_json 200 (PPage ''install.html'') a
      else if path = ''/runtime-config.js'' then
        (let state = map_option Status (ap_setup a);
             title = (case state of Some st \<Rightarrow> if trim_space (ins_AppName st) \<noteq> [] then ins_AppName st else ''MVP IoT Console''
               | None \<Rightarrow> ''MVP IoT Console'') in
         reply_json 200 (PRuntimeConfig title (\<not> cf_DisableEmbeddedUI (ap_cfg a)) state) a)
      else if has_prefix path ''/assets/'' then
        (if asset path then reply_json 200 (PPage path) a else reply_json 404 (PPage []) a)
      else not_found a)"

section \<open>Routes\<close>

definition exact_routes :: "(string \<Rightarrow> bool) \<Rightarrow> ApiEnv \<Rightarrow> (string \<times> (Request \<Rightarrow> handler)) list" where
  "exact_routes asset env =
     (let e = ae_env env; d = ae_dec env in
      [(''/healthz'', handleHealth), (''/readyz'', handleReady), (''/metrics'', handleMetrics),
       (''/api/v1/system/info'', handleSystemInfo), (''/api/v1/install/status'', handleInstallStatus),
       (''/api/v1/install/bootstrap'', handleInstallBootstrap env),
       (''/api/v1/protocol-catalog'', handleProtocolCatalog), (''/api/v1/tenants'', handleTenants e d),
       (''/api/v1/products'', handleProducts e d), (''/api/v1/groups'', handleGroups e d),
       (''/api/v1/config-profiles'', handleConfigProfiles e d), (''/api/v1/firmware'', handleFirmwareArtifacts e d),
       (''/api/v1/ota-campaigns'', handleOTACampaigns e d), (''/api/v1/devices'', handleDevices e d),
       (''/api/v1/rules'', handleRules e d), (''/api/v1/alerts'', handleAlerts),
       (''/api/v1/simulators'', handleSimulators env)])"

definition subtree_routes :: "ApiEnv \<Rightarrow> (string \<times> (Request \<Rightarrow> handler)) list" where
  "subtree_routes env =
     (let e = ae_env env; d = ae_dec env in
      [(''/api/v1/ingest/http/'', handleHTTPIngestRoutes env), (''/api/v1/products/'', handleProductRoutes e d),
       (''/api/v1/groups/'', handleGroupRoutes e d), (''/api/v1/config-profiles/'', handleConfigProfileRoutes e d),
       (''/api/v1/devices/'', handleDeviceRoutes e d), (''/api/v1/alerts/'', handleAlertRoutes e d),
       (''/api/v1/simulators/'', handleSimulatorRoutes env)])"

definition clean_path :: "string \<Rightarrow> bool" where
  "clean_path path \<longleftrightarrow>
     (case path of
        [] \<Rightarrow> False
      | c # rest \<Rightarrow> c = CHR ''/'' \<and>
          (let parts = split_on CHR ''/'' rest in
           list_all (\<lambda>p. p \<noteq> ''.'' \<and> p \<noteq> ''..'') parts \<and> list_all (\<lambda>p. p \<noteq> []) (butlast parts)))"

text \<open>The replica endpoints are only registered with an applier and with an installer.\<close>

definition mux :: "(string \<Rightarrow> bool) \<Rightarrow> ApiEnv \<Rightarrow> Request \<Rightarrow> handler" where
  "mux asset env r a =
     (let path = rq_Path r in
      if \<not> clean_path path then reply_json 301 PNone a
      else if path = ''/_ha/snapshot'' \<and> ap_replica a then
        (case (sv_backend (the_service a), ap_setup a) of
           (FileBackend f, Some m) \<Rightarrow> api_ReplicaSnapshot env r f m a
         | _ \<Rightarrow> reply_error 503 ''replica snapshot endpoint unavailable'' a)
      else if path = ''/_ha/setup'' \<and> ap_setup a \<noteq> None then api_ReplicaSetup env r a
      else (case map_of (exact_routes asset env) path of
          Some handle \<Rightarrow> handle r a
        | None \<Rightarrow>
            (case List.find (\<lambda>(p, _). has_prefix path p) (subtree_routes env) of
               Some (_, handle) \<Rightarrow> handle r a
             | None \<Rightarrow>
                 if path = ''/api/v1/ingest/http'' \<or> path = ''/assets'' \<and> console_enabled a then reply_json 301 PNone a
                 else if console_enabled a then ui_ServeHTTP asset r a
                 else reply_json 404 PNone a)))"

section \<open>The chain of guards\<close>

definition withInstallGuard :: "(Request \<Rightarrow> handler) \<Rightarrow> Request \<Rightarrow> handler" where
  "withInstallGuard rest r a =
     (if installed a \<or> allowDuringInstall (rq_Path r) then rest r a
      else reply_error 503 ''instance not installed'' a)"

definition withStandbyGuard :: "(Request \<Rightarrow> handler) \<Rightarrow> Request \<Rightarrow> handler" where
  "withStandbyGuard rest r a =
     (if standbyGuard (ap_cfg a) (replica_http r) then reply_error 503 ''node is in standby mode'' a else rest r a)"

text \<open>The origin is \<open>resolveAllowedOrigin\<close>; it only sets headers.\<close>

definition withCORS :: "(Request \<Rightarrow> handler) \<Rightarrow> Request \<Rightarrow> handler" where
  "withCORS rest r a = (if rq_Method r = ''OPTIONS'' then reply_json 204 PNone a else rest r a)"

text \<open>\<open>instrument\<close> takes an ID for a request without one, and counts the request with its status.\<close>

definition instrument :: "Env \<Rightarrow> (Request \<Rightarrow> handler) \<Rightarrow> Request \<Rightarrow> handler" where
  "instrument env rest r =
     on_service (if trim_space (rq_Header r ''X-Request-ID'') = [] then bindS (newID env ''req'') (\<lambda>_. retS ()) else retS ())
       (\<lambda>_ a. (case rest r a of (response, a') \<Rightarrow>
          (response, with_service (\<lambda>s. snd (RecordHTTPRequest (rs_Status response) s)) a')))"

definition serve :: "(string \<Rightarrow> bool) \<Rightarrow> ApiEnv \<Rightarrow> Request \<Rightarrow> handler" where
  "serve asset env = instrument (ae_env env) (withCORS (withStandbyGuard (withInstallGuard (mux asset env))))"

end
