(* ===== verification/ApiFacts.thy ===== *)
theory ApiFacts
  imports Api
begin

text \<open>
  What a request does to the state behind the API. The locale \<open>api_relation\<close> is a reflexive and transitive
  relation between states; a handler \<open>goes\<close> along it when every run of it does. It has the rules for the
  combinators of \<open>Http\<close> and for the multiplexer. \<open>api_calls\<close> extends it for a relation that holds along the steps of
  the simulator manager, which include every operation of the service, and has every handler that calls
  them. Interpretations: \<open>calls\<close> (the state is reached by steps of the manager), \<open>node\<close> (the configuration and
  the installation are left alone) and, of the first locale, \<open>query\<close> (nothing changes).
\<close>

section \<open>The chain of guards\<close>

abbreviation guarded :: "(string \<Rightarrow> bool) \<Rightarrow> ApiEnv \<Rightarrow> Request \<Rightarrow> handler" where
  "guarded asset env \<equiv> withCORS (withStandbyGuard (withInstallGuard (mux asset env)))"

text \<open>A request takes at most one ID, runs behind the guards, and is counted with its status.\<close>

lemma serve_run:
  assumes "serve asset env r a = (response, a')"
  obtains s c where "s = the_service a \<or> service_step (the_service a) s" "\<exists>n. s = (the_service a)\<lparr>sv_rands := n\<rparr>"
    "guarded asset env r (with_service (\<lambda>_. s) a) = (response, c)"
    "a' = with_service (changed (RecordHTTPRequest (rs_Status response))) c"
proof -
  let ?take = "if trim_space (rq_Header r ''X-Request-ID'') = [] then bindS (newID (ae_env env) ''req'') (\<lambda>_. retS ()) else retS ()"
  obtain x s where t: "?take (the_service a) = (x, s)" by fastforce
  have s: "s = the_service a \<or> s = snd (newID (ae_env env) ''req'' (the_service a))"
    using t
    by (cases "trim_space (rq_Header r ''X-Request-ID'') = []"; cases "newID (ae_env env) ''req'' (the_service a)";
        cases "fst (newID (ae_env env) ''req'' (the_service a))") (simp_all add: bindS_def op_apply)
  have "s = the_service a \<or> service_step (the_service a) s"
    using s service_step.take_id [of "the_service a" "ae_env env" "''req''"] by (auto simp: changed_def)
  moreover have "\<exists>n. s = (the_service a)\<lparr>sv_rands := n\<rparr>"
    using s by (auto simp: newID_def intro: exI [of _ "sv_rands (the_service a)"])
  moreover obtain re c where c: "guarded asset env r (with_service (\<lambda>_. s) a) = (re, c)" by fastforce
  moreover have "serve asset env r a = (re, with_service (changed (RecordHTTPRequest (rs_Status re))) c)"
    using t c by (simp add: serve_def instrument_def on_service_def changed_def [abs_def])
  ultimately show thesis using that assms by auto
qed

lemma subtree_found:
  assumes "List.find (\<lambda>(p, _). has_prefix path p) routes = Some (p, handle)"
  shows "(p, handle) \<in> set routes \<and> has_prefix path p"
  using assms by (metis (mono_tags, lifting) case_prod_conv find_Some_iff nth_mem)

section \<open>Handlers that go along a relation\<close>

locale api_relation =
  fixes R :: "Api \<Rightarrow> Api \<Rightarrow> bool"
  assumes R_refl: "R a a"
    and R_trans: "R a b \<Longrightarrow> R b c \<Longrightarrow> R a c"
begin

definition goes :: "handler \<Rightarrow> bool" where
  "goes h \<longleftrightarrow> (\<forall>a. R a (snd (h a)))"

lemma goesI: "(\<And>a. R a (snd (h a))) \<Longrightarrow> goes h"
  by (simp add: goes_def)

lemma goesD: "goes h \<Longrightarrow> R a (snd (h a))"
  by (simp add: goes_def)

lemma goes_reply:
  "goes (reply_json status p)" "goes (reply_error status m)" "goes method_not_allowed" "goes not_found"
  "goes (answer f ok pay r)"
  by (auto simp: goes_def reply_json_def reply_error_def method_not_allowed_def not_found_def answer_def R_refl split: sum.split)

lemma goes_ask: "(\<And>x. goes (k x)) \<Longrightarrow> goes (ask_service q k)"
  by (simp add: goes_def ask_service_def)

lemma goes_json: "(\<And>x. goes (k x)) \<Longrightarrow> goes (with_json d r k)"
  by (auto simp: with_json_def goes_reply split: sum.split)

lemma goes_branch:
  "(b \<Longrightarrow> goes h) \<Longrightarrow> (\<not> b \<Longrightarrow> goes h') \<Longrightarrow> goes (if b then h else h')"
  "(\<And>x. goes (f x)) \<Longrightarrow> goes (Let v f)"
  "(\<And>x y. goes (g x y)) \<Longrightarrow> goes (case p of (x, y) \<Rightarrow> g x y)"
  "goes h \<Longrightarrow> (\<And>x. goes (f x)) \<Longrightarrow> goes (case q of None \<Rightarrow> h | Some x \<Rightarrow> f x)"
  "(\<And>e. goes (i e)) \<Longrightarrow> (\<And>x. goes (f' x)) \<Longrightarrow> goes (case r of Inl e \<Rightarrow> i e | Inr x \<Rightarrow> f' x)"
  by (auto split: prod.split option.split sum.split)

lemmas goes_calls = goes_reply goes_ask goes_json goes_branch

lemma goes_status:
  "goes (handleHealth r)" "goes (handleReady r)" "goes (handleMetrics r)" "goes (handleSystemInfo r)"
  "goes (handleInstallStatus r)" "goes (handleProtocolCatalog r)" "goes (ui_ServeHTTP asset r)" "goes (handleGetSimulator i)"
  using goesD [OF goes_reply(5)]
  by (auto intro!: goesI simp: handleHealth_def handleReady_def handleMetrics_def handleSystemInfo_def handleInstallStatus_def
      handleProtocolCatalog_def ui_ServeHTTP_def Let_def ask_service_def goesD goes_reply(1-4) R_refl handleGetSimulator_def
      on_manager_def op_apply)

text \<open>
  The multiplexer goes along the relation when the routes do that match the path: the lists of routes are
  searched, and the replica endpoints are reached by their own paths.
\<close>

lemma goes_mux:
  assumes "list_all (\<lambda>(p, h). p = rq_Path r \<longrightarrow> R a (snd (h r a))) (exact_routes asset env)"
    and "list_all (\<lambda>(p, h). has_prefix (rq_Path r) p \<longrightarrow> R a (snd (h r a))) (subtree_routes env)"
    and "rq_Path r = ''/_ha/snapshot'' \<longrightarrow> \<not> ap_replica a"
    and "rq_Path r = ''/_ha/setup'' \<longrightarrow> R a (snd (api_ReplicaSetup env r a))"
  shows "R a (snd (mux asset env r a))"
proof (cases "map_of (exact_routes asset env) (rq_Path r)")
  note replies = goesD [OF goes_reply(1)] goesD [OF goes_reply(2)] goesD [OF goes_status(7)]
  case None
  show ?thesis
  proof (cases "List.find (\<lambda>(p, _). has_prefix (rq_Path r) p) (subtree_routes env)")
    case (Some pair)
    then have "R a (snd (snd pair r a))"
      using subtree_found [of "rq_Path r" "subtree_routes env" "fst pair" "snd pair"] assms(2) by (auto simp: list_all_iff)
    then show ?thesis using None Some assms(3,4) replies by (cases pair) (auto simp: mux_def Let_def)
  qed (use None assms(3,4) replies in \<open>auto simp: mux_def Let_def\<close>)
next
  note replies = goesD [OF goes_reply(1)] goesD [OF goes_reply(2)]
  case (Some handle)
  then have "R a (snd (handle r a))" using map_of_SomeD [OF Some] assms(1) by (auto simp: list_all_iff)
  then show ?thesis using Some assms(3,4) replies by (auto simp: mux_def Let_def)
qed

lemma goes_guarded:
  assumes "installed a \<or> allowDuringInstall (rq_Path r) \<Longrightarrow> R a (snd (mux asset env r a))"
  shows "R a (snd (guarded asset env r a))"
  using assms goesD [OF goes_reply(1)] goesD [OF goes_reply(2)]
  by (simp add: withCORS_def withStandbyGuard_def withInstallGuard_def)

end

text \<open>Along the steps of the manager: every handler that calls it, or the service.\<close>

locale api_calls = api_relation R for R :: "Api \<Rightarrow> Api \<Rightarrow> bool" +
  fixes senv :: SimEnv
  assumes R_manager: "manager_step senv (ap_manager a) g \<Longrightarrow> R a (a\<lparr>ap_manager := g\<rparr>)"
begin

lemma R_service: "service_step (the_service a) s \<Longrightarrow> R a (with_service (\<lambda>_. s) a)"
  using R_manager [OF manager_step.service] by (simp add: with_service_def)

lemma goes_service:
  assumes "\<And>s. service_step s (changed m s)" "\<And>r. goes (k r)"
  shows "goes (on_service m k)"
proof (rule goesI)
  fix a :: Api
  obtain r s where m: "m (the_service a) = (r, s)" by fastforce
  have "R a (with_service (\<lambda>_. s) a)" using R_service [OF assms(1), of a] m by (simp add: changed_def)
  then show "R a (snd (on_service m k a))" using R_trans goesD [OF assms(2)] by (simp add: on_service_def m)
qed

lemma goes_manager:
  assumes "\<And>g. manager_step senv g (snd (m g))" "\<And>r. goes (k r)"
  shows "goes (on_manager m k)"
proof (rule goesI)
  fix a :: Api
  obtain r g where m: "m (ap_manager a) = (r, g)" by fastforce
  have "R a (a\<lparr>ap_manager := g\<rparr>)" using R_manager [of a g] assms(1) [of "ap_manager a"] m by simp
  then show "R a (snd (on_manager m k a))" using R_trans goesD [OF assms(2)] by (simp add: on_manager_def m)
qed

lemmas goes_intros = goes_calls goes_service goes_manager

text \<open>The handlers, one lemma per group.\<close>

lemma goes_devices: "goes (handleDevices env dec r)" "goes (handleDeviceRoutes env dec r)"
  unfolding handleDevices_def handleListDevices_def handleCreateDevice_def handleDeviceRoutes_def handleGetDevice_def
    handleUpdateDeviceTags_def handleGetShadow_def handleUpdateShadow_def handleListTelemetry_def handleListCommands_def
    handleSendCommand_def
  by (intro goes_intros service_step.intros)+

lemma goes_products: "goes (handleProducts env dec r)" "goes (handleProductRoutes env dec r)"
  unfolding handleProducts_def handleListProducts_def handleCreateProduct_def handleProductRoutes_def handleGetProduct_def
    handleUpdateThingModel_def handleUpdateAccessProfile_def
  by (intro goes_intros service_step.intros)+

lemma goes_groups: "goes (handleGroups env dec r)" "goes (handleGroupRoutes env dec r)"
  unfolding handleGroups_def handleListGroups_def handleCreateGroup_def handleGroupRoutes_def handleGetGroup_def
    handleAssignGroupDevice_def handleRemoveGroupDevice_def
  by (intro goes_intros service_step.intros)+

lemma goes_configs: "goes (handleConfigProfiles env dec r)" "goes (handleConfigProfileRoutes env dec r)"
  unfolding handleConfigProfiles_def handleListConfigProfiles_def handleCreateConfigProfile_def
    handleConfigProfileRoutes_def handleApplyConfigProfile_def
  by (intro goes_intros service_step.intros)+

lemma goes_rules: "goes (handleRules env dec r)" "goes (handleAlerts r)" "goes (handleAlertRoutes env dec r)"
  unfolding handleRules_def handleListRules_def handleCreateRule_def handleAlerts_def handleAlertRoutes_def handleUpdateAlert_def
  by (intro goes_intros service_step.intros)+

lemma goes_ota: "goes (handleFirmwareArtifacts env dec r)" "goes (handleOTACampaigns env dec r)" "goes (handleTenants env dec r)"
  unfolding handleFirmwareArtifacts_def handleOTACampaigns_def handleTenants_def
  by (intro goes_intros service_step.intros)+

lemma goes_ingest: "goes (handleHTTPIngestRoutes env r)"
  unfolding handleHTTPIngestRoutes_def handleHTTPIngest_def ingest_values_def ingest_rejected_def
  by (intro goes_intros service_step.intros)+

lemma goes_sims:
  assumes "ae_senv env = senv"
  shows "goes (handleSimulators env r)" "goes (handleSimulatorRoutes env r)"
proof -
  have create: "goes (handleCreateSimulator env r)"
    unfolding handleCreateSimulator_def assms by (intro goes_intros manager_step.intros)
  show "goes (handleSimulators env r)"
    by (rule goesI) (simp add: handleSimulators_def goesD goes_reply create)
  have rest: "goes (handleDeleteSimulator env i)" "goes (handleConnectSimulator env i)" "goes (handleDisconnectSimulator env i)"
    "goes (handleSendSimulatorTelemetry env i r)" for i
    unfolding handleDeleteSimulator_def handleConnectSimulator_def handleDisconnectSimulator_def
      handleSendSimulatorTelemetry_def assms
    by (intro goes_intros manager_step.intros)+
  show "goes (handleSimulatorRoutes env r)"
    by (rule goesI) (simp add: handleSimulatorRoutes_def Let_def goesD goes_reply goes_status rest)
qed

lemmas goes_handlers = goes_devices goes_products goes_groups goes_configs goes_rules goes_ota goes_ingest goes_sims goes_status

lemma goes_request:
  assumes "ae_senv env = senv"
    and "rq_Path r = ''/_ha/snapshot'' \<longrightarrow> \<not> ap_replica a"
    and "rq_Path r = ''/_ha/setup'' \<longrightarrow> R a (snd (api_ReplicaSetup env r a))"
    and "rq_Path r = ''/api/v1/install/bootstrap'' \<Longrightarrow> R a (snd (handleInstallBootstrap env r a))"
  shows "R a (snd (mux asset env r a))"
proof (rule goes_mux)
  show "list_all (\<lambda>(p, h). p = rq_Path r \<longrightarrow> R a (snd (h r a))) (exact_routes asset env)"
    using assms(4) by (simp add: exact_routes_def Let_def goesD goes_handlers assms(1))
  show "list_all (\<lambda>(p, h). has_prefix (rq_Path r) p \<longrightarrow> R a (snd (h r a))) (subtree_routes env)"
    by (simp add: subtree_routes_def Let_def goesD goes_handlers assms(1))
qed (use assms(2,3) in auto)

end

section \<open>The relations\<close>

abbreviation manager_steps :: "SimEnv \<Rightarrow> SimManager \<Rightarrow> SimManager \<Rightarrow> bool" where
  "manager_steps senv \<equiv> (manager_step senv)\<^sup>*\<^sup>*"

definition same_node :: "Api \<Rightarrow> Api \<Rightarrow> bool" where
  "same_node a b \<longleftrightarrow> ap_cfg b = ap_cfg a \<and> ap_setup b = ap_setup a \<and> ap_replica b = ap_replica a \<and>
     ap_simulators b = ap_simulators a"

interpretation calls: api_calls "\<lambda>a b. manager_steps senv (ap_manager a) (ap_manager b)" senv for senv
  by unfold_locales auto

interpretation node: api_calls same_node senv for senv
  by unfold_locales (auto simp: same_node_def)

interpretation query: api_relation "\<lambda>a b. b = a"
  by unfold_locales auto

lemma manager_steps_reachable: "manager_steps senv g g' \<Longrightarrow> manager_reachable senv g \<Longrightarrow> manager_reachable senv g'"
  by (induction rule: rtranclp_induct) (auto intro: manager_reachable.step)

section \<open>The installation\<close>

lemma seed_changed: "changed (seedInstallTenant env st) s = s \<or> service_step s (changed (seedInstallTenant env st) s)"
proof -
  let ?create = "CreateTenant env (trim_space (ins_DefaultTenantName st)) (ins_DefaultTenantSlug st) ''created by install wizard''
      (Some [(''source'', ''install-wizard''), (''admin_username'', ins_AdminUsername st), (''admin_email'', ins_AdminEmail st)])"
  have "snd (seedInstallTenant env st s) = s \<or> snd (seedInstallTenant env st s) = snd (?create s)"
    by (auto simp: seedInstallTenant_def Let_def bindS_def tryS_def op_simps split: sum.splits prod.splits if_splits)
  then show ?thesis using service_step.create_tenant by (auto simp: changed_def)
qed

text \<open>The request that installs: what becomes of the setup manager, and then the seeding of the tenant.\<close>

lemma bootstrap_cases:
  obtains (refused) status p where "handleInstallBootstrap env r a = (\<lparr>rs_Status = status, rs_Body = p\<rparr>, a)" "status \<ge> 400"
      "installed a \<and> rq_Method r = ''POST'' \<and> ap_setup a \<noteq> None \<Longrightarrow> status = 409"
  | (failed) m request e m' where "ap_setup a = Some m" "\<not> Installed m" "Bootstrap (ae_setup env) request m = (Inl e, m')"
      "handleInstallBootstrap env r a = (\<lparr>rs_Status = 400, rs_Body = PErr e\<rparr>, a\<lparr>ap_setup := Some m'\<rparr>)"
  | (installs) m request st m' where "ap_setup a = Some m" "\<not> Installed m" "Bootstrap (ae_setup env) request m = (Inr st, m')"
      "handleInstallBootstrap env r a = (\<lparr>rs_Status = 201, rs_Body = PInstall (Some st) []\<rparr>,
        with_service (changed (seedInstallTenant (ae_env env) st)) (a\<lparr>ap_setup := Some m'\<rparr>))"
proof (cases "ap_setup a")
  let ?reply = "fst (handleInstallBootstrap env r a)"
  note refuse = refused [of "rs_Status ?reply" "rs_Body ?reply"]
  case None
  then show thesis
    by (cases "rq_Method r = ''POST''"; intro refuse)
      (simp_all add: handleInstallBootstrap_def method_not_allowed_def reply_error_def reply_json_def)
next
  let ?reply = "fst (handleInstallBootstrap env r a)"
  note refuse = refused [of "rs_Status ?reply" "rs_Body ?reply"]
  case (Some m)
  show thesis
  proof (cases "rq_Method r \<noteq> ''POST'' \<or> Installed m")
    case True
    then show thesis
      using Some by (cases "rq_Method r = ''POST''"; intro refuse)
        (simp_all add: handleInstallBootstrap_def method_not_allowed_def reply_error_def reply_json_def)
  next
    case False
    show thesis
    proof (cases "decodeJSON (jd_Bootstrap (ae_dec env)) r")
      case (Inl e)
      then show thesis using Some False
        by (intro refuse) (simp_all add: handleInstallBootstrap_def with_json_def reply_error_def reply_json_def installed_def)
    next
      case (Inr request)
      obtain res m' where b: "Bootstrap (ae_setup env) request m = (res, m')" by fastforce
      show thesis
      proof (cases res)
        case (Inl e)
        then show thesis using Some False Inr b
          by (intro failed [of m request]) (simp_all add: handleInstallBootstrap_def with_json_def reply_json_def)
      next
        case (Inr st)
        then show thesis using Some False \<open>decodeJSON _ _ = _\<close> b
          by (cases "seedInstallTenant (ae_env env) st (the_service a)"; intro installs [of m request st])
            (simp_all add: handleInstallBootstrap_def with_json_def reply_json_def on_service_def with_service_def changed_def)
      qed
    qed
  qed
qed

lemma bootstrap_calls: "manager_steps senv (ap_manager a) (ap_manager (snd (handleInstallBootstrap env r a)))"
proof (cases rule: bootstrap_cases [of env r a])
  case (installs m request st m')
  have "manager_steps senv (ap_manager a) (ap_manager (with_service (changed (seedInstallTenant (ae_env env) st)) a))"
    using seed_changed [of "ae_env env" st "the_service a"] manager_step.service [of "ap_manager a" _ senv]
    by (auto simp: with_service_def)
  then show ?thesis using installs(4) by (simp add: with_service_def)
qed auto

lemma replica_setup_calls: "ap_manager (snd (api_ReplicaSetup env r a)) = ap_manager a"
  by (auto simp: api_ReplicaSetup_def Let_def method_not_allowed_def reply_error_def reply_json_def
      split: option.split sum.split prod.split)
section \<open>What no request changes\<close>

definition same_config :: "Api \<Rightarrow> Api \<Rightarrow> bool" where
  "same_config a b \<longleftrightarrow> ap_cfg b = ap_cfg a \<and> ap_replica b = ap_replica a \<and> ap_simulators b = ap_simulators a"

interpretation config: api_calls same_config senv for senv
  by unfold_locales (auto simp: same_config_def)

lemma request_config:
  assumes "rq_Path r = ''/_ha/snapshot'' \<longrightarrow> \<not> ap_replica a"
  shows "same_config a (snd (guarded asset env r a))"
proof -
  have pushed: "same_config a (snd (api_ReplicaSetup env r a))"
    by (auto simp: api_ReplicaSetup_def same_config_def Let_def method_not_allowed_def reply_error_def reply_json_def
        split: option.split sum.split prod.split)
  have booted: "same_config a (snd (handleInstallBootstrap env r a))"
    by (cases rule: bootstrap_cases [of env r a]) (simp_all add: same_config_def with_service_def)
  show ?thesis by (rule config.goes_guarded, rule config.goes_request [OF refl assms]) (simp_all add: pushed booted)
qed

text \<open>On an installed node, only the push of a setup state changes the installation.\<close>

lemma request_installed:
  assumes "rq_Path r = ''/_ha/snapshot'' \<longrightarrow> \<not> ap_replica a" "rq_Path r \<noteq> ''/_ha/setup''" "installed a"
  shows "same_node a (snd (guarded asset env r a))"
proof (rule node.goes_guarded, rule node.goes_request [OF refl assms(1)])
  show "same_node a (snd (handleInstallBootstrap env r a))"
    using assms(3) by (cases rule: bootstrap_cases [of env r a]) (auto simp: same_node_def installed_def)
qed (use assms(2) in simp)

section \<open>Queries\<close>

text \<open>
  A request whose method is not a writing one changes nothing behind the guards, unless it asks for the shadow
  of a device: \<open>GetShadow\<close> makes a missing shadow.
\<close>

definition shadow_query :: "Request \<Rightarrow> bool" where
  "shadow_query r \<longleftrightarrow> rq_Method r = ''GET'' \<and> has_prefix (rq_Path r) ''/api/v1/devices/'' \<and>
     length (path_parts ''/api/v1/devices/'' r) \<noteq> 1 \<and> path_parts ''/api/v1/devices/'' r ! 1 = ''shadow''"

lemma query_verbs: "\<not> isMutatingMethod verb \<Longrightarrow> verb \<noteq> ''POST'' \<and> verb \<noteq> ''PUT'' \<and> verb \<noteq> ''DELETE''"
  by (auto simp: isMutatingMethod_def)

lemma query_exact:
  assumes "\<not> isMutatingMethod (rq_Method r)"
  shows "query.goes (handleTenants e d r)" "query.goes (handleProducts e d r)" "query.goes (handleGroups e d r)"
    "query.goes (handleConfigProfiles e d r)" "query.goes (handleFirmwareArtifacts e d r)" "query.goes (handleOTACampaigns e d r)"
    "query.goes (handleDevices e d r)" "query.goes (handleRules e d r)" "query.goes (handleAlerts r)"
  unfolding handleTenants_def handleProducts_def handleListProducts_def handleGroups_def handleListGroups_def
    handleConfigProfiles_def handleListConfigProfiles_def handleFirmwareArtifacts_def handleOTACampaigns_def
    handleDevices_def handleListDevices_def handleRules_def handleListRules_def handleAlerts_def
  by (intro query.goes_calls; use query_verbs [OF assms] in simp)+

lemma query_explicit:
  assumes "\<not> isMutatingMethod (rq_Method r)"
  shows "query.goes (handleInstallBootstrap env r)" "query.goes (handleSimulators env r)" "query.goes (handleSimulatorRoutes env r)"
  using query_verbs [OF assms]
  by (auto intro!: query.goesI simp: handleInstallBootstrap_def handleSimulators_def handleSimulatorRoutes_def Let_def
      query.goesD [OF query.goes_reply(1)] query.goesD [OF query.goes_reply(2)] query.goesD [OF query.goes_reply(3)]
      query.goesD [OF query.goes_reply(4)] query.goesD [OF query.goes_status(8)])

lemma query_subtree:
  assumes "\<not> isMutatingMethod (rq_Method r)"
  shows "query.goes (handleHTTPIngestRoutes env r)" "query.goes (handleProductRoutes e d r)" "query.goes (handleGroupRoutes e d r)"
    "query.goes (handleConfigProfileRoutes e d r)" "query.goes (handleAlertRoutes e d r)"
  unfolding handleHTTPIngestRoutes_def handleProductRoutes_def handleGetProduct_def handleGroupRoutes_def handleGetGroup_def
    handleConfigProfileRoutes_def handleAlertRoutes_def Let_def
  by (intro query.goes_calls; use query_verbs [OF assms] in simp)+

lemma query_devices:
  assumes "\<not> isMutatingMethod (rq_Method r)" "\<not> shadow_query r" "has_prefix (rq_Path r) ''/api/v1/devices/''"
  shows "query.goes (handleDeviceRoutes e d r)"
  unfolding handleDeviceRoutes_def handleGetDevice_def handleListTelemetry_def handleListCommands_def Let_def
  by (intro query.goes_calls; use query_verbs [OF assms(1)] assms(2,3) [unfolded shadow_query_def] in simp)

lemma query_mux:
  assumes "\<not> isMutatingMethod (rq_Method r)" "\<not> shadow_query r" "rq_Path r \<notin> {''/_ha/snapshot'', ''/_ha/setup''}"
  shows "snd (mux asset env r a) = a"
proof (rule query.goes_mux)
  show "list_all (\<lambda>(p, h). p = rq_Path r \<longrightarrow> snd (h r a) = a) (exact_routes asset env)"
    by (simp add: exact_routes_def Let_def query.goesD query_exact query_explicit query.goes_status assms(1))
  show "list_all (\<lambda>(p, h). has_prefix (rq_Path r) p \<longrightarrow> snd (h r a) = a) (subtree_routes env)"
    by (simp add: subtree_routes_def Let_def query.goesD query_subtree query_devices query_explicit assms(1,2))
qed (use assms(3) in auto)

section \<open>One request\<close>

lemma request_effect:
  assumes "serve asset env r a = (response, a')" "rq_Path r = ''/_ha/snapshot'' \<longrightarrow> \<not> ap_replica a"
  shows "(\<exists>b. manager_steps (ae_senv env) (ap_manager a) (ap_manager b) \<and>
      a' = with_service (changed (RecordHTTPRequest (rs_Status response))) b) \<and>
    (manager_reachable (ae_senv env) (ap_manager a) \<longrightarrow> manager_reachable (ae_senv env) (ap_manager a')) \<and>
    ap_cfg a' = ap_cfg a \<and> ap_replica a' = ap_replica a \<and>
    (installed a \<and> rq_Path r \<noteq> ''/_ha/setup'' \<longrightarrow> ap_setup a' = ap_setup a)"
proof -
  obtain s c where s: "s = the_service a \<or> service_step (the_service a) s"
    and c: "guarded asset env r (with_service (\<lambda>_. s) a) = (response, c)"
    and a': "a' = with_service (changed (RecordHTTPRequest (rs_Status response))) c"
    by (rule serve_run [OF assms(1)]) auto
  let ?b = "with_service (\<lambda>_. s) a"
  have b: "manager_steps (ae_senv env) (ap_manager a) (ap_manager ?b)"
    using s calls.R_service [of a s] by (auto simp: with_service_def)
  have replica: "rq_Path r = ''/_ha/snapshot'' \<longrightarrow> \<not> ap_replica ?b" using assms(2) by (simp add: with_service_def)
  have "manager_steps (ae_senv env) (ap_manager ?b) (ap_manager (snd (guarded asset env r ?b)))"
    by (rule calls.goes_guarded, rule calls.goes_request [OF refl replica])
      (simp_all add: bootstrap_calls replica_setup_calls)
  then have steps: "manager_steps (ae_senv env) (ap_manager a) (ap_manager c)" using b c by simp
  then have "manager_steps (ae_senv env) (ap_manager a) (ap_manager a')"
    using calls.R_service [OF service_step.record_http, of "ae_senv env" c "rs_Status response"]
    by (simp add: a' with_service_def changed_def)
  then have reach: "manager_reachable (ae_senv env) (ap_manager a) \<longrightarrow> manager_reachable (ae_senv env) (ap_manager a')"
    using manager_steps_reachable by blast
  have cfg: "ap_cfg c = ap_cfg ?b \<and> ap_replica c = ap_replica ?b"
    using request_config [OF replica, of asset env] c by (simp add: same_config_def)
  have "installed a \<and> rq_Path r \<noteq> ''/_ha/setup'' \<longrightarrow> ap_setup c = ap_setup ?b"
    using request_installed [OF replica, of asset env] c by (auto simp: same_node_def with_service_def installed_def)
  then show ?thesis using steps reach cfg by (auto simp: a' with_service_def)
qed

end
