(* ===== verification/ApiProperties.thy ===== *)
theory ApiProperties
  imports ApiFacts FlowProperties NodeProperties SimulatorProperties
begin

text \<open>
  Properties of the HTTP API of a node: what any request can do, what a standby serves, the installation over
  HTTP and the HTTP ingest. The witnesses are requests to the demo service.
\<close>

section \<open>A node of the demo service\<close>

definition demo_decoders :: Decoders where
  "demo_decoders =
     \<lparr>jd_CreateDevice = (\<lambda>_. Inl ''syntax''), jd_UpdateDeviceTags = (\<lambda>_. Inl ''syntax''), jd_SendCommand = (\<lambda>_. Inl ''syntax''),
      jd_UpdateShadow = (\<lambda>_. Inl ''syntax''), jd_CreateProduct = (\<lambda>_. Inl ''syntax''), jd_UpdateThingModel = (\<lambda>_. Inl ''syntax''),
      jd_UpdateAccessProfile = (\<lambda>_. Inl ''syntax''), jd_CreateGroup = (\<lambda>_. Inl ''syntax''), jd_DeviceID = (\<lambda>_. Inl ''syntax''),
      jd_CreateConfigProfile = (\<lambda>_. Inl ''syntax''), jd_CreateRule = (\<lambda>_. Inl ''syntax''), jd_UpdateAlert = (\<lambda>_. Inl ''syntax''),
      jd_Firmware = (\<lambda>_. Inl ''syntax''), jd_Campaign = (\<lambda>_. Inl ''syntax''), jd_Tenant = (\<lambda>_. Inl ''syntax''),
      jd_CreateSimulator = (\<lambda>_. Inl ''syntax''), jd_Values = (\<lambda>_. Inl ''syntax''),
      jd_Bootstrap = (\<lambda>_. Inr (demo_bootstrap, [])), jd_Ingest = (\<lambda>_. Inr (Some [(''values'', AMap [(''t'', AInt KInt 21)])], []))\<rparr>"

definition demo_api_env :: ApiEnv where
  "demo_api_env = \<lparr>ae_env = demo_env, ae_senv = demo_senv, ae_setup = demo_setup_env,
     ae_text = \<lparr>te_ParseFloat = (\<lambda>_. None), te_ParseRFC3339 = (\<lambda>_. None)\<rparr>, ae_dec = demo_decoders, ae_size = (\<lambda>_. 40)\<rparr>"

definition demo_api :: Api where
  "demo_api = \<lparr>ap_cfg = demo_primary, ap_manager = sim_NewManager demo_service, ap_simulators = True,
     ap_setup = Some demo_manager, ap_replica = False\<rparr>"

definition demo_request :: "string \<Rightarrow> string \<Rightarrow> Request" where
  "demo_request verb path = \<lparr>rq_Method = verb, rq_Path = path, rq_Query = (\<lambda>_. []),
     rq_Header = (\<lambda>h. if h = ''X-Device-Token'' then ''secret'' else []), rq_RemoteAddr = [], rq_Body = Some []\<rparr>"

section \<open>Any request\<close>



text \<open>C34: Queries change nothing, and a standby answers queries only. On a standby every writing request
  outside the replica endpoints is refused with 503. A request that is refused so, and on any node a
  request with a method that does not write, leaves the store, the sessions, the simulated devices and
  the installation exactly as they were: only the request is counted. The exception is the query of a
  shadow, which makes a missing shadow, also on a standby.
\<close>

theorem queries_change_nothing:
  assumes "serve asset env r a = (response, a')" "isMutatingMethod (rq_Method r) \<longrightarrow> IsStandby (ap_cfg a)"
    and "rq_Path r \<notin> {''/_ha/snapshot'', ''/_ha/setup''}"
  shows "(isMutatingMethod (rq_Method r) \<longrightarrow>
      response = \<lparr>rs_Status = 503, rs_Body = PError ''node is in standby mode''\<rparr>) \<and>
    (\<not> shadow_query r \<longrightarrow>
      (\<exists>n. a' = with_service (\<lambda>s. changed (RecordHTTPRequest (rs_Status response)) (s\<lparr>sv_rands := n\<rparr>)) a) \<and>
      sv_backend (the_service a') = sv_backend (the_service a) \<and> sv_states (the_service a') = sv_states (the_service a) \<and>
      ct_httpRequests (sv_counters (the_service a')) = ct_httpRequests (sv_counters (the_service a)) + 1)"
proof -
  obtain n c where c: "guarded asset env r (with_service (\<lambda>_. (the_service a)\<lparr>sv_rands := n\<rparr>) a) = (response, c)"
    and a': "a' = with_service (changed (RecordHTTPRequest (rs_Status response))) c"
    by (rule serve_run [OF assms(1)]) auto
  let ?b = "with_service (\<lambda>_. (the_service a)\<lparr>sv_rands := n\<rparr>) a"
  have refused: "response = \<lparr>rs_Status = 503, rs_Body = PError ''node is in standby mode''\<rparr> \<and> c = ?b"
    if "isMutatingMethod (rq_Method r)"
    using that assms(2,3) c
    by (auto simp: withCORS_def withStandbyGuard_def standbyGuard_def replica_http_def isMutatingMethod_def reply_error_def
        reply_json_def with_service_def)
  have "c = ?b" if "\<not> shadow_query r"
  proof (cases "isMutatingMethod (rq_Method r)")
    case False
    have "snd (guarded asset env r ?b) = ?b" by (rule query.goes_guarded) (rule query_mux [OF False that assms(3)])
    then show ?thesis using c by simp
  qed (use refused in simp)
  then show ?thesis
    using refused by (auto simp: a' with_service_def changed_def RecordHTTPRequest_def count_def op_apply Let_def)
qed

theorem queries_change_nothing_witness:
  "\<exists>a'. serve (\<lambda>_. False) demo_api_env (demo_request ''POST'' ''/api/v1/devices'') (demo_api\<lparr>ap_cfg := nd_cfg demo_standby\<rparr>) =
      (\<lparr>rs_Status = 503, rs_Body = PError ''node is in standby mode''\<rparr>, a') \<and>
    sv_backend (the_service a') = MemoryBackend demo_store"
proof -
  let ?r = "demo_request ''POST'' ''/api/v1/devices''" and ?a = "demo_api\<lparr>ap_cfg := nd_cfg demo_standby\<rparr>"
  obtain re a' where r: "serve (\<lambda>_. False) demo_api_env ?r ?a = (re, a')" by fastforce
  have "normalizeNodeRole ''standby'' = ''standby''" by code_simp
  then have "IsStandby (ap_cfg ?a)" "isMutatingMethod (rq_Method ?r)" "\<not> shadow_query ?r" "rq_Path ?r = ''/api/v1/devices''"
    by (simp_all add: demo_request_def isMutatingMethod_def demo_standby_def IsStandby_def shadow_query_def)
  with queries_change_nothing [OF r] r show ?thesis by (simp add: demo_api_def sim_NewManager_def)
qed
section \<open>Installation\<close>

lemma seed_memory:
  assumes "sv_backend s = MemoryBackend st" "ms_tenants st = []" "trim_space (ins_DefaultTenantName state) \<noteq> []"
  shows "\<exists>t. st_ListTenants (sv_backend (changed (seedInstallTenant env state) s)) = Inr [t] \<and>
    tn_Name t = trim_space (ins_DefaultTenantName state) \<and>
    tn_Slug t = normalizeTenantSlug (ins_DefaultTenantSlug state) (trim_space (ins_DefaultTenantName state))"
proof -
  have none: "ListTenants s = Inr []"
    using assms(1,2) by (simp add: ListTenants_def st_read_defs mem_ListTenants_def mem_ListProducts_def mem_ListDevices_def mem_ListGroups_def
      mem_ListRules_def mem_ListConfigProfiles_def mem_ListFirmwareArtifacts_def mem_ListOTACampaigns_def sort_newest_def)
  show ?thesis
    using assms
    by (simp add: changed_def seedInstallTenant_def Let_def none run_try CreateTenant_def run_simps st_read_defs
        mem_ListTenants_def sort_newest_def st_write_defs mem_CreateTenant_def clone_updates op_simps)
qed
lemma mux_bootstrap: "rq_Path r = ''/api/v1/install/bootstrap'' \<Longrightarrow> mux asset env r a = handleInstallBootstrap env r a"
proof -
  assume p: "rq_Path r = ''/api/v1/install/bootstrap''"
  have "clean_path ''/api/v1/install/bootstrap''" by code_simp
  then show ?thesis using p by (simp add: mux_def exact_routes_def Let_def)
qed

lemma bootstrap_allowed: "allowDuringInstall ''/api/v1/install/bootstrap''"
  by (simp add: allowDuringInstall_def)

text \<open>C35: An instance is installed once, over HTTP. Before the installation every path but the few of the
  installer is answered with 503 and nothing is stored. The bootstrap answers 201 only on a primary
  that was not installed; it then is, with the state it was answered with, and an empty memory store has
  exactly one tenant, the one that was asked for. On an installed primary the bootstrap answers 409, and any
  answer but 201 leaves the node as much installed as it was.
\<close>

theorem install_over_http:
  assumes "serve asset env r a = (response, a')" "ap_setup a = Some m"
  shows "(\<not> Installed m \<and> \<not> allowDuringInstall (rq_Path r) \<and> rq_Method r \<noteq> ''OPTIONS'' \<longrightarrow>
      rs_Status response = 503 \<and> ap_setup a' = ap_setup a \<and> sv_backend (the_service a') = sv_backend (the_service a)) \<and>
    (rq_Path r = ''/api/v1/install/bootstrap'' \<and> rs_Status response = 201 \<longrightarrow>
      \<not> Installed m \<and> \<not> IsStandby (ap_cfg a) \<and> installed a' \<and>
      (\<exists>st. rs_Body response = PInstall (Some st) [] \<and> map_option Status (ap_setup a') = Some st \<and>
        (\<forall>store. sv_backend (the_service a) = MemoryBackend store \<and> ms_tenants store = [] \<and>
            trim_space (ins_DefaultTenantName st) \<noteq> [] \<longrightarrow>
          (\<exists>t. st_ListTenants (sv_backend (the_service a')) = Inr [t] \<and> tn_Name t = trim_space (ins_DefaultTenantName st))))) \<and>
    (rq_Path r = ''/api/v1/install/bootstrap'' \<and> rs_Status response \<noteq> 201 \<longrightarrow> installed a' = installed a) \<and>
    (rq_Path r = ''/api/v1/install/bootstrap'' \<and> rq_Method r = ''POST'' \<and> Installed m \<and> \<not> IsStandby (ap_cfg a) \<longrightarrow>
      rs_Status response = 409)"
proof -
  obtain n c where c: "guarded asset env r (with_service (\<lambda>_. (the_service a)\<lparr>sv_rands := n\<rparr>) a) = (response, c)"
    and a': "a' = with_service (changed (RecordHTTPRequest (rs_Status response))) c"
    by (rule serve_run [OF assms(1)]) auto
  let ?b = "with_service (\<lambda>_. (the_service a)\<lparr>sv_rands := n\<rparr>) a"
  have b: "ap_setup ?b = Some m" "ap_cfg ?b = ap_cfg a" "installed ?b = installed a" "installed a = Installed m"
    "sv_backend (the_service ?b) = sv_backend (the_service a)"
    using assms(2) by (simp_all add: with_service_def installed_def)
  have counted: "ap_setup a' = ap_setup c" "installed a' = installed c" "sv_backend (the_service a') = sv_backend (the_service c)"
    by (simp_all add: a' with_service_def installed_def changed_def RecordHTTPRequest_def count_def op_apply)
  have blocked: "rs_Status response = 503 \<and> c = ?b" if "\<not> Installed m" "\<not> allowDuringInstall (rq_Path r)" "rq_Method r \<noteq> ''OPTIONS''"
    using c that b by (auto simp: withCORS_def withStandbyGuard_def withInstallGuard_def reply_error_def reply_json_def split: if_splits)
  show ?thesis
  proof (cases "rq_Path r = ''/api/v1/install/bootstrap'' \<and> rq_Method r \<noteq> ''OPTIONS'' \<and> \<not> standbyGuard (ap_cfg a) (replica_http r)")
    case True
    have run: "handleInstallBootstrap env r ?b = (response, c)"
      using c True b(2) mux_bootstrap bootstrap_allowed
      by (simp add: withCORS_def withStandbyGuard_def withInstallGuard_def)
    show ?thesis
    proof (cases rule: bootstrap_cases [of env r ?b])
      case (refused status p)
      then show ?thesis using run counted b True bootstrap_allowed assms(2) by auto
    next
      case (failed m0 request e m')
      then have "sm_state m' = sm_state m" using bootstrap_effect [OF failed(3)] b(1) by simp
      then show ?thesis using failed run counted b True bootstrap_allowed by (auto simp: installed_def Installed_def Status_def)
    next
      case (installs m0 request st m')
      then have m': "\<not> Installed m" "Installed m'" "Status m' = st"
        using bootstrap_effect [OF installs(3)] b(1) by (auto split: if_splits)
      have post: "rq_Method r = ''POST''"
        using run installs(4) by (auto simp: handleInstallBootstrap_def method_not_allowed_def reply_error_def reply_json_def split: if_splits)
      then have primary: "\<not> IsStandby (ap_cfg a)"
        using True by (auto simp: standbyGuard_def replica_http_def isMutatingMethod_def)
      have c: "c = with_service (changed (seedInstallTenant (ae_env env) st)) (?b\<lparr>ap_setup := Some m'\<rparr>)"
        and re: "response = \<lparr>rs_Status = 201, rs_Body = PInstall (Some st) []\<rparr>"
        using run installs(4) by auto
      have "\<exists>t. st_ListTenants (sv_backend (the_service c)) = Inr [t] \<and> tn_Name t = trim_space (ins_DefaultTenantName st)"
        if "sv_backend (the_service a) = MemoryBackend store" "ms_tenants store = []" "trim_space (ins_DefaultTenantName st) \<noteq> []"
        for store
        using seed_memory [of "the_service ?b" store st "ae_env env"] that b(5) by (auto simp: c with_service_def)
      then show ?thesis
        using m' primary True re bootstrap_allowed by (auto simp: counted) (simp_all add: c with_service_def installed_def)
    qed
  next
    case False
    then have "rq_Path r = ''/api/v1/install/bootstrap'' \<Longrightarrow> rs_Status response \<noteq> 201 \<and> c = ?b"
      using c b(2) by (auto simp: withCORS_def withStandbyGuard_def reply_error_def reply_json_def split: if_splits)
    moreover have "rq_Method r = ''POST'' \<and> \<not> IsStandby (ap_cfg a) \<Longrightarrow> rq_Path r \<noteq> ''/api/v1/install/bootstrap''"
      using False by (auto simp: standbyGuard_def)
    ultimately show ?thesis using blocked counted b assms(2) by auto
  qed
qed

theorem install_over_http_witness:
  "\<exists>response a'. serve (\<lambda>_. False) demo_api_env (demo_request ''POST'' ''/api/v1/devices'') demo_api = (response, a') \<and>
    rs_Status response = 503 \<and> sv_backend (the_service a') = MemoryBackend demo_store"
proof -
  let ?r = "demo_request ''POST'' ''/api/v1/devices''"
  obtain re a' where r: "serve (\<lambda>_. False) demo_api_env ?r demo_api = (re, a')" by fastforce
  have "ap_setup demo_api = Some demo_manager" "\<not> Installed demo_manager" "\<not> allowDuringInstall (rq_Path ?r)" "rq_Method ?r = ''POST''"
    by (simp_all add: demo_api_def demo_manager_def Installed_def Status_def zero_SetupState_def demo_request_def
        allowDuringInstall_def has_prefix_def)
  with install_over_http [OF r] r show ?thesis by (simp add: demo_api_def sim_NewManager_def)
qed
section \<open>HTTP ingest\<close>

lemma get_shadow_found:
  assumes "service_ok s" "st_GetShadow d (sv_backend s) = Inr sh" "trim_space d = d"
  shows "GetShadow env d s = (map_sum id (\<lambda>_. sh) (st_GetDevice d (sv_backend s)), s)"
proof (cases "st_GetDevice d (sv_backend s)")
  case (Inr dev)
  then have "dev_ID dev = d" using store_keys(3) [OF service_store_ok [OF assms(1)]] by (simp add: st_read_defs)
  then show ?thesis
    using Inr assms(2,3) by (simp add: GetShadow_def run_simps ensureShadow_eq st_read_defs mem_GetShadow_def split: option.splits)
qed (use assms(3) in \<open>simp add: GetShadow_def run_simps\<close>)

text \<open>The last steps of the handler: 202 when the reading was accepted, whatever has become of the device.\<close>

lemma ingest_values_run:
  fixes env d payload vals a
  defines "ts \<equiv> ExtractTimestamp (ae_text env) payload (env_clock (ae_env env) (sv_ticks (the_service a)))"
    and "s1 \<equiv> (the_service a)\<lparr>sv_ticks := Suc (sv_ticks (the_service a))\<rparr>"
  assumes "reachable (the_service a)" "AuthenticateDevice i token (the_service a) = Inr d"
    and "ingest_values env d payload profile vals a = (response, a')"
  shows "rs_Status response = 202 \<longleftrightarrow> fst (HandleTelemetry (ae_env env) (dev_ID d) ts vals s1) = Inr ()"
    "rs_Status response = 202 \<Longrightarrow> \<exists>t sh. rs_Body response = PIngest (dev_ID d) (ap_Protocol profile) (ap_IngestMode profile) vals sh \<and>
      (\<forall>xs. st_ListTelemetryByDevice (dev_ID d) 0 (sv_backend (the_service a)) = Inr xs \<longrightarrow>
        st_ListTelemetryByDevice (dev_ID d) 0 (sv_backend (the_service a')) =
          Inr (take (nat (ms_telemetryRetention (the_store (the_service a))))
            (\<lparr>tel_DeviceID = dev_ID d, tel_Timestamp = t, tel_Values = cloneAnyMap vals\<rparr> # xs)))"
proof -
  let ?e = "ae_env env" and ?s = "the_service a"
  obtain r s2 where h: "HandleTelemetry ?e (dev_ID d) ts vals s1 = (r, s2)" by fastforce
  have step1: "service_step ?s s1" using service_step.read_clock [of ?s ?e] by (simp add: changed_def nowS_def s1_def)
  have step2: "service_step s1 s2" using service_step.telemetry [of s1 ?e "dev_ID d" ts vals] h by (simp add: changed_def)
  note r1 = reachable.step [OF assms(3) step1] and r2 = reachable.step [OF _ step2]
  let ?tally = "RecordHTTPIngestResult True (ae_size env payload) (int (mlen vals))"
  define s3 where "s3 = snd (?tally s2)"
  have s3: "?tally s2 = (Inr (), s3)" "sv_backend s3 = sv_backend s2"
    by (simp_all add: s3_def RecordHTTPIngestResult_def recordIngressVolume_def count_def bindS_def op_apply Let_def)
  have r3: "reachable s3" using reachable.step [OF r2 [OF r1] service_step.record_ingest] by (simp add: changed_def s3_def)
  have id: "trim_space (dev_ID d) = dev_ID d" "trim_space i = dev_ID d"
    using accepted_iff_token(2) [OF reachable_service_ok [OF assms(3)] assms(4)] by simp_all
  obtain d1 where "AuthenticateDevice i token s1 = Inr d1"
    using login_permanent [OF step1 reachable_service_ok [OF assms(3)] assms(4)] by blast
  then obtain d2 where "AuthenticateDevice i token s2 = Inr d2"
    using login_permanent [OF step2 reachable_service_ok [OF r1]] by blast
  then have stored: "st_GetDevice (dev_ID d) (sv_backend s3) = Inr d2"
    by (auto simp: s3(2) AuthenticateDevice_def id(2) bindE_Inr split: if_splits)
  have refused: "rs_Status response = 400" if "r = Inl e" for e
    using assms(5) h that
    by (auto simp: ingest_values_def on_service_def nowS_def with_service_def Let_def ts_def s1_def ingest_rejected_def reply_json_def
        split: prod.splits)
  obtain xs where xs: "st_ListTelemetryByDevice (dev_ID d) 0 (sv_backend s1) = Inr xs" "sv_backend s1 = sv_backend ?s"
    "the_store s1 = the_store ?s"
    using telemetry_log.lst_eq by (auto simp: st_read_defs s1_def)
  have accepted: "\<exists>t sh. response = \<lparr>rs_Status = 202, rs_Body = PIngest (dev_ID d) (ap_Protocol profile) (ap_IngestMode profile) vals sh\<rparr> \<and>
      a' = with_service (\<lambda>_. s3) a \<and> st_ListTelemetryByDevice (dev_ID d) 0 (sv_backend s3) =
        Inr (take (nat (ms_telemetryRetention (the_store ?s)))
          (\<lparr>tel_DeviceID = dev_ID d, tel_Timestamp = t, tel_Values = cloneAnyMap vals\<rparr> # xs))" if "r = Inr ()"
  proof -
    note h = h [unfolded that]
    from telemetry_effect [OF r1 h xs(1)] obtain t sh where
      t: "st_ListTelemetryByDevice (dev_ID d) 0 (sv_backend s2) = Inr (take (nat (ms_telemetryRetention (the_store s1)))
        (\<lparr>tel_DeviceID = dev_ID d, tel_Timestamp = t, tel_Values = cloneAnyMap vals\<rparr> # xs))"
      and sh: "st_GetShadow (dev_ID d) (sv_backend s2) = Inr sh" by auto
    have "GetShadow ?e (dev_ID d) s3 = (Inr sh, s3)"
      using get_shadow_found [OF reachable_service_ok [OF r3]] sh s3(2) id(1) stored by simp
    then show ?thesis
      using assms(5) h s3 t xs(3)
      by (auto simp: ingest_values_def on_service_def nowS_def with_service_def Let_def ts_def s1_def answer_def reply_json_def)
  qed
  show "rs_Status response = 202 \<longleftrightarrow> fst (HandleTelemetry ?e (dev_ID d) ts vals s1) = Inr ()"
    using h refused accepted by (cases r) auto
  show "\<exists>t sh. rs_Body response = PIngest (dev_ID d) (ap_Protocol profile) (ap_IngestMode profile) vals sh \<and>
      (\<forall>xs. st_ListTelemetryByDevice (dev_ID d) 0 (sv_backend (the_service a)) = Inr xs \<longrightarrow>
        st_ListTelemetryByDevice (dev_ID d) 0 (sv_backend (the_service a')) =
          Inr (take (nat (ms_telemetryRetention (the_store (the_service a))))
            (\<lparr>tel_DeviceID = dev_ID d, tel_Timestamp = t, tel_Values = cloneAnyMap vals\<rparr> # xs)))" if "rs_Status response = 202"
    using that h refused accepted xs(1,2) by (cases r) (auto simp: with_service_def)
qed

lemma ingest_rejected_run:
  "ingest_rejected 0 status p a = (\<lparr>rs_Status = status, rs_Body = p\<rparr>,
     with_service (\<lambda>s. s\<lparr>sv_counters := (sv_counters s)\<lparr>ct_httpIngestRejected := ct_httpIngestRejected (sv_counters s) + 1\<rparr>\<rparr>) a)"
  by (simp add: ingest_rejected_def on_service_def RecordHTTPIngestResult_def recordIngressVolume_def count_def bindS_def
      op_apply Let_def reply_json_def with_service_def)

text \<open>C36: A reading over HTTP. A body that cannot be decoded, a missing token, a login that is refused and a
  payload the profile of the product cannot resolve are answered with 400, 401, 404 or 400, and nothing
  is stored: only the rejected requests are counted. An answer 202 means that the reading is stored:
  it is the newest entry of the log of the device that was authenticated, with the values the resolver
  made of the payload, the older ones being kept up to the retention. Any reading the service accepts is
  answered so.
\<close>

theorem http_ingest:
  assumes "reachable (the_service a)" "handleHTTPIngest env deviceID r a = (response, a')"
  shows "let s = the_service a;
      refused = (\<lambda>status. rs_Status response = status \<and> a' = with_service (\<lambda>s. s\<lparr>sv_counters :=
        (sv_counters s)\<lparr>ct_httpIngestRejected := ct_httpIngestRejected (sv_counters s) + 1\<rparr>\<rparr>) a) in
    case decodeJSON (jd_Ingest (ae_dec env)) r of
      Inl e \<Rightarrow> refused 400
    | Inr payload \<Rightarrow>
        if trim_space (extractIngressToken r payload) = [] then refused 401
        else (case AuthenticateDevice deviceID (extractIngressToken r payload) s of
            Inl e \<Rightarrow> refused (if e = ErrDeviceNotFound then 404 else if e = ErrInvalidCredential then 401 else 400)
          | Inr device \<Rightarrow>
              (\<forall>profile e. ingest_profile device s = Inr profile \<and> BuildValues (ae_text env) payload profile = Inl e \<longrightarrow> refused 400) \<and>
              (\<forall>profile vals. ingest_profile device s = Inr profile \<and> BuildValues (ae_text env) payload profile = Inr vals \<and>
                  0 < mlen vals \<longrightarrow>
                (rs_Status response = 202 \<longleftrightarrow> fst (HandleTelemetry (ae_env env) (dev_ID device) (ExtractTimestamp (ae_text env) payload
                  (env_clock (ae_env env) (sv_ticks s))) vals (s\<lparr>sv_ticks := Suc (sv_ticks s)\<rparr>)) = Inr ())) \<and>
              (rs_Status response = 202 \<longrightarrow> (\<exists>profile vals t sh. ingest_profile device s = Inr profile \<and>
                BuildValues (ae_text env) payload profile = Inr vals \<and> 0 < mlen vals \<and>
                rs_Body response = PIngest (dev_ID device) (ap_Protocol profile) (ap_IngestMode profile) vals sh \<and>
                (\<forall>xs. st_ListTelemetryByDevice (dev_ID device) 0 (sv_backend s) = Inr xs \<longrightarrow>
                  st_ListTelemetryByDevice (dev_ID device) 0 (sv_backend (the_service a')) =
                    Inr (take (nat (ms_telemetryRetention (the_store s)))
                      (\<lparr>tel_DeviceID = dev_ID device, tel_Timestamp = t, tel_Values = cloneAnyMap vals\<rparr> # xs))))))"
proof (cases "decodeJSON (jd_Ingest (ae_dec env)) r")
  case (Inl e)
  then show ?thesis using assms(2) by (auto simp: handleHTTPIngest_def ingest_rejected_run Let_def)
next
  case payload: (Inr payload)
  let ?token = "extractIngressToken r payload"
  show ?thesis
  proof (cases "trim_space ?token = []")
    case True
    then show ?thesis using assms(2) payload by (auto simp: handleHTTPIngest_def ingest_rejected_run Let_def)
  next
    case token: False
    show ?thesis
    proof (cases "AuthenticateDevice deviceID ?token (the_service a)")
      case (Inl e)
      then show ?thesis
        using assms(2) payload token
        by (auto simp: handleHTTPIngest_def ingest_rejected_run Let_def ask_service_def ingest_auth_status_def split: gerr.splits)
    next
      case device: (Inr device)
      show ?thesis
        using assms(2) payload token device ingest_values_run [OF assms(1) device, of env payload _ _ response a']
        by (auto simp: handleHTTPIngest_def ingest_rejected_run Let_def ask_service_def split: sum.splits if_splits)
    qed
  qed
qed
theorem http_ingest_witness:
  "\<exists>response a' t. handleHTTPIngest demo_api_env ''d1'' (demo_request ''POST'' ''/api/v1/ingest/http/d1'') demo_api = (response, a') \<and>
    rs_Status response = 202 \<and> st_ListTelemetryByDevice ''d1'' 0 (sv_backend (the_service a')) =
      Inr [\<lparr>tel_DeviceID = ''d1'', tel_Timestamp = t, tel_Values = Some [(''t'', AInt KInt 21)]\<rparr>]"
proof -
  let ?r = "demo_request ''POST'' ''/api/v1/ingest/http/d1''" and ?v = "Some [(''t'', AInt KInt 21)]"
  let ?p = "Some [(''values'', AMap [(''t'', AInt KInt 21)])]"
  have payload: "decodeJSON (jd_Ingest (ae_dec demo_api_env)) ?r = Inr ?p"
    by (simp add: decodeJSON_def demo_api_env_def demo_decoders_def demo_request_def)
  have token: "extractIngressToken ?r ?p = ''secret''" "trim_space ''secret'' = ''secret''" "trim_space ''d1'' = ''d1''"
    by (simp_all add: extractIngressToken_def demo_request_def query_def label_eval)
  have service: "the_service demo_api = demo_service" by (simp add: demo_api_def sim_NewManager_def)
  have auth: "AuthenticateDevice ''d1'' ''secret'' demo_service = Inr (demo_device ''d1'' ''p1'')"
    by (simp add: AuthenticateDevice_def label_eval st_GetDevice_def mem_GetDevice_def)
  have profile: "ingest_profile (demo_device ''d1'' ''p1'') demo_service = Inr demo_profile"
    by (simp add: ingest_profile_def GetProduct_def label_eval st_read_defs mem_GetProduct_def buildProductView_def
        mem_ListDevices_def mem_ListGroups_def mem_ListRules_def tenantSummary_def) (simp add: demo_product_def)
  have vals: "BuildValues (ae_text demo_api_env) ?p demo_profile = Inr ?v" by (simp add: BuildValues_def mlookup_def mlen_def Let_def)
  have now: "ExtractTimestamp \<lparr>te_ParseFloat = (\<lambda>_. None), te_ParseRFC3339 = (\<lambda>_. None)\<rparr> ?p n = n" for n by (simp add: ExtractTimestamp_def timestamp_keys_def mlookup_def)
  obtain re a' where run: "handleHTTPIngest demo_api_env ''d1'' ?r demo_api = (re, a')" by fastforce
  have "fst (HandleTelemetry demo_env ''d1'' 101 ?v (demo_service\<lparr>sv_ticks := Suc (Suc 0)\<rparr>)) = Inr ()"
    by (simp add: HandleTelemetry_def run_simps op_simps label_eval st_write_defs st_read_defs mem_GetDevice_def
        loadProduct_def mem_GetProduct_def validate_product_values_def demo_fits time_IsZero_def mem_AppendTelemetry_def
        ensureShadow_eq Let_def mem_SaveShadow_def touch_Inr evaluateRules_def mem_ListRules_def sort_newest_def)
  then have "rs_Status re = 202"
    using http_ingest [OF _ run] payload token service auth profile vals demo_reachable now
    by (auto simp: Let_def mlen_def demo_api_env_def)
  moreover have "st_ListTelemetryByDevice ''d1'' 0 (sv_backend demo_service) = Inr []"
    by (simp add: st_read_defs mem_ListTelemetryByDevice_def lookup_list_def)
  ultimately show ?thesis
    using http_ingest [OF _ run] payload token service auth profile vals demo_reachable run
    by (auto simp: Let_def cloneAnyMap_def mlen_def)
qed

end
