(* ===== verification/App.thy ===== *)
theory App
  imports Api Mqtt GatewayLoop
begin

text \<open>
  A running node (internal/app/app.go): what \<open>New\<close> puts together, and everything that may happen while \<open>Run\<close>
  serves the API, the gateway and the broker over the one service.

  \<^item> \<open>App\<close> has the state of the API, which holds the simulator manager and the service, the bindings of the MQTT
    hook and the connections of the gateway. \<open>gate_of\<close> and \<open>hook_of\<close> are the views the front ends have of it.
  \<^item> \<open>app_step\<close> is one event: a request, a connection, a line of a connection or its end, a callback of the
    broker, a step of a simulated device, the shutdown. A front end that was not started has no events.
  \<^item> Two connections never have the same ID (\<open>util.NewID\<close>); the connection that is over keeps its entry, the
    service may still hold its session.
\<close>

section \<open>Sessions of the broker\<close>

record mqtt_session =
  mq_deviceID :: string
  mq_clientID :: string
  mq_route :: routing

text \<open>\<open>publish\<close> is the inline client of the broker.\<close>

definition mqtt_Send :: "(ServerMessage \<Rightarrow> string + string) \<Rightarrow> (string \<Rightarrow> string \<Rightarrow> string + unit) \<Rightarrow> mqtt_session \<Rightarrow>
    ServerMessage \<Rightarrow> string + unit" where
  "mqtt_Send marshal publish ses message =
     bindE (marshal message) (\<lambda>payload. publish (rt_DownTopic (mq_route ses)) payload)"

section \<open>The parts of a node\<close>

record Connection =
  cn_phase :: phase
  cn_session :: clientSession
  cn_authenticated :: bool
  cn_deviceID :: string

record App =
  app_api :: Api
  app_bindings :: "(string \<times> clientBinding) list"
  app_connections :: "(string \<times> Connection) list"
  app_open :: connections

abbreviation app_service :: "App \<Rightarrow> Service" where
  "app_service a \<equiv> the_service (app_api a)"

definition is_file :: "Backend \<Rightarrow> bool" where
  "is_file b = (case b of MemoryBackend _ \<Rightarrow> False | FileBackend _ \<Rightarrow> True)"

text \<open>The hooks \<open>configureReplication\<close> sets on the store and on the setup manager.\<close>

definition hooked_store :: "ReplicaOptions \<Rightarrow> Backend \<Rightarrow> Backend" where
  "hooked_store options b =
     (case b of
        MemoryBackend s \<Rightarrow> MemoryBackend s
      | FileBackend f \<Rightarrow> FileBackend (if ro_storeHook options then snd (SetAfterPersistHook True f) else f))"

definition hooked_setup :: "ReplicaOptions \<Rightarrow> SetupManager \<Rightarrow> SetupManager" where
  "hooked_setup options m = (if ro_setupHook options then snd (setup_SetAfterPersistHook True m) else m)"

text \<open>\<open>New\<close>; the last two arguments are what reading the two state files gives.\<close>

definition app_New :: "ApiEnv \<Rightarrow> Config \<Rightarrow> string option res \<Rightarrow> string option res \<Rightarrow> App res" where
  "app_New env cfg store_file setup_file =
     bindE (newStorage (env_fs (ae_env env)) (cf_StoreBackend cfg) (cf_StorePath cfg) (cf_TelemetryRetention cfg) store_file) (\<lambda>storage.
     bindE (setup_NewManager (ae_setup env) (cf_SetupStatePath cfg) setup_file) (\<lambda>setupManager.
       let options = configureReplication cfg (is_file storage);
           service = NewService (ae_env env) (hooked_store options storage) in
       Inr \<lparr>app_api = \<lparr>ap_cfg = cfg, ap_manager = sim_NewManager service, ap_simulators = True,
              ap_setup = Some (hooked_setup options setupManager), ap_replica = ro_applier options\<rparr>,
            app_bindings = [], app_connections = [], app_open = []\<rparr>))"

section \<open>The front ends\<close>

definition listeners :: "Config \<Rightarrow> string list" where
  "listeners cfg = (if IsStandby cfg then [''http-api''] else [''http-api'', ''device-gateway'', ''mqtt-broker''])"

definition gateway_runs :: "App \<Rightarrow> bool" where
  "gateway_runs a \<longleftrightarrow> ''device-gateway'' \<in> set (listeners (ap_cfg (app_api a)))"

definition broker_runs :: "App \<Rightarrow> bool" where
  "broker_runs a \<longleftrightarrow> ''mqtt-broker'' \<in> set (listeners (ap_cfg (app_api a))) \<and> trim_space (cf_MQTTAddr (ap_cfg (app_api a))) \<noteq> []"

definition gate_of :: "App \<Rightarrow> Connection \<Rightarrow> Gate" where
  "gate_of a c = \<lparr>gw_service = app_service a, gw_session = cn_session c, gw_authenticated = cn_authenticated c,
     gw_deviceID = cn_deviceID c\<rparr>"

definition put_gate :: "string \<Rightarrow> phase \<Rightarrow> Gate \<Rightarrow> App \<Rightarrow> App" where
  "put_gate i p g a = a\<lparr>app_api := with_service (\<lambda>_. gw_service g) (app_api a),
     app_connections := AList.update i \<lparr>cn_phase = p, cn_session = gw_session g, cn_authenticated = gw_authenticated g,
       cn_deviceID = gw_deviceID g\<rparr> (app_connections a)\<rparr>"

text \<open>\<open>Run\<close> of the gateway for a new connection, and a turn of its loop.\<close>

definition accept :: "Env \<Rightarrow> App \<Rightarrow> App" where
  "accept env a =
     (let g = accept_connection env (cf_DeviceQueueSize (ap_cfg (app_api a))) (app_service a); i = cs_id (gw_session g) in
      put_gate i Reading g (a\<lparr>app_open := trackConnection i (app_open a)\<rparr>))"

definition connection_turn :: "phase gw \<Rightarrow> string \<Rightarrow> Connection \<Rightarrow> App \<Rightarrow> App" where
  "connection_turn m i c a =
     (case m (gate_of a c) of (r, g) \<Rightarrow>
        let p = (case r of Inr p \<Rightarrow> p | Inl _ \<Rightarrow> cn_phase c) in
        put_gate i p g (if p = Reading then a else a\<lparr>app_open := untrackConnection i (app_open a)\<rparr>))"

definition put_session :: "string \<Rightarrow> Connection \<Rightarrow> clientSession \<Rightarrow> App \<Rightarrow> App" where
  "put_session i c cs a = a\<lparr>app_connections := AList.update i (c\<lparr>cn_session := cs\<rparr>) (app_connections a)\<rparr>"

definition hook_of :: "App \<Rightarrow> authHook" where
  "hook_of a = \<lparr>hk_service = app_service a, hk_bindings = app_bindings a\<rparr>"

definition hook_turn :: "'a hk \<Rightarrow> App \<Rightarrow> App" where
  "hook_turn m a = (let h = snd (m (hook_of a)) in
     a\<lparr>app_api := with_service (\<lambda>_. hk_service h) (app_api a), app_bindings := hk_bindings h\<rparr>)"

definition put_manager :: "SimManager \<Rightarrow> App \<Rightarrow> App" where
  "put_manager g a = a\<lparr>app_api := (app_api a)\<lparr>ap_manager := g\<rparr>\<rparr>"

text \<open>The end of \<open>Run\<close>: the gateway closes its sockets, the simulators are closed.\<close>

definition shutdown :: "SimEnv \<Rightarrow> App \<Rightarrow> App" where
  "shutdown senv a = (put_manager (mg_Close senv (ap_manager (app_api a))) a)\<lparr>app_open := closeAllConnections (app_open a)\<rparr>"

section \<open>Events\<close>

inductive app_step :: "(string \<Rightarrow> bool) \<Rightarrow> ApiEnv \<Rightarrow> WireEnv \<Rightarrow> (string \<Rightarrow> DeviceMessage option) \<Rightarrow> App \<Rightarrow> App \<Rightarrow> bool"
  for asset env wire decode where
  request: "app_step asset env wire decode a (a\<lparr>app_api := snd (serve asset env r (app_api a))\<rparr>)"
| connection: "gateway_runs a \<Longrightarrow> app_step asset env wire decode a (accept (ae_env env) a)"
| line: "map_of (app_connections a) i = Some c \<Longrightarrow> cn_phase c = Reading \<Longrightarrow>
    app_step asset env wire decode a (connection_turn (handle_line (ae_env env) decode text) i c a)"
| end_input: "map_of (app_connections a) i = Some c \<Longrightarrow> cn_phase c = Reading \<Longrightarrow>
    app_step asset env wire decode a (connection_turn (end_of_input (ae_env env)) i c a)"
| writer: "map_of (app_connections a) i = Some c \<Longrightarrow>
    app_step asset env wire decode a (put_session i c (writer_turn write_ok (cn_session c)) a)"
| session_closed: "map_of (app_connections a) i = Some c \<Longrightarrow>
    app_step asset env wire decode a (put_session i c (session_Close (cn_session c)) a)"
| session_send: "map_of (app_connections a) i = Some c \<Longrightarrow>
    app_step asset env wire decode a (put_session i c (snd (session_Send m (cn_session c))) a)"
| mqtt_login: "broker_runs a \<Longrightarrow> app_step asset env wire decode a (hook_turn (OnConnectAuthenticate cl password) a)"
| mqtt_session: "broker_runs a \<Longrightarrow> app_step asset env wire decode a (hook_turn (OnSessionEstablished (ae_env env) cl) a)"
| mqtt_end: "broker_runs a \<Longrightarrow> app_step asset env wire decode a (hook_turn (OnDisconnect (ae_env env) cl) a)"
| mqtt_publish: "broker_runs a \<Longrightarrow>
    app_step asset env wire decode a (hook_turn (handlePublish (ae_env env) wire client topic payload) a)"
| simulator: "map_of (mg_simulators (ap_manager (app_api a))) i = Some sim \<Longrightarrow> instance_step (ae_senv env) sim sim' \<Longrightarrow>
    app_step asset env wire decode a (put_manager ((ap_manager (app_api a))
      \<lparr>mg_simulators := AList.update i sim' (mg_simulators (ap_manager (app_api a)))\<rparr>) a)"
| removed_simulator: "mg_removed (ap_manager (app_api a)) = before @ sim # after \<Longrightarrow> instance_step (ae_senv env) sim sim' \<Longrightarrow>
    app_step asset env wire decode a (put_manager ((ap_manager (app_api a))\<lparr>mg_removed := before @ sim' # after\<rparr>) a)"
| stop: "app_step asset env wire decode a (shutdown (ae_senv env) a)"

end
