(* ===== verification/AppFacts.thy ===== *)
theory AppFacts
  imports App ApiFacts
begin

text \<open>
  What the events of a node do to the service. The locale \<open>front_end\<close> is a state with the service in it: the
  operations of a front end that call the service take it along steps of the service. It is interpreted by the
  gateway and by the hook of the broker. Every event of a node is a sequence of such steps, so the invariants of
  the service hold in every state of a node, and a device that was stored stays stored.
\<close>

section \<open>The front ends call the service\<close>

locale front_end =
  fixes svc :: "'st \<Rightarrow> Service"
    and put :: "Service \<Rightarrow> 'st \<Rightarrow> 'st"
  assumes svc_put: "svc (put s x) = s"
begin

definition service_call :: "'a sv \<Rightarrow> ('st, gerr, 'a) op" where
  "service_call m x = (case m (svc x) of (r, s) \<Rightarrow> (r, put s x))"

text \<open>The state of the service has been reached from \<open>s0\<close>.\<close>

definition since :: "Service \<Rightarrow> 'st \<Rightarrow> bool" where
  "since s0 x \<longleftrightarrow> steps s0 (svc x)"

lemma from_call:
  assumes "\<And>s. service_step s (changed m s)"
  shows "preserves (since s0) (service_call m)"
proof (rule preservesI)
  fix x assume "since s0 x"
  moreover have "svc (snd (service_call m x)) = changed m (svc x)" by (simp add: service_call_def changed_def svc_put split: prod.split)
  ultimately show "since s0 (snd (service_call m x))"
    using assms [of "svc x"] by (simp add: since_def rtranclp.rtrancl_into_rtrancl)
qed

lemma from_query: "preserves (since s0) (service_call (readS f))"
  by (simp add: preserves_def service_call_def since_def op_apply svc_put)

lemma from_modS: "(\<And>x. svc (k x) = svc x) \<Longrightarrow> preserves (since s0) (modS k)"
  by (simp add: preserves_def since_def op_apply)

lemmas from_intros = preserves_intros preserves_Let from_query from_call from_modS service_step.intros

lemma run_steps: "preserves (since (svc x)) m \<Longrightarrow> steps (svc x) (svc (snd (m x)))"
  by (auto simp: preserves_def since_def)

end

interpretation gate: front_end gw_service "\<lambda>s g. g\<lparr>gw_service := s\<rparr>"
  by unfold_locales simp

interpretation hook: front_end hk_service "\<lambda>s h. h\<lparr>hk_service := s\<rparr>"
  by unfold_locales simp

lemma calls_are: "callG = gate.service_call" "callS = hook.service_call"
  by (simp_all add: fun_eq_iff callG_def gate.service_call_def callS_def hook.service_call_def)

lemma gateway_steps:
  "preserves (gate.since s0) (handle_line env decode line)" "preserves (gate.since s0) (end_of_input env)"
  unfolding handle_line_def handle_auth_def handle_telemetry_def handle_ack_def handle_ping_def end_of_input_def reply_def calls_are
  by (intro gate.from_intros; simp)+

lemma hook_steps:
  "preserves (hook.since s0) (OnConnectAuthenticate cl password)" "preserves (hook.since s0) (OnSessionEstablished env cl)"
  "preserves (hook.since s0) (OnDisconnect env cl)" "preserves (hook.since s0) (handlePublish env wire client topic payload)"
  unfolding OnConnectAuthenticate_def reject_def OnSessionEstablished_def OnDisconnect_def handlePublish_def
    mqtt_handleTelemetry_def mqtt_handleAck_def calls_are
  by (intro hook.from_intros; simp)+

section \<open>Stored devices\<close>

definition stored :: "Service \<Rightarrow> string \<Rightarrow> bool" where
  "stored s d \<longleftrightarrow> (\<exists>device. st_GetDevice d (sv_backend s) = Inr device)"

lemma stored_token: "stored s d \<longleftrightarrow> (\<exists>t. has_token d t (the_store s))"
  by (auto simp: stored_def has_token_def st_GetDevice_def mem_GetDevice_def split: option.split)

lemma stored_steps:
  assumes "steps s s'" "service_ok s" "stored s d"
  shows "stored s' d"
proof -
  obtain t where "has_token d t (the_store s)" using assms(3) by (auto simp: stored_token)
  then have "token_fact.fact d t s" using assms(2) by (simp add: token_fact.fact_def)
  moreover have "service_step u v \<Longrightarrow> token_fact.fact d t u \<Longrightarrow> token_fact.fact d t v" for u v by (rule token_step)
  ultimately have "token_fact.fact d t s'" using steps_fact [OF _ assms(1), of "token_fact.fact d t"] by blast
  then show ?thesis by (auto simp: stored_token token_fact.fact_def)
qed

lemma authenticated_stored: "AuthenticateDevice i t s = Inr d \<Longrightarrow> service_ok s \<Longrightarrow> stored s (dev_ID d)"
  using accepted_iff_token(2) [of s i t d]
  by (auto simp: AuthenticateDevice_def bindE_Inr stored_def split: if_splits)

lemma manager_step_service: "manager_step senv g g' \<Longrightarrow> steps (mg_service g) (mg_service g')"
proof (induction rule: manager_step.induct)
  case (create g env req)
  obtain r s where c: "CreateDeviceWithTenant env [] (sim_name req) (cr_ProductID req) None (cr_Metadata req) (mg_service g) = (r, s)"
    by fastforce
  have "service_step (mg_service g) s"
    using service_step.create_device [of "mg_service g" env] c by (metis changed_def snd_conv)
  moreover have "service_step s (s\<lparr>sv_rands := Suc (sv_rands s)\<rparr>)"
    using service_step.take_id [of s env "''sim''"] by (simp add: changed_def newID_def)
  ultimately show ?case by (cases r) (auto simp: Create_run c Let_def)
qed (auto simp: mg_Connect_def mg_Disconnect_def mg_SendTelemetry_def on_sim_def mg_Remove_def mg_Close_def bindS_def op_apply
    split: sum.split prod.split option.split)

lemma manager_steps_service: "manager_steps senv g g' \<Longrightarrow> steps (mg_service g) (mg_service g')"
  by (induction rule: rtranclp_induct) (auto dest: manager_step_service)

lemma service_manager_steps: "steps (mg_service g) s \<Longrightarrow> manager_steps senv g (g\<lparr>mg_service := s\<rparr>)"
proof (induction rule: rtranclp_induct)
  case (step s s')
  then show ?case using manager_step.service [of "g\<lparr>mg_service := s\<rparr>" s' senv] by (simp add: rtranclp.rtrancl_into_rtrancl)
qed simp

section \<open>The invariant of a node\<close>

definition bindings_ok :: "Service \<Rightarrow> (string \<times> clientBinding) list \<Rightarrow> bool" where
  "bindings_ok s bs \<longleftrightarrow> (\<forall>(i, b) \<in> set bs. stored s (cb_DeviceID b) \<and>
     cb_Routing b = resolveRouting (cb_AccessProfile b) (cb_DeviceID b))"

definition connections_ok :: "Service \<Rightarrow> (string \<times> Connection) list \<Rightarrow> bool" where
  "connections_ok s cs \<longleftrightarrow> (\<forall>(i, c) \<in> set cs. cn_authenticated c \<longrightarrow> stored s (cn_deviceID c))"

definition app_ok :: "SimEnv \<Rightarrow> App \<Rightarrow> bool" where
  "app_ok senv a \<longleftrightarrow> manager_reachable senv (ap_manager (app_api a)) \<and> \<not> ap_replica (app_api a) \<and>
     bindings_ok (app_service a) (app_bindings a) \<and> connections_ok (app_service a) (app_connections a)"

lemma manager_service_ok: "manager_reachable senv g \<Longrightarrow> service_ok (mg_service g)"
  using manager_reachable_ok by (auto simp: manager_ok_def)

lemma tables_later:
  assumes "steps s s'" "service_ok s"
  shows "bindings_ok s bs \<Longrightarrow> bindings_ok s' bs" "connections_ok s cs \<Longrightarrow> connections_ok s' cs"
  using stored_steps [OF assms] by (auto simp: bindings_ok_def connections_ok_def)

lemma steps_service_ok: "steps s s' \<Longrightarrow> service_ok s \<Longrightarrow> service_ok s'"
  by (rule steps_fact [OF service_step_ok])

text \<open>An event keeps the invariant when it takes the manager along its steps and puts only valid entries into the tables.\<close>

lemma app_ok_steps:
  assumes "app_ok senv a" "manager_steps senv (ap_manager (app_api a)) (ap_manager (app_api b))"
    "ap_replica (app_api b) = ap_replica (app_api a)"
    "bindings_ok (app_service b) (app_bindings a) \<Longrightarrow> bindings_ok (app_service b) (app_bindings b)"
    "connections_ok (app_service b) (app_connections a) \<Longrightarrow> connections_ok (app_service b) (app_connections b)"
  shows "app_ok senv b"
proof -
  have later: "steps (app_service a) (app_service b)" by (rule manager_steps_service [OF assms(2)])
  have "service_ok (app_service a)" using assms(1) manager_service_ok unfolding app_ok_def by blast
  then show ?thesis
    using assms(1,3-5) manager_steps_reachable [OF assms(2)] tables_later [OF later] by (simp add: app_ok_def)
qed

lemma app_ok_service:
  assumes "app_ok senv a" "steps (app_service a) s" "app_api b = with_service (\<lambda>_. s) (app_api a)"
    "bindings_ok s (app_bindings a) \<Longrightarrow> bindings_ok s (app_bindings b)"
    "connections_ok s (app_connections a) \<Longrightarrow> connections_ok s (app_connections b)"
  shows "app_ok senv b"
  using service_manager_steps [OF assms(2), of senv] assms(3-5)
  by (intro app_ok_steps [OF assms(1)]) (simp_all add: with_service_def)

section \<open>Logins\<close>

text \<open>Only a login changes the device a connection acts for.\<close>

lemma same_login:
  "preserves (\<lambda>g. gw_authenticated g = l \<and> gw_deviceID g = d) (callG m)"
  "preserves (\<lambda>g. gw_authenticated g = l \<and> gw_deviceID g = d) (reply msg)"
  by (simp_all add: preserves_def callG_def reply_def op_apply split: prod.split)

lemma same_login_other:
  "preserves (\<lambda>g. gw_authenticated g = l \<and> gw_deviceID g = d) (bindS (handle_other env now n m) (\<lambda>_. retS Reading))"
  "preserves (\<lambda>g. gw_authenticated g = l \<and> gw_deviceID g = d) (end_of_input env)"
  unfolding handle_other_def handle_telemetry_def handle_ack_def handle_ping_def end_of_input_def
  by (intro preserves_intros preserves_Let preserves_modS same_login; simp)+

lemma tick_same: "gw_authenticated (tick env g) = gw_authenticated g" "gw_deviceID (tick env g) = gw_deviceID g"
  "AuthenticateDevice i t (gw_service (tick env g)) = AuthenticateDevice i t (gw_service g)"
  by (simp_all add: callG_def nowS_def AuthenticateDevice_def)

lemma same_loginD:
  "gw_authenticated (snd (callG m g)) = gw_authenticated g" "gw_deviceID (snd (callG m g)) = gw_deviceID g"
  "gw_authenticated (snd (reply msg g)) = gw_authenticated g" "gw_deviceID (snd (reply msg g)) = gw_deviceID g"
  by (simp_all add: callG_def reply_def op_apply split: prod.split)

lemma line_login:
  assumes "gw_authenticated (snd (handle_line env decode text g))"
  shows "(gw_authenticated g \<and> gw_deviceID (snd (handle_line env decode text g)) = gw_deviceID g) \<or>
    (\<exists>i t device. AuthenticateDevice i t (gw_service g) = Inr device \<and>
      gw_deviceID (snd (handle_line env decode text g)) = dev_ID device)"
proof (cases "decode text")
  case None
  then show ?thesis using assms by (simp add: handle_line_eq same_loginD tick_same)
next
  case (Some m)
  show ?thesis
  proof (cases "dm_Type m = ''auth''")
    case True
    then show ?thesis
      using assms Some
      by (cases "gw_authenticated g"; cases "AuthenticateDevice (dm_DeviceID m) (dm_Token m) (gw_service g)")
        (auto simp: handle_line_eq handle_auth_again handle_auth_refused handle_auth_accepted tick_same same_loginD)
  next
    case False
    then show ?thesis
      using assms Some preservesD [OF same_login_other(1), of "tick env g" "gw_authenticated g" "gw_deviceID g" env "clock_now env g"
          "int (length text)" m]
      by (cases "gw_authenticated g") (simp_all add: handle_line_eq tick_same same_loginD)
  qed
qed

text \<open>Only a login adds a binding.\<close>

lemma same_bindings:
  "preserves (\<lambda>h. hk_bindings h = bs) (callS m)" "preserves (\<lambda>h. hk_bindings h = bs) reject"
proof -
  show call: "preserves (\<lambda>h. hk_bindings h = bs) (callS m)" for m :: "'a sv"
    by (simp add: preserves_def callS_def split: prod.split)
  show "preserves (\<lambda>h. hk_bindings h = bs) reject"
    unfolding reject_def by (intro preserves_intros) (simp_all add: preserves_def callS_def split: prod.split)
qed

lemma bindings_kept:
  "hk_bindings (snd (OnSessionEstablished env cl h)) = hk_bindings h"
  "hk_bindings (snd (handlePublish env wire client topic payload h)) = hk_bindings h"
proof -
  have "preserves (\<lambda>h'. hk_bindings h' = hk_bindings h) (OnSessionEstablished env cl)"
    "preserves (\<lambda>h'. hk_bindings h' = hk_bindings h) (handlePublish env wire client topic payload)"
    unfolding OnSessionEstablished_def handlePublish_def mqtt_handleTelemetry_def mqtt_handleAck_def
    by (intro preserves_intros preserves_Let same_bindings)+
  then show "hk_bindings (snd (OnSessionEstablished env cl h)) = hk_bindings h"
    "hk_bindings (snd (handlePublish env wire client topic payload h)) = hk_bindings h"
    by (auto dest: preservesD)
qed

lemma disconnect_bindings: "set (hk_bindings (snd (OnDisconnect env cl h))) \<subseteq> set (hk_bindings h)"
  by (auto simp: OnDisconnect_def bindS_def op_apply callS_def UnregisterSession_eq Let_def AList.delete_eq split: option.split)

lemma login_bindings:
  assumes "(i, b) \<in> set (hk_bindings (snd (OnConnectAuthenticate cl password h)))"
  shows "(i, b) \<in> set (hk_bindings h) \<or>
    (\<exists>u t device. AuthenticateDevice u t (hk_service h) = Inr device \<and> cb_DeviceID b = dev_ID device \<and>
      cb_Routing b = resolveRouting (cb_AccessProfile b) (dev_ID device))"
proof -
  have rejected: "hk_bindings (snd (reject x)) = hk_bindings x" for x
    using preservesD [OF same_bindings(2), of x "hk_bindings x"] by simp
  have call: "tryS (callS (readS f)) k x = k (f (hk_service x)) x" for f :: "Service \<Rightarrow> 'x res" and k :: "'x res \<Rightarrow> bool hk" and x
    by (simp add: tryS_def callS_def op_apply)
  have counted: "hk_bindings (snd (bindS (callS RecordConnectionAccepted) (\<lambda>_. bindS (callS RecordMQTTConnectionAccepted) (\<lambda>_. retS True)) x)) =
      hk_bindings x" for x
    by (simp add: bindS_def callS_def op_apply RecordConnectionAccepted_def RecordMQTTConnectionAccepted_def count_def)
  show ?thesis
    using assms
    by (auto simp: OnConnectAuthenticate_def Let_def call rejected gate_bind(1) bindS_prim counted op_apply
        dest!: set_update_cases split: if_splits sum.splits) blast
qed

section \<open>Every event\<close>

lemma updated_ok:
  "connections_ok s cs \<Longrightarrow> (cn_authenticated c \<longrightarrow> stored s (cn_deviceID c)) \<Longrightarrow> connections_ok s (AList.update i c cs)"
  by (auto simp: connections_ok_def dest!: set_update_cases)

lemma connection_ok: "connections_ok s cs \<Longrightarrow> map_of cs i = Some c \<Longrightarrow> cn_authenticated c \<Longrightarrow> stored s (cn_deviceID c)"
  by (auto simp: connections_ok_def dest: map_of_SomeD)

lemma app_service_ok: "app_ok senv a \<Longrightarrow> service_ok (app_service a)"
  using manager_service_ok unfolding app_ok_def by blast

lemma turn_ok:
  assumes "app_ok senv a" "map_of (app_connections a) i = Some c"
    and "preserves (gate.since (app_service a)) m"
    and login: "gw_authenticated (snd (m (gate_of a c))) \<Longrightarrow>
      (cn_authenticated c \<and> gw_deviceID (snd (m (gate_of a c))) = cn_deviceID c) \<or>
      (\<exists>u t device. AuthenticateDevice u t (app_service a) = Inr device \<and> gw_deviceID (snd (m (gate_of a c))) = dev_ID device)"
  shows "app_ok senv (connection_turn m i c a)"
proof -
  obtain r g where m: "m (gate_of a c) = (r, g)" by fastforce
  have steps: "steps (app_service a) (gw_service g)"
    using gate.run_steps [of "gate_of a c" m] assms(3) m by (simp add: gate_of_def)
  have "stored (app_service a) (gw_deviceID g)" if "gw_authenticated g"
    using login that m connection_ok [OF _ assms(2)] authenticated_stored [OF _ app_service_ok [OF assms(1)]] assms(1)
    by (auto simp: app_ok_def)
  then have "gw_authenticated g \<longrightarrow> stored (gw_service g) (gw_deviceID g)"
    using stored_steps [OF steps app_service_ok [OF assms(1)]] by blast
  then show ?thesis
    by (intro app_ok_service [OF assms(1) steps])
      (simp_all add: connection_turn_def put_gate_def m Let_def updated_ok)
qed

lemma hook_ok:
  assumes "app_ok senv a" "preserves (hook.since (app_service a)) m"
    and "\<And>i b. (i, b) \<in> set (hk_bindings (snd (m (hook_of a)))) \<Longrightarrow> (i, b) \<in> set (app_bindings a) \<or>
      (\<exists>u t device. AuthenticateDevice u t (app_service a) = Inr device \<and> cb_DeviceID b = dev_ID device \<and>
        cb_Routing b = resolveRouting (cb_AccessProfile b) (dev_ID device))"
  shows "app_ok senv (hook_turn m a)"
proof -
  let ?h = "snd (m (hook_of a))"
  have steps: "steps (app_service a) (hk_service ?h)"
    using hook.run_steps [of "hook_of a" m] assms(2) by (simp add: hook_of_def)
  have "bindings_ok (hk_service ?h) (hk_bindings ?h)" if "bindings_ok (hk_service ?h) (app_bindings a)"
    unfolding bindings_ok_def
  proof clarify
    fix i b assume b: "(i, b) \<in> set (hk_bindings ?h)"
    show "stored (hk_service ?h) (cb_DeviceID b) \<and> cb_Routing b = resolveRouting (cb_AccessProfile b) (cb_DeviceID b)"
    proof (cases "(i, b) \<in> set (app_bindings a)")
      case True
      then show ?thesis using that by (auto simp: bindings_ok_def)
    next
      case False
      then show ?thesis
        using assms(3) [OF b] authenticated_stored [OF _ app_service_ok [OF assms(1)]]
          stored_steps [OF steps app_service_ok [OF assms(1)]] by auto
    qed
  qed
  then show ?thesis by (intro app_ok_service [OF assms(1) steps]) (simp_all add: hook_turn_def Let_def)
qed

lemma accept_ok: "app_ok senv a \<Longrightarrow> app_ok senv (accept env a)"
proof -
  assume a: "app_ok senv a"
  obtain r s where s: "bindS RecordConnectionAccepted (\<lambda>_. newID env ''conn'') (app_service a) = (r, s)" by fastforce
  have "steps (app_service a) (changed RecordConnectionAccepted (app_service a))" by (simp add: service_step.record_connection r_into_rtranclp)
  moreover have "s = changed (newID env ''conn'') (changed RecordConnectionAccepted (app_service a))"
    using s by (simp add: bindS_def RecordConnectionAccepted_def count_def op_apply changed_def)
  ultimately have steps: "steps (app_service a) s" by (metis rtranclp.rtrancl_into_rtrancl service_step.take_id)
  show ?thesis
    by (intro app_ok_service [OF a steps])
      (simp_all add: accept_def Let_def put_gate_def accept_connection_def s handleConnection_def updated_ok)
qed

lemma session_ok:
  assumes "app_ok senv a" "map_of (app_connections a) i = Some c"
  shows "app_ok senv (put_session i c cs a)"
  using assms(1) connection_ok [OF _ assms(2)] by (simp add: app_ok_def put_session_def updated_ok)

lemma put_manager_ok:
  assumes "app_ok senv a" "manager_step senv (ap_manager (app_api a)) g"
  shows "app_ok senv (put_manager g a)"
  using assms(2) by (intro app_ok_steps [OF assms(1)]) (simp_all add: put_manager_def r_into_rtranclp)

lemma app_step_ok:
  assumes "app_step asset env wire decode a b" "app_ok (ae_senv env) a"
  shows "app_ok (ae_senv env) b"
  using assms
proof (induction rule: app_step.induct)
  case (request a r)
  obtain re a' where run: "serve asset env r (app_api a) = (re, a')" by fastforce
  have primary: "rq_Path r = ''/_ha/snapshot'' \<longrightarrow> \<not> ap_replica (app_api a)" using request.prems by (simp add: app_ok_def)
  obtain b where b: "manager_steps (ae_senv env) (ap_manager (app_api a)) (ap_manager b)"
      "a' = with_service (changed (RecordHTTPRequest (rs_Status re))) b" "ap_replica a' = ap_replica (app_api a)"
    using request_effect [OF run primary] by auto
  have "manager_step (ae_senv env) (ap_manager b) (ap_manager a')"
    using manager_step.service [OF service_step.record_http, of "ae_senv env" "ap_manager b" "rs_Status re"]
    by (simp add: b(2) with_service_def)
  with b(1) have "manager_steps (ae_senv env) (ap_manager (app_api a)) (ap_manager a')" by (rule rtranclp.rtrancl_into_rtrancl)
  then show ?case using run b(3) by (intro app_ok_steps [OF request.prems]) simp_all
next
  case (line a i c l)
  show ?case
    using line_login [of "ae_env env" decode l "gate_of a c"]
    by (intro turn_ok [OF line.prems line.hyps(1)]) (auto simp: gateway_steps gate_of_def)
next
  case (end_input a i c)
  have "gw_authenticated (snd (end_of_input (ae_env env) (gate_of a c))) = cn_authenticated c \<and>
      gw_deviceID (snd (end_of_input (ae_env env) (gate_of a c))) = cn_deviceID c"
    using preservesD [OF same_login_other(2), of "gate_of a c" "cn_authenticated c" "cn_deviceID c"] by (simp add: gate_of_def)
  then show ?case by (intro turn_ok [OF end_input.prems end_input.hyps(1)]) (simp_all add: gateway_steps)
next
  case (mqtt_login a cl password)
  show ?case
    using login_bindings [of _ _ cl password "hook_of a"]
    by (intro hook_ok [OF mqtt_login.prems]) (auto simp: hook_steps hook_of_def)
next
  case (mqtt_end a cl)
  show ?case
    using disconnect_bindings [of "ae_env env" cl "hook_of a"]
    by (intro hook_ok [OF mqtt_end.prems]) (auto simp: hook_steps hook_of_def)
next
  case (mqtt_session a cl)
  show ?case by (intro hook_ok [OF mqtt_session.prems] hook_steps) (simp add: bindings_kept hook_of_def)
next
  case (mqtt_publish a client topic payload)
  show ?case by (intro hook_ok [OF mqtt_publish.prems] hook_steps) (simp add: bindings_kept hook_of_def)
next
  case (stop a)
  then show ?case
    using put_manager_ok [OF stop manager_step.close] by (simp add: shutdown_def app_ok_def)
qed (simp_all add: accept_ok session_ok put_manager_ok manager_step.intros)

section \<open>The start\<close>

lemma app_New_ok:
  assumes "app_New env cfg store_file setup_file = Inr a" "\<not> IsStandby cfg"
    "\<And>data ps. store_file = Inr (Some data) \<Longrightarrow> fe_unmarshal (env_fs (ae_env env)) data = Inr ps \<Longrightarrow>
       \<forall>s. store_ok (mem_Restore (ps_Snapshot ps) s)"
  shows "app_ok senv a" "ap_cfg (app_api a) = cfg" "app_bindings a = []" "app_connections a = []"
proof -
  obtain storage m where new: "newStorage (env_fs (ae_env env)) (cf_StoreBackend cfg) (cf_StorePath cfg) (cf_TelemetryRetention cfg) store_file = Inr storage"
    and a: "a = (let options = configureReplication cfg (is_file storage); service = NewService (ae_env env) (hooked_store options storage) in
      \<lparr>app_api = \<lparr>ap_cfg = cfg, ap_manager = sim_NewManager service, ap_simulators = True,
        ap_setup = Some (hooked_setup options m), ap_replica = ro_applier options\<rparr>,
       app_bindings = [], app_connections = [], app_open = []\<rparr>)"
    using assms(1) by (auto simp: app_New_def bindE_Inr Let_def)
  have "backend_ok storage" by (rule newStorage_ok [OF new assms(3)])
  then have "backend_ok (hooked_store options storage)" for options
    by (cases storage) (simp_all add: hooked_store_def backend_ok_def SetAfterPersistHook_def op_apply)
  then have "manager_reachable senv (sim_NewManager (NewService (ae_env env) (hooked_store options storage)))" for options
    by (intro manager_reachable.start reachable.start)
  moreover have "\<not> ro_applier (configureReplication cfg (is_file storage))"
    using assms(2) by (simp add: configureReplication_def Let_def)
  ultimately show "app_ok senv a" by (simp add: a Let_def app_ok_def bindings_ok_def connections_ok_def)
  show "ap_cfg (app_api a) = cfg" "app_bindings a = []" "app_connections a = []" by (simp_all add: a Let_def)
qed

end
