(* ===== verification/AppProperties.thy ===== *)
theory AppProperties
  imports AppFacts ApiProperties
begin

text \<open>
  The property of a whole node, with a node of the demo configuration as its witness.
\<close>

lemma app_steps_ok: "(app_step asset env wire decode)\<^sup>*\<^sup>* a b \<Longrightarrow> app_ok (ae_senv env) a \<Longrightarrow> app_ok (ae_senv env) b"
  by (induction rule: rtranclp_induct) (auto intro: app_step_ok)

lemma manager_reachable_service: "manager_reachable senv g \<Longrightarrow> reachable (mg_service g)"
proof (induction rule: manager_reachable.induct)
  case (step g g')
  show ?case by (rule reachable_steps [OF step.IH manager_step_service [OF step.hyps(2)]])
qed (simp add: sim_NewManager_def)

text \<open>C39: A node as a whole. From the start of a primary, over whatever store file that can be decoded to a valid store, and
  whatever then arrives over HTTP, TCP and MQTT, in any order and with any failures, with simulated devices
  running and after the shutdown: the service is in a state its own operations lead to and satisfies its
  invariant, and so do the simulated devices; every client the broker has bound and every connection that has
  logged in acts for a stored device, and the topics of a client are those of its device.\<close>

theorem node_invariant:
  assumes "app_New env cfg store_file setup_file = Inr a0" "\<not> IsStandby cfg"
    "\<And>data ps. store_file = Inr (Some data) \<Longrightarrow> fe_unmarshal (env_fs (ae_env env)) data = Inr ps \<Longrightarrow>
       \<forall>s. store_ok (mem_Restore (ps_Snapshot ps) s)"
    and "(app_step asset env wire decode)\<^sup>*\<^sup>* a0 a"
  shows "reachable (app_service a) \<and> service_ok (app_service a) \<and>
    (\<forall>(i, sim) \<in> set (mg_simulators (ap_manager (app_api a))). sim_ok sim) \<and>
    (\<forall>i b. map_of (app_bindings a) i = Some b \<longrightarrow>
      (\<exists>device. st_GetDevice (cb_DeviceID b) (sv_backend (app_service a)) = Inr device) \<and>
      cb_Routing b = resolveRouting (cb_AccessProfile b) (cb_DeviceID b)) \<and>
    (\<forall>i c. map_of (app_connections a) i = Some c \<and> cn_authenticated c \<longrightarrow>
      (\<exists>device. st_GetDevice (cn_deviceID c) (sv_backend (app_service a)) = Inr device))"
proof -
  have ok: "app_ok (ae_senv env) a" by (rule app_steps_ok [OF assms(4) app_New_ok(1) [OF assms(1-3)]])
  then have m: "manager_reachable (ae_senv env) (ap_manager (app_api a))" by (simp add: app_ok_def)
  have "bindings_ok (app_service a) (app_bindings a)" "connections_ok (app_service a) (app_connections a)"
    using ok by (simp_all add: app_ok_def)
  then show ?thesis
    using manager_reachable_service [OF m] manager_service_ok [OF m] manager_reachable_ok [OF m]
    by (auto simp: bindings_ok_def connections_ok_def stored_def manager_ok_def instance_ok_def dest!: map_of_SomeD)
qed

definition demo_node :: Config where
  "demo_node = demo_primary\<lparr>cf_NodeRole := ''primary'', cf_StoreBackend := ''memory'', cf_SetupStatePath := ''setup.json''\<rparr>"

definition demo_wire :: WireEnv where
  "demo_wire = \<lparr>we_text = ae_text demo_api_env, we_map = (\<lambda>_. None), we_ack = (\<lambda>_. None)\<rparr>"

theorem node_invariant_witness:
  "\<exists>a0 a. app_New demo_api_env demo_node (Inr None) (Inr None) = Inr a0 \<and>
    app_step (\<lambda>_. False) demo_api_env demo_wire (\<lambda>_. None) a0 a \<and> service_ok (app_service a)"
proof -
  have eval: "to_lower (trim_space ''memory'') = ''memory''" "trim_space ''setup.json'' = ''setup.json''"
    "normalizeNodeRole ''primary'' = ''primary''" by code_simp+
  then have primary: "\<not> IsStandby demo_node" by (simp add: IsStandby_def demo_node_def)
  obtain a0 where a0: "app_New demo_api_env demo_node (Inr None) (Inr None) = Inr a0"
    using eval by (simp add: app_New_def newStorage_def demo_node_def setup_NewManager_def setup_load_def op_apply Let_def)
  have step: "app_step (\<lambda>_. False) demo_api_env demo_wire (\<lambda>_. None) a0
      (a0\<lparr>app_api := snd (serve (\<lambda>_. False) demo_api_env (demo_request ''GET'' ''/metrics'') (app_api a0))\<rparr>)"
    by (rule app_step.request)
  then have steps: "(app_step (\<lambda>_. False) demo_api_env demo_wire (\<lambda>_. None))\<^sup>*\<^sup>* a0
      (a0\<lparr>app_api := snd (serve (\<lambda>_. False) demo_api_env (demo_request ''GET'' ''/metrics'') (app_api a0))\<rparr>)"
    by (rule r_into_rtranclp)
  show ?thesis using node_invariant [OF a0 primary _ steps] a0 step by auto
qed

end
