(* ===== verification/LoadGen.thy ===== *)
theory LoadGen
  imports Mqtt Ingest Replication
begin

text \<open>
  The load generator (cmd/mvp-loadgen/main.go): it provisions devices over the HTTP API and publishes
  telemetry for them over HTTP, TCP or MQTT, many devices at a time.

  \<^item> \<open>LoadEnv\<close> is what one device meets: the outcome of every dial, deadline, write, request and reading, of
    \<open>json.Marshal\<close> and of the clock. \<open>le_input\<close> is what the peer sends until the read deadline.
  \<^item> A run of a device gives the list of its calls of \<open>recordSuccess\<close> and \<open>recordFailure\<close>. The counters are
    atomic, so the runs of all devices give some interleaving of these lists.
  \<^item> Packets are lists of \<open>8 word\<close>; the text functions give \<open>string\<close>, which \<open>byte_of\<close> turns into bytes.
  \<^item> Not modelled: the flags, the progress log, the delays between messages, the limit on the devices that run at
    a time, and the report on standard output.
\<close>

unbundle bit_operations_syntax

section \<open>Configuration\<close>

record LoadConfig =
  lc_mode :: string
  lc_baseURL :: string
  lc_gatewayAddr :: string
  lc_mqttAddr :: string
  lc_productID :: string
  lc_topicTemplate :: string
  lc_devices :: int
  lc_messages :: int
  lc_concurrency :: int

definition validateConfig :: "LoadConfig \<Rightarrow> string + unit" where
  "validateConfig cfg =
     (if to_lower (trim_space (lc_mode cfg)) \<notin> {''http'', ''tcp'', ''mqtt''}
      then Inl (''unsupported mode '' @ lc_mode cfg)
      else if lc_devices cfg \<le> 0 then Inl ''devices must be > 0''
      else if lc_messages cfg \<le> 0 then Inl ''messages must be > 0''
      else if lc_concurrency cfg \<le> 0 then Inl ''concurrency must be > 0''
      else Inr ())"

definition modeTransport :: "string \<Rightarrow> string" where
  "modeTransport m = (if m = ''tcp'' then ''tcp'' else if m = ''mqtt'' then ''mqtt'' else ''http'')"

definition modeProtocol :: "string \<Rightarrow> string" where
  "modeProtocol m = (if m = ''tcp'' then ''tcp_json'' else if m = ''mqtt'' then ''mqtt_json'' else ''http_json'')"

definition modeIngest :: "string \<Rightarrow> string" where
  "modeIngest m = (if m = ''tcp'' then ''gateway_tcp'' else if m = ''mqtt'' then ''broker_mqtt'' else ''http_push'')"

definition mqttPublishTopic :: "string \<Rightarrow> string \<Rightarrow> string" where
  "mqttPublishTopic template deviceID =
     (let topic = trim_space template;
          topic = (if topic = [] then ''devices/{device_id}/up'' else topic);
          topic = replace_all ''{device_id}'' deviceID topic;
          topic = (if \<exists>c \<in> set topic. c \<in> set ''+#'' then ''devices/'' @ deviceID @ ''/up'' else topic) in
      if \<not> has_suffix topic ''/up'' then trim_right CHR ''/'' topic @ ''/up'' else topic)"

section \<open>Provisioning\<close>

record deviceCredential =
  dc_ID :: string
  dc_Token :: string

text \<open>
  \<open>doJSON\<close>: \<open>transport\<close> is the HTTP client with the request it makes, the status and the body or an error;
  \<open>decode\<close> is \<open>json.Decoder.Decode\<close> into the target.
\<close>

definition doJSON :: "(anymap \<Rightarrow> string option) \<Rightarrow> (string \<Rightarrow> string \<Rightarrow> string \<Rightarrow> string + (int \<times> string)) \<Rightarrow> (string \<Rightarrow> string + 'a) \<Rightarrow>
    string \<Rightarrow> string \<Rightarrow> anymap \<Rightarrow> string + 'a" where
  "doJSON marshal transport decode verb target payload =
     (case marshal payload of
        None \<Rightarrow> Inl ''json: unsupported value''
      | Some data \<Rightarrow> bindE (transport verb target data) (\<lambda>(status, body).
          if status \<ge> 300 then
            Inl (verb @ '' '' @ target @ '' returned '' @ show_int status @ '': '' @ trim_space body)
          else decode body))"

definition product_body :: "LoadConfig \<Rightarrow> time \<Rightarrow> anymap" where
  "product_body cfg now = Some
     [(''name'', AStr (''loadgen-'' @ lc_mode cfg @ ''-'' @ show_int (now div 1000000000 - unix_epoch))),
      (''description'', AStr ''autogenerated benchmark product''),
      (''access_profile'', AMap [(''transport'', AStr (modeTransport (lc_mode cfg))),
        (''protocol'', AStr (modeProtocol (lc_mode cfg))), (''ingest_mode'', AStr (modeIngest (lc_mode cfg))),
        (''payload_format'', AStr ''json_values''), (''auth_mode'', AStr ''token''),
        (''topic'', AStr (mqttPublishTopic (lc_topicTemplate cfg) ''{device_id}''))]),
      (''thing_model'', AMap [(''properties'', ASlice
        [AMap [(''identifier'', AStr ''temperature''), (''name'', AStr ''Temperature''), (''data_type'', AStr ''float''), (''access_mode'', AStr ''r'')],
         AMap [(''identifier'', AStr ''humidity''), (''name'', AStr ''Humidity''), (''data_type'', AStr ''float''), (''access_mode'', AStr ''r'')]])])]"

text \<open>\<open>post\<close> is \<open>doJSON\<close> with the method POST, for a path below the base URL.\<close>

definition ensureProduct :: "(string \<Rightarrow> anymap \<Rightarrow> string + string) \<Rightarrow> time \<Rightarrow> LoadConfig \<Rightarrow> string + string" where
  "ensureProduct post now cfg =
     (if trim_space (lc_productID cfg) \<noteq> [] then Inr (trim_space (lc_productID cfg))
      else bindE (post (trim_right CHR ''/'' (lc_baseURL cfg) @ ''/api/v1/products'') (product_body cfg now)) (\<lambda>newid.
        if newid = [] then Inl ''product creation returned empty id'' else Inr newid))"

definition pad6 :: "nat \<Rightarrow> string" where
  "pad6 n = (let s = show_int (int n) in replicate (6 - length s) CHR ''0'' @ s)"

definition device_body :: "LoadConfig \<Rightarrow> string \<Rightarrow> nat \<Rightarrow> anymap" where
  "device_body cfg productID index = Some
     [(''name'', AStr (lc_mode cfg @ ''-load-'' @ pad6 index)), (''product_id'', AStr productID),
      (''tags'', AMap [(''source'', AStr ''loadgen''), (''mode'', AStr (lc_mode cfg))])]"

definition provisionDevices :: "(string \<Rightarrow> anymap \<Rightarrow> nat \<Rightarrow> string + deviceCredential) \<Rightarrow> LoadConfig \<Rightarrow> string \<Rightarrow>
    string + deviceCredential list" where
  "provisionDevices post cfg productID =
     mapE (\<lambda>index. bindE (post (trim_right CHR ''/'' (lc_baseURL cfg) @ ''/api/v1/devices'') (device_body cfg productID index) index)
       (\<lambda>device. if dc_ID device = [] \<or> dc_Token device = []
         then Inl ''device provisioning returned incomplete credentials'' else Inr device))
     [0..<nat (lc_devices cfg)]"

section \<open>Statistics\<close>

record loadStats =
  ls_sent :: int
  ls_failed :: int
  ls_bytes :: int
  ls_latencyNanos :: int

datatype load_event = Success int int | Failure int

definition recordSuccess :: "int \<Rightarrow> int \<Rightarrow> loadStats \<Rightarrow> loadStats" where
  "recordSuccess bytes latency st = st\<lparr>ls_sent := wrap64 (ls_sent st + 1), ls_bytes := wrap64 (ls_bytes st + bytes),
     ls_latencyNanos := wrap64 (ls_latencyNanos st + latency)\<rparr>"

definition recordFailure :: "int \<Rightarrow> loadStats \<Rightarrow> loadStats" where
  "recordFailure n st = st\<lparr>ls_failed := wrap64 (ls_failed st + n)\<rparr>"

fun record_event :: "load_event \<Rightarrow> loadStats \<Rightarrow> loadStats" where
  "record_event (Success bytes latency) = recordSuccess bytes latency"
| "record_event (Failure n) = recordFailure n"

record LoadEnv =
  le_marshal :: "anymap \<Rightarrow> string option"
  le_request :: "string \<Rightarrow> bool"
  le_status :: "string \<Rightarrow> string \<Rightarrow> nat \<Rightarrow> int option"
  le_latency :: "nat \<Rightarrow> int"
  le_dial :: "string \<Rightarrow> bool"
  le_login_deadline :: bool
  le_login :: "8 word list \<Rightarrow> bool"
  le_read_deadline :: bool
  le_input :: "8 word list"
  le_deadline :: "nat \<Rightarrow> bool"
  le_write :: "nat \<Rightarrow> 8 word list \<Rightarrow> bool"

definition sample :: "nat \<Rightarrow> goany" where
  "sample index = AMap [(''temperature'', AF64 (f64_add (Fin 20) (float64_of_int (int index mod 15)))),
     (''humidity'', AInt KInt (40 + int index mod 30))]"

section \<open>HTTP\<close>

text \<open>\<open>url.PathEscape\<close>.\<close>

definition path_char :: "char \<Rightarrow> bool" where
  "path_char c \<longleftrightarrow> c \<in> set ''abcdefghijklmnopqrstuvwxyzABCDEFGHIJKLMNOPQRSTUVWXYZ0123456789-_.~$&+=:@''"

definition upper_hex :: "nat \<Rightarrow> char" where
  "upper_hex n = ''0123456789ABCDEF'' ! n"

definition PathEscape :: "string \<Rightarrow> string" where
  "PathEscape s = concat (map (\<lambda>c. if path_char c then [c]
     else [CHR ''%'', upper_hex (of_char c div 16), upper_hex (of_char c mod 16)]) s)"

definition http_turn :: "LoadEnv \<Rightarrow> LoadConfig \<Rightarrow> deviceCredential \<Rightarrow> nat \<Rightarrow> load_event" where
  "http_turn env cfg device index =
     (let target = trim_right CHR ''/'' (lc_baseURL cfg) @ ''/api/v1/ingest/http/'' @ PathEscape (dc_ID device) in
      case le_marshal env (Some [(''token'', AStr (dc_Token device)), (''values'', sample index)]) of
        None \<Rightarrow> Failure 1
      | Some data \<Rightarrow>
          if \<not> le_request env target then Failure 1
          else (case le_status env target data index of
              None \<Rightarrow> Failure 1
            | Some status \<Rightarrow> if status \<noteq> 202 then Failure 1 else Success (int (length data)) (le_latency env index)))"

definition runHTTPDevice :: "LoadEnv \<Rightarrow> LoadConfig \<Rightarrow> deviceCredential \<Rightarrow> load_event list" where
  "runHTTPDevice env cfg device = map (http_turn env cfg device) [0..<nat (lc_messages cfg)]"

section \<open>TCP\<close>

text \<open>
  The publishing loop, the same in \<open>runTCPDevice\<close> and \<open>runMQTTDevice\<close> but for the message and for how its text
  is put on the wire; the last argument is what is left of the messages.
\<close>

fun publish_loop :: "LoadEnv \<Rightarrow> (nat \<Rightarrow> anymap) \<Rightarrow> (string \<Rightarrow> 8 word list) \<Rightarrow> nat \<Rightarrow> nat \<Rightarrow> load_event list" where
  "publish_loop env message wire index 0 = []"
| "publish_loop env message wire index (Suc rest) =
     (case le_marshal env (message index) of
        None \<Rightarrow> Failure 1 # publish_loop env message wire (Suc index) rest
      | Some data \<Rightarrow>
          if \<not> le_deadline env index then Failure 1 # publish_loop env message wire (Suc index) rest
          else if \<not> le_write env index (wire data) then [Failure (int (Suc rest))]
          else Success (int (length data)) (le_latency env index) # publish_loop env message wire (Suc index) rest)"

definition bytes_of :: "string \<Rightarrow> 8 word list" where
  "bytes_of s = map byte_of s"

definition tcp_line :: "string \<Rightarrow> 8 word list" where
  "tcp_line data = bytes_of (data @ [CHR 0x0A])"

definition writeTCPLine :: "LoadEnv \<Rightarrow> anymap \<Rightarrow> bool" where
  "writeTCPLine env payload = (case le_marshal env payload of None \<Rightarrow> False | Some data \<Rightarrow> le_login env (tcp_line data))"

text \<open>\<open>ReadBytes\<close> fails when the input ends before the delimiter.\<close>

definition readTCPLine :: "LoadEnv \<Rightarrow> 8 word list option" where
  "readTCPLine env =
     (if \<not> le_read_deadline env \<or> 10 \<notin> set (le_input env) then None
      else Some (takeWhile (\<lambda>b. b \<noteq> 10) (le_input env) @ [10]))"

definition runTCPDevice :: "LoadEnv \<Rightarrow> LoadConfig \<Rightarrow> deviceCredential \<Rightarrow> load_event list" where
  "runTCPDevice env cfg device =
     (if \<not> le_dial env (lc_gatewayAddr cfg) then [Failure (lc_messages cfg)]
      else if \<not> writeTCPLine env (Some [(''type'', AStr ''auth''), (''device_id'', AStr (dc_ID device)), (''token'', AStr (dc_Token device))])
      then [Failure (lc_messages cfg)]
      else if readTCPLine env = None then [Failure (lc_messages cfg)]
      else publish_loop env (\<lambda>index. Some [(''type'', AStr ''telemetry''), (''values'', sample index)]) tcp_line
        0 (nat (lc_messages cfg)))"

section \<open>MQTT packets\<close>

definition writeMQTTString :: "string \<Rightarrow> 8 word list" where
  "writeMQTTString value = [word_of_nat (length value div 2 ^ 8), word_of_nat (length value)] @ bytes_of value"

fun encodeMQTTRemainingLength :: "nat \<Rightarrow> 8 word list" where
  "encodeMQTTRemainingLength n =
     (let digit = word_of_nat (n mod 128); rest = n div 128 in
      if rest > 0 then (digit OR 0x80) # encodeMQTTRemainingLength rest else [digit])"

declare encodeMQTTRemainingLength.simps [simp del]

definition buildMQTTConnectPacket :: "string \<Rightarrow> string \<Rightarrow> string \<Rightarrow> 8 word list" where
  "buildMQTTConnectPacket clientID username password =
     (let variable = writeMQTTString ''MQTT'' @ [0x04, 0xC2, 0x00, 0x3C] @ writeMQTTString clientID @
            writeMQTTString username @ writeMQTTString password in
      0x10 # encodeMQTTRemainingLength (length variable) @ variable)"

definition buildMQTTPublishPacket :: "string \<Rightarrow> 8 word list \<Rightarrow> 8 word list" where
  "buildMQTTPublishPacket topic payload =
     (let variable = writeMQTTString topic @ payload in
      0x30 # encodeMQTTRemainingLength (length variable) @ variable)"

text \<open>The loop of \<open>readMQTTRemainingLength\<close>, with what it has not read.\<close>

fun read_length_loop :: "nat \<Rightarrow> nat \<Rightarrow> 8 word list \<Rightarrow> string + (nat \<times> 8 word list)" where
  "read_length_loop multiplier value [] = Inl ''EOF''"
| "read_length_loop multiplier value (b # input) =
     (let value = value + unat (b AND 127) * multiplier; multiplier = multiplier * 128 in
      if b AND 128 = 0 then Inr (value, input)
      else if multiplier > 128 * 128 * 128 then Inl ''invalid mqtt remaining length''
      else read_length_loop multiplier value input)"

definition readMQTTRemainingLength :: "8 word list \<Rightarrow> string + (nat \<times> 8 word list)" where
  "readMQTTRemainingLength input = read_length_loop 1 0 input"

definition readMQTTPacket :: "8 word list \<Rightarrow> string + (8 word \<times> 8 word list \<times> 8 word list)" where
  "readMQTTPacket input =
     (case input of
        [] \<Rightarrow> Inl ''EOF''
      | header # input \<Rightarrow> bindE (readMQTTRemainingLength input) (\<lambda>(remaining, input).
          if length input < remaining then Inl ''unexpected EOF''
          else Inr (drop_bit 4 header, take remaining input, drop remaining input)))"

section \<open>MQTT\<close>

definition runMQTTDevice :: "LoadEnv \<Rightarrow> LoadConfig \<Rightarrow> deviceCredential \<Rightarrow> load_event list" where
  "runMQTTDevice env cfg device =
     (if \<not> le_dial env (lc_mqttAddr cfg) then [Failure (lc_messages cfg)]
      else if \<not> le_login_deadline env then [Failure (lc_messages cfg)]
      else if \<not> le_login env (buildMQTTConnectPacket (''loadgen-'' @ dc_ID device) (dc_ID device) (dc_Token device))
      then [Failure (lc_messages cfg)]
      else if \<not> le_read_deadline env then [Failure (lc_messages cfg)]
      else (case readMQTTPacket (le_input env) of
          Inl e \<Rightarrow> [Failure (lc_messages cfg)]
        | Inr (packetType, payload, _) \<Rightarrow>
            if packetType \<noteq> 2 \<or> length payload < 2 \<or> payload ! 1 \<noteq> 0 then [Failure (lc_messages cfg)]
            else publish_loop env (\<lambda>index. Some [(''values'', sample index)])
              (\<lambda>data. buildMQTTPublishPacket (mqttPublishTopic (lc_topicTemplate cfg) (dc_ID device)) (bytes_of data))
              0 (nat (lc_messages cfg))))"

section \<open>The load\<close>

definition device_run :: "LoadEnv \<Rightarrow> LoadConfig \<Rightarrow> deviceCredential \<Rightarrow> load_event list" where
  "device_run env cfg device =
     (if lc_mode cfg = ''http'' then runHTTPDevice env cfg device
      else if lc_mode cfg = ''tcp'' then runTCPDevice env cfg device
      else if lc_mode cfg = ''mqtt'' then runMQTTDevice env cfg device else [])"

fun interleavings :: "'a list list \<Rightarrow> 'a list set" where
  "interleavings [] = {[]}"
| "interleavings (xs # xss) = (\<Union>ys \<in> interleavings xss. shuffles xs ys)"

text \<open>The statistics \<open>runLoad\<close> may leave; \<open>envs\<close> is what each device meets.\<close>

definition runLoad :: "(deviceCredential \<Rightarrow> LoadEnv) \<Rightarrow> LoadConfig \<Rightarrow> deviceCredential list \<Rightarrow> loadStats \<Rightarrow> loadStats set" where
  "runLoad envs cfg devices st =
     (\<lambda>events. fold record_event events st) ` interleavings (map (\<lambda>device. device_run (envs device) cfg device) devices)"

section \<open>The summary\<close>

record summary =
  sum_Mode :: string
  sum_Devices :: int
  sum_MessagesPerDevice :: int
  sum_TotalMessages :: int
  sum_SuccessfulMessages :: int
  sum_FailedMessages :: int
  sum_ApproxBytes :: int
  sum_DurationSeconds :: f64
  sum_MessagesPerSecond :: f64
  sum_AverageLatencyMS :: f64

text \<open>Division of finite floats by one that is not zero.\<close>

definition f64_div :: "f64 \<Rightarrow> f64 \<Rightarrow> f64" where
  "f64_div x y = round64 (f64_val x / f64_val y)"

definition duration_Seconds :: "int \<Rightarrow> f64" where
  "duration_Seconds d = f64_add (float64_of_int (d div 1000000000)) (f64_div (float64_of_int (d mod 1000000000)) (Fin 1000000000))"

text \<open>The duration is not negative; the counters are non-negative unless they wrapped around.\<close>

definition buildSummary :: "LoadConfig \<Rightarrow> loadStats \<Rightarrow> int \<Rightarrow> summary" where
  "buildSummary cfg st d =
     (let success = ls_sent st; secs = duration_Seconds d; secs = (if f64_le secs (Fin 0) then Fin 1 else secs) in
      \<lparr>sum_Mode = lc_mode cfg, sum_Devices = lc_devices cfg, sum_MessagesPerDevice = lc_messages cfg,
       sum_TotalMessages = wrap64 (lc_devices cfg * lc_messages cfg), sum_SuccessfulMessages = success,
       sum_FailedMessages = ls_failed st, sum_ApproxBytes = ls_bytes st, sum_DurationSeconds = secs,
       sum_MessagesPerSecond = f64_div (float64_of_int success) secs,
       sum_AverageLatencyMS = (if success > 0
         then f64_div (f64_div (float64_of_int (ls_latencyNanos st)) (float64_of_int success)) (Fin 1000000) else Fin 0)\<rparr>)"

section \<open>The program\<close>

text \<open>
  \<open>main\<close>: \<open>Inl\<close> is a fatal error with its message. Otherwise the report and the exit status, for every order
  in which the devices may run; \<open>d\<close> is the time the load took.
\<close>

definition load_main :: "(string \<Rightarrow> anymap \<Rightarrow> string + string) \<Rightarrow> time \<Rightarrow> (string \<Rightarrow> anymap \<Rightarrow> nat \<Rightarrow> string + deviceCredential) \<Rightarrow>
    (deviceCredential \<Rightarrow> LoadEnv) \<Rightarrow> int \<Rightarrow> LoadConfig \<Rightarrow> string + (summary \<times> nat) set" where
  "load_main post_product now post_device envs d cfg =
     (let cfg = cfg\<lparr>lc_mode := to_lower (trim_space (lc_mode cfg))\<rparr> in
      case validateConfig cfg of
        Inl e \<Rightarrow> Inl (''invalid configuration: '' @ e)
      | Inr _ \<Rightarrow>
      case ensureProduct post_product now cfg of
        Inl e \<Rightarrow> Inl (''prepare product: '' @ e)
      | Inr productID \<Rightarrow>
      case provisionDevices post_device cfg productID of
        Inl e \<Rightarrow> Inl (''provision devices: '' @ e)
      | Inr devices \<Rightarrow>
          Inr ((\<lambda>stats. let report = buildSummary cfg stats d in (report, if sum_FailedMessages report > 0 then 1 else 0)) `
            runLoad envs cfg devices \<lparr>ls_sent = 0, ls_failed = 0, ls_bytes = 0, ls_latencyNanos = 0\<rparr>))"

end
