(* ===== verification/Topics.thy ===== *)
theory Topics
  imports LoadGen
begin

text \<open>
  Topics with the placeholder of the device ID: what \<open>replace_all\<close> does to a topic level by level, for the
  comparison of the topic the load generator publishes to with the topic the broker lets it publish to.
\<close>

section \<open>Replacing\<close>

text \<open>The loop of \<open>replace_all\<close> as an induction: nothing is left, an occurrence is in front, or another character.\<close>

declare replace_all.simps(2) [simp del]

lemma replace_occurs: "old \<noteq> [] \<Longrightarrow> replace_all old new (old @ t) = new @ replace_all old new t"
  using replace_all.simps(2) [of old new "hd old" "tl old @ t"] by (cases old) (simp_all add: has_prefix_iff)

lemma replace_other: "\<not> prefix old (c # cs) \<Longrightarrow> replace_all old new (c # cs) = c # replace_all old new cs"
  by (simp add: replace_all.simps(2) has_prefix_iff)

lemmas replace_simps = replace_occurs replace_other

lemma replace_induct [consumes 1, case_names Nil occurs other]:
  assumes "old \<noteq> []" "P []" "\<And>t. P t \<Longrightarrow> P (old @ t)" "\<And>c cs. \<not> prefix old (c # cs) \<Longrightarrow> P cs \<Longrightarrow> P (c # cs)"
  shows "P s"
proof (induction s rule: length_induct)
  case (1 s)
  show ?case
  proof (cases "prefix old s")
    case True
    then obtain t where t: "s = old @ t" by (rule prefixE)
    then show ?thesis using 1 assms(1,3) by simp
  qed (use 1 assms(2,4) in \<open>cases s; auto\<close>)
qed

lemma replace_self: "old \<noteq> [] \<Longrightarrow> replace_all old old s = s"
  by (rule replace_induct [of old _ s]) (simp_all add: replace_simps)

lemma replace_chars: "old \<noteq> [] \<Longrightarrow> set (replace_all old new s) \<subseteq> set s \<union> set new"
  by (rule replace_induct [of old _ s]) (auto simp: replace_simps)

lemma replace_keeps: "old \<noteq> [] \<Longrightarrow> x \<notin> set old \<Longrightarrow> x \<in> set s \<longrightarrow> x \<in> set (replace_all old new s)"
  by (rule replace_induct [of old _ s]) (auto simp: replace_simps)

lemma replace_length: "old \<noteq> [] \<Longrightarrow> replace_all old new s = s \<or> length new \<le> length (replace_all old new s)"
  by (rule replace_induct [of old _ s]) (auto simp: replace_simps)

lemma replace_nonempty: "old \<noteq> [] \<Longrightarrow> new \<noteq> [] \<Longrightarrow> s \<noteq> [] \<longrightarrow> replace_all old new s \<noteq> []"
  by (rule replace_induct [of old _ s]) (auto simp: replace_simps)

text \<open>A character that is not in \<open>old\<close> is never part of an occurrence.\<close>

lemma prefix_separator: "x \<notin> set old \<Longrightarrow> prefix old (a @ x # b) \<longleftrightarrow> prefix old a"
  by (induction a arbitrary: old) (auto simp: prefix_Cons)

lemma replace_append:
  assumes "old \<noteq> []" "x \<notin> set old"
  shows "replace_all old new (a @ x # b) = replace_all old new a @ x # replace_all old new b"
  using assms(1)
proof (induction a rule: replace_induct)
  case Nil
  then have "\<not> prefix old (x # b)" using assms by (auto simp: prefix_Cons)
  then show ?case by (simp add: replace_simps)
next
  case (other c cs)
  then have "\<not> prefix old (c # cs @ x # b)" using prefix_separator [OF assms(2), of "c # cs" b] by simp
  then show ?case using other by (simp add: replace_simps)
qed (use assms(1) in \<open>simp_all add: replace_simps\<close>)

lemma replace_last:
  assumes "old \<noteq> []" "new \<noteq> []" "x \<notin> set old" "x \<notin> set new" "s \<noteq> []" "last s \<noteq> x"
  shows "replace_all old new s \<noteq> [] \<and> last (replace_all old new s) \<noteq> x"
proof -
  have "last (replace_all old new s) \<noteq> x"
  proof (cases "x \<in> set s")
    case True
    then obtain a b where s: "s = a @ x # b" "x \<notin> set b" by (meson split_list_last)
    then have "b \<noteq> []" using assms(6) by auto
    then have b: "replace_all old new b \<noteq> []" using replace_nonempty [OF assms(1,2)] by blast
    have "x \<notin> set (replace_all old new b)" using replace_chars [OF assms(1), of new b] s(2) assms(4) by auto
    then show ?thesis using b last_in_set by (auto simp: s(1) replace_append [OF assms(1,3)])
  next
    case False
    have "x \<notin> set (replace_all old new s)" using replace_chars [OF assms(1), of new s] False assms(4) by auto
    then show ?thesis using replace_nonempty [OF assms(1,2), of s] assms(5) last_in_set by metis
  qed
  then show ?thesis using replace_nonempty [OF assms(1,2), of s] assms(5) by blast
qed

lemma trim_right_simps:
  "trim_right x [] = []" "trim_right x (s @ [c]) = (if c = x then trim_right x s else s @ [c])"
  by (simp_all add: trim_right_def)

lemma replace_trim_right:
  assumes "old \<noteq> []" "new \<noteq> []" "x \<notin> set old" "x \<notin> set new"
  shows "trim_right x (replace_all old new s) = replace_all old new (trim_right x s)"
proof (induction s rule: rev_induct)
  case (snoc c s)
  show ?case
  proof (cases "c = x")
    case True
    then show ?thesis using snoc replace_append [OF assms(1,3), of new s "[]"] by (simp add: trim_right_simps)
  next
    case False
    then have "replace_all old new (s @ [c]) \<noteq> [] \<and> last (replace_all old new (s @ [c])) \<noteq> x"
      by (intro replace_last [OF assms]) simp_all
    then obtain t d where "replace_all old new (s @ [c]) = t @ [d]" "d \<noteq> x" by (metis append_butlast_last_id)
    then show ?thesis using False by (simp add: trim_right_simps)
  qed
qed (simp add: trim_right_simps)

section \<open>Topics of devices\<close>

definition template_topic :: "string \<Rightarrow> string" where
  "template_topic template = (let topic = trim_space template in if topic = [] then ''devices/{device_id}/up'' else topic)"

definition wild :: "string \<Rightarrow> bool" where
  "wild topic \<longleftrightarrow> (\<exists>c \<in> set topic. c \<in> set ''+#'')"

definition up_topic :: "string \<Rightarrow> string" where
  "up_topic topic = (if \<not> has_suffix topic ''/up'' then trim_right CHR ''/'' topic @ ''/up'' else topic)"

text \<open>The load generator and the broker compute a topic in the same way.\<close>

lemma publish_topic:
  "mqttPublishTopic template d =
     (let topic = replace_all ''{device_id}'' d (template_topic template) in
      up_topic (if wild topic then ''devices/'' @ d @ ''/up'' else topic))"
  by (simp add: mqttPublishTopic_def template_topic_def up_topic_def wild_def Let_def)

lemma routing_publish: "rt_UpTopic (resolveRouting profile d) = mqttPublishTopic (ap_Topic profile) d"
  by (simp add: resolveRouting_def mqttPublishTopic_def Let_def)

lemma up_topic_up: "up_topic (b @ ''/up'') = b @ ''/up''"
  by (simp add: up_topic_def)

lemma wild_replace:
  assumes "\<not> wild d"
  shows "wild (replace_all ''{device_id}'' d s) \<longleftrightarrow> wild s"
proof -
  have D: "''{device_id}'' \<noteq> []" "\<And>c. c \<in> set ''+#'' \<Longrightarrow> c \<notin> set ''{device_id}''" by auto
  show ?thesis
    using assms replace_chars [OF D(1), of d s] replace_keeps [OF D(1) D(2), of _ s d] unfolding wild_def by blast
qed

lemma replace_up: "replace_all ''{device_id}'' d (b @ ''/up'') = replace_all ''{device_id}'' d b @ ''/up''"
  using replace_append [of "''{device_id}''" "CHR ''/''" d b "''up''"] by (simp add: replace_all.simps(2) has_prefix_iff)

text \<open>A topic ends with \<open>/up\<close> after the replacement only if it did before: no ID is as short as \<open>up\<close>.\<close>

lemma suffix_replace:
  assumes "CHR ''/'' \<notin> set d" "3 \<le> length d" "has_suffix (replace_all ''{device_id}'' d s) ''/up''"
  shows "has_suffix s ''/up''"
proof -
  obtain x where x: "replace_all ''{device_id}'' d s = x @ CHR ''/'' # ''up''" using assms(3) by (auto simp: has_suffix_iff suffix_def)
  then have "CHR ''/'' \<in> set s" using replace_chars [of "''{device_id}''" d s] assms(1) by auto
  then obtain a b where s: "s = a @ CHR ''/'' # b" "CHR ''/'' \<notin> set b" by (meson split_list_last)
  have b: "CHR ''/'' \<notin> set (replace_all ''{device_id}'' d b)"
    using replace_chars [of "''{device_id}''" d b] s(2) assms(1) by auto
  have tail: "takeWhile (\<lambda>c. c \<noteq> CHR ''/'') (rev (u @ CHR ''/'' # v)) = rev v" if "CHR ''/'' \<notin> set v" for u v
    using that by (auto simp: takeWhile_append)
  have "replace_all ''{device_id}'' d a @ CHR ''/'' # replace_all ''{device_id}'' d b = x @ CHR ''/'' # ''up''"
    using x s(1) replace_append [of "''{device_id}''" "CHR ''/''" d a b] by simp
  then have "takeWhile (\<lambda>c. c \<noteq> CHR ''/'') (rev (replace_all ''{device_id}'' d a @ CHR ''/'' # replace_all ''{device_id}'' d b)) =
      takeWhile (\<lambda>c. c \<noteq> CHR ''/'') (rev (x @ CHR ''/'' # ''up''))"
    by (rule arg_cong)
  then have "rev (replace_all ''{device_id}'' d b) = rev ''up''" by (subst (asm) tail [OF b], subst (asm) tail) simp_all
  then have "replace_all ''{device_id}'' d b = ''up''" by (simp only: rev_is_rev_conv)
  then have "b = ''up''" using replace_length [of "''{device_id}''" d b] assms(2) by auto
  then show ?thesis by (simp add: s(1) has_suffix_iff suffix_def)
qed

lemma trimmed_up:
  assumes "trimmed t" "prefix b t"
  shows "trim_space (b @ ''/up'') = b @ ''/up''"
proof (rule trim_space_id)
  have runes: "\<forall>r \<in> set space_runes. r \<noteq> [] \<and> CHR ''/'' \<notin> set r \<and> last r \<noteq> CHR ''p''" by code_simp
  have "free space_runes b" using assms free_prefix by (auto simp: trimmed_def)
  then have "free space_runes (b @ ''/up'')"
    using runes prefix_separator [of "CHR ''/''" _ b "''up''"] by (auto simp: free_def)
  moreover have "free (map rev space_runes) (rev (b @ ''/up''))"
    using runes by (auto simp: free_def prefix_Cons rev_eq_Cons_iff)
  ultimately show "trimmed (b @ ''/up'')" by (simp add: trimmed_def)
qed

text \<open>
  The topic of a product whose template is the topic for the placeholder: the ID can be put in before or
  after.
\<close>

lemma template_up:
  assumes "\<not> wild d" "CHR ''/'' \<notin> set d" "3 \<le> length d"
  obtains b where "mqttPublishTopic template ''{device_id}'' = b @ ''/up''" "trim_space (b @ ''/up'') = b @ ''/up''" "\<not> wild b"
    "mqttPublishTopic template d = replace_all ''{device_id}'' d b @ ''/up''"
proof -
  let ?t = "template_topic template"
  have trimmed: "trimmed ?t"
    using plain_trimmed [of "''devices/{device_id}/up''"] by (simp add: template_topic_def Let_def plain_def plain_chars_def)
  have self: "replace_all ''{device_id}'' ''{device_id}'' ?t = ?t" by (simp add: replace_self)
  have d: "d \<noteq> []" using assms(3) by auto
  consider (wild) "wild ?t" | (up) b where "\<not> wild ?t" "?t = b @ ''/up''" | (other) "\<not> wild ?t" "\<not> has_suffix ?t ''/up''"
    by (cases "has_suffix ?t ''/up''") (metis trim_suffix_cat)+
  then show thesis
  proof cases
    case wild
    then have "mqttPublishTopic template ''{device_id}'' = ''devices/{device_id}'' @ ''/up''"
        "mqttPublishTopic template d = (''devices/'' @ d) @ ''/up''"
      using up_topic_up [of "''devices/{device_id}''"] up_topic_up [of "''devices/'' @ d"]
      by (simp_all add: publish_topic self Let_def wild_replace [OF assms(1)])
    moreover have "replace_all ''{device_id}'' d ''devices/{device_id}'' = ''devices/'' @ d"
      by (simp add: replace_all.simps has_prefix_iff)
    moreover have "trim_space (''devices/{device_id}'' @ ''/up'') = ''devices/{device_id}'' @ ''/up''" by code_simp
    ultimately show thesis by (intro that [of "''devices/{device_id}''"]) (simp_all add: wild_def)
  next
    case (up b)
    then have "mqttPublishTopic template ''{device_id}'' = b @ ''/up''" "mqttPublishTopic template d = replace_all ''{device_id}'' d b @ ''/up''"
      using self up_topic_up wild_replace [OF assms(1), of ?t] replace_up [of d b] by (simp_all add: publish_topic Let_def)
    moreover have "trim_space (b @ ''/up'') = b @ ''/up''" "\<not> wild b" using trimmed_up [OF trimmed, of b] up by (auto simp: wild_def)
    ultimately show thesis using that by blast
  next
    case other
    define b where "b = trim_right CHR ''/'' ?t"
    have b: "prefix b ?t" "trim_right CHR ''/'' (replace_all ''{device_id}'' d ?t) = replace_all ''{device_id}'' d b"
      unfolding b_def using replace_trim_right [of "''{device_id}''" d "CHR ''/''" ?t] d assms(2)
        suffix_dropWhile [of "(=) CHR ''/''" "rev ?t"] by (simp_all add: trim_right_def suffix_to_prefix)
    have "\<not> has_suffix (replace_all ''{device_id}'' d ?t) ''/up''" using suffix_replace [OF assms(2,3)] other by blast
    then have "mqttPublishTopic template ''{device_id}'' = b @ ''/up''" "mqttPublishTopic template d = replace_all ''{device_id}'' d b @ ''/up''"
      using other self wild_replace [OF assms(1), of ?t] b(2) by (simp_all add: publish_topic Let_def up_topic_def b_def)
    moreover have "trim_space (b @ ''/up'') = b @ ''/up''" "\<not> wild b"
      using trimmed_up [OF trimmed b(1)] other(1) set_mono_prefix [OF b(1)] by (auto simp: wild_def)
    ultimately show thesis using that by blast
  qed
qed

lemma publish_twice:
  assumes "\<not> wild d" "CHR ''/'' \<notin> set d" "3 \<le> length d"
  shows "mqttPublishTopic (mqttPublishTopic template ''{device_id}'') d = mqttPublishTopic template d"
proof -
  obtain b where b: "mqttPublishTopic template ''{device_id}'' = b @ ''/up''" "trim_space (b @ ''/up'') = b @ ''/up''" "\<not> wild b"
      "mqttPublishTopic template d = replace_all ''{device_id}'' d b @ ''/up''"
    by (rule template_up [OF assms])
  have "\<not> wild (b @ ''/up'')" using b(3) by (auto simp: wild_def)
  then show ?thesis
    using b(2) up_topic_up [of "replace_all ''{device_id}'' d b"] wild_replace [OF assms(1), of "b @ ''/up''"]
    by (simp add: b(1,4) publish_topic [of "b @ ''/up''"] template_topic_def Let_def replace_up)
qed

end
