(* ===== verification/LoadProperties.thy ===== *)
theory LoadProperties
  imports Topics
begin

text \<open>
  The load generator: its MQTT packets, the accounting of what it sends, and the topic it publishes to.
\<close>

unbundle bit_operations_syntax

section \<open>Packets\<close>

text \<open>One digit of a remaining length: the low seven bits carry the value, the highest says that more follows.\<close>

lemma digit_bits:
  assumes "n < 128"
  shows "unat (word_of_nat n AND 127 :: 8 word) = n" "word_of_nat n AND 128 = (0 :: 8 word)"
    "unat ((word_of_nat n OR 0x80) AND 127 :: 8 word) = n" "(word_of_nat n OR 0x80) AND 128 \<noteq> (0 :: 8 word)"
proof -
  define d :: "8 word" where "d = word_of_nat n"
  have u: "unat d = n" using assms by (simp add: d_def unat_of_nat take_bit_nat_eq_self)
  have m: "(127 :: 8 word) = mask 7" by (simp add: mask_eq_decr_exp)
  have t: "take_bit 7 d = d"
    using assms take_bit_of_nat [of 7 n, where 'a = "8 word"] by (simp add: d_def take_bit_nat_eq_self)
  have a: "d AND 127 = d" using t by (simp add: m flip: take_bit_eq_mask)
  have "(127 :: 8 word) AND 128 = 0" by simp
  then have "(d AND 127) AND 128 = 0" by (simp only: and.assoc and_zero_eq)
  then have b: "d AND 128 = 0" by (simp only: a)
  show "unat (word_of_nat n AND 127 :: 8 word) = n" using a u by (simp add: d_def)
  show "word_of_nat n AND 128 = (0 :: 8 word)" using b by (simp add: d_def)
  have "(d OR 0x80) AND 127 = d AND 127" by (simp add: bit.conj_disj_distrib2)
  then show "unat ((word_of_nat n OR 0x80) AND 127 :: 8 word) = n" using a u by (simp add: d_def)
  have "(d OR 0x80) AND 128 = d AND 128 OR 128" by (simp add: bit.conj_disj_distrib2)
  then show "(word_of_nat n OR 0x80) AND 128 \<noteq> (0 :: 8 word)" using b by (simp add: d_def)
qed

lemma length_step:
  "read_length_loop k v (encodeMQTTRemainingLength n @ rest) =
     (if n < 128 then Inr (v + n * k, rest)
      else if k * 128 > 128 * 128 * 128 then Inl ''invalid mqtt remaining length''
      else read_length_loop (k * 128) (v + n mod 128 * k) (encodeMQTTRemainingLength (n div 128) @ rest))"
proof (cases "n < 128")
  case True
  then show ?thesis using digit_bits [OF True] by (simp add: encodeMQTTRemainingLength.simps [of n])
next
  case False
  then have "n div 128 > 0" by simp
  then show ?thesis
    using False digit_bits [of "n mod 128"] by (simp add: encodeMQTTRemainingLength.simps [of n])
qed

lemma length_read:
  assumes "i \<le> 3"
  shows "read_length_loop (128 ^ i) v (encodeMQTTRemainingLength n @ rest) =
     (if n < 128 ^ (4 - i) then Inr (v + n * 128 ^ i, rest) else Inl ''invalid mqtt remaining length'')"
  using assms
proof (induction "3 - i" arbitrary: i v n)
  case 0
  then show ?case by (simp add: length_step)
next
  case (Suc j)
  then have i: "j = 3 - Suc i" "Suc i \<le> 3" by auto
  have e: "(128 :: nat) ^ i * 128 = 128 ^ Suc i" by simp
  have p: "(128 :: nat) ^ (4 - i) = 128 * 128 ^ (4 - Suc i)" using i(2) by (simp flip: power_Suc)
  have "\<not> (128 :: nat) ^ i * 128 > 128 * 128 * 128"
    using power_increasing [OF i(2), of "128 :: nat"] by simp
  moreover have "n div 128 < 128 ^ (4 - Suc i) \<longleftrightarrow> n < 128 ^ (4 - i)"
    by (simp add: p div_less_iff_less_mult mult.commute)
  moreover have "128 \<le> (128 :: nat) ^ (4 - i)" by (simp add: p)
  moreover have "n mod 128 * 128 ^ i + n div 128 * 128 ^ Suc i = n * 128 ^ i"
    by (simp flip: distrib_right mult.assoc)
  ultimately show ?case
    using Suc(1) [OF i, of "v + n mod 128 * 128 ^ i" "n div 128"]
    by (subst length_step) (simp add: e del: power_Suc)
qed

lemma writeMQTTString_length: "length (writeMQTTString t) = 2 + length t"
  by (simp add: writeMQTTString_def bytes_of_def)

lemma packet_read:
  "readMQTTPacket (header # encodeMQTTRemainingLength (length body) @ body @ rest) =
     (if length body < 2 ^ 28 then Inr (drop_bit 4 header, body, rest) else Inl ''invalid mqtt remaining length'')"
  using length_read [of 0 0 "length body" "body @ rest"]
  by (simp add: readMQTTPacket_def readMQTTRemainingLength_def)

text \<open>C37: The packets of the load generator can be read back. A publish packet, and a connect packet, followed by
  anything is read as its type, exactly its body and what follows, as long as the body is shorter than
  2 ^ 28 bytes; a longer one is written with a length of five digits, which the reader refuses. A text is
  written with its length modulo 2 ^ 16 in two bytes, high byte first, so the length of a longer text is
  wrong.\<close>

theorem mqtt_packets:
  "readMQTTPacket (buildMQTTPublishPacket topic payload @ rest) =
     (if 2 + length topic + length payload < 2 ^ 28 then Inr (3, writeMQTTString topic @ payload, rest)
      else Inl ''invalid mqtt remaining length'') \<and>
   readMQTTPacket (buildMQTTConnectPacket clientID username password @ rest) =
     (if 16 + length clientID + length username + length password < 2 ^ 28
      then Inr (1, writeMQTTString ''MQTT'' @ [0x04, 0xC2, 0x00, 0x3C] @ writeMQTTString clientID @
        writeMQTTString username @ writeMQTTString password, rest)
      else Inl ''invalid mqtt remaining length'') \<and>
   256 * unat (writeMQTTString text ! 0) + unat (writeMQTTString text ! 1) = length text mod 65536 \<and>
   drop 2 (writeMQTTString text) = bytes_of text"
proof -
  have types: "drop_bit 4 (0x30 :: 8 word) = 3" "drop_bit 4 (0x10 :: 8 word) = 1" by (simp_all add: drop_bit_eq_div)
  have "256 * (length text div 256 mod 256) + length text mod 256 = length text mod 65536"
    using mod_mult2_eq [of "length text" 256 256] by simp
  then have prefix: "256 * unat (writeMQTTString text ! 0) + unat (writeMQTTString text ! 1) = length text mod 65536"
    by (simp add: writeMQTTString_def unat_of_nat take_bit_eq_mod)
  define v where "v = writeMQTTString ''MQTT'' @ [0x04, 0xC2, 0x00, 0x3C] @ writeMQTTString clientID @
    writeMQTTString username @ writeMQTTString password"
  have "length v = 16 + length clientID + length username + length password" by (simp add: v_def writeMQTTString_length)
  moreover have "buildMQTTConnectPacket clientID username password = 0x10 # encodeMQTTRemainingLength (length v) @ v"
    by (simp add: buildMQTTConnectPacket_def Let_def v_def)
  moreover have "buildMQTTPublishPacket topic payload =
      0x30 # encodeMQTTRemainingLength (length (writeMQTTString topic @ payload)) @ (writeMQTTString topic @ payload)"
    by (simp add: buildMQTTPublishPacket_def Let_def)
  moreover have "drop 2 (writeMQTTString text) = bytes_of text" by (simp add: writeMQTTString_def)
  ultimately show ?thesis
    unfolding v_def [symmetric]
    using prefix packet_read [of "0x30" "writeMQTTString topic @ payload" rest, unfolded types] packet_read [of "0x10" v rest, unfolded types]
    by (simp add: writeMQTTString_length add.assoc del: One_nat_def)
qed

section \<open>Accounting\<close>

fun sent_of :: "load_event \<Rightarrow> int" where
  "sent_of (Success bytes latency) = 1"
| "sent_of (Failure n) = 0"

fun failed_of :: "load_event \<Rightarrow> int" where
  "failed_of (Success bytes latency) = 0"
| "failed_of (Failure n) = n"

fun size_of :: "load_event \<Rightarrow> int" where
  "size_of (Success bytes latency) = bytes"
| "size_of (Failure n) = 0"

fun latency_of :: "load_event \<Rightarrow> int" where
  "latency_of (Success bytes latency) = latency"
| "latency_of (Failure n) = 0"

lemma wrap64_add: "wrap64 (wrap64 a + b) = wrap64 (a + b)" "wrap64 (a + wrap64 b) = wrap64 (a + b)"
proof -
  have "(wrap64 a + b + 2 ^ 63) mod 2 ^ 64 = (a + b + 2 ^ 63) mod 2 ^ 64" for a b :: int
    unfolding wrap64_def by (simp add: mod_simps algebra_simps)
  then show "wrap64 (wrap64 a + b) = wrap64 (a + b)" "wrap64 (a + wrap64 b) = wrap64 (a + b)"
    by (simp_all add: wrap64_def [of "_ + _"] add.commute)
qed

lemma fold_events:
  "fold record_event es \<lparr>ls_sent = wrap64 a, ls_failed = wrap64 b, ls_bytes = wrap64 c, ls_latencyNanos = wrap64 d\<rparr> =
     \<lparr>ls_sent = wrap64 (a + (\<Sum>e\<leftarrow>es. sent_of e)), ls_failed = wrap64 (b + (\<Sum>e\<leftarrow>es. failed_of e)),
      ls_bytes = wrap64 (c + (\<Sum>e\<leftarrow>es. size_of e)), ls_latencyNanos = wrap64 (d + (\<Sum>e\<leftarrow>es. latency_of e))\<rparr>"
proof (induction es arbitrary: a b c d)
  case (Cons e es)
  show ?case
    using Cons.IH [of "a + sent_of e" "b + failed_of e" "c + size_of e" "d + latency_of e"]
    by (cases e) (simp_all add: recordSuccess_def recordFailure_def wrap64_add add.assoc)
qed simp

text \<open>All interleavings of some runs have the same sums.\<close>

lemma interleavings_sum:
  "zs \<in> interleavings xss \<Longrightarrow> (\<Sum>z\<leftarrow>zs. f z :: int) = (\<Sum>xs\<leftarrow>xss. \<Sum>x\<leftarrow>xs. f x)"
proof (induction xss arbitrary: zs)
  case (Cons xs xss)
  then obtain ys where ys: "ys \<in> interleavings xss" "zs \<in> shuffles xs ys" by auto
  have "(\<Sum>z\<leftarrow>zs. f z) = (\<Sum>x\<leftarrow>xs. f x) + (\<Sum>y\<leftarrow>ys. f y)"
    using mset_shuffles [OF ys(2)] by (simp flip: sum_mset_sum_list)
  then show ?case using Cons.IH [OF ys(1)] by simp
qed simp

lemma interleavings_nonempty: "interleavings xss \<noteq> {}"
  by (induction xss) (auto intro: splice_in_shuffles)

text \<open>What a sum over the events of all devices comes to.\<close>

definition amount :: "(deviceCredential \<Rightarrow> LoadEnv) \<Rightarrow> LoadConfig \<Rightarrow> deviceCredential list \<Rightarrow> (load_event \<Rightarrow> int) \<Rightarrow> int" where
  "amount envs cfg devices f = (\<Sum>device\<leftarrow>devices. \<Sum>e\<leftarrow>device_run (envs device) cfg device. f e)"

lemma runLoad_stats:
  "runLoad envs cfg devices \<lparr>ls_sent = 0, ls_failed = 0, ls_bytes = 0, ls_latencyNanos = 0\<rparr> =
     {\<lparr>ls_sent = wrap64 (amount envs cfg devices sent_of), ls_failed = wrap64 (amount envs cfg devices failed_of),
       ls_bytes = wrap64 (amount envs cfg devices size_of), ls_latencyNanos = wrap64 (amount envs cfg devices latency_of)\<rparr>}"
proof -
  define runs where "runs = map (\<lambda>device. device_run (envs device) cfg device) devices"
  have amount: "amount envs cfg devices f = (\<Sum>xs\<leftarrow>runs. \<Sum>e\<leftarrow>xs. f e)" for f by (simp add: amount_def runs_def comp_def)
  have "fold record_event es \<lparr>ls_sent = 0, ls_failed = 0, ls_bytes = 0, ls_latencyNanos = 0\<rparr> =
      \<lparr>ls_sent = wrap64 (amount envs cfg devices sent_of), ls_failed = wrap64 (amount envs cfg devices failed_of),
       ls_bytes = wrap64 (amount envs cfg devices size_of), ls_latencyNanos = wrap64 (amount envs cfg devices latency_of)\<rparr>"
    if "es \<in> interleavings runs" for es
    using fold_events [of es 0 0 0 0] by (simp add: amount interleavings_sum [OF that] wrap64_def [of 0])
  then show ?thesis
    using interleavings_nonempty [of runs] by (auto simp: runLoad_def runs_def [symmetric])
qed

lemma publish_total: "(\<Sum>e\<leftarrow>publish_loop env message wire index rest. sent_of e + failed_of e) = int rest"
  by (induction env message wire index rest rule: publish_loop.induct) (simp_all split: option.splits)

lemma http_total: "sent_of (http_turn env cfg device index) + failed_of (http_turn env cfg device index) = 1"
  by (simp add: http_turn_def Let_def split: option.splits)

lemma run_total:
  assumes "lc_mode cfg \<in> {''http'', ''tcp'', ''mqtt''}" "0 \<le> lc_messages cfg"
  shows "(\<Sum>e\<leftarrow>device_run env cfg device. sent_of e + failed_of e) = lc_messages cfg"
  using assms
  by (auto simp: device_run_def runHTTPDevice_def runTCPDevice_def runMQTTDevice_def publish_total http_total comp_def
      sum_list_triv split: sum.splits)

lemma publish_counts: "e \<in> set (publish_loop env message wire index rest) \<Longrightarrow> 0 \<le> failed_of e"
  by (induction env message wire index rest rule: publish_loop.induct) (auto split: option.splits if_splits)

lemma run_counts:
  assumes "e \<in> set (device_run env cfg device)" "0 \<le> lc_messages cfg"
  shows "0 \<le> sent_of e" "0 \<le> failed_of e"
proof -
  show "0 \<le> sent_of e" by (cases e) simp_all
  have "0 \<le> failed_of (http_turn env cfg device i)" for i
    by (simp add: http_turn_def Let_def split: option.splits)
  then have http: "0 \<le> failed_of e" if "e \<in> set (runHTTPDevice env cfg device)"
    using that by (auto simp: runHTTPDevice_def)
  have tcp: "0 \<le> failed_of e" if "e \<in> set (runTCPDevice env cfg device)"
    using that assms(2) by (auto simp: runTCPDevice_def dest: publish_counts split: if_splits)
  have mqtt: "0 \<le> failed_of e" if "e \<in> set (runMQTTDevice env cfg device)"
    using that assms(2) by (auto simp: runMQTTDevice_def dest: publish_counts split: if_splits sum.splits)
  show "0 \<le> failed_of e"
    using assms(1) http tcp mqtt by (simp add: device_run_def split: if_splits)
qed

lemma provisioned: "provisionDevices post cfg productID = Inr devices \<Longrightarrow> length devices = nat (lc_devices cfg)"
  by (auto simp: provisionDevices_def dest: mapE_length)

lemma valid_mode:
  assumes "validateConfig (cfg\<lparr>lc_mode := to_lower (trim_space m)\<rparr>) = Inr ()"
  shows "to_lower (trim_space m) \<in> {''http'', ''tcp'', ''mqtt''} \<and> 0 < lc_devices cfg \<and> 0 < lc_messages cfg"
proof -
  have "to_lower (trim_space (to_lower (trim_space m))) = to_lower (trim_space m)"
    using norm_label_idem [of m] by (simp add: norm_label_def)
  then show ?thesis using assms by (simp add: validateConfig_def split: if_splits)
qed

lemma load_sums:
  assumes "lc_mode cfg \<in> {''http'', ''tcp'', ''mqtt''}" "0 \<le> lc_messages cfg"
  shows "amount envs cfg devices sent_of + amount envs cfg devices failed_of = int (length devices) * lc_messages cfg" "0 \<le> amount envs cfg devices sent_of" "0 \<le> amount envs cfg devices failed_of"
proof -
  have "amount envs cfg devices sent_of + amount envs cfg devices failed_of = (\<Sum>device\<leftarrow>devices. lc_messages cfg)"
    using run_total [OF assms(1,2)] by (simp add: amount_def flip: sum_list_addf)
  then show "amount envs cfg devices sent_of + amount envs cfg devices failed_of = int (length devices) * lc_messages cfg" by (simp add: sum_list_triv)
  show "0 \<le> amount envs cfg devices sent_of" "0 \<le> amount envs cfg devices failed_of"
    unfolding amount_def by (auto intro!: sum_list_nonneg run_counts [OF _ assms(2)])
qed

text \<open>C38: The report accounts for every message. In whatever order the devices run, however their connections,
  writes and requests fail, the report is the same: successful and failed messages add up to the
  number of devices times the messages of each, as 64-bit integers and, where that product fits in 64 bits,
  as numbers. The program then exits with 0 exactly when every message was a success.\<close>

theorem load_report:
  assumes "load_main post_product now post_device envs d cfg = Inr outcomes"
  shows "\<exists>report status. outcomes = {(report, status)} \<and>
    sum_TotalMessages report = wrap64 (lc_devices cfg * lc_messages cfg) \<and>
    wrap64 (sum_SuccessfulMessages report + sum_FailedMessages report) = sum_TotalMessages report \<and>
    (lc_devices cfg * lc_messages cfg \<le> int64_max \<longrightarrow>
      sum_SuccessfulMessages report + sum_FailedMessages report = lc_devices cfg * lc_messages cfg \<and>
      0 \<le> sum_SuccessfulMessages report \<and> 0 \<le> sum_FailedMessages report \<and>
      (status = 0 \<longleftrightarrow> sum_SuccessfulMessages report = lc_devices cfg * lc_messages cfg))"
proof -
  let ?cfg = "cfg\<lparr>lc_mode := to_lower (trim_space (lc_mode cfg))\<rparr>"
  obtain productID devices where devices: "provisionDevices post_device ?cfg productID = Inr devices"
    and valid: "validateConfig ?cfg = Inr ()"
    and outcomes: "outcomes = (\<lambda>stats. let report = buildSummary ?cfg stats d in (report, if sum_FailedMessages report > 0 then 1 else 0)) `
        runLoad envs ?cfg devices \<lparr>ls_sent = 0, ls_failed = 0, ls_bytes = 0, ls_latencyNanos = 0\<rparr>"
    using assms by (auto simp: load_main_def Let_def split: sum.splits)
  note mode = valid_mode [OF valid]
  define sent where "sent = amount envs ?cfg devices sent_of"
  define failed where "failed = amount envs ?cfg devices failed_of"
  have sums: "sent + failed = lc_devices cfg * lc_messages cfg" "0 \<le> sent" "0 \<le> failed"
    using load_sums [of ?cfg envs devices] mode provisioned [OF devices] by (simp_all add: sent_def failed_def)
  have summary: "sum_TotalMessages (buildSummary ?cfg st d) = wrap64 (lc_devices cfg * lc_messages cfg)"
    "sum_SuccessfulMessages (buildSummary ?cfg st d) = ls_sent st" "sum_FailedMessages (buildSummary ?cfg st d) = ls_failed st" for st
    by (simp_all add: buildSummary_def Let_def)
  obtain st where st: "runLoad envs ?cfg devices \<lparr>ls_sent = 0, ls_failed = 0, ls_bytes = 0, ls_latencyNanos = 0\<rparr> = {st}"
      "ls_sent st = wrap64 sent" "ls_failed st = wrap64 failed"
    by (simp add: runLoad_stats sent_def failed_def)
  have "wrap64 sent = sent \<and> wrap64 failed = failed" if "lc_devices cfg * lc_messages cfg \<le> int64_max"
    using sums that by (auto intro!: wrap64_id simp: in_int64_def int64_min_def)
  then show ?thesis
    unfolding outcomes st(1) using st(2,3) sums by (auto simp: summary wrap64_add Let_def)
qed

definition demo_load :: LoadConfig where
  "demo_load = \<lparr>lc_mode = '' HTTP'', lc_baseURL = ''http://h'', lc_gatewayAddr = [], lc_mqttAddr = [], lc_productID = ''p1'',
     lc_topicTemplate = [], lc_devices = 1, lc_messages = 2, lc_concurrency = 1\<rparr>"

definition demo_load_env :: LoadEnv where
  "demo_load_env = \<lparr>le_marshal = (\<lambda>_. Some ''{}''), le_request = (\<lambda>_. True),
     le_status = (\<lambda>_ _ index. Some (if index = 0 then 202 else 500)), le_latency = (\<lambda>_. 5), le_dial = (\<lambda>_. True),
     le_login_deadline = True, le_login = (\<lambda>_. True), le_read_deadline = True, le_input = [], le_deadline = (\<lambda>_. True),
     le_write = (\<lambda>_ _. True)\<rparr>"

theorem load_report_witness:
  "\<exists>report status. load_main (\<lambda>_ _. Inl []) 0 (\<lambda>_ _ _. Inr \<lparr>dc_ID = ''d1'', dc_Token = ''t''\<rparr>) (\<lambda>_. demo_load_env) 0 demo_load =
      Inr {(report, status)} \<and> sum_SuccessfulMessages report + sum_FailedMessages report = 2"
proof -
  have "to_lower (trim_space '' HTTP'') = ''http''" "trim_space ''http'' = ''http''" "to_lower ''http'' = ''http''"
    "trim_space ''p1'' = ''p1''" by code_simp+
  then obtain outcomes where "load_main (\<lambda>_ _. Inl []) 0 (\<lambda>_ _ _. Inr \<lparr>dc_ID = ''d1'', dc_Token = ''t''\<rparr>) (\<lambda>_. demo_load_env) 0
      demo_load = Inr outcomes"
    by (simp add: load_main_def demo_load_def validateConfig_def ensureProduct_def provisionDevices_def Let_def)
  from this load_report [OF this] show ?thesis by (auto simp: demo_load_def int64_max_def)
qed

section \<open>The topic of a device\<close>

text \<open>C40: The load generator publishes to the one topic the broker takes the telemetry of a device from. It puts the
  ID of the device into the template itself; the broker puts it into the topic of the product, which the load
  generator made with the placeholder for the ID. For every template, and every ID of three characters or more
  without a slash or a wildcard, both give the same topic: a bound client may publish to it, and what it
  publishes is handled as a reading of the device.\<close>

theorem published_topic:
  assumes "set d \<inter> set ''/+#'' = {}" "3 \<le> length d" "ap_Topic profile = mqttPublishTopic template ''{device_id}''"
    and "binding h (cl_ID cl) = Some b" "cb_Routing b = resolveRouting profile d"
  shows "mqttPublishTopic template d = rt_UpTopic (cb_Routing b) \<and>
    OnACLCheck cl (mqttPublishTopic template d) True h \<and>
    handlePublish env wire (Some cl) (mqttPublishTopic template d) payload h = mqtt_handleTelemetry env wire b payload h"
proof -
  have "\<not> wild d" "CHR ''/'' \<notin> set d" using assms(1) by (auto simp: wild_def)
  then have "mqttPublishTopic template d = rt_UpTopic (cb_Routing b)"
    using publish_twice [of d template] assms(2,3,5) by (simp add: routing_publish)
  then show ?thesis using assms(4) by (simp add: OnACLCheck_def handlePublish_def bindS_def op_apply)
qed

definition demo_bindings :: "(string \<times> clientBinding) list" where
  "demo_bindings = [(''c'', \<lparr>cb_DeviceID = ''dev_1'', cb_AccessProfile = zero_AccessProfile, cb_Routing =
     resolveRouting (zero_AccessProfile\<lparr>ap_Topic := mqttPublishTopic '' plant/{device_id}/'' ''{device_id}''\<rparr>) ''dev_1''\<rparr>)]"

theorem published_topic_witness:
  "\<forall>s. OnACLCheck \<lparr>cl_ID = ''c'', cl_Username = ''dev_1''\<rparr> (mqttPublishTopic '' plant/{device_id}/'' ''dev_1'') True
    \<lparr>hk_service = s, hk_bindings = demo_bindings\<rparr>"
proof
  fix s
  let ?p = "zero_AccessProfile\<lparr>ap_Topic := mqttPublishTopic '' plant/{device_id}/'' ''{device_id}''\<rparr>"
  let ?h = "\<lparr>hk_service = s, hk_bindings = demo_bindings\<rparr>" and ?c = "\<lparr>cl_ID = ''c'', cl_Username = ''dev_1''\<rparr>"
  have "binding ?h (cl_ID ?c) = Some (snd (hd demo_bindings))" "cb_Routing (snd (hd demo_bindings)) = resolveRouting ?p ''dev_1''"
    by (simp_all add: binding_def demo_bindings_def)
  then show "OnACLCheck ?c (mqttPublishTopic '' plant/{device_id}/'' ''dev_1'') True ?h"
    by (intro published_topic [of "''dev_1''" ?p, THEN conjunct2, THEN conjunct1]) simp_all
qed

end
