(* ===== verification/Console.thy ===== *)
theory Console
  imports Api
begin

text \<open>
  The console on its own (internal/api/ui.go) and the programs around the library: mvp-web-admin and mvp-desktop
  serve the console for the API of another process, mvp-backend is the platform without the console.

  \<^item> \<open>console_ServeHTTP\<close> is the handler for any options; \<open>ui_ServeHTTP\<close> of the API is the one for the options \<open>NewServer\<close>
    gives it, which is \<open>console_in_server\<close>.
  \<^item> The environment is the one of \<open>Config\<close>. Listening, the shutdown and the start of the browser are not modelled.
\<close>

section \<open>The console\<close>

record UIOptions =
  ui_APIBaseURL :: string
  ui_AppTitle :: string
  ui_Desktop :: bool
  ui_DashboardEnabled :: bool
  ui_Installer :: "SetupManager option"

record RuntimeConfig =
  rc_api_base_url :: string
  rc_app_title :: string
  rc_desktop_mode :: bool
  rc_dashboard_enabled :: bool
  rc_installed :: bool
  rc_setup :: "SetupState option"

datatype Page = PageError int string | PageFile string | PageConfig RuntimeConfig | PageHealth

definition normalizeUIOptions :: "UIOptions \<Rightarrow> UIOptions" where
  "normalizeUIOptions options =
     (let options = (if trim_space (ui_AppTitle options) = [] then options\<lparr>ui_AppTitle := ''MVP IoT Console''\<rparr> else options);
          options = options\<lparr>ui_APIBaseURL := trim_space (ui_APIBaseURL options)\<rparr> in
      if \<not> ui_DashboardEnabled options \<and> ui_Installer options = None then options\<lparr>ui_DashboardEnabled := True\<rparr> else options)"

definition handleRuntimeConfig :: "UIOptions \<Rightarrow> RuntimeConfig" where
  "handleRuntimeConfig options =
     (let state = map_option Status (ui_Installer options) in
      \<lparr>rc_api_base_url = ui_APIBaseURL options,
       rc_app_title = (case state of None \<Rightarrow> ui_AppTitle options
         | Some st \<Rightarrow> if trim_space (ins_AppName st) \<noteq> [] then ins_AppName st else ui_AppTitle options),
       rc_desktop_mode = ui_Desktop options, rc_dashboard_enabled = ui_DashboardEnabled options,
       rc_installed = (case state of None \<Rightarrow> True | Some st \<Rightarrow> ins_InstallLock st), rc_setup = state\<rparr>)"

text \<open>\<open>asset\<close> says whether the embedded file system has a file.\<close>

definition console_ServeHTTP :: "(string \<Rightarrow> bool) \<Rightarrow> UIOptions \<Rightarrow> string \<Rightarrow> Page" where
  "console_ServeHTTP asset options path =
     (if path = ''/'' \<or> path = ''/index.html'' then
        (if \<exists>m. ui_Installer options = Some m \<and> \<not> Installed m then PageFile ''install.html''
         else if \<not> ui_DashboardEnabled options then PageError 404 ''not found''
         else PageFile ''index.html'')
      else if path = ''/install'' then PageFile ''install.html''
      else if path = ''/runtime-config.js'' then PageConfig (handleRuntimeConfig options)
      else if has_prefix path ''/assets/'' then (if asset path then PageFile path else PageError 404 [])
      else PageError 404 ''not found'')"

definition NewUIHandler :: "(string \<Rightarrow> bool) \<Rightarrow> UIOptions \<Rightarrow> string \<Rightarrow> Page" where
  "NewUIHandler asset options = console_ServeHTTP asset (normalizeUIOptions options)"

section \<open>In the server\<close>

definition server_ui :: "Api \<Rightarrow> UIOptions" where
  "server_ui a = \<lparr>ui_APIBaseURL = [], ui_AppTitle = ''MVP IoT Console'', ui_Desktop = False,
     ui_DashboardEnabled = (\<not> cf_DisableEmbeddedUI (ap_cfg a)), ui_Installer = ap_setup a\<rparr>"

definition page_response :: "Page \<Rightarrow> Response" where
  "page_response page =
     (case page of
        PageError status e \<Rightarrow> \<lparr>rs_Status = status, rs_Body = (if e = [] then PPage [] else PError e)\<rparr>
      | PageFile name \<Rightarrow> \<lparr>rs_Status = 200, rs_Body = PPage name\<rparr>
      | PageConfig rc \<Rightarrow> \<lparr>rs_Status = 200, rs_Body = PRuntimeConfig (rc_app_title rc) (rc_dashboard_enabled rc) (rc_setup rc)\<rparr>
      | PageHealth \<Rightarrow> \<lparr>rs_Status = 200, rs_Body = PNode ''ok'' []\<rparr>)"

lemma console_in_server:
  assumes "console_enabled a"
  shows "ui_ServeHTTP asset r a = (page_response (NewUIHandler asset (server_ui a) (rq_Path r)), a)"
proof -
  have "trim_space ''MVP IoT Console'' = ''MVP IoT Console''" by code_simp
  then have "normalizeUIOptions (server_ui a) = server_ui a"
    using assms by (auto simp: normalizeUIOptions_def server_ui_def Let_def console_enabled_def)
  then show ?thesis
    by (auto simp: ui_ServeHTTP_def NewUIHandler_def console_ServeHTTP_def page_response_def server_ui_def handleRuntimeConfig_def
        Let_def installed_def reply_json_def not_found_def reply_error_def split: option.split)
qed

section \<open>Programs\<close>

datatype LogLevel = LevelDebug | LevelInfo | LevelWarn | LevelError

definition parseLogLevel :: "string \<Rightarrow> LogLevel" where
  "parseLogLevel level =
     switch (to_lower (trim_space level)) [([''debug''], LevelDebug), ([''warn''], LevelWarn), ([''error''], LevelError)] LevelInfo"

text \<open>mvp-platform runs the configuration as it was read, mvp-backend without the console.\<close>

definition backend_config :: "ConfigEnv \<Rightarrow> Config" where
  "backend_config env = (Load env)\<lparr>cf_DisableEmbeddedUI := True\<rparr>"

record ConsoleProgram =
  cp_addr :: string
  cp_logLevel :: LogLevel
  cp_autoOpen :: bool
  cp_options :: UIOptions

definition web_admin :: "ConfigEnv \<Rightarrow> ConsoleProgram" where
  "web_admin env =
     \<lparr>cp_addr = getEnv env ''MVP_WEB_ADDR'' '':8081'', cp_logLevel = parseLogLevel (getEnv env ''MVP_WEB_LOG_LEVEL'' ''info''),
      cp_autoOpen = False,
      cp_options = \<lparr>ui_APIBaseURL = getEnv env ''MVP_API_BASE_URL'' ''http://127.0.0.1:8080'', ui_AppTitle = ''MVP Web Admin'',
        ui_Desktop = False, ui_DashboardEnabled = True, ui_Installer = None\<rparr>\<rparr>"

definition desktop :: "ConfigEnv \<Rightarrow> ConsoleProgram" where
  "desktop env =
     \<lparr>cp_addr = getEnv env ''MVP_DESKTOP_ADDR'' ''127.0.0.1:18081'',
      cp_logLevel = parseLogLevel (getEnv env ''MVP_DESKTOP_LOG_LEVEL'' ''info''),
      cp_autoOpen = getEnvBool env ''MVP_DESKTOP_OPEN_BROWSER'' True,
      cp_options = \<lparr>ui_APIBaseURL = getEnv env ''MVP_API_BASE_URL'' ''http://127.0.0.1:8080'', ui_AppTitle = ''MVP Desktop Console'',
        ui_Desktop = True, ui_DashboardEnabled = True, ui_Installer = None\<rparr>\<rparr>"

text \<open>The mux of both programs, for a path the mux does not redirect; a refused health request has no body.\<close>

definition program_ServeHTTP :: "(string \<Rightarrow> bool) \<Rightarrow> ConsoleProgram \<Rightarrow> Request \<Rightarrow> Page" where
  "program_ServeHTTP asset p r =
     (if rq_Path r = ''/healthz'' then (if rq_Method r \<noteq> ''GET'' then PageError 405 [] else PageHealth)
      else NewUIHandler asset (cp_options p) (rq_Path r))"

text \<open>\<open>openBrowser\<close>: the command for an operating system.\<close>

definition openBrowser :: "string \<Rightarrow> string \<Rightarrow> string list" where
  "openBrowser os url =
     (if os = ''windows'' then [''rundll32'', ''url.dll,FileProtocolHandler'', url]
      else if os = ''darwin'' then [''open'', url] else [''xdg-open'', url])"

text \<open>A console of its own always shows the dashboard, and reports itself as installed.\<close>

lemma console_programs:
  "p \<in> {web_admin env, desktop env} \<Longrightarrow> rq_Path r = ''/'' \<Longrightarrow> program_ServeHTTP asset p r = PageFile ''index.html''"
  "p \<in> {web_admin env, desktop env} \<Longrightarrow> rc_installed (handleRuntimeConfig (normalizeUIOptions (cp_options p)))"
proof -
  have "trim_space ''MVP Web Admin'' = ''MVP Web Admin''" "trim_space ''MVP Desktop Console'' = ''MVP Desktop Console''" by code_simp+
  then show "p \<in> {web_admin env, desktop env} \<Longrightarrow> rq_Path r = ''/'' \<Longrightarrow> program_ServeHTTP asset p r = PageFile ''index.html''"
    "p \<in> {web_admin env, desktop env} \<Longrightarrow> rc_installed (handleRuntimeConfig (normalizeUIOptions (cp_options p)))"
    by (auto simp: web_admin_def desktop_def program_ServeHTTP_def NewUIHandler_def console_ServeHTTP_def normalizeUIOptions_def
        handleRuntimeConfig_def)
qed

end
