(* ===== verification/Spec2Isabelle.thy ===== *)
theory Spec2Isabelle
  imports StoreProperties ModelProperties ServiceProperties FlowProperties EdgeProperties
    NodeProperties SimulatorProperties ApiProperties AppProperties LoadProperties Console
begin

text \<open>
  A verification development of the device platform under src/.

  The program is an IoT platform in Go. Devices send readings and acknowledge commands over TCP (one JSON message
  per line), MQTT or HTTP; users manage tenants, products, devices, groups, rules, firmware and campaigns over an
  HTTP API; a primary node replicates its store to standby nodes. All front ends call one service,
  \<open>core.Service\<close>, which keeps its data in a store (in memory, or in memory with a snapshot file) and its
  sessions and counters in its own state. The import graph of the theories is that of the Go packages.

  \<^bold>\<open>How the code is modelled.\<close>

  \<^item> A function that returns \<open>(T, error)\<close> is a value of \<open>gerr + T\<close>; a method that changes its receiver is an
    operation \<open>('s, gerr, 'a) op\<close> (\<open>Prelude\<close>): it takes the state to a result and a state, with \<open>bindS\<close> for the early
    return on an error and \<open>tryS\<close> where the code looks at the error. Every branch of the source is a branch of
    the definition; the state a failed call leaves behind is what the code leaves behind.
  \<^item> Strings are lists of bytes (\<open>GoStrings\<close>: the functions of package strings the code uses, with the UTF-8
    white space of \<open>TrimSpace\<close> and the letters \<open>ToLower\<close> turns into ASCII); \<open>int\<close> and \<open>int64\<close> are integers with
    \<open>wrap64\<close> written where a value can leave the range; \<open>float64\<close> is \<open>f64\<close> with rounding (\<open>GoFloat\<close>; on amd64, where
    Go does not fuse a product and a sum); bytes on a wire are \<open>8 word\<close>; times are nanoseconds since the zero time
    (\<open>GoTime\<close>); \<open>any\<close> is \<open>goany\<close> (\<open>GoValue\<close>). A map whose order of iteration the code cannot see is an association
    list with distinct keys.
  \<^item> What is not under src/, or is outside the process, is a parameter: \<open>Env\<close> (clock, random bytes, sends on
    sessions), \<open>FsEnv\<close> and \<open>SetupEnv\<close> (the JSON codec of a state file and the outcome of each system call),
    \<open>TextEnv\<close> (\<open>ParseFloat\<close>, RFC 3339), \<open>ConfigEnv\<close> (environment, host name, \<open>ParseDuration\<close>), \<open>WireEnv\<close>, \<open>Decoders\<close>
    (\<open>json.Unmarshal\<close> into the types of the messages), \<open>SimEnv\<close>, \<open>LoadEnv\<close> (sockets of the simulated devices
    and of the load generator). No law is assumed of them but where a property names one: that the decoder gives
    back what was encoded, that a state file decodes to a valid store.

  \<^bold>\<open>Stores\<close> (internal/store). \<open>StoreState\<close>, \<open>StoreTables\<close> and \<open>StoreSeries\<close> are the memory store: the eight keyed tables,
  group membership in two indexes, telemetry, shadows, commands and alerts, with the clone functions. The locale
  \<open>entity_table\<close> is the contract of a table and is interpreted for all eight; \<open>retention_log\<close> is that of a log that
  keeps its newest entries, interpreted for telemetry and alerts. \<open>Snapshot\<close> has \<open>Snapshot\<close> and \<open>Restore\<close> and the
  invariant \<open>store_ok\<close>, which every operation keeps. \<open>FileStore\<close> is the store with a file: \<open>mutate\<close> with its rollback,
  the steps of \<open>writeSnapshotFile\<close> with the disk after each, so a crash can be placed between any two of them.
  \<open>Backend\<close> is the interface the service sees, over either store; its locale \<open>write_backend\<close> says what a write
  promises. \<open>StoreProperties\<close>: a write is all or nothing in memory, what a restart reads back, what a crash can
  leave, the contracts.

  \<^bold>\<open>The service\<close> (internal/core). \<open>ThingModel\<close>, \<open>AccessProfile\<close> and \<open>RuleEngine\<close> are its pure part: normal forms, validation
  of values, rule conditions, cooldown (\<open>ModelProperties\<close>). \<open>ServiceState\<close> is \<open>core.Service\<close> with the primitives its methods
  are made of; \<open>Sessions\<close>, \<open>Views\<close>, \<open>Catalog\<close>, \<open>Shadows\<close>, \<open>Commands\<close>, \<open>Telemetry\<close> and \<open>Ota\<close> have the methods, one definition
  each, every call of the store in the order of the source. \<open>ServiceSteps\<close> makes it a state machine: \<open>service_step\<close>
  is any public operation with any arguments and any failure, \<open>reachable\<close> the states since \<open>NewService\<close>. The
  locale \<open>service_fact\<close>, and \<open>device_fact\<close> that extends it, prove once that a fact about the store survives every
  operation whose store calls keep it; they are interpreted for unique slugs, normal products, permanent tokens and
  recorded readings (\<open>ServiceFacts\<close>, \<open>Credentials\<close>, \<open>RuleFacts\<close>). \<open>ServiceLemmas\<close> has the rules to read off a successful
  call what it did. \<open>ServiceProperties\<close> has the invariants of all reachable states, sessions and registration;
  \<open>FlowProperties\<close> telemetry, commands, acknowledgements and campaigns.

  \<^bold>\<open>Devices\<close> (internal/ingest, internal/mqtt, internal/gateway, internal/simulator). \<open>Ingest\<close> resolves a payload to values;
  \<open>ProtocolCatalogue\<close> is the table of templates. \<open>Mqtt\<close> is the hook of the broker with its table of bindings and topics. \<open>Gateway\<close> is one
  connection, as a step relation that interleaves its loop with its writer, with sends of the service and with the
  rest of the program; \<open>GatewayLoop\<close> has the loops over the bytes. \<open>SessionRegistry\<close> is the contract of the session
  registry the transports use (locale \<open>session_registry\<close>). \<open>Simulator\<close> and \<open>SimulatorFacts\<close> are the simulated devices,
  one step per event of the goroutine of a device. \<open>EdgeProperties\<close>, \<open>SimulatorProperties\<close>.

  \<^bold>\<open>Nodes\<close> (internal/config, internal/setup, internal/app, internal/api). \<open>Config\<close> reads the configuration, \<open>Setup\<close> installs an
  instance, \<open>Replication\<close> has both ends of the replication (\<open>NodeProperties\<close>). \<open>Http\<close>, \<open>ApiHandlers\<close> and \<open>Api\<close> are the whole HTTP
  API: every handler with its status codes, the routes, and \<open>serve\<close>, one request through the chain of guards. The
  locale \<open>api_relation\<close> of \<open>ApiFacts\<close> says that handlers go along a relation between states, \<open>api_calls\<close> extends it
  for one that holds along the calls of service and simulators; the interpretations give what any request does,
  what a query does and what no request changes (\<open>ApiProperties\<close>). \<open>App\<close> puts a node together as \<open>app.New\<close> does and lets
  everything happen that may happen while it runs; the locale \<open>front_end\<close> of \<open>AppFacts\<close> is a state with the service in
  it, interpreted for gateway and hook; \<open>AppProperties\<close> has the invariant of a node. \<open>Console\<close> has the console and the
  small programs around the library.

  \<^bold>\<open>The load generator\<close> (cmd/mvp-loadgen). \<open>LoadGen\<close> has its provisioning, the run of a device over each transport, its MQTT
  packets and its report; the counters are shared, so a load gives the set of results of all interleavings.
  \<open>LoadProperties\<close>: packets are read back, every message is accounted for in whatever order, and (with \<open>Topics\<close>) the
  topic it publishes to is the one the hook of the broker accepts.

  \<^bold>\<open>Bounds and fuel.\<close> Most loops are recursions over what they read. Two have fuel: \<open>connection_loop\<close> takes one unit
  per turn, and one more than the number of bytes is enough, as every turn but the last reads a byte;
  \<open>write_loop\<close> takes one unit per write, and one more than the number of bytes is enough, as a write without an error takes
  a byte (the contract of \<open>io.Writer\<close>). Both are proved to return within it. \<open>scan\<close> fails on a line of the size of the buffer. Other
  bounds are those of the code: retention of logs, the queue of a session, the log of a simulator, four digits
  of an MQTT length.

  \<^bold>\<open>Concurrency.\<close> A call of the service is one step, which is coarser than the code: the locks of the
  service and of the store make each access to them atomic, not a whole call. What two overlapping calls can do
  beyond that is not covered (the two store calls of \<open>CreateTenant\<close>, the counts of a campaign during its
  dispatch). The goroutines of a connection and of a
  simulated device are interleaved at their channel and socket operations. Requests are served one after the other.

  \<^bold>\<open>Not modelled.\<close> The figures of the Go runtime and the uptime in the statistics; logging; response headers;
  listening sockets, signals, deadlines other than as an end of the input, timers other than as events that may
  come at any time; the files of the console (embedded, not code); the flags, the progress log and the delays of
  the load generator; the third-party broker, that is how it parses packets and when it calls the hook; the
  encoding of JSON. What \<open>main\<close> does beyond choosing a configuration is listening and waiting. Bindings,
  generated code and the JavaScript of the console are not part of the development.
\<close>

end
